(* ===== verification/Prelude.thy ===== *)
theory Prelude
  imports Main "HOL-Library.Word"
begin

text \<open>
  The prelude of the development: the machine integers of the code, the typed errors of
  \<^verbatim>\<open>include/dpufabric/error.h\<close> and the result type every fallible operation returns, the
  collections of lemmas the component theories extend, and generic facts on lists and words
  that several components share.

  A C++ exception is a value: a fallible computation returns \<open>'a result\<close>, which is
  \<open>Inl f\<close> for a failure and \<open>Inr x\<close> for a normal return. A failure is either a thrown
  \<open>DpuError\<close> (its code and its message) or \<open>Undefined_Behaviour\<close>, the value of an
  operation whose C++ text has no defined meaning (reading an empty \<^verbatim>\<open>std::optional\<close>).
\<close>

section \<open>Machine integers\<close>

type_synonym u8 = "8 word"
type_synonym u16 = "16 word"
type_synonym u32 = "32 word"
type_synonym u64 = "64 word"
type_synonym bytes = "u8 list"

section \<open>Error codes\<close>

datatype (plugins only: code size) ErrorCode =
    OK | NOT_FOUND | ALREADY_EXISTS | INVALID_ARGUMENT | INVALID_STATE | INVALID_TRANSITION
  | UNSUPPORTED | UNKNOWN_CAPABILITY | CAPABILITY_STALE | CAPABILITY_MISMATCH
  | DEVICE_NOT_READY | DEVICE_FAILED | DEVICE_DRAINING | DEVICE_REVALIDATION_REQUIRED
  | FIRMWARE_INCOMPATIBLE | RUNTIME_INCOMPATIBLE | ARTIFACT_INCOMPATIBLE
  | ISOLATION_MISMATCH | TENANT_MISMATCH | RESOURCE_EXHAUSTED | NO_ELIGIBLE_DEVICE
  | OFFLOAD_REQUIRED_UNAVAILABLE | STALE_EPOCH | STALE_WORKER | STALE_DEVICE_BOOT
  | STALE_DEVICE_GENERATION | STALE_SERVICE_GENERATION | STALE_PROGRAM_GENERATION
  | STALE_DEPLOYMENT | STALE_ACTIVATION | AUTHORITY_REJECTED | CHECKSUM_FAILURE
  | CORRUPT_STATE | PROTOCOL_ERROR | FRAME_TOO_LARGE | IO_ERROR | BACKEND_ERROR
  | CANCELLED | END_MARKER

definition all_error_codes :: "ErrorCode list" where
  "all_error_codes =
     [OK, NOT_FOUND, ALREADY_EXISTS, INVALID_ARGUMENT, INVALID_STATE, INVALID_TRANSITION,
      UNSUPPORTED, UNKNOWN_CAPABILITY, CAPABILITY_STALE, CAPABILITY_MISMATCH,
      DEVICE_NOT_READY, DEVICE_FAILED, DEVICE_DRAINING, DEVICE_REVALIDATION_REQUIRED,
      FIRMWARE_INCOMPATIBLE, RUNTIME_INCOMPATIBLE, ARTIFACT_INCOMPATIBLE,
      ISOLATION_MISMATCH, TENANT_MISMATCH, RESOURCE_EXHAUSTED, NO_ELIGIBLE_DEVICE,
      OFFLOAD_REQUIRED_UNAVAILABLE, STALE_EPOCH, STALE_WORKER, STALE_DEVICE_BOOT,
      STALE_DEVICE_GENERATION, STALE_SERVICE_GENERATION, STALE_PROGRAM_GENERATION,
      STALE_DEPLOYMENT, STALE_ACTIVATION, AUTHORITY_REJECTED, CHECKSUM_FAILURE,
      CORRUPT_STATE, PROTOCOL_ERROR, FRAME_TOO_LARGE, IO_ERROR, BACKEND_ERROR, CANCELLED]"

primrec error_code_name :: "ErrorCode \<Rightarrow> string" where
  "error_code_name OK = ''OK''"
| "error_code_name NOT_FOUND = ''NOT_FOUND''"
| "error_code_name ALREADY_EXISTS = ''ALREADY_EXISTS''"
| "error_code_name INVALID_ARGUMENT = ''INVALID_ARGUMENT''"
| "error_code_name INVALID_STATE = ''INVALID_STATE''"
| "error_code_name INVALID_TRANSITION = ''INVALID_TRANSITION''"
| "error_code_name UNSUPPORTED = ''UNSUPPORTED''"
| "error_code_name UNKNOWN_CAPABILITY = ''UNKNOWN_CAPABILITY''"
| "error_code_name CAPABILITY_STALE = ''CAPABILITY_STALE''"
| "error_code_name CAPABILITY_MISMATCH = ''CAPABILITY_MISMATCH''"
| "error_code_name DEVICE_NOT_READY = ''DEVICE_NOT_READY''"
| "error_code_name DEVICE_FAILED = ''DEVICE_FAILED''"
| "error_code_name DEVICE_DRAINING = ''DEVICE_DRAINING''"
| "error_code_name DEVICE_REVALIDATION_REQUIRED = ''DEVICE_REVALIDATION_REQUIRED''"
| "error_code_name FIRMWARE_INCOMPATIBLE = ''FIRMWARE_INCOMPATIBLE''"
| "error_code_name RUNTIME_INCOMPATIBLE = ''RUNTIME_INCOMPATIBLE''"
| "error_code_name ARTIFACT_INCOMPATIBLE = ''ARTIFACT_INCOMPATIBLE''"
| "error_code_name ISOLATION_MISMATCH = ''ISOLATION_MISMATCH''"
| "error_code_name TENANT_MISMATCH = ''TENANT_MISMATCH''"
| "error_code_name RESOURCE_EXHAUSTED = ''RESOURCE_EXHAUSTED''"
| "error_code_name NO_ELIGIBLE_DEVICE = ''NO_ELIGIBLE_DEVICE''"
| "error_code_name OFFLOAD_REQUIRED_UNAVAILABLE = ''OFFLOAD_REQUIRED_UNAVAILABLE''"
| "error_code_name STALE_EPOCH = ''STALE_EPOCH''"
| "error_code_name STALE_WORKER = ''STALE_WORKER''"
| "error_code_name STALE_DEVICE_BOOT = ''STALE_DEVICE_BOOT''"
| "error_code_name STALE_DEVICE_GENERATION = ''STALE_DEVICE_GENERATION''"
| "error_code_name STALE_SERVICE_GENERATION = ''STALE_SERVICE_GENERATION''"
| "error_code_name STALE_PROGRAM_GENERATION = ''STALE_PROGRAM_GENERATION''"
| "error_code_name STALE_DEPLOYMENT = ''STALE_DEPLOYMENT''"
| "error_code_name STALE_ACTIVATION = ''STALE_ACTIVATION''"
| "error_code_name AUTHORITY_REJECTED = ''AUTHORITY_REJECTED''"
| "error_code_name CHECKSUM_FAILURE = ''CHECKSUM_FAILURE''"
| "error_code_name CORRUPT_STATE = ''CORRUPT_STATE''"
| "error_code_name PROTOCOL_ERROR = ''PROTOCOL_ERROR''"
| "error_code_name FRAME_TOO_LARGE = ''FRAME_TOO_LARGE''"
| "error_code_name IO_ERROR = ''IO_ERROR''"
| "error_code_name BACKEND_ERROR = ''BACKEND_ERROR''"
| "error_code_name CANCELLED = ''CANCELLED''"
| "error_code_name END_MARKER = ''END_MARKER''"

definition error_code_from_name :: "string \<Rightarrow> ErrorCode option" where
  "error_code_from_name s = List.find (\<lambda>c. s = error_code_name c) all_error_codes"

section \<open>Thrown errors and results\<close>

record DpuError =
  err_code :: ErrorCode
  err_detail :: string

definition make_error :: "ErrorCode \<Rightarrow> string \<Rightarrow> DpuError" where
  "make_error c msg =
     \<lparr>err_code = c, err_detail = (if msg = [] then error_code_name c else msg)\<rparr>"

datatype failure = Thrown DpuError | Undefined_Behaviour

type_synonym 'a result = "failure + 'a"

definition throw_error :: "ErrorCode \<Rightarrow> string \<Rightarrow> 'a result" where
  "throw_error c msg = Inl (Thrown (make_error c msg))"

fun res_bind :: "'a result \<Rightarrow> ('a \<Rightarrow> 'b result) \<Rightarrow> 'b result" where
  "res_bind (Inl f) k = Inl f"
| "res_bind (Inr x) k = k x"

definition is_ok :: "'a result \<Rightarrow> bool" where
  "is_ok r = (case r of Inl _ \<Rightarrow> False | Inr _ \<Rightarrow> True)"

lemma throw_error_not_Inr [simp]: "throw_error c m \<noteq> Inr x" "Inr x \<noteq> throw_error c m"
  by (simp_all add: throw_error_def)

lemma throw_error_not_UB [simp]:
  "throw_error c m \<noteq> Inl Undefined_Behaviour" "Inl Undefined_Behaviour \<noteq> throw_error c m"
  by (simp_all add: throw_error_def)

lemma is_ok_simps [simp]: "is_ok (Inr x)" "\<not> is_ok (Inl f)" "\<not> is_ok (throw_error c m)"
  by (simp_all add: is_ok_def throw_error_def)

lemma res_bind_eq_Inr: "res_bind r k = Inr y \<longleftrightarrow> (\<exists>x. r = Inr x \<and> k x = Inr y)"
  by (cases r) auto

lemma res_bind_throw [simp]: "res_bind (throw_error c m) k = throw_error c m"
  by (simp add: throw_error_def)

section \<open>Enumerations with names\<close>

text \<open>
  Every enumeration of the code comes with a list of its proper values, a name function and a
  parser that returns the first value whose name is the given string. The interface is a
  locale: from distinct names follow both round trips, for every enumeration at once.
\<close>

locale named_enum =
  fixes members :: "'e list"
    and name_of :: "'e \<Rightarrow> string"
    and from_name :: "string \<Rightarrow> 'e option"
  assumes distinct_names: "distinct (map name_of members)"
    and from_name_def: "from_name s = List.find (\<lambda>c. s = name_of c) members"
begin

lemma from_name_name:
  assumes "c \<in> set members"
  shows "from_name (name_of c) = Some c"
proof -
  have "List.find (\<lambda>d. name_of c = name_of d) members = Some c"
    using distinct_names assms by (induction members) (auto dest: sym)
  then show ?thesis by (simp add: from_name_def)
qed

lemma from_name_Some_iff: "from_name s = Some c \<longleftrightarrow> c \<in> set members \<and> s = name_of c"
proof
  assume "from_name s = Some c"
  then show "c \<in> set members \<and> s = name_of c"
    by (auto simp: from_name_def find_Some_iff)
next
  assume "c \<in> set members \<and> s = name_of c"
  then show "from_name s = Some c" by (simp add: from_name_name)
qed

lemma from_name_None_iff: "from_name s = None \<longleftrightarrow> s \<notin> name_of ` set members"
  by (auto simp: from_name_def find_None_iff)

end

text \<open>
  A C++ scoped enumeration holds any value of its underlying integer type; \<^verbatim>\<open>static_cast\<close>
  converts both ways without a check. The model's datatype has one constructor per named value
  and \<open>Unnamed v\<close> for the rest; \<open>value_of\<close> is the cast to the integer and \<open>cast\<close> the cast from
  it. The one law makes the cast injective, so no two bytes of a message or of a state file
  mean the same value.
\<close>

locale cpp_enum =
  fixes value_of :: "'e \<Rightarrow> 'w::len word"
    and cast :: "'w word \<Rightarrow> 'e"
  assumes value_cast: "value_of (cast v) = v"
begin

definition canonical :: "'e \<Rightarrow> bool" where
  "canonical e \<longleftrightarrow> cast (value_of e) = e"

lemma canonical_cast: "canonical (cast v)"
  by (simp add: canonical_def value_cast)

lemma cast_value: "canonical e \<Longrightarrow> cast (value_of e) = e"
  by (simp add: canonical_def)

lemma cast_inject: "cast v = cast w \<longleftrightarrow> v = w"
  by (metis value_cast)

end

interpretation err: named_enum all_error_codes error_code_name error_code_from_name
  by unfold_locales (simp_all add: all_error_codes_def error_code_from_name_def)

section \<open>Shared collections and lemmas\<close>

named_theorems op_defs \<open>definitions of the engine operations that leave deployments alone\<close>
named_theorems throws_intros \<open>rules for the error codes a reader can throw\<close>

lemma unat_add_no_wrap:
  fixes a b :: "'a::len word"
  shows "unat a + unat b < 2 ^ LENGTH('a) \<Longrightarrow> unat (a + b) = unat a + unat b"
  by (simp add: unat_word_ariths)

end
