(* ===== verification/Types.thy ===== *)
theory Types
  imports Prelude
begin

text \<open>
  The semantic enumerations of \<^verbatim>\<open>include/dpufabric/types.h\<close>, one datatype each, with the
  two casts to and from the underlying integer, the name function, and, where the code has
  one, the list of all proper values and the parser of names.
\<close>

section \<open>Enumerations\<close>

datatype (plugins only: code size) OffloadClass =
    NETWORK_SERVICE | DATA_MOVEMENT | STORAGE_SERVICE | SECURITY_SERVICE | TELEMETRY_SERVICE
    | COMPRESSION | CHECKSUM | ENCRYPTION | PACKET_CLASSIFICATION | PACKET_STEERING
    | VIRTUAL_SWITCHING | FIREWALL_SERVICE | STORAGE_PATH_PROCESSING | TRANSPORT_ASSIST
    | CONTROL_PLANE_SERVICE | CUSTOM_INFRASTRUCTURE_SERVICE | END_MARKER | Unnamed u16

primrec OffloadClass_value :: "OffloadClass \<Rightarrow> u16" where
  "OffloadClass_value OffloadClass.NETWORK_SERVICE = 1"
| "OffloadClass_value OffloadClass.DATA_MOVEMENT = 2"
| "OffloadClass_value OffloadClass.STORAGE_SERVICE = 3"
| "OffloadClass_value OffloadClass.SECURITY_SERVICE = 4"
| "OffloadClass_value OffloadClass.TELEMETRY_SERVICE = 5"
| "OffloadClass_value OffloadClass.COMPRESSION = 6"
| "OffloadClass_value OffloadClass.CHECKSUM = 7"
| "OffloadClass_value OffloadClass.ENCRYPTION = 8"
| "OffloadClass_value OffloadClass.PACKET_CLASSIFICATION = 9"
| "OffloadClass_value OffloadClass.PACKET_STEERING = 10"
| "OffloadClass_value OffloadClass.VIRTUAL_SWITCHING = 11"
| "OffloadClass_value OffloadClass.FIREWALL_SERVICE = 12"
| "OffloadClass_value OffloadClass.STORAGE_PATH_PROCESSING = 13"
| "OffloadClass_value OffloadClass.TRANSPORT_ASSIST = 14"
| "OffloadClass_value OffloadClass.CONTROL_PLANE_SERVICE = 15"
| "OffloadClass_value OffloadClass.CUSTOM_INFRASTRUCTURE_SERVICE = 16"
| "OffloadClass_value OffloadClass.END_MARKER = 17"
| "OffloadClass_value (OffloadClass.Unnamed v) = v"

definition OffloadClass_cast :: "u16 \<Rightarrow> OffloadClass" where
  "OffloadClass_cast v =
    (if v = 1 then OffloadClass.NETWORK_SERVICE
     else if v = 2 then OffloadClass.DATA_MOVEMENT
     else if v = 3 then OffloadClass.STORAGE_SERVICE
     else if v = 4 then OffloadClass.SECURITY_SERVICE
     else if v = 5 then OffloadClass.TELEMETRY_SERVICE
     else if v = 6 then OffloadClass.COMPRESSION
     else if v = 7 then OffloadClass.CHECKSUM
     else if v = 8 then OffloadClass.ENCRYPTION
     else if v = 9 then OffloadClass.PACKET_CLASSIFICATION
     else if v = 10 then OffloadClass.PACKET_STEERING
     else if v = 11 then OffloadClass.VIRTUAL_SWITCHING
     else if v = 12 then OffloadClass.FIREWALL_SERVICE
     else if v = 13 then OffloadClass.STORAGE_PATH_PROCESSING
     else if v = 14 then OffloadClass.TRANSPORT_ASSIST
     else if v = 15 then OffloadClass.CONTROL_PLANE_SERVICE
     else if v = 16 then OffloadClass.CUSTOM_INFRASTRUCTURE_SERVICE
     else if v = 17 then OffloadClass.END_MARKER
     else OffloadClass.Unnamed v)"

primrec offload_class_name :: "OffloadClass \<Rightarrow> string" where
  "offload_class_name OffloadClass.NETWORK_SERVICE = ''NETWORK_SERVICE''"
| "offload_class_name OffloadClass.DATA_MOVEMENT = ''DATA_MOVEMENT''"
| "offload_class_name OffloadClass.STORAGE_SERVICE = ''STORAGE_SERVICE''"
| "offload_class_name OffloadClass.SECURITY_SERVICE = ''SECURITY_SERVICE''"
| "offload_class_name OffloadClass.TELEMETRY_SERVICE = ''TELEMETRY_SERVICE''"
| "offload_class_name OffloadClass.COMPRESSION = ''COMPRESSION''"
| "offload_class_name OffloadClass.CHECKSUM = ''CHECKSUM''"
| "offload_class_name OffloadClass.ENCRYPTION = ''ENCRYPTION''"
| "offload_class_name OffloadClass.PACKET_CLASSIFICATION = ''PACKET_CLASSIFICATION''"
| "offload_class_name OffloadClass.PACKET_STEERING = ''PACKET_STEERING''"
| "offload_class_name OffloadClass.VIRTUAL_SWITCHING = ''VIRTUAL_SWITCHING''"
| "offload_class_name OffloadClass.FIREWALL_SERVICE = ''FIREWALL_SERVICE''"
| "offload_class_name OffloadClass.STORAGE_PATH_PROCESSING = ''STORAGE_PATH_PROCESSING''"
| "offload_class_name OffloadClass.TRANSPORT_ASSIST = ''TRANSPORT_ASSIST''"
| "offload_class_name OffloadClass.CONTROL_PLANE_SERVICE = ''CONTROL_PLANE_SERVICE''"
| "offload_class_name OffloadClass.CUSTOM_INFRASTRUCTURE_SERVICE = ''CUSTOM_INFRASTRUCTURE_SERVICE''"
| "offload_class_name OffloadClass.END_MARKER = ''END_MARKER''"
| "offload_class_name (OffloadClass.Unnamed v) = ''UNKNOWN''"

interpretation ofc_codes: cpp_enum OffloadClass_value OffloadClass_cast
  by unfold_locales (simp add: OffloadClass_cast_def)

definition all_OffloadClass :: "OffloadClass list" where
  "all_OffloadClass = map (OffloadClass_cast \<circ> of_nat) [1..<17]"

definition offload_class_from_name :: "string \<Rightarrow> OffloadClass option" where
  "offload_class_from_name s = List.find (\<lambda>c. s = offload_class_name c) all_OffloadClass"

lemma all_OffloadClass_simps:
  "all_OffloadClass =
    [OffloadClass.NETWORK_SERVICE, OffloadClass.DATA_MOVEMENT, OffloadClass.STORAGE_SERVICE
     , OffloadClass.SECURITY_SERVICE, OffloadClass.TELEMETRY_SERVICE, OffloadClass.COMPRESSION
     , OffloadClass.CHECKSUM, OffloadClass.ENCRYPTION, OffloadClass.PACKET_CLASSIFICATION
     , OffloadClass.PACKET_STEERING, OffloadClass.VIRTUAL_SWITCHING
     , OffloadClass.FIREWALL_SERVICE, OffloadClass.STORAGE_PATH_PROCESSING
     , OffloadClass.TRANSPORT_ASSIST, OffloadClass.CONTROL_PLANE_SERVICE
     , OffloadClass.CUSTOM_INFRASTRUCTURE_SERVICE]"
  by (simp add: all_OffloadClass_def upt_rec OffloadClass_cast_def)

interpretation ofc_names: named_enum all_OffloadClass offload_class_name offload_class_from_name
  by unfold_locales (simp_all add: all_OffloadClass_simps offload_class_from_name_def)

datatype (plugins only: code size) CapabilityState =
    SUPPORTED | UNSUPPORTED | UNKNOWN | REVALIDATION_REQUIRED | END_MARKER | Unnamed u8

primrec CapabilityState_value :: "CapabilityState \<Rightarrow> u8" where
  "CapabilityState_value CapabilityState.SUPPORTED = 1"
| "CapabilityState_value CapabilityState.UNSUPPORTED = 2"
| "CapabilityState_value CapabilityState.UNKNOWN = 3"
| "CapabilityState_value CapabilityState.REVALIDATION_REQUIRED = 4"
| "CapabilityState_value CapabilityState.END_MARKER = 5"
| "CapabilityState_value (CapabilityState.Unnamed v) = v"

definition CapabilityState_cast :: "u8 \<Rightarrow> CapabilityState" where
  "CapabilityState_cast v =
    (if v = 1 then CapabilityState.SUPPORTED
     else if v = 2 then CapabilityState.UNSUPPORTED
     else if v = 3 then CapabilityState.UNKNOWN
     else if v = 4 then CapabilityState.REVALIDATION_REQUIRED
     else if v = 5 then CapabilityState.END_MARKER
     else CapabilityState.Unnamed v)"

primrec capability_state_name :: "CapabilityState \<Rightarrow> string" where
  "capability_state_name CapabilityState.SUPPORTED = ''SUPPORTED''"
| "capability_state_name CapabilityState.UNSUPPORTED = ''UNSUPPORTED''"
| "capability_state_name CapabilityState.UNKNOWN = ''UNKNOWN''"
| "capability_state_name CapabilityState.REVALIDATION_REQUIRED = ''REVALIDATION_REQUIRED''"
| "capability_state_name CapabilityState.END_MARKER = ''END_MARKER''"
| "capability_state_name (CapabilityState.Unnamed v) = ''UNKNOWN''"

interpretation cst_codes: cpp_enum CapabilityState_value CapabilityState_cast
  by unfold_locales (simp add: CapabilityState_cast_def)

definition all_CapabilityState :: "CapabilityState list" where
  "all_CapabilityState = map (CapabilityState_cast \<circ> of_nat) [1..<5]"

definition capability_state_from_name :: "string \<Rightarrow> CapabilityState option" where
  "capability_state_from_name s = List.find (\<lambda>c. s = capability_state_name c) all_CapabilityState"

lemma all_CapabilityState_simps:
  "all_CapabilityState =
    [CapabilityState.SUPPORTED, CapabilityState.UNSUPPORTED, CapabilityState.UNKNOWN
     , CapabilityState.REVALIDATION_REQUIRED]"
  by (simp add: all_CapabilityState_def upt_rec CapabilityState_cast_def)

interpretation cst_names: named_enum all_CapabilityState capability_state_name capability_state_from_name
  by unfold_locales (simp_all add: all_CapabilityState_simps capability_state_from_name_def)

datatype (plugins only: code size) ProvenanceSource =
    REAL_OS_DISCOVERY | REAL_VENDOR_API | SYNTHETIC | CONFIGURED | RECOVERED_STALE | DERIVED
    | UNSUPPORTED | END_MARKER | Unnamed u8

primrec ProvenanceSource_value :: "ProvenanceSource \<Rightarrow> u8" where
  "ProvenanceSource_value ProvenanceSource.REAL_OS_DISCOVERY = 1"
| "ProvenanceSource_value ProvenanceSource.REAL_VENDOR_API = 2"
| "ProvenanceSource_value ProvenanceSource.SYNTHETIC = 3"
| "ProvenanceSource_value ProvenanceSource.CONFIGURED = 4"
| "ProvenanceSource_value ProvenanceSource.RECOVERED_STALE = 5"
| "ProvenanceSource_value ProvenanceSource.DERIVED = 6"
| "ProvenanceSource_value ProvenanceSource.UNSUPPORTED = 7"
| "ProvenanceSource_value ProvenanceSource.END_MARKER = 8"
| "ProvenanceSource_value (ProvenanceSource.Unnamed v) = v"

definition ProvenanceSource_cast :: "u8 \<Rightarrow> ProvenanceSource" where
  "ProvenanceSource_cast v =
    (if v = 1 then ProvenanceSource.REAL_OS_DISCOVERY
     else if v = 2 then ProvenanceSource.REAL_VENDOR_API
     else if v = 3 then ProvenanceSource.SYNTHETIC
     else if v = 4 then ProvenanceSource.CONFIGURED
     else if v = 5 then ProvenanceSource.RECOVERED_STALE
     else if v = 6 then ProvenanceSource.DERIVED
     else if v = 7 then ProvenanceSource.UNSUPPORTED
     else if v = 8 then ProvenanceSource.END_MARKER
     else ProvenanceSource.Unnamed v)"

primrec provenance_source_name :: "ProvenanceSource \<Rightarrow> string" where
  "provenance_source_name ProvenanceSource.REAL_OS_DISCOVERY = ''REAL_OS_DISCOVERY''"
| "provenance_source_name ProvenanceSource.REAL_VENDOR_API = ''REAL''"
| "provenance_source_name ProvenanceSource.SYNTHETIC = ''SYNTHETIC''"
| "provenance_source_name ProvenanceSource.CONFIGURED = ''CONFIGURED''"
| "provenance_source_name ProvenanceSource.RECOVERED_STALE = ''RECOVERED_STALE''"
| "provenance_source_name ProvenanceSource.DERIVED = ''DERIVED''"
| "provenance_source_name ProvenanceSource.UNSUPPORTED = ''UNSUPPORTED''"
| "provenance_source_name ProvenanceSource.END_MARKER = ''END_MARKER''"
| "provenance_source_name (ProvenanceSource.Unnamed v) = ''UNKNOWN''"

interpretation prs_codes: cpp_enum ProvenanceSource_value ProvenanceSource_cast
  by unfold_locales (simp add: ProvenanceSource_cast_def)

definition all_ProvenanceSource :: "ProvenanceSource list" where
  "all_ProvenanceSource = map (ProvenanceSource_cast \<circ> of_nat) [1..<8]"

definition provenance_source_from_name :: "string \<Rightarrow> ProvenanceSource option" where
  "provenance_source_from_name s = List.find (\<lambda>c. s = provenance_source_name c) all_ProvenanceSource"

lemma all_ProvenanceSource_simps:
  "all_ProvenanceSource =
    [ProvenanceSource.REAL_OS_DISCOVERY, ProvenanceSource.REAL_VENDOR_API
     , ProvenanceSource.SYNTHETIC, ProvenanceSource.CONFIGURED
     , ProvenanceSource.RECOVERED_STALE, ProvenanceSource.DERIVED
     , ProvenanceSource.UNSUPPORTED]"
  by (simp add: all_ProvenanceSource_def upt_rec ProvenanceSource_cast_def)

interpretation prs_names: named_enum all_ProvenanceSource provenance_source_name provenance_source_from_name
  by unfold_locales (simp_all add: all_ProvenanceSource_simps provenance_source_from_name_def)

datatype (plugins only: code size) ExecutionClass =
    DPU_OFFLOAD | SMARTNIC_OFFLOAD | INFRA_PROCESSOR_OFFLOAD | HOST_FALLBACK | UNSUPPORTED
    | END_MARKER | Unnamed u8

primrec ExecutionClass_value :: "ExecutionClass \<Rightarrow> u8" where
  "ExecutionClass_value ExecutionClass.DPU_OFFLOAD = 1"
| "ExecutionClass_value ExecutionClass.SMARTNIC_OFFLOAD = 2"
| "ExecutionClass_value ExecutionClass.INFRA_PROCESSOR_OFFLOAD = 3"
| "ExecutionClass_value ExecutionClass.HOST_FALLBACK = 4"
| "ExecutionClass_value ExecutionClass.UNSUPPORTED = 5"
| "ExecutionClass_value ExecutionClass.END_MARKER = 6"
| "ExecutionClass_value (ExecutionClass.Unnamed v) = v"

definition ExecutionClass_cast :: "u8 \<Rightarrow> ExecutionClass" where
  "ExecutionClass_cast v =
    (if v = 1 then ExecutionClass.DPU_OFFLOAD
     else if v = 2 then ExecutionClass.SMARTNIC_OFFLOAD
     else if v = 3 then ExecutionClass.INFRA_PROCESSOR_OFFLOAD
     else if v = 4 then ExecutionClass.HOST_FALLBACK
     else if v = 5 then ExecutionClass.UNSUPPORTED
     else if v = 6 then ExecutionClass.END_MARKER
     else ExecutionClass.Unnamed v)"

primrec execution_class_name :: "ExecutionClass \<Rightarrow> string" where
  "execution_class_name ExecutionClass.DPU_OFFLOAD = ''DPU_OFFLOAD''"
| "execution_class_name ExecutionClass.SMARTNIC_OFFLOAD = ''SMARTNIC_OFFLOAD''"
| "execution_class_name ExecutionClass.INFRA_PROCESSOR_OFFLOAD = ''INFRA_PROCESSOR_OFFLOAD''"
| "execution_class_name ExecutionClass.HOST_FALLBACK = ''HOST_FALLBACK''"
| "execution_class_name ExecutionClass.UNSUPPORTED = ''UNSUPPORTED''"
| "execution_class_name ExecutionClass.END_MARKER = ''END_MARKER''"
| "execution_class_name (ExecutionClass.Unnamed v) = ''UNKNOWN''"

interpretation exc_codes: cpp_enum ExecutionClass_value ExecutionClass_cast
  by unfold_locales (simp add: ExecutionClass_cast_def)

definition all_ExecutionClass :: "ExecutionClass list" where
  "all_ExecutionClass = map (ExecutionClass_cast \<circ> of_nat) [1..<6]"

definition execution_class_from_name :: "string \<Rightarrow> ExecutionClass option" where
  "execution_class_from_name s = List.find (\<lambda>c. s = execution_class_name c) all_ExecutionClass"

lemma all_ExecutionClass_simps:
  "all_ExecutionClass =
    [ExecutionClass.DPU_OFFLOAD, ExecutionClass.SMARTNIC_OFFLOAD
     , ExecutionClass.INFRA_PROCESSOR_OFFLOAD, ExecutionClass.HOST_FALLBACK
     , ExecutionClass.UNSUPPORTED]"
  by (simp add: all_ExecutionClass_def upt_rec ExecutionClass_cast_def)

interpretation exc_names: named_enum all_ExecutionClass execution_class_name execution_class_from_name
  by unfold_locales (simp_all add: all_ExecutionClass_simps execution_class_from_name_def)

datatype (plugins only: code size) DeviceClass =
    DPU | SMARTNIC | INFRA_PROCESSOR | HOST_PROCESSOR | NIC_ADJACENT | UNKNOWN_DEVICE
    | END_MARKER | Unnamed u8

primrec DeviceClass_value :: "DeviceClass \<Rightarrow> u8" where
  "DeviceClass_value DeviceClass.DPU = 1"
| "DeviceClass_value DeviceClass.SMARTNIC = 2"
| "DeviceClass_value DeviceClass.INFRA_PROCESSOR = 3"
| "DeviceClass_value DeviceClass.HOST_PROCESSOR = 4"
| "DeviceClass_value DeviceClass.NIC_ADJACENT = 5"
| "DeviceClass_value DeviceClass.UNKNOWN_DEVICE = 6"
| "DeviceClass_value DeviceClass.END_MARKER = 7"
| "DeviceClass_value (DeviceClass.Unnamed v) = v"

definition DeviceClass_cast :: "u8 \<Rightarrow> DeviceClass" where
  "DeviceClass_cast v =
    (if v = 1 then DeviceClass.DPU
     else if v = 2 then DeviceClass.SMARTNIC
     else if v = 3 then DeviceClass.INFRA_PROCESSOR
     else if v = 4 then DeviceClass.HOST_PROCESSOR
     else if v = 5 then DeviceClass.NIC_ADJACENT
     else if v = 6 then DeviceClass.UNKNOWN_DEVICE
     else if v = 7 then DeviceClass.END_MARKER
     else DeviceClass.Unnamed v)"

primrec device_class_name :: "DeviceClass \<Rightarrow> string" where
  "device_class_name DeviceClass.DPU = ''DPU''"
| "device_class_name DeviceClass.SMARTNIC = ''SMARTNIC''"
| "device_class_name DeviceClass.INFRA_PROCESSOR = ''INFRA_PROCESSOR''"
| "device_class_name DeviceClass.HOST_PROCESSOR = ''HOST_PROCESSOR''"
| "device_class_name DeviceClass.NIC_ADJACENT = ''NIC_ADJACENT''"
| "device_class_name DeviceClass.UNKNOWN_DEVICE = ''UNKNOWN_DEVICE''"
| "device_class_name DeviceClass.END_MARKER = ''END_MARKER''"
| "device_class_name (DeviceClass.Unnamed v) = ''UNKNOWN''"

interpretation dcl_codes: cpp_enum DeviceClass_value DeviceClass_cast
  by unfold_locales (simp add: DeviceClass_cast_def)

definition all_DeviceClass :: "DeviceClass list" where
  "all_DeviceClass = map (DeviceClass_cast \<circ> of_nat) [1..<7]"

definition device_class_from_name :: "string \<Rightarrow> DeviceClass option" where
  "device_class_from_name s = List.find (\<lambda>c. s = device_class_name c) all_DeviceClass"

lemma all_DeviceClass_simps:
  "all_DeviceClass =
    [DeviceClass.DPU, DeviceClass.SMARTNIC, DeviceClass.INFRA_PROCESSOR
     , DeviceClass.HOST_PROCESSOR, DeviceClass.NIC_ADJACENT, DeviceClass.UNKNOWN_DEVICE]"
  by (simp add: all_DeviceClass_def upt_rec DeviceClass_cast_def)

interpretation dcl_names: named_enum all_DeviceClass device_class_name device_class_from_name
  by unfold_locales (simp_all add: all_DeviceClass_simps device_class_from_name_def)

datatype (plugins only: code size) DeviceLifecycle =
    DISCOVERED | AVAILABLE | PROVISIONING | READY | DEGRADED | DRAINING
    | REVALIDATION_REQUIRED | FAILED | OFFLINE | RETIRED | END_MARKER | Unnamed u8

primrec DeviceLifecycle_value :: "DeviceLifecycle \<Rightarrow> u8" where
  "DeviceLifecycle_value DeviceLifecycle.DISCOVERED = 1"
| "DeviceLifecycle_value DeviceLifecycle.AVAILABLE = 2"
| "DeviceLifecycle_value DeviceLifecycle.PROVISIONING = 3"
| "DeviceLifecycle_value DeviceLifecycle.READY = 4"
| "DeviceLifecycle_value DeviceLifecycle.DEGRADED = 5"
| "DeviceLifecycle_value DeviceLifecycle.DRAINING = 6"
| "DeviceLifecycle_value DeviceLifecycle.REVALIDATION_REQUIRED = 7"
| "DeviceLifecycle_value DeviceLifecycle.FAILED = 8"
| "DeviceLifecycle_value DeviceLifecycle.OFFLINE = 9"
| "DeviceLifecycle_value DeviceLifecycle.RETIRED = 10"
| "DeviceLifecycle_value DeviceLifecycle.END_MARKER = 11"
| "DeviceLifecycle_value (DeviceLifecycle.Unnamed v) = v"

definition DeviceLifecycle_cast :: "u8 \<Rightarrow> DeviceLifecycle" where
  "DeviceLifecycle_cast v =
    (if v = 1 then DeviceLifecycle.DISCOVERED
     else if v = 2 then DeviceLifecycle.AVAILABLE
     else if v = 3 then DeviceLifecycle.PROVISIONING
     else if v = 4 then DeviceLifecycle.READY
     else if v = 5 then DeviceLifecycle.DEGRADED
     else if v = 6 then DeviceLifecycle.DRAINING
     else if v = 7 then DeviceLifecycle.REVALIDATION_REQUIRED
     else if v = 8 then DeviceLifecycle.FAILED
     else if v = 9 then DeviceLifecycle.OFFLINE
     else if v = 10 then DeviceLifecycle.RETIRED
     else if v = 11 then DeviceLifecycle.END_MARKER
     else DeviceLifecycle.Unnamed v)"

primrec device_lifecycle_name :: "DeviceLifecycle \<Rightarrow> string" where
  "device_lifecycle_name DeviceLifecycle.DISCOVERED = ''DISCOVERED''"
| "device_lifecycle_name DeviceLifecycle.AVAILABLE = ''AVAILABLE''"
| "device_lifecycle_name DeviceLifecycle.PROVISIONING = ''PROVISIONING''"
| "device_lifecycle_name DeviceLifecycle.READY = ''READY''"
| "device_lifecycle_name DeviceLifecycle.DEGRADED = ''DEGRADED''"
| "device_lifecycle_name DeviceLifecycle.DRAINING = ''DRAINING''"
| "device_lifecycle_name DeviceLifecycle.REVALIDATION_REQUIRED = ''REVALIDATION_REQUIRED''"
| "device_lifecycle_name DeviceLifecycle.FAILED = ''FAILED''"
| "device_lifecycle_name DeviceLifecycle.OFFLINE = ''OFFLINE''"
| "device_lifecycle_name DeviceLifecycle.RETIRED = ''RETIRED''"
| "device_lifecycle_name DeviceLifecycle.END_MARKER = ''END_MARKER''"
| "device_lifecycle_name (DeviceLifecycle.Unnamed v) = ''UNKNOWN''"

interpretation dlc_codes: cpp_enum DeviceLifecycle_value DeviceLifecycle_cast
  by unfold_locales (simp add: DeviceLifecycle_cast_def)

definition all_DeviceLifecycle :: "DeviceLifecycle list" where
  "all_DeviceLifecycle = map (DeviceLifecycle_cast \<circ> of_nat) [1..<11]"

definition device_lifecycle_from_name :: "string \<Rightarrow> DeviceLifecycle option" where
  "device_lifecycle_from_name s = List.find (\<lambda>c. s = device_lifecycle_name c) all_DeviceLifecycle"

lemma all_DeviceLifecycle_simps:
  "all_DeviceLifecycle =
    [DeviceLifecycle.DISCOVERED, DeviceLifecycle.AVAILABLE, DeviceLifecycle.PROVISIONING
     , DeviceLifecycle.READY, DeviceLifecycle.DEGRADED, DeviceLifecycle.DRAINING
     , DeviceLifecycle.REVALIDATION_REQUIRED, DeviceLifecycle.FAILED, DeviceLifecycle.OFFLINE
     , DeviceLifecycle.RETIRED]"
  by (simp add: all_DeviceLifecycle_def upt_rec DeviceLifecycle_cast_def)

interpretation dlc_names: named_enum all_DeviceLifecycle device_lifecycle_name device_lifecycle_from_name
  by unfold_locales (simp_all add: all_DeviceLifecycle_simps device_lifecycle_from_name_def)

datatype (plugins only: code size) DeploymentState =
    PLANNED | RESERVED | STAGING | LOADED | VALIDATING | ACTIVATING | ACTIVE | DEGRADED
    | DRAINING | FAILED | ABORTED | RETIRED | REVALIDATION_REQUIRED | END_MARKER | Unnamed u8

primrec DeploymentState_value :: "DeploymentState \<Rightarrow> u8" where
  "DeploymentState_value DeploymentState.PLANNED = 1"
| "DeploymentState_value DeploymentState.RESERVED = 2"
| "DeploymentState_value DeploymentState.STAGING = 3"
| "DeploymentState_value DeploymentState.LOADED = 4"
| "DeploymentState_value DeploymentState.VALIDATING = 5"
| "DeploymentState_value DeploymentState.ACTIVATING = 6"
| "DeploymentState_value DeploymentState.ACTIVE = 7"
| "DeploymentState_value DeploymentState.DEGRADED = 8"
| "DeploymentState_value DeploymentState.DRAINING = 9"
| "DeploymentState_value DeploymentState.FAILED = 10"
| "DeploymentState_value DeploymentState.ABORTED = 11"
| "DeploymentState_value DeploymentState.RETIRED = 12"
| "DeploymentState_value DeploymentState.REVALIDATION_REQUIRED = 13"
| "DeploymentState_value DeploymentState.END_MARKER = 14"
| "DeploymentState_value (DeploymentState.Unnamed v) = v"

definition DeploymentState_cast :: "u8 \<Rightarrow> DeploymentState" where
  "DeploymentState_cast v =
    (if v = 1 then DeploymentState.PLANNED
     else if v = 2 then DeploymentState.RESERVED
     else if v = 3 then DeploymentState.STAGING
     else if v = 4 then DeploymentState.LOADED
     else if v = 5 then DeploymentState.VALIDATING
     else if v = 6 then DeploymentState.ACTIVATING
     else if v = 7 then DeploymentState.ACTIVE
     else if v = 8 then DeploymentState.DEGRADED
     else if v = 9 then DeploymentState.DRAINING
     else if v = 10 then DeploymentState.FAILED
     else if v = 11 then DeploymentState.ABORTED
     else if v = 12 then DeploymentState.RETIRED
     else if v = 13 then DeploymentState.REVALIDATION_REQUIRED
     else if v = 14 then DeploymentState.END_MARKER
     else DeploymentState.Unnamed v)"

primrec deployment_state_name :: "DeploymentState \<Rightarrow> string" where
  "deployment_state_name DeploymentState.PLANNED = ''PLANNED''"
| "deployment_state_name DeploymentState.RESERVED = ''RESERVED''"
| "deployment_state_name DeploymentState.STAGING = ''STAGING''"
| "deployment_state_name DeploymentState.LOADED = ''LOADED''"
| "deployment_state_name DeploymentState.VALIDATING = ''VALIDATING''"
| "deployment_state_name DeploymentState.ACTIVATING = ''ACTIVATING''"
| "deployment_state_name DeploymentState.ACTIVE = ''ACTIVE''"
| "deployment_state_name DeploymentState.DEGRADED = ''DEGRADED''"
| "deployment_state_name DeploymentState.DRAINING = ''DRAINING''"
| "deployment_state_name DeploymentState.FAILED = ''FAILED''"
| "deployment_state_name DeploymentState.ABORTED = ''ABORTED''"
| "deployment_state_name DeploymentState.RETIRED = ''RETIRED''"
| "deployment_state_name DeploymentState.REVALIDATION_REQUIRED = ''REVALIDATION_REQUIRED''"
| "deployment_state_name DeploymentState.END_MARKER = ''END_MARKER''"
| "deployment_state_name (DeploymentState.Unnamed v) = ''UNKNOWN''"

interpretation dst_codes: cpp_enum DeploymentState_value DeploymentState_cast
  by unfold_locales (simp add: DeploymentState_cast_def)

definition all_DeploymentState :: "DeploymentState list" where
  "all_DeploymentState = map (DeploymentState_cast \<circ> of_nat) [1..<14]"

definition deployment_state_from_name :: "string \<Rightarrow> DeploymentState option" where
  "deployment_state_from_name s = List.find (\<lambda>c. s = deployment_state_name c) all_DeploymentState"

lemma all_DeploymentState_simps:
  "all_DeploymentState =
    [DeploymentState.PLANNED, DeploymentState.RESERVED, DeploymentState.STAGING
     , DeploymentState.LOADED, DeploymentState.VALIDATING, DeploymentState.ACTIVATING
     , DeploymentState.ACTIVE, DeploymentState.DEGRADED, DeploymentState.DRAINING
     , DeploymentState.FAILED, DeploymentState.ABORTED, DeploymentState.RETIRED
     , DeploymentState.REVALIDATION_REQUIRED]"
  by (simp add: all_DeploymentState_def upt_rec DeploymentState_cast_def)

interpretation dst_names: named_enum all_DeploymentState deployment_state_name deployment_state_from_name
  by unfold_locales (simp_all add: all_DeploymentState_simps deployment_state_from_name_def)

datatype (plugins only: code size) IsolationRequirement =
    DEDICATED_DEVICE | DEDICATED_FUNCTION | DEDICATED_QUEUE | DEDICATED_EXECUTION_CONTEXT
    | SHARED_ISOLATED_CONTEXT | TENANT_COMPATIBLE_SHARED | SECURITY_DOMAIN | TRUST_DOMAIN
    | NONE | END_MARKER | Unnamed u8

primrec IsolationRequirement_value :: "IsolationRequirement \<Rightarrow> u8" where
  "IsolationRequirement_value IsolationRequirement.DEDICATED_DEVICE = 1"
| "IsolationRequirement_value IsolationRequirement.DEDICATED_FUNCTION = 2"
| "IsolationRequirement_value IsolationRequirement.DEDICATED_QUEUE = 3"
| "IsolationRequirement_value IsolationRequirement.DEDICATED_EXECUTION_CONTEXT = 4"
| "IsolationRequirement_value IsolationRequirement.SHARED_ISOLATED_CONTEXT = 5"
| "IsolationRequirement_value IsolationRequirement.TENANT_COMPATIBLE_SHARED = 6"
| "IsolationRequirement_value IsolationRequirement.SECURITY_DOMAIN = 7"
| "IsolationRequirement_value IsolationRequirement.TRUST_DOMAIN = 8"
| "IsolationRequirement_value IsolationRequirement.NONE = 9"
| "IsolationRequirement_value IsolationRequirement.END_MARKER = 10"
| "IsolationRequirement_value (IsolationRequirement.Unnamed v) = v"

definition IsolationRequirement_cast :: "u8 \<Rightarrow> IsolationRequirement" where
  "IsolationRequirement_cast v =
    (if v = 1 then IsolationRequirement.DEDICATED_DEVICE
     else if v = 2 then IsolationRequirement.DEDICATED_FUNCTION
     else if v = 3 then IsolationRequirement.DEDICATED_QUEUE
     else if v = 4 then IsolationRequirement.DEDICATED_EXECUTION_CONTEXT
     else if v = 5 then IsolationRequirement.SHARED_ISOLATED_CONTEXT
     else if v = 6 then IsolationRequirement.TENANT_COMPATIBLE_SHARED
     else if v = 7 then IsolationRequirement.SECURITY_DOMAIN
     else if v = 8 then IsolationRequirement.TRUST_DOMAIN
     else if v = 9 then IsolationRequirement.NONE
     else if v = 10 then IsolationRequirement.END_MARKER
     else IsolationRequirement.Unnamed v)"

primrec isolation_requirement_name :: "IsolationRequirement \<Rightarrow> string" where
  "isolation_requirement_name IsolationRequirement.DEDICATED_DEVICE = ''DEDICATED_DEVICE''"
| "isolation_requirement_name IsolationRequirement.DEDICATED_FUNCTION = ''DEDICATED_FUNCTION''"
| "isolation_requirement_name IsolationRequirement.DEDICATED_QUEUE = ''DEDICATED_QUEUE''"
| "isolation_requirement_name IsolationRequirement.DEDICATED_EXECUTION_CONTEXT = ''DEDICATED_EXECUTION_CONTEXT''"
| "isolation_requirement_name IsolationRequirement.SHARED_ISOLATED_CONTEXT = ''SHARED_ISOLATED_CONTEXT''"
| "isolation_requirement_name IsolationRequirement.TENANT_COMPATIBLE_SHARED = ''TENANT_COMPATIBLE_SHARED''"
| "isolation_requirement_name IsolationRequirement.SECURITY_DOMAIN = ''SECURITY_DOMAIN''"
| "isolation_requirement_name IsolationRequirement.TRUST_DOMAIN = ''TRUST_DOMAIN''"
| "isolation_requirement_name IsolationRequirement.NONE = ''NONE''"
| "isolation_requirement_name IsolationRequirement.END_MARKER = ''END_MARKER''"
| "isolation_requirement_name (IsolationRequirement.Unnamed v) = ''UNKNOWN''"

interpretation isr_codes: cpp_enum IsolationRequirement_value IsolationRequirement_cast
  by unfold_locales (simp add: IsolationRequirement_cast_def)

datatype (plugins only: code size) OffloadMode =
    OFFLOAD_REQUIRED | OFFLOAD_PREFERRED | END_MARKER | Unnamed u8

primrec OffloadMode_value :: "OffloadMode \<Rightarrow> u8" where
  "OffloadMode_value OffloadMode.OFFLOAD_REQUIRED = 1"
| "OffloadMode_value OffloadMode.OFFLOAD_PREFERRED = 2"
| "OffloadMode_value OffloadMode.END_MARKER = 3"
| "OffloadMode_value (OffloadMode.Unnamed v) = v"

definition OffloadMode_cast :: "u8 \<Rightarrow> OffloadMode" where
  "OffloadMode_cast v =
    (if v = 1 then OffloadMode.OFFLOAD_REQUIRED
     else if v = 2 then OffloadMode.OFFLOAD_PREFERRED
     else if v = 3 then OffloadMode.END_MARKER
     else OffloadMode.Unnamed v)"

primrec offload_mode_name :: "OffloadMode \<Rightarrow> string" where
  "offload_mode_name OffloadMode.OFFLOAD_REQUIRED = ''OFFLOAD_REQUIRED''"
| "offload_mode_name OffloadMode.OFFLOAD_PREFERRED = ''OFFLOAD_PREFERRED''"
| "offload_mode_name OffloadMode.END_MARKER = ''END_MARKER''"
| "offload_mode_name (OffloadMode.Unnamed v) = ''UNKNOWN''"

interpretation ofm_codes: cpp_enum OffloadMode_value OffloadMode_cast
  by unfold_locales (simp add: OffloadMode_cast_def)

datatype (plugins only: code size) ExecutionModel =
    NATIVE_DATA_PLANE | FIRMWARE_ACCELERATED | HOST_AUXILIARY | UNKNOWN | END_MARKER
    | Unnamed u8

primrec ExecutionModel_value :: "ExecutionModel \<Rightarrow> u8" where
  "ExecutionModel_value ExecutionModel.NATIVE_DATA_PLANE = 1"
| "ExecutionModel_value ExecutionModel.FIRMWARE_ACCELERATED = 2"
| "ExecutionModel_value ExecutionModel.HOST_AUXILIARY = 3"
| "ExecutionModel_value ExecutionModel.UNKNOWN = 4"
| "ExecutionModel_value ExecutionModel.END_MARKER = 5"
| "ExecutionModel_value (ExecutionModel.Unnamed v) = v"

definition ExecutionModel_cast :: "u8 \<Rightarrow> ExecutionModel" where
  "ExecutionModel_cast v =
    (if v = 1 then ExecutionModel.NATIVE_DATA_PLANE
     else if v = 2 then ExecutionModel.FIRMWARE_ACCELERATED
     else if v = 3 then ExecutionModel.HOST_AUXILIARY
     else if v = 4 then ExecutionModel.UNKNOWN
     else if v = 5 then ExecutionModel.END_MARKER
     else ExecutionModel.Unnamed v)"

primrec execution_model_name :: "ExecutionModel \<Rightarrow> string" where
  "execution_model_name ExecutionModel.NATIVE_DATA_PLANE = ''NATIVE_DATA_PLANE''"
| "execution_model_name ExecutionModel.FIRMWARE_ACCELERATED = ''FIRMWARE_ACCELERATED''"
| "execution_model_name ExecutionModel.HOST_AUXILIARY = ''HOST_AUXILIARY''"
| "execution_model_name ExecutionModel.UNKNOWN = ''UNKNOWN''"
| "execution_model_name ExecutionModel.END_MARKER = ''END_MARKER''"
| "execution_model_name (ExecutionModel.Unnamed v) = ''UNKNOWN''"

interpretation exm_codes: cpp_enum ExecutionModel_value ExecutionModel_cast
  by unfold_locales (simp add: ExecutionModel_cast_def)

datatype (plugins only: code size) ArtifactType =
    FIRMWARE_IMAGE | RTE_PROGRAM | CONFIGURATION | RUNTIME_EXTENSION | SYNTHETIC | UNKNOWN
    | END_MARKER | Unnamed u8

primrec ArtifactType_value :: "ArtifactType \<Rightarrow> u8" where
  "ArtifactType_value ArtifactType.FIRMWARE_IMAGE = 1"
| "ArtifactType_value ArtifactType.RTE_PROGRAM = 2"
| "ArtifactType_value ArtifactType.CONFIGURATION = 3"
| "ArtifactType_value ArtifactType.RUNTIME_EXTENSION = 4"
| "ArtifactType_value ArtifactType.SYNTHETIC = 5"
| "ArtifactType_value ArtifactType.UNKNOWN = 6"
| "ArtifactType_value ArtifactType.END_MARKER = 7"
| "ArtifactType_value (ArtifactType.Unnamed v) = v"

definition ArtifactType_cast :: "u8 \<Rightarrow> ArtifactType" where
  "ArtifactType_cast v =
    (if v = 1 then ArtifactType.FIRMWARE_IMAGE
     else if v = 2 then ArtifactType.RTE_PROGRAM
     else if v = 3 then ArtifactType.CONFIGURATION
     else if v = 4 then ArtifactType.RUNTIME_EXTENSION
     else if v = 5 then ArtifactType.SYNTHETIC
     else if v = 6 then ArtifactType.UNKNOWN
     else if v = 7 then ArtifactType.END_MARKER
     else ArtifactType.Unnamed v)"

primrec artifact_type_name :: "ArtifactType \<Rightarrow> string" where
  "artifact_type_name ArtifactType.FIRMWARE_IMAGE = ''FIRMWARE_IMAGE''"
| "artifact_type_name ArtifactType.RTE_PROGRAM = ''RTE_PROGRAM''"
| "artifact_type_name ArtifactType.CONFIGURATION = ''CONFIGURATION''"
| "artifact_type_name ArtifactType.RUNTIME_EXTENSION = ''RUNTIME_EXTENSION''"
| "artifact_type_name ArtifactType.SYNTHETIC = ''SYNTHETIC''"
| "artifact_type_name ArtifactType.UNKNOWN = ''UNKNOWN''"
| "artifact_type_name ArtifactType.END_MARKER = ''END_MARKER''"
| "artifact_type_name (ArtifactType.Unnamed v) = ''UNKNOWN''"

interpretation art_codes: cpp_enum ArtifactType_value ArtifactType_cast
  by unfold_locales (simp add: ArtifactType_cast_def)

datatype (plugins only: code size) Statefulness =
    STATELESS | STATEFUL | END_MARKER | Unnamed u8

primrec Statefulness_value :: "Statefulness \<Rightarrow> u8" where
  "Statefulness_value Statefulness.STATELESS = 1"
| "Statefulness_value Statefulness.STATEFUL = 2"
| "Statefulness_value Statefulness.END_MARKER = 3"
| "Statefulness_value (Statefulness.Unnamed v) = v"

definition Statefulness_cast :: "u8 \<Rightarrow> Statefulness" where
  "Statefulness_cast v =
    (if v = 1 then Statefulness.STATELESS
     else if v = 2 then Statefulness.STATEFUL
     else if v = 3 then Statefulness.END_MARKER
     else Statefulness.Unnamed v)"

primrec statefulness_name :: "Statefulness \<Rightarrow> string" where
  "statefulness_name Statefulness.STATELESS = ''STATELESS''"
| "statefulness_name Statefulness.STATEFUL = ''STATEFUL''"
| "statefulness_name Statefulness.END_MARKER = ''END_MARKER''"
| "statefulness_name (Statefulness.Unnamed v) = ''UNKNOWN''"

interpretation stf_codes: cpp_enum Statefulness_value Statefulness_cast
  by unfold_locales (simp add: Statefulness_cast_def)

datatype (plugins only: code size) SecurityMode =
    SECURE | ISOLATED | HYBRID | UNVERIFIED | END_MARKER | Unnamed u8

primrec SecurityMode_value :: "SecurityMode \<Rightarrow> u8" where
  "SecurityMode_value SecurityMode.SECURE = 1"
| "SecurityMode_value SecurityMode.ISOLATED = 2"
| "SecurityMode_value SecurityMode.HYBRID = 3"
| "SecurityMode_value SecurityMode.UNVERIFIED = 4"
| "SecurityMode_value SecurityMode.END_MARKER = 5"
| "SecurityMode_value (SecurityMode.Unnamed v) = v"

definition SecurityMode_cast :: "u8 \<Rightarrow> SecurityMode" where
  "SecurityMode_cast v =
    (if v = 1 then SecurityMode.SECURE
     else if v = 2 then SecurityMode.ISOLATED
     else if v = 3 then SecurityMode.HYBRID
     else if v = 4 then SecurityMode.UNVERIFIED
     else if v = 5 then SecurityMode.END_MARKER
     else SecurityMode.Unnamed v)"

primrec security_mode_name :: "SecurityMode \<Rightarrow> string" where
  "security_mode_name SecurityMode.SECURE = ''SECURE''"
| "security_mode_name SecurityMode.ISOLATED = ''ISOLATED''"
| "security_mode_name SecurityMode.HYBRID = ''HYBRID''"
| "security_mode_name SecurityMode.UNVERIFIED = ''UNVERIFIED''"
| "security_mode_name SecurityMode.END_MARKER = ''END_MARKER''"
| "security_mode_name (SecurityMode.Unnamed v) = ''UNKNOWN''"

interpretation sec_codes: cpp_enum SecurityMode_value SecurityMode_cast
  by unfold_locales (simp add: SecurityMode_cast_def)

datatype (plugins only: code size) LocalityQuality =
    SAME_DEVICE | SAME_FUNCTION | SAME_NIC | SAME_ROOT | REMOTE | UNKNOWN | END_MARKER
    | Unnamed u8

primrec LocalityQuality_value :: "LocalityQuality \<Rightarrow> u8" where
  "LocalityQuality_value LocalityQuality.SAME_DEVICE = 1"
| "LocalityQuality_value LocalityQuality.SAME_FUNCTION = 2"
| "LocalityQuality_value LocalityQuality.SAME_NIC = 3"
| "LocalityQuality_value LocalityQuality.SAME_ROOT = 4"
| "LocalityQuality_value LocalityQuality.REMOTE = 5"
| "LocalityQuality_value LocalityQuality.UNKNOWN = 6"
| "LocalityQuality_value LocalityQuality.END_MARKER = 7"
| "LocalityQuality_value (LocalityQuality.Unnamed v) = v"

definition LocalityQuality_cast :: "u8 \<Rightarrow> LocalityQuality" where
  "LocalityQuality_cast v =
    (if v = 1 then LocalityQuality.SAME_DEVICE
     else if v = 2 then LocalityQuality.SAME_FUNCTION
     else if v = 3 then LocalityQuality.SAME_NIC
     else if v = 4 then LocalityQuality.SAME_ROOT
     else if v = 5 then LocalityQuality.REMOTE
     else if v = 6 then LocalityQuality.UNKNOWN
     else if v = 7 then LocalityQuality.END_MARKER
     else LocalityQuality.Unnamed v)"

primrec locality_quality_name :: "LocalityQuality \<Rightarrow> string" where
  "locality_quality_name LocalityQuality.SAME_DEVICE = ''SAME_DEVICE''"
| "locality_quality_name LocalityQuality.SAME_FUNCTION = ''SAME_FUNCTION''"
| "locality_quality_name LocalityQuality.SAME_NIC = ''SAME_NIC''"
| "locality_quality_name LocalityQuality.SAME_ROOT = ''SAME_ROOT''"
| "locality_quality_name LocalityQuality.REMOTE = ''REMOTE''"
| "locality_quality_name LocalityQuality.UNKNOWN = ''UNKNOWN''"
| "locality_quality_name LocalityQuality.END_MARKER = ''END_MARKER''"
| "locality_quality_name (LocalityQuality.Unnamed v) = ''UNKNOWN''"

interpretation loc_codes: cpp_enum LocalityQuality_value LocalityQuality_cast
  by unfold_locales (simp add: LocalityQuality_cast_def)

section \<open>Evidence classes\<close>

definition evidence_class :: "ProvenanceSource \<Rightarrow> string" where
  "evidence_class s = (case s of
       ProvenanceSource.REAL_OS_DISCOVERY \<Rightarrow> ''REAL''
     | ProvenanceSource.REAL_VENDOR_API \<Rightarrow> ''REAL''
     | ProvenanceSource.SYNTHETIC \<Rightarrow> ''SYNTHETIC''
     | ProvenanceSource.UNSUPPORTED \<Rightarrow> ''UNSUPPORTED''
     | _ \<Rightarrow> ''DERIVED'')"

end
