(* ===== verification/Ids.thy ===== *)
theory Ids
  imports Prelude
begin

unbundle bit_operations_syntax

text \<open>
  The typed identities of \<^verbatim>\<open>include/dpufabric/id.h\<close>. \<^verbatim>\<open>Id<Tag>\<close> is a 64-bit value with a
  phantom type parameter, so that a device identity is not a service identity in the model
  either. The per-tag rules (\<^verbatim>\<open>IdTraits<Tag>\<close>) are a record handed to the operations that
  depend on them: validity and the hexadecimal decoder.
\<close>

section \<open>Identities\<close>

datatype (plugins only: code size) 'tag Id = Id (as_u64: u64)

text \<open>\<^verbatim>\<open>operator<=>\<close> compares the values; it is the key order of every map of the coordinator.\<close>

instantiation Id :: (type) linorder
begin

definition less_eq_Id :: "'a Id \<Rightarrow> 'a Id \<Rightarrow> bool" where
  "less_eq_Id a b \<longleftrightarrow> as_u64 a \<le> as_u64 b"

definition less_Id :: "'a Id \<Rightarrow> 'a Id \<Rightarrow> bool" where
  "less_Id a b \<longleftrightarrow> as_u64 a < as_u64 b"

instance
  by intro_classes (auto simp: less_eq_Id_def less_Id_def intro: Id.expand)

end

definition null_id :: "'tag Id" where
  "null_id = Id 0"

definition is_null :: "'tag Id \<Rightarrow> bool" where
  "is_null i \<longleftrightarrow> as_u64 i = 0"

section \<open>Tags\<close>

typedecl DeviceIdTag
typedecl ServiceIdTag
typedecl ProgramIdTag
typedecl ArtifactIdTag
typedecl DeploymentIdTag
typedecl ActivationIdTag
typedecl ExecutionContextIdTag
typedecl ResourceContextIdTag
typedecl PortIdTag
typedecl FunctionIdTag
typedecl QueueIdTag
typedecl TenantIdTag
typedecl IsolationDomainIdTag
typedecl WorkerIdTag
typedecl LeaseIdTag
typedecl DeploymentAttemptIdTag
typedecl CapabilityIdTag
typedecl DeviceGenerationTag
typedecl WorkerBootIdTag
typedecl CoordinatorEpochTag
typedecl EvidenceGenerationTag
typedecl PolicyGenerationTag
typedecl ServiceGenerationTag
typedecl ProgramGenerationTag
typedecl ArtifactGenerationTag
typedecl DeploymentGenerationTag
typedecl ActivationGenerationTag
typedecl FirmwareGenerationTag
typedecl RuntimeGenerationTag
typedecl BootGenerationTag
typedecl DeviceBootIdTag

type_synonym DeviceId = "DeviceIdTag Id"
type_synonym ServiceId = "ServiceIdTag Id"
type_synonym ProgramId = "ProgramIdTag Id"
type_synonym ArtifactId = "ArtifactIdTag Id"
type_synonym DeploymentId = "DeploymentIdTag Id"
type_synonym DeploymentAttemptId = "DeploymentAttemptIdTag Id"
type_synonym ActivationId = "ActivationIdTag Id"
type_synonym ExecutionContextId = "ExecutionContextIdTag Id"
type_synonym ResourceContextId = "ResourceContextIdTag Id"
type_synonym PortId = "PortIdTag Id"
type_synonym FunctionId = "FunctionIdTag Id"
type_synonym QueueId = "QueueIdTag Id"
type_synonym TenantId = "TenantIdTag Id"
type_synonym IsolationDomainId = "IsolationDomainIdTag Id"
type_synonym WorkerId = "WorkerIdTag Id"
type_synonym LeaseId = "LeaseIdTag Id"
type_synonym CapabilityId = "CapabilityIdTag Id"
type_synonym DeviceGeneration = "DeviceGenerationTag Id"
type_synonym ServiceGeneration = "ServiceGenerationTag Id"
type_synonym ProgramGeneration = "ProgramGenerationTag Id"
type_synonym ArtifactGeneration = "ArtifactGenerationTag Id"
type_synonym DeploymentGeneration = "DeploymentGenerationTag Id"
type_synonym ActivationGeneration = "ActivationGenerationTag Id"
type_synonym EvidenceGeneration = "EvidenceGenerationTag Id"
type_synonym PolicyGeneration = "PolicyGenerationTag Id"
type_synonym CoordinatorEpoch = "CoordinatorEpochTag Id"
type_synonym WorkerBootId = "WorkerBootIdTag Id"
type_synonym DeviceBootId = "DeviceBootIdTag Id"
type_synonym FirmwareGeneration = "FirmwareGenerationTag Id"
type_synonym RuntimeGeneration = "RuntimeGenerationTag Id"
type_synonym BootGeneration = "BootGenerationTag Id"

section \<open>Traits and validity\<close>

record id_traits =
  allow_zero :: bool
  max_value :: u64
  type_name :: string

definition IdTraits :: id_traits where
  "IdTraits = \<lparr>allow_zero = True, max_value = - 1, type_name = ''Id''\<rparr>"

definition DeviceGeneration_traits :: id_traits where
  "DeviceGeneration_traits = \<lparr>allow_zero = False, max_value = - 1, type_name = ''DeviceGeneration''\<rparr>"

definition ServiceGeneration_traits :: id_traits where
  "ServiceGeneration_traits = \<lparr>allow_zero = False, max_value = - 1, type_name = ''ServiceGeneration''\<rparr>"

definition ProgramGeneration_traits :: id_traits where
  "ProgramGeneration_traits = \<lparr>allow_zero = False, max_value = - 1, type_name = ''ProgramGeneration''\<rparr>"

definition ArtifactGeneration_traits :: id_traits where
  "ArtifactGeneration_traits = \<lparr>allow_zero = False, max_value = - 1, type_name = ''ArtifactGeneration''\<rparr>"

definition DeploymentGeneration_traits :: id_traits where
  "DeploymentGeneration_traits = \<lparr>allow_zero = False, max_value = - 1, type_name = ''DeploymentGeneration''\<rparr>"

definition ActivationGeneration_traits :: id_traits where
  "ActivationGeneration_traits = \<lparr>allow_zero = False, max_value = - 1, type_name = ''ActivationGeneration''\<rparr>"

definition EvidenceGeneration_traits :: id_traits where
  "EvidenceGeneration_traits = \<lparr>allow_zero = False, max_value = - 1, type_name = ''EvidenceGeneration''\<rparr>"

definition PolicyGeneration_traits :: id_traits where
  "PolicyGeneration_traits = \<lparr>allow_zero = False, max_value = - 1, type_name = ''PolicyGeneration''\<rparr>"

definition CoordinatorEpoch_traits :: id_traits where
  "CoordinatorEpoch_traits = \<lparr>allow_zero = False, max_value = - 1, type_name = ''CoordinatorEpoch''\<rparr>"

definition WorkerBootId_traits :: id_traits where
  "WorkerBootId_traits = \<lparr>allow_zero = False, max_value = - 1, type_name = ''WorkerBootId''\<rparr>"

definition DeviceBootId_traits :: id_traits where
  "DeviceBootId_traits = \<lparr>allow_zero = False, max_value = - 1, type_name = ''DeviceBootId''\<rparr>"

definition FirmwareGeneration_traits :: id_traits where
  "FirmwareGeneration_traits = \<lparr>allow_zero = False, max_value = - 1, type_name = ''FirmwareGeneration''\<rparr>"

definition RuntimeGeneration_traits :: id_traits where
  "RuntimeGeneration_traits = \<lparr>allow_zero = False, max_value = - 1, type_name = ''RuntimeGeneration''\<rparr>"

definition BootGeneration_traits :: id_traits where
  "BootGeneration_traits = \<lparr>allow_zero = False, max_value = - 1, type_name = ''BootGeneration''\<rparr>"

definition DeploymentAttemptId_traits :: id_traits where
  "DeploymentAttemptId_traits = \<lparr>allow_zero = False, max_value = - 1, type_name = ''DeploymentAttemptId''\<rparr>"

definition CapabilityId_traits :: id_traits where
  "CapabilityId_traits = \<lparr>allow_zero = False, max_value = - 1, type_name = ''CapabilityId''\<rparr>"

definition id_valid :: "id_traits \<Rightarrow> 'tag Id \<Rightarrow> bool" where
  "id_valid tr i =
     (if \<not> allow_zero tr \<and> as_u64 i = 0 then False
      else if max_value tr \<noteq> - 1 \<and> as_u64 i > max_value tr then False
      else True)"

definition next_generation :: "u64 \<Rightarrow> u64" where
  "next_generation cur = (if cur = - 1 then cur else cur + 1)"

section \<open>Hexadecimal text form\<close>

definition hex_digits :: string where
  "hex_digits = ''0123456789abcdef''"

text \<open>The loop of \<^verbatim>\<open>encode\<close> fills positions 15 down to 0; \<open>out\<close> is what is already written.\<close>

fun encode_loop :: "nat \<Rightarrow> u64 \<Rightarrow> string \<Rightarrow> string" where
  "encode_loop 0 v out = out"
| "encode_loop (Suc i) v out =
     encode_loop i (drop_bit 4 v) (hex_digits ! unat (v AND 15) # out)"

definition id_encode :: "'tag Id \<Rightarrow> string" where
  "id_encode i = encode_loop 16 (as_u64 i) []"

definition hex_digit :: "char \<Rightarrow> u64 option" where
  "hex_digit c =
     (let n = of_char c :: nat in
      if 48 \<le> n \<and> n \<le> 57 then Some (of_nat (n - 48))
      else if 97 \<le> n \<and> n \<le> 102 then Some (of_nat (n - 97 + 10))
      else if 65 \<le> n \<and> n \<le> 70 then Some (of_nat (n - 65 + 10))
      else None)"

fun decode_loop :: "u64 \<Rightarrow> string \<Rightarrow> u64 option" where
  "decode_loop v [] = Some v"
| "decode_loop v (c # cs) =
     (case hex_digit c of
        None \<Rightarrow> None
      | Some d \<Rightarrow> if v > (- 1 - d) div 16 then None else decode_loop (v * 16 + d) cs)"

definition id_decode :: "id_traits \<Rightarrow> string \<Rightarrow> 'tag Id option" where
  "id_decode tr s =
     (if length s > 16 then None
      else if s = [] then None
      else case decode_loop 0 s of
             None \<Rightarrow> None
           | Some v \<Rightarrow> if id_valid tr (Id v :: 'tag Id) then Some (Id v) else None)"


section \<open>Facts\<close>

lemma as_u64_inject [simp]: "as_u64 a = as_u64 b \<longleftrightarrow> a = b"
  by (auto intro: Id.expand)

lemma is_null_iff [simp]: "is_null i \<longleftrightarrow> i = null_id"
  by (cases i) (simp add: is_null_def null_id_def)

lemma next_generation_grows:
  "unat (next_generation g) = (if g = - 1 then unat g else unat g + 1)"
proof (cases "g = - 1")
  case False
  then have "1 + g \<noteq> 0" by (metis add.inverse_inverse add_eq_0_iff minus_equation_iff)
  then show ?thesis using False unatSuc [of g] by (simp add: next_generation_def add.commute)
qed (simp add: next_generation_def)

lemma next_generation_pos: "0 < next_generation g"
  by (simp add: next_generation_def word_gt_0) (metis add_eq_0_iff minus_minus)

text \<open>The number a string of hexadecimal digits denotes, without a bound.\<close>

fun hex_number :: "nat \<Rightarrow> string \<Rightarrow> nat option" where
  "hex_number a [] = Some a"
| "hex_number a (c # cs) =
     (case hex_digit c of None \<Rightarrow> None | Some d \<Rightarrow> hex_number (a * 16 + unat d) cs)"

lemma hex_digit_range: "hex_digit c = Some d \<Longrightarrow> unat d < 16"
  by (auto simp: hex_digit_def Let_def unat_of_nat simp del: of_nat_diff split: if_splits)

lemma hex_digit_of_digit: "n < 16 \<Longrightarrow> hex_digit (hex_digits ! n) = Some (of_nat n)"
proof -
  have "\<forall>n \<in> set [0..<16]. hex_digit (hex_digits ! n) = Some (of_nat n)"
    by code_simp
  then show "n < 16 \<Longrightarrow> ?thesis" by simp
qed

lemma decode_step:
  fixes v d :: u64
  assumes "unat v < 16 ^ 15" "unat d < 16"
  shows "\<not> v > (- 1 - d) div 16" "unat (v * 16 + d) = unat v * 16 + unat d"
proof -
  have "unat (- 1 :: u64) = 2 ^ 64 - 1" by (simp add: unsigned_minus_1_eq_mask mask_eq_exp_minus_1)
  moreover have "d \<le> - 1" by simp
  ultimately have "unat (- 1 - d) = 2 ^ 64 - 1 - unat d"
    by (simp only: unat_sub)
  then have "unat ((- 1 - d) div 16) = (2 ^ 64 - 1 - unat d) div 16"
    by (simp add: unat_div)
  moreover have "(2 ^ 64 - 1 - unat d) div 16 = 2 ^ 60 - 1"
    using assms(2) by simp
  ultimately show "\<not> v > (- 1 - d) div 16"
    using assms(1) by (simp add: word_less_nat_alt not_less)
  show "unat (v * 16 + d) = unat v * 16 + unat d"
    using assms by (simp add: unat_word_ariths)
qed

lemma decode_loop_hex:
  "unat v < 16 ^ k \<Longrightarrow> k + length cs \<le> 16 \<Longrightarrow>
   decode_loop v cs = map_option of_nat (hex_number (unat v) cs)"
proof (induction cs arbitrary: v k)
  case Nil
  then show ?case by simp
next
  case (Cons c cs)
  show ?case
  proof (cases "hex_digit c")
    case None
    then show ?thesis by simp
  next
    case (Some d)
    have d: "unat d < 16" using Some by (rule hex_digit_range)
    have "(16::nat) ^ k \<le> 16 ^ 15" using Cons.prems(2) by (intro power_increasing) auto
    then have v: "unat v < 16 ^ 15" using Cons.prems(1) by linarith
    have "unat v * 16 + unat d < 16 ^ Suc k" using Cons.prems(1) d by simp
    then show ?thesis
      using Some Cons.IH [of "v * 16 + d" "Suc k"] Cons.prems(2) decode_step [OF v d] by simp
  qed
qed

lemma hex_number_encode_loop:
  "hex_number a (encode_loop n v out) = hex_number (a * 16 ^ n + unat v mod 16 ^ n) out"
proof (induction n arbitrary: v out)
  case 0
  then show ?case by simp
next
  case (Suc n)
  have dig: "unat (v AND 15) = unat v mod 16"
  proof -
    have "v AND 15 = v mod 16"
      using take_bit_eq_mask [of 4 v] by (simp add: take_bit_eq_mod mask_eq_exp_minus_1)
    then show ?thesis by (simp add: unat_mod)
  qed
  have "hex_digit (hex_digits ! (unat v mod 16)) = Some (of_nat (unat v mod 16))"
    by (rule hex_digit_of_digit) simp
  moreover have "unat (of_nat (unat v mod 16) :: u64) = unat v mod 16"
    by (simp add: unat_of_nat)
  moreover have "unat (drop_bit 4 v) = unat v div 16"
    by (simp add: unat_drop_bit_eq) (simp add: drop_bit_eq_div)
  ultimately show ?case
    by (simp add: Suc.IH dig mod_mult2_eq algebra_simps)
qed

lemma length_encode_loop: "length (encode_loop n v out) = n + length out"
  by (induction n arbitrary: v out) auto

lemma decode_loop_0: "length s \<le> 16 \<Longrightarrow> decode_loop 0 s = map_option of_nat (hex_number 0 s)"
  using decode_loop_hex [of 0 0 s] by simp

lemma hex_number_bound:
  "hex_number a s = Some n \<Longrightarrow> n < (a + 1) * 16 ^ length s"
proof (induction s arbitrary: a)
  case (Cons c s)
  then obtain d where d: "hex_digit c = Some d" "hex_number (a * 16 + unat d) s = Some n"
    by (auto split: option.splits)
  have "n < (a * 16 + unat d + 1) * 16 ^ length s" using Cons.IH d(2) by blast
  also have "\<dots> \<le> ((a + 1) * 16) * 16 ^ length s"
    using hex_digit_range [OF d(1)] by (intro mult_le_mono1) simp
  finally show ?case by (simp add: algebra_simps)
qed simp

text \<open>
  The decoder inverts the encoder on every valid identity, and refuses an identity its tag
  does not admit.
\<close>

lemma id_decode_encode:
  "id_decode tr (id_encode i) = (if id_valid tr i then Some i else None)"
proof -
  have "length (id_encode i) = 16" by (simp add: id_encode_def length_encode_loop)
  moreover have "hex_number 0 (id_encode i) = Some (unat (as_u64 i))"
    using hex_number_encode_loop [of 0 16 "as_u64 i" "[]"] unsigned_less [of "as_u64 i", where ?'a = nat]
    by (simp add: id_encode_def)
  ultimately show ?thesis
    by (auto simp: id_decode_def decode_loop_0)
qed

lemma id_decode_Some_iff:
  "id_decode tr s = Some i \<longleftrightarrow>
     s \<noteq> [] \<and> length s \<le> 16 \<and> hex_number 0 s = Some (unat (as_u64 i)) \<and> id_valid tr i"
proof (cases "s \<noteq> [] \<and> length s \<le> 16")
  case True
  have "n < 2 ^ 64" if "hex_number 0 s = Some n" for n
  proof -
    have "n < 16 ^ length s" using hex_number_bound [OF that] by simp
    also have "\<dots> \<le> (16::nat) ^ 16" using True by (intro power_increasing) auto
    finally show ?thesis by simp
  qed
  then show ?thesis
    using True by (cases i) (auto simp: id_decode_def decode_loop_0 unat_of_nat split: option.splits)
qed (auto simp: id_decode_def)

end
