(* ===== verification/StdMap.thy ===== *)
theory StdMap
  imports Prelude
begin

text \<open>
  The ordered map \<^verbatim>\<open>std::map<K, V>\<close> of the C++ standard library, as far as the code uses it:
  \<^verbatim>\<open>find\<close>, \<^verbatim>\<open>count\<close>, assignment through \<^verbatim>\<open>m[k] = v\<close>, \<^verbatim>\<open>emplace\<close>, \<^verbatim>\<open>erase\<close>, \<^verbatim>\<open>clear\<close>, \<^verbatim>\<open>size\<close>,
  in-order iteration, and loops that update every element in place. A map is the list of its
  entries in key order; the operations keep the order.

  The locale \<open>std_map\<close> is the interface the components rely on: lookup laws for each operation,
  the order invariant, and that iteration yields exactly the entries, each key once. What the
  clients need beyond the laws (rebuilding a map from its entries, as the state loader does) is
  proved once inside it. The interpretation \<open>smap\<close> discharges the laws for the model's lists.
\<close>

section \<open>Operations\<close>

type_synonym ('k, 'v) stdmap = "('k \<times> 'v) list"

fun map_find :: "('k, 'v) stdmap \<Rightarrow> 'k \<Rightarrow> 'v option" where
  "map_find [] k = None"
| "map_find ((k', v) # m) k = (if k = k' then Some v else map_find m k)"

definition map_count :: "('k, 'v) stdmap \<Rightarrow> 'k \<Rightarrow> bool" where
  "map_count m k \<longleftrightarrow> map_find m k \<noteq> None"

fun map_set :: "'k::linorder \<Rightarrow> 'v \<Rightarrow> ('k, 'v) stdmap \<Rightarrow> ('k, 'v) stdmap" where
  "map_set k v [] = [(k, v)]"
| "map_set k v ((k', v') # m) =
     (if k < k' then (k, v) # (k', v') # m
      else if k = k' then (k, v) # m
      else (k', v') # map_set k v m)"

definition map_emplace :: "'k::linorder \<Rightarrow> 'v \<Rightarrow> ('k, 'v) stdmap \<Rightarrow> ('k, 'v) stdmap" where
  "map_emplace k v m = (if map_count m k then m else map_set k v m)"

definition map_erase :: "'k \<Rightarrow> ('k, 'v) stdmap \<Rightarrow> ('k, 'v) stdmap" where
  "map_erase k m = filter (\<lambda>e. fst e \<noteq> k) m"

text \<open>A loop \<^verbatim>\<open>for (auto& [k, v] : m) v = f(k, v)\<close>, and the entries in iteration order.\<close>

definition map_update_all :: "('k \<Rightarrow> 'v \<Rightarrow> 'v) \<Rightarrow> ('k, 'v) stdmap \<Rightarrow> ('k, 'v) stdmap" where
  "map_update_all f m = map (\<lambda>(k, v). (k, f k v)) m"

definition map_entries :: "('k, 'v) stdmap \<Rightarrow> ('k \<times> 'v) list" where
  "map_entries m = m"

definition map_ordered :: "('k::linorder, 'v) stdmap \<Rightarrow> bool" where
  "map_ordered m \<longleftrightarrow> sorted_wrt (<) (map fst m)"

section \<open>The interface\<close>

locale std_map =
  fixes look :: "'m \<Rightarrow> 'k::linorder \<Rightarrow> 'v option"
    and assign :: "'k \<Rightarrow> 'v \<Rightarrow> 'm \<Rightarrow> 'm"
    and erase :: "'k \<Rightarrow> 'm \<Rightarrow> 'm"
    and update_all :: "('k \<Rightarrow> 'v \<Rightarrow> 'v) \<Rightarrow> 'm \<Rightarrow> 'm"
    and entries :: "'m \<Rightarrow> ('k \<times> 'v) list"
    and empty :: "'m"
    and ordered :: "'m \<Rightarrow> bool"
  assumes look_empty: "look empty k = None"
    and look_assign: "look (assign k v m) k' = (if k' = k then Some v else look m k')"
    and look_erase: "look (erase k m) k' = (if k' = k then None else look m k')"
    and look_update_all: "look (update_all f m) k = map_option (f k) (look m k)"
    and ordered_empty: "ordered empty"
    and ordered_assign: "ordered m \<Longrightarrow> ordered (assign k v m)"
    and ordered_erase: "ordered m \<Longrightarrow> ordered (erase k m)"
    and ordered_update_all: "ordered m \<Longrightarrow> ordered (update_all f m)"
    and ordered_keys: "ordered m \<Longrightarrow> distinct (map fst (entries m))"
    and entry_iff: "ordered m \<Longrightarrow> (k, v) \<in> set (entries m) \<longleftrightarrow> look m k = Some v"
    and map_ext: "ordered m \<Longrightarrow> ordered m' \<Longrightarrow> (\<And>k. look m k = look m' k) \<Longrightarrow> m = m'"
begin

text \<open>The loop of a loader that assigns a sequence of entries to a map.\<close>

definition assign_list :: "('k \<times> 'v) list \<Rightarrow> 'm \<Rightarrow> 'm" where
  "assign_list es m = fold (\<lambda>(k, v). assign k v) es m"

lemma assign_list_simps [simp]:
  "assign_list [] m = m"
  "assign_list ((k, v) # es) m = assign_list es (assign k v m)"
  by (simp_all add: assign_list_def)

lemma ordered_assign_list: "ordered m \<Longrightarrow> ordered (assign_list es m)"
  by (induction es arbitrary: m) (auto simp: ordered_assign)

lemma look_assign_list:
  assumes "distinct (map fst es)"
  shows "look (assign_list es m) k = (case map_of es k of Some v \<Rightarrow> Some v | None \<Rightarrow> look m k)"
  using assms
proof (induction es arbitrary: m)
  case Nil
  then show ?case by simp
next
  case (Cons e es)
  obtain k' v where e: "e = (k', v)" by (cases e)
  have "k' \<notin> fst ` set es" using Cons.prems e by simp
  then have "map_of es k' = None" by (simp add: map_of_eq_None_iff)
  with Cons e show ?case by (auto simp: look_assign split: option.splits)
qed

theorem rebuild: "ordered m \<Longrightarrow> assign_list (entries m) empty = m"
proof (rule map_ext)
  assume m: "ordered m"
  show "ordered (assign_list (entries m) empty)"
    by (simp add: ordered_assign_list ordered_empty)
  fix k
  have "map_of (entries m) k = look m k"
  proof (cases "look m k")
    case None
    then have "k \<notin> fst ` set (entries m)" using entry_iff [OF m] by auto
    then show ?thesis using None by (simp add: map_of_eq_None_iff)
  next
    case (Some v)
    then show ?thesis using entry_iff [OF m] ordered_keys [OF m] by (simp add: map_of_is_SomeI)
  qed
  then show "look (assign_list (entries m) empty) k = look m k"
    using ordered_keys [OF m] by (simp add: look_assign_list look_empty split: option.splits)
qed

lemma update_all_other: "f k = (\<lambda>v. v) \<Longrightarrow> look (update_all f m) k = look m k"
  by (simp add: look_update_all option.map_ident)

lemma update_all_ident:
  assumes "ordered m" "\<And>k v. look m k = Some v \<Longrightarrow> f k v = v"
  shows "update_all f m = m"
proof (rule map_ext)
  show "ordered (update_all f m)" using assms(1) by (rule ordered_update_all)
  show "look (update_all f m) k = look m k" for k
    using assms(2) [of k] by (cases "look m k") (simp_all add: look_update_all)
qed (fact assms(1))

end

section \<open>The model satisfies the interface\<close>

lemma map_find_set [simp]:
  "map_find (map_set k v m) k' = (if k' = k then Some v else map_find m k')"
  by (induction k v m rule: map_set.induct) auto

lemma map_set_set [simp]: "map_set k v (map_set k v' m) = map_set k v m"
  by (induction k v' m rule: map_set.induct) auto

lemma map_set_not_Nil [simp]: "map_set k v m \<noteq> []"
  by (induction k v m rule: map_set.induct) auto

lemma map_find_erase [simp]:
  "map_find (map_erase k m) k' = (if k' = k then None else map_find m k')"
  by (induction m) (auto simp: map_erase_def)

lemma map_find_update_all [simp]:
  "map_find (map_update_all f m) k = map_option (f k) (map_find m k)"
  by (induction m) (auto simp: map_update_all_def)

lemma map_find_emplace [simp]:
  "map_find (map_emplace k v m) k' =
     (if k' = k \<and> map_find m k = None then Some v else map_find m k')"
  by (auto simp: map_emplace_def map_count_def)

lemma map_count_set [simp]: "map_count (map_set k v m) k' \<longleftrightarrow> k' = k \<or> map_count m k'"
  by (simp add: map_count_def)

lemma map_count_update_all [simp]: "map_count (map_update_all f m) k \<longleftrightarrow> map_count m k"
  by (simp add: map_count_def)

lemma set_keys_map_set: "fst ` set (map_set k v m) = insert k (fst ` set m)"
  by (induction k v m rule: map_set.induct) auto

lemma map_ordered_set [simp]: "map_ordered m \<Longrightarrow> map_ordered (map_set k v m)"
proof (induction k v m rule: map_set.induct)
  case (2 k v k' v' m)
  then show ?case
    using set_keys_map_set [of k v m] by (auto simp: map_ordered_def dest: less_trans)
qed (simp add: map_ordered_def)

lemma map_ordered_erase [simp]: "map_ordered m \<Longrightarrow> map_ordered (map_erase k m)"
  by (induction m) (auto simp: map_ordered_def map_erase_def)

lemma map_ordered_update_all [simp]: "map_ordered m \<Longrightarrow> map_ordered (map_update_all f m)"
  by (simp add: map_ordered_def map_update_all_def comp_def split_def)

lemma map_ordered_emplace [simp]: "map_ordered m \<Longrightarrow> map_ordered (map_emplace k v m)"
  by (simp add: map_emplace_def)

lemma map_ordered_Nil [simp]: "map_ordered []"
  by (simp add: map_ordered_def)

lemma map_ordered_singleton [simp]: "map_ordered [(k, v)]"
  by (simp add: map_ordered_def)

lemma map_find_map_of: "map_find m k = map_of m k"
  by (induction m) auto

lemma map_ordered_distinct: "map_ordered m \<Longrightarrow> distinct (map fst m)"
  by (auto simp: map_ordered_def strict_sorted_iff)

lemma map_ordered_entry:
  "map_ordered m \<Longrightarrow> (k, v) \<in> set (map_entries m) \<longleftrightarrow> map_find m k = Some v"
  by (simp add: map_find_map_of map_entries_def map_ordered_distinct)

lemma map_ordered_ext:
  assumes "map_ordered m" "map_ordered m'" "\<And>k. map_find m k = map_find m' k"
  shows "m = m'"
proof -
  have "sorted (map fst m)" "sorted (map fst m')" "distinct (map fst m)" "distinct (map fst m')"
    using assms(1,2) by (auto simp: map_ordered_def strict_sorted_iff)
  moreover have "set m = set m'"
    using assms map_ordered_entry [of m] map_ordered_entry [of m'] by (auto simp: map_entries_def)
  ultimately show ?thesis
    by (intro map_sorted_distinct_set_unique [of fst]) (auto simp: distinct_map)
qed

interpretation smap: std_map map_find map_set map_erase map_update_all map_entries "[]" map_ordered
proof unfold_locales
  show "map_ordered m \<Longrightarrow> distinct (map fst (map_entries m))" for m :: "('a, 'b) stdmap"
    by (simp add: map_entries_def map_ordered_distinct)
qed (simp_all add: map_ordered_entry map_ordered_ext)

text \<open>\<open>map_find\<close> only ever returns an entry of the list.\<close>

lemma map_find_in_set: "map_find m k = Some v \<Longrightarrow> (k, v) \<in> set m"
  by (induction m) (auto split: if_splits)

lemma map_find_None_keys: "map_find m k = None \<longleftrightarrow> k \<notin> fst ` set m"
  by (simp add: map_find_map_of map_of_eq_None_iff)

end
