(* ===== verification/Capability.thy ===== *)
theory Capability
  imports Types Ids StdMap "HOL-Library.List_Lexorder" "HOL-Library.Char_ord"
begin

text \<open>
  The typed capability model of \<^verbatim>\<open>include/dpufabric/capability.h\<close>: validated keys, capability
  records, requirements, and the ordered set of records a device carries. The lemmas give the
  fail-closed reading of a capability state: only a record whose state is \<open>SUPPORTED\<close> makes a
  key authoritative, and every other state, absence included, does not.
\<close>

section \<open>Keys\<close>

datatype (plugins only: code size) CapabilityKey = CapabilityKey (key_str: string)

text \<open>Keys are ordered as \<^verbatim>\<open>std::string\<close> is: lexicographically by unsigned bytes.\<close>

instantiation CapabilityKey :: linorder
begin

definition less_eq_CapabilityKey :: "CapabilityKey \<Rightarrow> CapabilityKey \<Rightarrow> bool" where
  "less_eq_CapabilityKey a b \<longleftrightarrow> key_str a \<le> key_str b"

definition less_CapabilityKey :: "CapabilityKey \<Rightarrow> CapabilityKey \<Rightarrow> bool" where
  "less_CapabilityKey a b \<longleftrightarrow> key_str a < key_str b"

instance
  by intro_classes
    (auto simp: less_eq_CapabilityKey_def less_CapabilityKey_def intro: CapabilityKey.expand)

end

definition kMaxLen :: nat where
  "kMaxLen = 64"

definition key_char :: "char \<Rightarrow> bool" where
  "key_char c \<longleftrightarrow>
     (CHR ''A'' \<le> c \<and> c \<le> CHR ''Z'') \<or> (CHR ''a'' \<le> c \<and> c \<le> CHR ''z'') \<or>
     (CHR ''0'' \<le> c \<and> c \<le> CHR ''9'') \<or> c = CHR ''_'' \<or> c = CHR ''-''"

definition key_is_valid :: "string \<Rightarrow> bool" where
  "key_is_valid s = (if s = [] \<or> length s > kMaxLen then False else list_all key_char s)"

definition make_key :: "string \<Rightarrow> CapabilityKey result" where
  "make_key s =
     (if \<not> key_is_valid s then throw_error ErrorCode.INVALID_ARGUMENT ''invalid capability key''
      else Inr (CapabilityKey s))"

section \<open>Records and requirements\<close>

record Capability =
  cp_key :: CapabilityKey
  cp_state :: CapabilityState
  cp_evidence_gen :: EvidenceGeneration
  cp_version :: u64
  cp_min_firmware_gen :: FirmwareGeneration
  cp_min_runtime_gen :: RuntimeGeneration
  cp_max_scale :: u64
  cp_requires_isolation :: bool
  cp_source :: ProvenanceSource
  cp_detail :: string

definition Capability_init :: Capability where
  "Capability_init =
     \<lparr>cp_key = CapabilityKey [], cp_state = CapabilityState.UNKNOWN, cp_evidence_gen = null_id,
      cp_version = 0, cp_min_firmware_gen = null_id, cp_min_runtime_gen = null_id,
      cp_max_scale = 0, cp_requires_isolation = False,
      cp_source = ProvenanceSource.CONFIGURED, cp_detail = []\<rparr>"

definition satisfies_hard :: "Capability \<Rightarrow> bool" where
  "satisfies_hard c \<longleftrightarrow> cp_state c = CapabilityState.SUPPORTED"

record CapabilityRequirement =
  cr_key :: CapabilityKey
  cr_optional :: bool
  cr_min_version :: u64

section \<open>Capability sets\<close>

type_synonym CapabilitySet = "(CapabilityKey, Capability) stdmap"

definition state_of :: "CapabilitySet \<Rightarrow> CapabilityKey \<Rightarrow> CapabilityState" where
  "state_of m k =
     (case map_find m k of None \<Rightarrow> CapabilityState.UNSUPPORTED | Some c \<Rightarrow> cp_state c)"

definition supports :: "CapabilitySet \<Rightarrow> CapabilityKey \<Rightarrow> bool" where
  "supports m k \<longleftrightarrow> state_of m k = CapabilityState.SUPPORTED"

definition caps_add :: "Capability \<Rightarrow> CapabilitySet \<Rightarrow> CapabilitySet" where
  "caps_add c m = map_set (cp_key c) c m"

definition caps_remove :: "CapabilityKey \<Rightarrow> CapabilitySet \<Rightarrow> CapabilitySet" where
  "caps_remove k m = map_erase k m"

definition caps_set_state :: "CapabilityKey \<Rightarrow> CapabilityState \<Rightarrow> CapabilitySet \<Rightarrow> CapabilitySet" where
  "caps_set_state k s m =
     (case map_find m k of
        None \<Rightarrow>
          if s \<noteq> CapabilityState.SUPPORTED then m
          else map_set k (Capability_init\<lparr>cp_key := k, cp_state := s\<rparr>) m
      | Some c \<Rightarrow> map_set k (c\<lparr>cp_state := s\<rparr>) m)"

definition authoritative :: "CapabilitySet \<Rightarrow> CapabilityKey \<Rightarrow> bool" where
  "authoritative m k \<longleftrightarrow>
     (case map_find m k of None \<Rightarrow> False | Some c \<Rightarrow> cp_state c = CapabilityState.SUPPORTED)"

section \<open>Facts\<close>

lemma make_key_Inr: "make_key s = Inr k \<longleftrightarrow> key_is_valid s \<and> k = CapabilityKey s"
  by (auto simp: make_key_def)

lemma authoritative_iff: "authoritative m k \<longleftrightarrow> supports m k"
  by (auto simp: authoritative_def supports_def state_of_def split: option.splits)

lemma authoritative_record: "authoritative m k \<longleftrightarrow> (\<exists>c. map_find m k = Some c \<and> satisfies_hard c)"
  by (auto simp: authoritative_def satisfies_hard_def split: option.splits)

lemma state_of_add: "state_of (caps_add c m) k = (if k = cp_key c then cp_state c else state_of m k)"
  by (simp add: state_of_def caps_add_def)

lemma state_of_remove:
  "state_of (caps_remove k m) k' = (if k' = k then CapabilityState.UNSUPPORTED else state_of m k')"
  by (simp add: state_of_def caps_remove_def)

text \<open>
  Setting the state of a key leaves every other key alone. For the key itself the new state is
  what a reader sees, with one exception: an absent key stays absent, hence \<open>UNSUPPORTED\<close>,
  unless the new state is \<open>SUPPORTED\<close>.
\<close>

lemma state_of_set_state:
  "state_of (caps_set_state k s m) k' =
     (if k' \<noteq> k then state_of m k'
      else if map_count m k \<or> s = CapabilityState.SUPPORTED then s
      else CapabilityState.UNSUPPORTED)"
  by (auto simp: state_of_def caps_set_state_def map_count_def split: option.splits)

lemma supports_set_state:
  "supports (caps_set_state k s m) k' \<longleftrightarrow>
     (if k' = k then s = CapabilityState.SUPPORTED else supports m k')"
  by (auto simp: supports_def state_of_set_state)

definition caps_wf :: "CapabilitySet \<Rightarrow> bool" where
  "caps_wf m \<longleftrightarrow> map_ordered m \<and> (\<forall>k c. map_find m k = Some c \<longrightarrow> cp_key c = k)"

lemma caps_wf_add: "caps_wf m \<Longrightarrow> caps_wf (caps_add c m)"
  by (auto simp: caps_wf_def caps_add_def)

lemma caps_wf_set_state: "caps_wf m \<Longrightarrow> caps_wf (caps_set_state k s m)"
  by (auto simp: caps_wf_def caps_set_state_def Capability_init_def split: option.splits)

end
