(* ===== verification/Resource.thy ===== *)
theory Resource
  imports Prelude
begin

text \<open>
  Resource profiles and the per-device accounting ledger of
  \<^verbatim>\<open>include/dpufabric/resource.h\<close>. Every quantity is a \<^verbatim>\<open>uint64_t\<close>, so the sums of the
  admission test and of the bookkeeping wrap at \<open>2 ^ 64\<close> as they do in the code.

  The lemmas show that reservation and release never take a bounded dimension past its
  capacity, that an uncommitted reservation is undone exactly when no sum wraps, and that for
  requests without wrap-around the ledger computes the exact sums.
\<close>

section \<open>Profiles, requests, usage\<close>

record ResourceProfile =
  rp_memory_bytes :: u64
  rp_queues :: u64
  rp_functions :: u64
  rp_slots :: u64
  rp_contexts :: u64

record ResourceRequest =
  rr_memory_bytes :: u64
  rr_queues :: u64
  rr_functions :: u64
  rr_slots :: u64
  rr_contexts :: u64

record Usage =
  us_memory_bytes :: u64
  us_queues :: u64
  us_functions :: u64
  us_slots :: u64
  us_contexts :: u64

definition ResourceProfile_init :: ResourceProfile where
  "ResourceProfile_init =
     \<lparr>rp_memory_bytes = 0, rp_queues = 0, rp_functions = 0, rp_slots = 0, rp_contexts = 0\<rparr>"

definition ResourceRequest_init :: ResourceRequest where
  "ResourceRequest_init =
     \<lparr>rr_memory_bytes = 0, rr_queues = 0, rr_functions = 0, rr_slots = 1, rr_contexts = 1\<rparr>"

definition Usage_init :: Usage where
  "Usage_init =
     \<lparr>us_memory_bytes = 0, us_queues = 0, us_functions = 0, us_slots = 0, us_contexts = 0\<rparr>"

record ResourceLedger =
  lg_cap :: ResourceProfile
  lg_used :: Usage

definition ledger_new :: "ResourceProfile \<Rightarrow> ResourceLedger" where
  "ledger_new cap = \<lparr>lg_cap = cap, lg_used = Usage_init\<rparr>"

section \<open>Operations of the ledger\<close>

definition headroom_dim :: "u64 \<Rightarrow> u64 \<Rightarrow> u64" where
  "headroom_dim used cap =
     (if cap = 0 then 100
      else if used \<ge> cap then 0
      else ((cap - used) * 100) div cap)"

definition ledger_headroom :: "ResourceLedger \<Rightarrow> u64" where
  "ledger_headroom l =
     (let u = lg_used l; c = lg_cap l; frac = 100;
          frac = min frac (headroom_dim (us_memory_bytes u) (rp_memory_bytes c));
          frac = min frac (headroom_dim (us_queues u) (rp_queues c));
          frac = min frac (headroom_dim (us_functions u) (rp_functions c));
          frac = min frac (headroom_dim (us_slots u) (rp_slots c));
          frac = min frac (headroom_dim (us_contexts u) (rp_contexts c))
      in frac)"

definition fits :: "ResourceProfile \<Rightarrow> Usage \<Rightarrow> ResourceRequest \<Rightarrow> bool" where
  "fits c u r =
     (if rp_memory_bytes c \<noteq> 0 \<and> us_memory_bytes u + rr_memory_bytes r > rp_memory_bytes c
      then False
      else if rp_queues c \<noteq> 0 \<and> us_queues u + rr_queues r > rp_queues c then False
      else if rp_functions c \<noteq> 0 \<and> us_functions u + rr_functions r > rp_functions c then False
      else if rp_slots c \<noteq> 0 \<and> us_slots u + rr_slots r > rp_slots c then False
      else if rp_contexts c \<noteq> 0 \<and> us_contexts u + rr_contexts r > rp_contexts c then False
      else True)"

definition can_reserve :: "ResourceLedger \<Rightarrow> ResourceRequest \<Rightarrow> bool" where
  "can_reserve l r = fits (lg_cap l) (lg_used l) r"

definition usage_add :: "ResourceRequest \<Rightarrow> Usage \<Rightarrow> Usage" where
  "usage_add r u =
     \<lparr>us_memory_bytes = us_memory_bytes u + rr_memory_bytes r,
      us_queues = us_queues u + rr_queues r,
      us_functions = us_functions u + rr_functions r,
      us_slots = us_slots u + rr_slots r,
      us_contexts = us_contexts u + rr_contexts r\<rparr>"

definition usage_sub :: "ResourceRequest \<Rightarrow> Usage \<Rightarrow> Usage" where
  "usage_sub r u =
     \<lparr>us_memory_bytes = us_memory_bytes u - rr_memory_bytes r,
      us_queues = us_queues u - rr_queues r,
      us_functions = us_functions u - rr_functions r,
      us_slots = us_slots u - rr_slots r,
      us_contexts = us_contexts u - rr_contexts r\<rparr>"

definition ledger_apply :: "ResourceRequest \<Rightarrow> ResourceLedger \<Rightarrow> ResourceLedger" where
  "ledger_apply r l = l\<lparr>lg_used := usage_add r (lg_used l)\<rparr>"

definition underflows :: "ResourceRequest \<Rightarrow> Usage \<Rightarrow> bool" where
  "underflows r u \<longleftrightarrow>
     us_memory_bytes u < rr_memory_bytes r \<or> us_queues u < rr_queues r \<or>
     us_functions u < rr_functions r \<or> us_slots u < rr_slots r \<or> us_contexts u < rr_contexts r"

definition ledger_release :: "ResourceRequest \<Rightarrow> ResourceLedger \<Rightarrow> ResourceLedger" where
  "ledger_release r l =
     (if underflows r (lg_used l) then l else l\<lparr>lg_used := usage_sub r (lg_used l)\<rparr>)"

section \<open>Scoped reservations\<close>

text \<open>
  A reservation object points at its ledger; moving it leaves the source detached. The pointer
  is the flag \<open>sr_attached\<close>, and every operation on the object takes and returns the ledger.
\<close>

record ScopedReservation =
  sr_attached :: bool
  sr_req :: ResourceRequest
  sr_applied :: bool
  sr_committed :: bool

definition reservation_open ::
  "ResourceRequest \<Rightarrow> ResourceLedger \<Rightarrow> ScopedReservation \<times> ResourceLedger" where
  "reservation_open r l =
     (\<lparr>sr_attached = True, sr_req = r, sr_applied = True, sr_committed = False\<rparr>,
      ledger_apply r l)"

definition try_reserve ::
  "ResourceRequest \<Rightarrow> ResourceLedger \<Rightarrow> (ScopedReservation \<times> ResourceLedger) result" where
  "try_reserve r l =
     (if \<not> can_reserve l r
      then throw_error ErrorCode.RESOURCE_EXHAUSTED ''resource budget exceeded''
      else Inr (reservation_open r l))"

definition reservation_commit :: "ScopedReservation \<Rightarrow> ScopedReservation" where
  "reservation_commit s = s\<lparr>sr_committed := True\<rparr>"

definition reservation_move :: "ScopedReservation \<Rightarrow> ScopedReservation \<times> ScopedReservation" where
  "reservation_move s = (s, s\<lparr>sr_applied := False, sr_attached := False\<rparr>)"

definition reservation_destroy :: "ScopedReservation \<Rightarrow> ResourceLedger \<Rightarrow> ResourceLedger" where
  "reservation_destroy s l =
     (if sr_attached s \<and> sr_applied s \<and> \<not> sr_committed s then ledger_release (sr_req s) l else l)"

section \<open>Capacity bound\<close>

definition within :: "u64 \<Rightarrow> u64 \<Rightarrow> bool" where
  "within used cap \<longleftrightarrow> cap = 0 \<or> used \<le> cap"

definition within_capacity :: "ResourceLedger \<Rightarrow> bool" where
  "within_capacity l \<longleftrightarrow>
     within (us_memory_bytes (lg_used l)) (rp_memory_bytes (lg_cap l)) \<and>
     within (us_queues (lg_used l)) (rp_queues (lg_cap l)) \<and>
     within (us_functions (lg_used l)) (rp_functions (lg_cap l)) \<and>
     within (us_slots (lg_used l)) (rp_slots (lg_cap l)) \<and>
     within (us_contexts (lg_used l)) (rp_contexts (lg_cap l))"

lemma within_sub: "within u c \<Longrightarrow> r \<le> u \<Longrightarrow> within (u - r) c" for u r c :: u64
  by (auto simp: within_def word_le_nat_alt unat_sub)

lemma within_capacity_new [simp]: "within_capacity (ledger_new cap)"
  by (simp add: within_capacity_def ledger_new_def Usage_init_def within_def)

lemma within_capacity_apply: "can_reserve l r \<Longrightarrow> within_capacity (ledger_apply r l)"
  by (auto simp: can_reserve_def fits_def within_capacity_def ledger_apply_def usage_add_def
      within_def not_less split: if_splits)

lemma within_capacity_release: "within_capacity l \<Longrightarrow> within_capacity (ledger_release r l)"
  by (auto simp: within_capacity_def ledger_release_def usage_sub_def underflows_def not_less
      intro: within_sub)

lemma lg_cap_apply [simp]: "lg_cap (ledger_apply r l) = lg_cap l"
  by (simp add: ledger_apply_def)

lemma lg_cap_release [simp]: "lg_cap (ledger_release r l) = lg_cap l"
  by (simp add: ledger_release_def)

section \<open>Wrap-around\<close>

definition no_wrap :: "ResourceRequest \<Rightarrow> Usage \<Rightarrow> bool" where
  "no_wrap r u \<longleftrightarrow>
     unat (us_memory_bytes u) + unat (rr_memory_bytes r) < 2 ^ 64 \<and>
     unat (us_queues u) + unat (rr_queues r) < 2 ^ 64 \<and>
     unat (us_functions u) + unat (rr_functions r) < 2 ^ 64 \<and>
     unat (us_slots u) + unat (rr_slots r) < 2 ^ 64 \<and>
     unat (us_contexts u) + unat (rr_contexts r) < 2 ^ 64"

lemma add_less_iff_wrap: "a + b < b \<longleftrightarrow> \<not> unat a + unat b < 2 ^ 64" for a b :: u64
proof -
  have "b \<le> b + a \<longleftrightarrow> unat a + unat b < 2 ^ 64"
    using no_olen_add_nat [of b a] by (simp add: add.commute [of "unat b"])
  then show ?thesis by (metis add.commute not_le)
qed

lemma no_wrap_iff: "no_wrap r u \<longleftrightarrow> \<not> underflows r (usage_add r u)"
  by (auto simp: no_wrap_def underflows_def usage_add_def add_less_iff_wrap)

text \<open>
  A reservation that is taken and given back leaves the ledger as it was exactly when no sum
  wraps: after a wrap the release sees an underflow, returns early, and the amounts of the
  other dimensions stay booked.
\<close>

lemma release_apply: "ledger_release r (ledger_apply r l) = l \<longleftrightarrow> no_wrap r (lg_used l)"
proof (cases "no_wrap r (lg_used l)")
  case True
  then have "\<not> underflows r (usage_add r (lg_used l))" by (simp add: no_wrap_iff)
  then show ?thesis
    using True by (simp add: ledger_release_def ledger_apply_def usage_add_def usage_sub_def)
next
  case False
  then have u: "underflows r (usage_add r (lg_used l))" by (simp add: no_wrap_iff)
  have "usage_add r (lg_used l) \<noteq> lg_used l"
  proof
    assume "usage_add r (lg_used l) = lg_used l"
    then have "r = \<lparr>rr_memory_bytes = 0, rr_queues = 0, rr_functions = 0, rr_slots = 0,
        rr_contexts = 0\<rparr>"
      by (cases "lg_used l", cases r) (auto simp: usage_add_def)
    then show False using u by (simp add: underflows_def)
  qed
  then have "ledger_apply r l \<noteq> l"
    by (metis ResourceLedger.select_convs(2) ResourceLedger.surjective
        ResourceLedger.update_convs(2) ledger_apply_def)
  then show ?thesis using False u by (simp add: ledger_release_def ledger_apply_def)
qed

text \<open>The exact sums, as natural numbers: what a ledger is meant to compute.\<close>

definition usage_nat :: "Usage \<Rightarrow> nat list" where
  "usage_nat u = map unat
     [us_memory_bytes u, us_queues u, us_functions u, us_slots u, us_contexts u]"

definition request_nat :: "ResourceRequest \<Rightarrow> nat list" where
  "request_nat r = map unat
     [rr_memory_bytes r, rr_queues r, rr_functions r, rr_slots r, rr_contexts r]"

definition profile_nat :: "ResourceProfile \<Rightarrow> nat list" where
  "profile_nat c = map unat
     [rp_memory_bytes c, rp_queues c, rp_functions c, rp_slots c, rp_contexts c]"

definition add_nats :: "nat list \<Rightarrow> nat list \<Rightarrow> nat list" where
  "add_nats xs ys = map2 (+) xs ys"

definition bounded_nats :: "nat list \<Rightarrow> nat list \<Rightarrow> bool" where
  "bounded_nats cs us \<longleftrightarrow> list_all2 (\<lambda>c u. c = 0 \<or> u \<le> c) cs us"

lemma usage_nat_add: "no_wrap r u \<Longrightarrow> usage_nat (usage_add r u) = add_nats (usage_nat u) (request_nat r)"
  by (simp add: no_wrap_def usage_nat_def usage_add_def request_nat_def add_nats_def
      unat_add_no_wrap)

lemma fits_exact:
  "no_wrap r u \<Longrightarrow>
   fits c u r \<longleftrightarrow> bounded_nats (profile_nat c) (add_nats (usage_nat u) (request_nat r))"
  by (auto simp: no_wrap_def fits_def bounded_nats_def profile_nat_def add_nats_def usage_nat_def
      request_nat_def word_less_nat_alt unat_add_no_wrap unat_eq_0 not_less)

section \<open>The ledger as a store of reservations\<close>

text \<open>
  The contract the engine relies on: a ledger that starts empty, admits, books and releases,
  with the capacity bound as its invariant. Whatever sequence of admitted bookings and releases
  a client makes, the bound holds.
\<close>

locale bounded_store =
  fixes admits :: "'l \<Rightarrow> 'r \<Rightarrow> bool"
    and book :: "'r \<Rightarrow> 'l \<Rightarrow> 'l"
    and give_back :: "'r \<Rightarrow> 'l \<Rightarrow> 'l"
    and bound_ok :: "'l \<Rightarrow> bool"
  assumes book_ok: "admits l r \<Longrightarrow> bound_ok (book r l)"
    and give_back_ok: "bound_ok l \<Longrightarrow> bound_ok (give_back r l)"
begin

definition book_if :: "'r \<Rightarrow> 'l \<Rightarrow> 'l" where
  "book_if r l = (if admits l r then book r l else l)"

definition run_store :: "('r + 'r) list \<Rightarrow> 'l \<Rightarrow> 'l" where
  "run_store ops l = fold (\<lambda>x. case x of Inl r \<Rightarrow> book_if r | Inr r \<Rightarrow> give_back r) ops l"

lemma run_store_ok: "bound_ok l \<Longrightarrow> bound_ok (run_store ops l)"
proof (induction ops arbitrary: l)
  case (Cons x ops)
  then show ?case
    by (cases x) (simp_all add: run_store_def book_if_def book_ok give_back_ok)
qed (simp add: run_store_def)

end

interpretation ledger: bounded_store can_reserve ledger_apply ledger_release within_capacity
  by unfold_locales (simp_all add: within_capacity_apply within_capacity_release)

end
