(* ===== verification/Device.thy ===== *)
theory Device
  imports Capability Resource
begin

text \<open>
  The vendor-neutral device record and its lifecycle (\<^verbatim>\<open>include/dpufabric/device.h\<close>), the
  isolation model (\<^verbatim>\<open>include/dpufabric/isolation.h\<close>), and the program and service records
  (\<^verbatim>\<open>include/dpufabric/program.h\<close>).
\<close>

section \<open>Health\<close>

datatype (plugins only: code size) DeviceHealth =
    HEALTHY | WARN | DEGRADED | FAILED | UNKNOWN | END_MARKER | Unnamed u8

primrec DeviceHealth_value :: "DeviceHealth \<Rightarrow> u8" where
  "DeviceHealth_value DeviceHealth.HEALTHY = 1"
| "DeviceHealth_value DeviceHealth.WARN = 2"
| "DeviceHealth_value DeviceHealth.DEGRADED = 3"
| "DeviceHealth_value DeviceHealth.FAILED = 4"
| "DeviceHealth_value DeviceHealth.UNKNOWN = 5"
| "DeviceHealth_value DeviceHealth.END_MARKER = 6"
| "DeviceHealth_value (DeviceHealth.Unnamed v) = v"

definition DeviceHealth_cast :: "u8 \<Rightarrow> DeviceHealth" where
  "DeviceHealth_cast v =
    (if v = 1 then DeviceHealth.HEALTHY
     else if v = 2 then DeviceHealth.WARN
     else if v = 3 then DeviceHealth.DEGRADED
     else if v = 4 then DeviceHealth.FAILED
     else if v = 5 then DeviceHealth.UNKNOWN
     else if v = 6 then DeviceHealth.END_MARKER
     else DeviceHealth.Unnamed v)"

primrec device_health_name :: "DeviceHealth \<Rightarrow> string" where
  "device_health_name DeviceHealth.HEALTHY = ''HEALTHY''"
| "device_health_name DeviceHealth.WARN = ''WARN''"
| "device_health_name DeviceHealth.DEGRADED = ''DEGRADED''"
| "device_health_name DeviceHealth.FAILED = ''FAILED''"
| "device_health_name DeviceHealth.UNKNOWN = ''UNKNOWN''"
| "device_health_name DeviceHealth.END_MARKER = ''END_MARKER''"
| "device_health_name (DeviceHealth.Unnamed v) = ''UNKNOWN''"

interpretation dhl_codes: cpp_enum DeviceHealth_value DeviceHealth_cast
  by unfold_locales (simp add: DeviceHealth_cast_def)

section \<open>Isolation\<close>

record IsolationSpec =
  iso_level :: IsolationRequirement
  iso_isolation_domain :: IsolationDomainId
  iso_tenant :: TenantId
  iso_trust_domain :: string
  iso_security_domain :: string
  iso_security :: SecurityMode

definition IsolationSpec_init :: IsolationSpec where
  "IsolationSpec_init =
     \<lparr>iso_level = IsolationRequirement.NONE, iso_isolation_domain = null_id,
      iso_tenant = null_id, iso_trust_domain = [], iso_security_domain = [],
      iso_security = SecurityMode.UNVERIFIED\<rparr>"

definition tenant_scoped :: "IsolationSpec \<Rightarrow> bool" where
  "tenant_scoped s \<longleftrightarrow> \<not> is_null (iso_tenant s)"

definition domain_scoped :: "IsolationSpec \<Rightarrow> bool" where
  "domain_scoped s \<longleftrightarrow> \<not> is_null (iso_isolation_domain s)"

definition trivially_satisfied :: "IsolationSpec \<Rightarrow> bool" where
  "trivially_satisfied s \<longleftrightarrow> iso_level s = IsolationRequirement.NONE"

definition satisfied_by :: "IsolationSpec \<Rightarrow> bool \<Rightarrow> IsolationDomainId \<Rightarrow> TenantId \<Rightarrow> bool" where
  "satisfied_by s proven dev_domain dev_tenant =
     (if iso_level s = IsolationRequirement.NONE then True
      else if iso_level s = IsolationRequirement.SECURITY_DOMAIN then
        (if iso_security s \<noteq> SecurityMode.SECURE \<and> iso_security s \<noteq> SecurityMode.ISOLATED
         then False
         else proven)
      else if iso_level s = IsolationRequirement.DEDICATED_DEVICE then
        is_null dev_tenant \<or> (\<not> is_null (iso_tenant s) \<and> dev_tenant = iso_tenant s)
      else if \<not> proven then False
      else if domain_scoped s \<and> \<not> is_null dev_domain \<and> dev_domain \<noteq> iso_isolation_domain s
        then False
      else if tenant_scoped s \<and> \<not> is_null dev_tenant \<and> dev_tenant \<noteq> iso_tenant s then False
      else True)"

section \<open>Device records\<close>

record DeviceRecord =
  dv_device_id :: DeviceId
  dv_generation :: DeviceGeneration
  dv_boot_id :: DeviceBootId
  dv_vendor :: string
  dv_model :: string
  dv_device_class :: DeviceClass
  dv_pci_reference :: string
  dv_parent_nic_reference :: string
  dv_parent_function :: FunctionId
  dv_firmware_version :: string
  dv_firmware_gen :: FirmwareGeneration
  dv_runtime_version :: string
  dv_runtime_gen :: RuntimeGeneration
  dv_architecture :: string
  dv_processing_units :: u64
  dv_memory_bytes :: u64
  dv_available_programmable_memory :: u64
  dv_resource_capacity :: ResourceProfile
  dv_ports :: "PortId list"
  dv_functions :: "FunctionId list"
  dv_capabilities :: CapabilitySet
  dv_offload_classes :: "OffloadClass list"
  dv_execution_models :: "ExecutionModel list"
  dv_program_formats :: "string list"
  dv_supports_dma :: bool
  dv_rdma_adjacent :: bool
  dv_host_comm :: string
  dv_hardware_isolation :: bool
  dv_isolation_domain :: IsolationDomainId
  dv_tenant :: TenantId
  dv_isolation_proven :: bool
  dv_locality :: LocalityQuality
  dv_health :: DeviceHealth
  dv_lifecycle :: DeviceLifecycle
  dv_discovery_source :: ProvenanceSource
  dv_evidence_gen :: EvidenceGeneration
  dv_evidence_fresh :: bool
  dv_discovery_detail :: string
  dv_owning_worker :: WorkerId
  dv_owner_worker_boot :: WorkerBootId

definition DeviceRecord_init :: DeviceRecord where
  "DeviceRecord_init =
     \<lparr>dv_device_id = null_id, dv_generation = null_id, dv_boot_id = null_id,
      dv_vendor = [], dv_model = [], dv_device_class = DeviceClass.UNKNOWN_DEVICE,
      dv_pci_reference = [], dv_parent_nic_reference = [], dv_parent_function = null_id,
      dv_firmware_version = [], dv_firmware_gen = null_id,
      dv_runtime_version = [], dv_runtime_gen = null_id, dv_architecture = [],
      dv_processing_units = 0, dv_memory_bytes = 0, dv_available_programmable_memory = 0,
      dv_resource_capacity = ResourceProfile_init, dv_ports = [], dv_functions = [],
      dv_capabilities = [], dv_offload_classes = [], dv_execution_models = [],
      dv_program_formats = [], dv_supports_dma = False, dv_rdma_adjacent = False,
      dv_host_comm = [], dv_hardware_isolation = False, dv_isolation_domain = null_id,
      dv_tenant = null_id, dv_isolation_proven = False,
      dv_locality = LocalityQuality.UNKNOWN, dv_health = DeviceHealth.UNKNOWN,
      dv_lifecycle = DeviceLifecycle.DISCOVERED,
      dv_discovery_source = ProvenanceSource.CONFIGURED, dv_evidence_gen = null_id,
      dv_evidence_fresh = False, dv_discovery_detail = [],
      dv_owning_worker = null_id, dv_owner_worker_boot = null_id\<rparr>"

definition is_ready_for_offload :: "DeviceRecord \<Rightarrow> bool" where
  "is_ready_for_offload d \<longleftrightarrow> dv_lifecycle d = DeviceLifecycle.READY \<and> dv_evidence_fresh d"

definition is_authoritative :: "DeviceRecord \<Rightarrow> bool" where
  "is_authoritative d \<longleftrightarrow> dv_lifecycle d = DeviceLifecycle.READY \<and> dv_evidence_fresh d"

definition supports_class :: "DeviceRecord \<Rightarrow> OffloadClass \<Rightarrow> bool" where
  "supports_class d c \<longleftrightarrow> list_ex (\<lambda>x. x = c) (dv_offload_classes d)"

definition evidence_class_label :: "DeviceRecord \<Rightarrow> string" where
  "evidence_class_label d = evidence_class (dv_discovery_source d)"

section \<open>Device lifecycle\<close>

text \<open>The successors the code lists for a state, in its order; anything else is rejected.\<close>

fun device_successors :: "DeviceLifecycle \<Rightarrow> DeviceLifecycle list" where
  "device_successors DeviceLifecycle.DISCOVERED =
     [DeviceLifecycle.AVAILABLE, DeviceLifecycle.FAILED, DeviceLifecycle.RETIRED,
      DeviceLifecycle.OFFLINE]"
| "device_successors DeviceLifecycle.AVAILABLE =
     [DeviceLifecycle.PROVISIONING, DeviceLifecycle.READY,
      DeviceLifecycle.REVALIDATION_REQUIRED, DeviceLifecycle.FAILED, DeviceLifecycle.OFFLINE,
      DeviceLifecycle.RETIRED, DeviceLifecycle.DEGRADED]"
| "device_successors DeviceLifecycle.PROVISIONING =
     [DeviceLifecycle.READY, DeviceLifecycle.AVAILABLE, DeviceLifecycle.FAILED,
      DeviceLifecycle.OFFLINE, DeviceLifecycle.RETIRED, DeviceLifecycle.DEGRADED]"
| "device_successors DeviceLifecycle.READY =
     [DeviceLifecycle.DEGRADED, DeviceLifecycle.FAILED, DeviceLifecycle.DRAINING,
      DeviceLifecycle.REVALIDATION_REQUIRED, DeviceLifecycle.OFFLINE, DeviceLifecycle.RETIRED]"
| "device_successors DeviceLifecycle.DEGRADED =
     [DeviceLifecycle.READY, DeviceLifecycle.FAILED, DeviceLifecycle.DRAINING,
      DeviceLifecycle.REVALIDATION_REQUIRED, DeviceLifecycle.OFFLINE, DeviceLifecycle.RETIRED]"
| "device_successors DeviceLifecycle.DRAINING =
     [DeviceLifecycle.AVAILABLE, DeviceLifecycle.OFFLINE, DeviceLifecycle.RETIRED,
      DeviceLifecycle.FAILED, DeviceLifecycle.READY]"
| "device_successors DeviceLifecycle.REVALIDATION_REQUIRED =
     [DeviceLifecycle.READY, DeviceLifecycle.AVAILABLE, DeviceLifecycle.FAILED,
      DeviceLifecycle.OFFLINE, DeviceLifecycle.RETIRED, DeviceLifecycle.DEGRADED]"
| "device_successors DeviceLifecycle.FAILED =
     [DeviceLifecycle.OFFLINE, DeviceLifecycle.RETIRED, DeviceLifecycle.AVAILABLE]"
| "device_successors DeviceLifecycle.OFFLINE =
     [DeviceLifecycle.AVAILABLE, DeviceLifecycle.RETIRED, DeviceLifecycle.DISCOVERED]"
| "device_successors DeviceLifecycle.RETIRED = []"
| "device_successors DeviceLifecycle.END_MARKER = []"
| "device_successors (DeviceLifecycle.Unnamed v) = []"

definition valid_device_transition :: "DeviceLifecycle \<Rightarrow> DeviceLifecycle \<Rightarrow> bool" where
  "valid_device_transition from to \<longleftrightarrow> to \<in> set (device_successors from)"

section \<open>Programs and services\<close>

type_synonym Sha256 = "u8 list"

text \<open>A digest is an array of exactly 32 bytes; the default is all zero.\<close>

definition Sha256_wf :: "Sha256 \<Rightarrow> bool" where
  "Sha256_wf h \<longleftrightarrow> length h = 32"

definition Sha256_init :: Sha256 where
  "Sha256_init = replicate 32 0"

definition hex_encode :: "bytes \<Rightarrow> string" where
  "hex_encode b = concat (map (\<lambda>x.
     [hex_digits ! unat (drop_bit 4 x), hex_digits ! unat (and x 15)]) b)"

record ProgramArtifact =
  pa_program_id :: ProgramId
  pa_program_gen :: ProgramGeneration
  pa_artifact_id :: ArtifactId
  pa_artifact_gen :: ArtifactGeneration
  pa_artifact_type :: ArtifactType
  pa_version :: string
  pa_content_hash :: Sha256
  pa_target_architecture :: string
  pa_runtime_abi :: string
  pa_required_caps :: "CapabilityRequirement list"
  pa_min_firmware_gen :: FirmwareGeneration
  pa_provenance :: string
  pa_size_hint :: string

definition ProgramArtifact_init :: ProgramArtifact where
  "ProgramArtifact_init =
     \<lparr>pa_program_id = null_id, pa_program_gen = null_id, pa_artifact_id = null_id,
      pa_artifact_gen = null_id, pa_artifact_type = ArtifactType.UNKNOWN, pa_version = [],
      pa_content_hash = Sha256_init, pa_target_architecture = [], pa_runtime_abi = [],
      pa_required_caps = [], pa_min_firmware_gen = null_id, pa_provenance = [],
      pa_size_hint = []\<rparr>"

record ServiceDefinition =
  sd_service_id :: ServiceId
  sd_service_gen :: ServiceGeneration
  sd_offload_class :: OffloadClass
  sd_required_caps :: "CapabilityRequirement list"
  sd_optional_caps :: "CapabilityRequirement list"
  sd_isolation :: IsolationSpec
  sd_resource :: ResourceRequest
  sd_execution_model :: ExecutionModel
  sd_min_firmware_gen :: FirmwareGeneration
  sd_min_runtime_gen :: RuntimeGeneration
  sd_required_program :: ProgramId
  sd_required_abi :: string
  sd_statefulness :: Statefulness
  sd_recoverable :: bool
  sd_allowed_fallback_classes :: "OffloadClass list"
  sd_failure_policy :: string
  sd_dependencies :: "ServiceId list"

definition ServiceDefinition_init :: ServiceDefinition where
  "ServiceDefinition_init =
     \<lparr>sd_service_id = null_id, sd_service_gen = null_id,
      sd_offload_class = OffloadClass.CUSTOM_INFRASTRUCTURE_SERVICE,
      sd_required_caps = [], sd_optional_caps = [], sd_isolation = IsolationSpec_init,
      sd_resource = ResourceRequest_init, sd_execution_model = ExecutionModel.UNKNOWN,
      sd_min_firmware_gen = null_id, sd_min_runtime_gen = null_id,
      sd_required_program = null_id, sd_required_abi = [],
      sd_statefulness = Statefulness.STATELESS, sd_recoverable = False,
      sd_allowed_fallback_classes = [], sd_failure_policy = [], sd_dependencies = []\<rparr>"

section \<open>Facts\<close>

lemma is_authoritative_iff: "is_authoritative d \<longleftrightarrow> is_ready_for_offload d"
  by (simp add: is_authoritative_def is_ready_for_offload_def)

text \<open>
  Isolation fails closed: with a level other than \<open>NONE\<close> and \<open>DEDICATED_DEVICE\<close>, no spec is
  satisfied without proven hardware isolation.
\<close>

lemma satisfied_by_unproven:
  "satisfied_by s False ddom ten \<longleftrightarrow>
     iso_level s = IsolationRequirement.NONE \<or>
     iso_level s = IsolationRequirement.DEDICATED_DEVICE \<and>
       (ten = null_id \<or> iso_tenant s \<noteq> null_id \<and> ten = iso_tenant s)"
  by (auto simp: satisfied_by_def)

lemma satisfied_by_foreign_tenant:
  assumes "satisfied_by s proven ddom ten" "iso_tenant s \<noteq> null_id" "ten \<noteq> null_id"
    "ten \<noteq> iso_tenant s"
  shows "iso_level s = IsolationRequirement.NONE \<or>
    iso_level s = IsolationRequirement.SECURITY_DOMAIN"
  using assms by (auto simp: satisfied_by_def tenant_scoped_def split: if_splits)

lemma retired_device_terminal [simp]: "\<not> valid_device_transition DeviceLifecycle.RETIRED to"
  by (simp add: valid_device_transition_def)

lemma ready_not_from_discovery:
  "valid_device_transition DeviceLifecycle.DISCOVERED to \<Longrightarrow> to \<noteq> DeviceLifecycle.READY"
  by (auto simp: valid_device_transition_def)

end
