(* ===== verification/Deployment.thy ===== *)
theory Deployment
  imports Device
begin

text \<open>
  Deployments, activations and the authority they carry (\<^verbatim>\<open>include/dpufabric/deployment.h\<close>),
  execution contexts (\<^verbatim>\<open>include/dpufabric/context.h\<close>), the offload request
  (\<^verbatim>\<open>include/dpufabric/request.h\<close>) and the policy (\<^verbatim>\<open>include/dpufabric/policy.h\<close>).
\<close>

section \<open>Authority\<close>

record AuthorityContext =
  ac_epoch :: CoordinatorEpoch
  ac_worker_boot :: WorkerBootId
  ac_worker :: WorkerId
  ac_device_boot :: DeviceBootId
  ac_device_gen :: DeviceGeneration
  ac_service_gen :: ServiceGeneration
  ac_program_gen :: ProgramGeneration
  ac_deployment_gen :: DeploymentGeneration
  ac_activation_gen :: ActivationGeneration
  ac_policy_gen :: PolicyGeneration
  ac_evidence_gen :: EvidenceGeneration

record ActivationAuthority =
  aa_epoch :: CoordinatorEpoch
  aa_worker :: WorkerId
  aa_worker_boot :: WorkerBootId
  aa_device :: DeviceId
  aa_device_boot :: DeviceBootId
  aa_device_gen :: DeviceGeneration
  aa_service_gen :: ServiceGeneration
  aa_program_gen :: ProgramGeneration
  aa_deployment_gen :: DeploymentGeneration
  aa_activation_gen :: ActivationGeneration
  aa_policy_gen :: PolicyGeneration
  aa_evidence_gen :: EvidenceGeneration

definition ActivationAuthority_init :: ActivationAuthority where
  "ActivationAuthority_init =
     \<lparr>aa_epoch = null_id, aa_worker = null_id, aa_worker_boot = null_id, aa_device = null_id,
      aa_device_boot = null_id, aa_device_gen = null_id, aa_service_gen = null_id,
      aa_program_gen = null_id, aa_deployment_gen = null_id, aa_activation_gen = null_id,
      aa_policy_gen = null_id, aa_evidence_gen = null_id\<rparr>"

definition is_current :: "ActivationAuthority \<Rightarrow> AuthorityContext \<Rightarrow> bool" where
  "is_current a cur =
     (if aa_epoch a \<noteq> ac_epoch cur then False
      else if aa_worker a \<noteq> ac_worker cur then False
      else if aa_worker_boot a \<noteq> ac_worker_boot cur then False
      else if aa_device_boot a \<noteq> ac_device_boot cur then False
      else if aa_device_gen a \<noteq> ac_device_gen cur then False
      else if aa_service_gen a \<noteq> ac_service_gen cur then False
      else if aa_program_gen a \<noteq> ac_program_gen cur then False
      else if aa_deployment_gen a \<noteq> ac_deployment_gen cur then False
      else if aa_activation_gen a \<noteq> ac_activation_gen cur then False
      else if aa_policy_gen a \<noteq> ac_policy_gen cur then False
      else if aa_evidence_gen a \<noteq> ac_evidence_gen cur then False
      else True)"

text \<open>
  The world state a token was captured in: the token is current there and, the compared
  components being all of it, nowhere else.
\<close>

definition context_of :: "ActivationAuthority \<Rightarrow> AuthorityContext" where
  "context_of a =
     \<lparr>ac_epoch = aa_epoch a, ac_worker_boot = aa_worker_boot a, ac_worker = aa_worker a,
      ac_device_boot = aa_device_boot a, ac_device_gen = aa_device_gen a,
      ac_service_gen = aa_service_gen a, ac_program_gen = aa_program_gen a,
      ac_deployment_gen = aa_deployment_gen a, ac_activation_gen = aa_activation_gen a,
      ac_policy_gen = aa_policy_gen a, ac_evidence_gen = aa_evidence_gen a\<rparr>"

lemma is_current_iff: "is_current a cur \<longleftrightarrow> cur = context_of a"
  by (cases cur) (auto simp: is_current_def context_of_def)

section \<open>Activations and deployments\<close>

datatype (plugins only: code size) ActivationState =
    PENDING | ACTIVE | DRAINING | RETIRED | STALE | CANCELLED | END_MARKER | Unnamed u8

primrec ActivationState_value :: "ActivationState \<Rightarrow> u8" where
  "ActivationState_value ActivationState.PENDING = 1"
| "ActivationState_value ActivationState.ACTIVE = 2"
| "ActivationState_value ActivationState.DRAINING = 3"
| "ActivationState_value ActivationState.RETIRED = 4"
| "ActivationState_value ActivationState.STALE = 5"
| "ActivationState_value ActivationState.CANCELLED = 6"
| "ActivationState_value ActivationState.END_MARKER = 7"
| "ActivationState_value (ActivationState.Unnamed v) = v"

definition ActivationState_cast :: "u8 \<Rightarrow> ActivationState" where
  "ActivationState_cast v =
    (if v = 1 then ActivationState.PENDING
     else if v = 2 then ActivationState.ACTIVE
     else if v = 3 then ActivationState.DRAINING
     else if v = 4 then ActivationState.RETIRED
     else if v = 5 then ActivationState.STALE
     else if v = 6 then ActivationState.CANCELLED
     else if v = 7 then ActivationState.END_MARKER
     else ActivationState.Unnamed v)"

primrec activation_state_name :: "ActivationState \<Rightarrow> string" where
  "activation_state_name ActivationState.PENDING = ''PENDING''"
| "activation_state_name ActivationState.ACTIVE = ''ACTIVE''"
| "activation_state_name ActivationState.DRAINING = ''DRAINING''"
| "activation_state_name ActivationState.RETIRED = ''RETIRED''"
| "activation_state_name ActivationState.STALE = ''STALE''"
| "activation_state_name ActivationState.CANCELLED = ''CANCELLED''"
| "activation_state_name ActivationState.END_MARKER = ''END_MARKER''"
| "activation_state_name (ActivationState.Unnamed v) = ''UNKNOWN''"

interpretation ast_codes: cpp_enum ActivationState_value ActivationState_cast
  by unfold_locales (simp add: ActivationState_cast_def)

record ActivationRecord =
  ar_activation_id :: ActivationId
  ar_activation_gen :: ActivationGeneration
  ar_deployment_id :: DeploymentId
  ar_deployment_gen :: DeploymentGeneration
  ar_authority :: ActivationAuthority
  ar_state :: ActivationState
  ar_reason :: string

definition ActivationRecord_init :: ActivationRecord where
  "ActivationRecord_init =
     \<lparr>ar_activation_id = null_id, ar_activation_gen = null_id, ar_deployment_id = null_id,
      ar_deployment_gen = null_id, ar_authority = ActivationAuthority_init,
      ar_state = ActivationState.PENDING, ar_reason = ''created''\<rparr>"

record Deployment =
  dp_deployment_id :: DeploymentId
  dp_generation :: DeploymentGeneration
  dp_attempt_id :: DeploymentAttemptId
  dp_service :: ServiceId
  dp_service_gen :: ServiceGeneration
  dp_program :: ProgramId
  dp_program_gen :: ProgramGeneration
  dp_artifact :: ArtifactId
  dp_artifact_gen :: ArtifactGeneration
  dp_device :: DeviceId
  dp_device_gen :: DeviceGeneration
  dp_device_boot :: DeviceBootId
  dp_tenant :: TenantId
  dp_isolation_domain :: IsolationDomainId
  dp_resources :: ResourceRequest
  dp_state :: DeploymentState
  dp_activation :: "ActivationId option"
  dp_activation_gen :: ActivationGeneration
  dp_epoch :: CoordinatorEpoch
  dp_worker_boot :: WorkerBootId
  dp_evidence_gen :: EvidenceGeneration
  dp_policy_gen :: PolicyGeneration
  dp_authoritative :: bool
  dp_created_ms :: u64
  dp_updated_ms :: u64

definition Deployment_init :: Deployment where
  "Deployment_init =
     \<lparr>dp_deployment_id = null_id, dp_generation = null_id, dp_attempt_id = null_id,
      dp_service = null_id, dp_service_gen = null_id, dp_program = null_id,
      dp_program_gen = null_id, dp_artifact = null_id, dp_artifact_gen = null_id,
      dp_device = null_id, dp_device_gen = null_id, dp_device_boot = null_id,
      dp_tenant = null_id, dp_isolation_domain = null_id, dp_resources = ResourceRequest_init,
      dp_state = DeploymentState.PLANNED, dp_activation = None, dp_activation_gen = null_id,
      dp_epoch = null_id, dp_worker_boot = null_id, dp_evidence_gen = null_id,
      dp_policy_gen = null_id, dp_authoritative = False, dp_created_ms = 0, dp_updated_ms = 0\<rparr>"

definition dp_active :: "Deployment \<Rightarrow> bool" where
  "dp_active d \<longleftrightarrow> dp_state d = DeploymentState.ACTIVE"

section \<open>Deployment lifecycle\<close>

fun deployment_successors :: "DeploymentState \<Rightarrow> DeploymentState list" where
  "deployment_successors DeploymentState.PLANNED =
     [DeploymentState.RESERVED, DeploymentState.ABORTED, DeploymentState.FAILED]"
| "deployment_successors DeploymentState.RESERVED =
     [DeploymentState.STAGING, DeploymentState.PLANNED, DeploymentState.ABORTED,
      DeploymentState.FAILED]"
| "deployment_successors DeploymentState.STAGING =
     [DeploymentState.LOADED, DeploymentState.RESERVED, DeploymentState.ABORTED,
      DeploymentState.FAILED]"
| "deployment_successors DeploymentState.LOADED =
     [DeploymentState.VALIDATING, DeploymentState.STAGING, DeploymentState.ABORTED,
      DeploymentState.FAILED]"
| "deployment_successors DeploymentState.VALIDATING =
     [DeploymentState.ACTIVATING, DeploymentState.LOADED, DeploymentState.FAILED,
      DeploymentState.ABORTED, DeploymentState.REVALIDATION_REQUIRED]"
| "deployment_successors DeploymentState.ACTIVATING =
     [DeploymentState.ACTIVE, DeploymentState.FAILED, DeploymentState.ABORTED,
      DeploymentState.REVALIDATION_REQUIRED, DeploymentState.DEGRADED]"
| "deployment_successors DeploymentState.ACTIVE =
     [DeploymentState.DEGRADED, DeploymentState.DRAINING,
      DeploymentState.REVALIDATION_REQUIRED, DeploymentState.FAILED, DeploymentState.RETIRED]"
| "deployment_successors DeploymentState.DEGRADED =
     [DeploymentState.ACTIVE, DeploymentState.DRAINING,
      DeploymentState.REVALIDATION_REQUIRED, DeploymentState.FAILED, DeploymentState.RETIRED]"
| "deployment_successors DeploymentState.DRAINING =
     [DeploymentState.RETIRED, DeploymentState.ACTIVE,
      DeploymentState.REVALIDATION_REQUIRED, DeploymentState.FAILED]"
| "deployment_successors DeploymentState.FAILED =
     [DeploymentState.PLANNED, DeploymentState.ABORTED, DeploymentState.RETIRED,
      DeploymentState.REVALIDATION_REQUIRED]"
| "deployment_successors DeploymentState.ABORTED =
     [DeploymentState.PLANNED, DeploymentState.RETIRED]"
| "deployment_successors DeploymentState.RETIRED = []"
| "deployment_successors DeploymentState.REVALIDATION_REQUIRED =
     [DeploymentState.VALIDATING, DeploymentState.ACTIVE, DeploymentState.FAILED,
      DeploymentState.RETIRED, DeploymentState.DRAINING]"
| "deployment_successors DeploymentState.END_MARKER = []"
| "deployment_successors (DeploymentState.Unnamed v) = []"

definition valid_deployment_transition :: "DeploymentState \<Rightarrow> DeploymentState \<Rightarrow> bool" where
  "valid_deployment_transition from to \<longleftrightarrow> to \<in> set (deployment_successors from)"

lemma valid_to_active:
  "valid_deployment_transition s DeploymentState.ACTIVE \<longleftrightarrow>
     s \<in> {DeploymentState.ACTIVATING, DeploymentState.DEGRADED, DeploymentState.DRAINING,
          DeploymentState.REVALIDATION_REQUIRED}"
  by (cases s) (simp_all add: valid_deployment_transition_def)

lemma retired_deployment_terminal [simp]:
  "\<not> valid_deployment_transition DeploymentState.RETIRED to"
  by (simp add: valid_deployment_transition_def)

section \<open>Execution contexts\<close>

datatype (plugins only: code size) ExecutionContextState =
    CREATED | BOUND | ACTIVE | INVALIDATED | REVALIDATION_REQUIRED | END_MARKER | Unnamed u8

primrec ExecutionContextState_value :: "ExecutionContextState \<Rightarrow> u8" where
  "ExecutionContextState_value ExecutionContextState.CREATED = 1"
| "ExecutionContextState_value ExecutionContextState.BOUND = 2"
| "ExecutionContextState_value ExecutionContextState.ACTIVE = 3"
| "ExecutionContextState_value ExecutionContextState.INVALIDATED = 4"
| "ExecutionContextState_value ExecutionContextState.REVALIDATION_REQUIRED = 5"
| "ExecutionContextState_value ExecutionContextState.END_MARKER = 6"
| "ExecutionContextState_value (ExecutionContextState.Unnamed v) = v"

definition ExecutionContextState_cast :: "u8 \<Rightarrow> ExecutionContextState" where
  "ExecutionContextState_cast v =
    (if v = 1 then ExecutionContextState.CREATED
     else if v = 2 then ExecutionContextState.BOUND
     else if v = 3 then ExecutionContextState.ACTIVE
     else if v = 4 then ExecutionContextState.INVALIDATED
     else if v = 5 then ExecutionContextState.REVALIDATION_REQUIRED
     else if v = 6 then ExecutionContextState.END_MARKER
     else ExecutionContextState.Unnamed v)"

primrec execution_context_state_name :: "ExecutionContextState \<Rightarrow> string" where
  "execution_context_state_name ExecutionContextState.CREATED = ''CREATED''"
| "execution_context_state_name ExecutionContextState.BOUND = ''BOUND''"
| "execution_context_state_name ExecutionContextState.ACTIVE = ''ACTIVE''"
| "execution_context_state_name ExecutionContextState.INVALIDATED = ''INVALIDATED''"
| "execution_context_state_name ExecutionContextState.REVALIDATION_REQUIRED = ''REVALIDATION_REQUIRED''"
| "execution_context_state_name ExecutionContextState.END_MARKER = ''END_MARKER''"
| "execution_context_state_name (ExecutionContextState.Unnamed v) = ''UNKNOWN''"

interpretation ecs_codes: cpp_enum ExecutionContextState_value ExecutionContextState_cast
  by unfold_locales (simp add: ExecutionContextState_cast_def)

record ExecutionContext =
  ec_id :: ExecutionContextId
  ec_generation :: u64
  ec_device :: DeviceId
  ec_service :: ServiceId
  ec_tenant :: TenantId
  ec_isolation_domain :: IsolationDomainId
  ec_state :: ExecutionContextState
  ec_resources :: ResourceRequest
  ec_authoritative :: bool
  ec_evidence_gen :: EvidenceGeneration
  ec_dependencies :: "ExecutionContextId list"

record ResourceContext =
  rc_id :: ResourceContextId
  rc_port :: PortId
  rc_function :: FunctionId
  rc_queue :: QueueId
  rc_device :: DeviceId
  rc_tenant :: TenantId
  rc_resources :: ResourceRequest
  rc_leased :: bool

section \<open>Offload requests\<close>

datatype (plugins only: code size) LatencyClass =
    ULTRA_LOW | LOW | NORMAL | BULK | UNSPECIFIED | END_MARKER | Unnamed u8

primrec LatencyClass_value :: "LatencyClass \<Rightarrow> u8" where
  "LatencyClass_value LatencyClass.ULTRA_LOW = 1"
| "LatencyClass_value LatencyClass.LOW = 2"
| "LatencyClass_value LatencyClass.NORMAL = 3"
| "LatencyClass_value LatencyClass.BULK = 4"
| "LatencyClass_value LatencyClass.UNSPECIFIED = 5"
| "LatencyClass_value LatencyClass.END_MARKER = 6"
| "LatencyClass_value (LatencyClass.Unnamed v) = v"

definition LatencyClass_cast :: "u8 \<Rightarrow> LatencyClass" where
  "LatencyClass_cast v =
    (if v = 1 then LatencyClass.ULTRA_LOW
     else if v = 2 then LatencyClass.LOW
     else if v = 3 then LatencyClass.NORMAL
     else if v = 4 then LatencyClass.BULK
     else if v = 5 then LatencyClass.UNSPECIFIED
     else if v = 6 then LatencyClass.END_MARKER
     else LatencyClass.Unnamed v)"

primrec latency_class_name :: "LatencyClass \<Rightarrow> string" where
  "latency_class_name LatencyClass.ULTRA_LOW = ''ULTRA_LOW''"
| "latency_class_name LatencyClass.LOW = ''LOW''"
| "latency_class_name LatencyClass.NORMAL = ''NORMAL''"
| "latency_class_name LatencyClass.BULK = ''BULK''"
| "latency_class_name LatencyClass.UNSPECIFIED = ''UNSPECIFIED''"
| "latency_class_name LatencyClass.END_MARKER = ''END_MARKER''"
| "latency_class_name (LatencyClass.Unnamed v) = ''UNKNOWN''"

interpretation ltc_codes: cpp_enum LatencyClass_value LatencyClass_cast
  by unfold_locales (simp add: LatencyClass_cast_def)

record OffloadRequest =
  rq_sequence :: u64
  rq_offload_class :: OffloadClass
  rq_required_caps :: "CapabilityRequirement list"
  rq_optional_caps :: "CapabilityRequirement list"
  rq_required_device_class :: "DeviceClass option"
  rq_pinned_device :: "DeviceId option"
  rq_required_port :: "PortId option"
  rq_required_function :: "FunctionId option"
  rq_min_locality :: LocalityQuality
  rq_tenant :: TenantId
  rq_isolation_domain :: IsolationDomainId
  rq_isolation :: IsolationSpec
  rq_statefulness :: Statefulness
  rq_resource :: ResourceRequest
  rq_security :: SecurityMode
  rq_latency :: LatencyClass
  rq_expected_throughput :: u64
  rq_expected_duration_ms :: u64
  rq_existing_service :: "ServiceId option"
  rq_service :: "ServiceId option"
  rq_required_program :: "ProgramId option"
  rq_required_abi :: string
  rq_mode :: OffloadMode
  rq_allow_host_fallback :: bool
  rq_allowed_fallback_classes :: "OffloadClass list"
  rq_provenance :: string
  rq_min_policy_gen :: PolicyGeneration
  rq_min_headroom :: u64
  rq_max_queue_pressure :: u64

definition OffloadRequest_init :: OffloadRequest where
  "OffloadRequest_init =
     \<lparr>rq_sequence = 0, rq_offload_class = OffloadClass.CUSTOM_INFRASTRUCTURE_SERVICE,
      rq_required_caps = [], rq_optional_caps = [], rq_required_device_class = None,
      rq_pinned_device = None, rq_required_port = None, rq_required_function = None,
      rq_min_locality = LocalityQuality.UNKNOWN, rq_tenant = null_id,
      rq_isolation_domain = null_id, rq_isolation = IsolationSpec_init,
      rq_statefulness = Statefulness.STATELESS, rq_resource = ResourceRequest_init,
      rq_security = SecurityMode.UNVERIFIED, rq_latency = LatencyClass.UNSPECIFIED,
      rq_expected_throughput = 0, rq_expected_duration_ms = 0, rq_existing_service = None,
      rq_service = None, rq_required_program = None, rq_required_abi = [],
      rq_mode = OffloadMode.OFFLOAD_REQUIRED, rq_allow_host_fallback = False,
      rq_allowed_fallback_classes = [], rq_provenance = [], rq_min_policy_gen = null_id,
      rq_min_headroom = 0, rq_max_queue_pressure = 0\<rparr>"

definition is_required :: "OffloadRequest \<Rightarrow> bool" where
  "is_required r \<longleftrightarrow> rq_mode r = OffloadMode.OFFLOAD_REQUIRED"

section \<open>Policy\<close>

datatype (plugins only: code size) RankFactor =
    WARM_SERVICE | LOCALITY | HEADROOM | QUEUE_PRESSURE | DEVICE_LOAD | STATE_TRANSFER
    | HOST_CPU_SAVINGS | OFFLOAD_VALUE | FAILURE_RISK | ENERGY | POLICY_PREFERENCE
    | TIEBREAK_ID | END_MARKER | Unnamed u8

primrec RankFactor_value :: "RankFactor \<Rightarrow> u8" where
  "RankFactor_value RankFactor.WARM_SERVICE = 1"
| "RankFactor_value RankFactor.LOCALITY = 2"
| "RankFactor_value RankFactor.HEADROOM = 3"
| "RankFactor_value RankFactor.QUEUE_PRESSURE = 4"
| "RankFactor_value RankFactor.DEVICE_LOAD = 5"
| "RankFactor_value RankFactor.STATE_TRANSFER = 6"
| "RankFactor_value RankFactor.HOST_CPU_SAVINGS = 7"
| "RankFactor_value RankFactor.OFFLOAD_VALUE = 8"
| "RankFactor_value RankFactor.FAILURE_RISK = 9"
| "RankFactor_value RankFactor.ENERGY = 10"
| "RankFactor_value RankFactor.POLICY_PREFERENCE = 11"
| "RankFactor_value RankFactor.TIEBREAK_ID = 12"
| "RankFactor_value RankFactor.END_MARKER = 13"
| "RankFactor_value (RankFactor.Unnamed v) = v"

definition RankFactor_cast :: "u8 \<Rightarrow> RankFactor" where
  "RankFactor_cast v =
    (if v = 1 then RankFactor.WARM_SERVICE
     else if v = 2 then RankFactor.LOCALITY
     else if v = 3 then RankFactor.HEADROOM
     else if v = 4 then RankFactor.QUEUE_PRESSURE
     else if v = 5 then RankFactor.DEVICE_LOAD
     else if v = 6 then RankFactor.STATE_TRANSFER
     else if v = 7 then RankFactor.HOST_CPU_SAVINGS
     else if v = 8 then RankFactor.OFFLOAD_VALUE
     else if v = 9 then RankFactor.FAILURE_RISK
     else if v = 10 then RankFactor.ENERGY
     else if v = 11 then RankFactor.POLICY_PREFERENCE
     else if v = 12 then RankFactor.TIEBREAK_ID
     else if v = 13 then RankFactor.END_MARKER
     else RankFactor.Unnamed v)"

primrec rank_factor_name :: "RankFactor \<Rightarrow> string" where
  "rank_factor_name RankFactor.WARM_SERVICE = ''WARM_SERVICE''"
| "rank_factor_name RankFactor.LOCALITY = ''LOCALITY''"
| "rank_factor_name RankFactor.HEADROOM = ''HEADROOM''"
| "rank_factor_name RankFactor.QUEUE_PRESSURE = ''QUEUE_PRESSURE''"
| "rank_factor_name RankFactor.DEVICE_LOAD = ''DEVICE_LOAD''"
| "rank_factor_name RankFactor.STATE_TRANSFER = ''STATE_TRANSFER''"
| "rank_factor_name RankFactor.HOST_CPU_SAVINGS = ''HOST_CPU_SAVINGS''"
| "rank_factor_name RankFactor.OFFLOAD_VALUE = ''OFFLOAD_VALUE''"
| "rank_factor_name RankFactor.FAILURE_RISK = ''FAILURE_RISK''"
| "rank_factor_name RankFactor.ENERGY = ''ENERGY''"
| "rank_factor_name RankFactor.POLICY_PREFERENCE = ''POLICY_PREFERENCE''"
| "rank_factor_name RankFactor.TIEBREAK_ID = ''TIEBREAK_ID''"
| "rank_factor_name RankFactor.END_MARKER = ''END_MARKER''"
| "rank_factor_name (RankFactor.Unnamed v) = ''UNKNOWN''"

interpretation rkf_codes: cpp_enum RankFactor_value RankFactor_cast
  by unfold_locales (simp add: RankFactor_cast_def)

text \<open>Weights are signed 64-bit integers; \<open>sint\<close> reads one.\<close>

type_synonym i64 = "64 word"

record RankFactorWeight =
  rw_factor :: RankFactor
  rw_weight :: i64

record Policy =
  po_generation :: PolicyGeneration
  po_version :: u64
  po_hard_caps :: "CapabilityRequirement list"
  po_preferred_devices :: "DeviceId list"
  po_prefer_warm_deployments :: bool
  po_require_authoritative_evidence :: bool
  po_min_headroom :: u64
  po_max_queue_pressure :: u64
  po_min_device_health :: DeviceHealth
  po_allow_host_fallback :: bool
  po_require_offload_for_required :: bool
  po_prefer_dedicated_isolation :: bool
  po_preferred_statefulness :: Statefulness
  po_weights :: "RankFactorWeight list"

definition Policy_init :: Policy where
  "Policy_init =
     \<lparr>po_generation = null_id, po_version = 0, po_hard_caps = [], po_preferred_devices = [],
      po_prefer_warm_deployments = True, po_require_authoritative_evidence = True,
      po_min_headroom = 10, po_max_queue_pressure = 90,
      po_min_device_health = DeviceHealth.WARN, po_allow_host_fallback = False,
      po_require_offload_for_required = True, po_prefer_dedicated_isolation = False,
      po_preferred_statefulness = Statefulness.STATELESS, po_weights = []\<rparr>"

definition weight_of :: "Policy \<Rightarrow> RankFactor \<Rightarrow> i64" where
  "weight_of p f =
     (case List.find (\<lambda>w. rw_factor w = f) (po_weights p) of
        Some w \<Rightarrow> rw_weight w
      | None \<Rightarrow> if f = RankFactor.TIEBREAK_ID then 1 else 0)"

definition default_weights :: "RankFactorWeight list" where
  "default_weights =
     [\<lparr>rw_factor = RankFactor.WARM_SERVICE, rw_weight = 4\<rparr>,
      \<lparr>rw_factor = RankFactor.LOCALITY, rw_weight = 3\<rparr>,
      \<lparr>rw_factor = RankFactor.HEADROOM, rw_weight = 2\<rparr>,
      \<lparr>rw_factor = RankFactor.QUEUE_PRESSURE, rw_weight = 2\<rparr>,
      \<lparr>rw_factor = RankFactor.DEVICE_LOAD, rw_weight = 1\<rparr>,
      \<lparr>rw_factor = RankFactor.STATE_TRANSFER, rw_weight = 1\<rparr>,
      \<lparr>rw_factor = RankFactor.HOST_CPU_SAVINGS, rw_weight = 2\<rparr>,
      \<lparr>rw_factor = RankFactor.OFFLOAD_VALUE, rw_weight = 1\<rparr>,
      \<lparr>rw_factor = RankFactor.FAILURE_RISK, rw_weight = - 3\<rparr>,
      \<lparr>rw_factor = RankFactor.ENERGY, rw_weight = 0\<rparr>,
      \<lparr>rw_factor = RankFactor.POLICY_PREFERENCE, rw_weight = 3\<rparr>,
      \<lparr>rw_factor = RankFactor.TIEBREAK_ID, rw_weight = 1\<rparr>]"

definition Policy_defaults :: "PolicyGeneration \<Rightarrow> Policy" where
  "Policy_defaults gen =
     Policy_init\<lparr>po_generation := gen, po_version := 1, po_weights := default_weights\<rparr>"

end
