(* ===== verification/Registry.thy ===== *)
theory Registry
  imports Deployment
begin

text \<open>
  The coordinator's live state and the immutable snapshot published to readers
  (\<^verbatim>\<open>include/dpufabric/registry.h\<close>), with the lookups of a snapshot.
\<close>

type_synonym ProgramHistory = "(ProgramGeneration, ProgramArtifact) stdmap"

record Snapshot =
  sn_epoch :: CoordinatorEpoch
  sn_policy :: Policy
  sn_devices :: "(DeviceId, DeviceRecord) stdmap"
  sn_services :: "(ServiceId, ServiceDefinition) stdmap"
  sn_programs :: "(ProgramId, ProgramHistory) stdmap"
  sn_current_program_gen :: "(ProgramId, ProgramGeneration) stdmap"
  sn_deployments :: "(DeploymentId, Deployment) stdmap"
  sn_activations :: "(ActivationId, ActivationRecord) stdmap"
  sn_contexts :: "(ExecutionContextId, ExecutionContext) stdmap"
  sn_device_usage :: "(DeviceId, Usage) stdmap"
  sn_device_order :: "DeviceId list"

record LiveState =
  ls_epoch :: CoordinatorEpoch
  ls_policy :: Policy
  ls_devices :: "(DeviceId, DeviceRecord) stdmap"
  ls_services :: "(ServiceId, ServiceDefinition) stdmap"
  ls_programs :: "(ProgramId, ProgramHistory) stdmap"
  ls_current_program_gen :: "(ProgramId, ProgramGeneration) stdmap"
  ls_deployments :: "(DeploymentId, Deployment) stdmap"
  ls_activations :: "(ActivationId, ActivationRecord) stdmap"
  ls_contexts :: "(ExecutionContextId, ExecutionContext) stdmap"
  ls_ledgers :: "(DeviceId, ResourceLedger) stdmap"
  ls_usage :: "(DeviceId, Usage) stdmap"
  ls_device_order :: "DeviceId list"
  ls_function_owner :: "(FunctionId, DeviceId) stdmap"
  ls_port_owner :: "(PortId, DeviceId) stdmap"
  ls_workers :: "(WorkerId, WorkerBootId) stdmap"
  ls_worker_seq :: "(WorkerId, u64) stdmap"

definition LiveState_init :: LiveState where
  "LiveState_init =
     \<lparr>ls_epoch = null_id, ls_policy = Policy_init, ls_devices = [], ls_services = [],
      ls_programs = [], ls_current_program_gen = [], ls_deployments = [],
      ls_activations = [], ls_contexts = [], ls_ledgers = [], ls_usage = [],
      ls_device_order = [], ls_function_owner = [], ls_port_owner = [], ls_workers = [],
      ls_worker_seq = []\<rparr>"

definition snap_device :: "Snapshot \<Rightarrow> DeviceId \<Rightarrow> DeviceRecord option" where
  "snap_device s i = map_find (sn_devices s) i"

definition snap_usage :: "Snapshot \<Rightarrow> DeviceId \<Rightarrow> Usage option" where
  "snap_usage s i = map_find (sn_device_usage s) i"

definition snap_deployment :: "Snapshot \<Rightarrow> DeploymentId \<Rightarrow> Deployment option" where
  "snap_deployment s i = map_find (sn_deployments s) i"

definition snap_service :: "Snapshot \<Rightarrow> ServiceId \<Rightarrow> ServiceDefinition option" where
  "snap_service s i = map_find (sn_services s) i"

definition snap_current_gen :: "Snapshot \<Rightarrow> ProgramId \<Rightarrow> ProgramGeneration" where
  "snap_current_gen s i =
     (case map_find (sn_current_program_gen s) i of None \<Rightarrow> null_id | Some g \<Rightarrow> g)"

definition make_snapshot :: "LiveState \<Rightarrow> Snapshot" where
  "make_snapshot s =
     \<lparr>sn_epoch = ls_epoch s, sn_policy = ls_policy s, sn_devices = ls_devices s,
      sn_services = ls_services s, sn_programs = ls_programs s,
      sn_current_program_gen = ls_current_program_gen s, sn_deployments = ls_deployments s,
      sn_activations = ls_activations s, sn_contexts = ls_contexts s,
      sn_device_usage = ls_usage s, sn_device_order = ls_device_order s\<rparr>"

end
