(* ===== verification/Double.thy ===== *)
theory Double
  imports Prelude Complex_Main
begin

text \<open>
  The \<^verbatim>\<open>double\<close> arithmetic of the eligibility engine. A finite IEEE-754 binary64 value is a
  rational number with a 53-bit significand, and every operation returns the exact rational
  result rounded to the nearest such number, ties to the even significand. \<open>rnd\<close> is that
  rounding, for results whose exponent is in the normal range of the format.

  The code divides and multiplies 64-bit counters, fractions in \<open>[0, 1]\<close>, percentages and
  signed 64-bit weights, so every non-zero result lies between \<open>2 ^ -64\<close> and \<open>2 ^ 70\<close>: neither
  the subnormal range nor overflow is reached, and no operation yields a NaN (every divisor is
  checked to be non-zero first).

  The facts used downstream: \<open>rnd\<close> is monotone and fixes every integer of at most 53 bits, so
  fractions stay in \<open>[0, 1]\<close> and percentages in \<open>[0, 100]\<close>.
\<close>

section \<open>Rounding to binary64\<close>

type_synonym double = rat

definition pow2 :: "int \<Rightarrow> rat" where
  "pow2 k = (if 0 \<le> k then 2 ^ nat k else 1 / 2 ^ nat (- k))"

fun bit_length :: "nat \<Rightarrow> nat" where
  "bit_length n = (if n = 0 then 0 else Suc (bit_length (n div 2)))"

declare bit_length.simps [simp del]

definition ilog2 :: "rat \<Rightarrow> int" where
  "ilog2 x = (if 1 \<le> x then int (bit_length (nat \<lfloor>x\<rfloor>)) - 1
              else - int (bit_length (nat (\<lceil>1 / x\<rceil> - 1))))"

definition round_half_even :: "rat \<Rightarrow> int" where
  "round_half_even y =
     (let f = \<lfloor>y\<rfloor>; d = y - of_int f
      in if d < 1 / 2 then f else if d > 1 / 2 then f + 1 else if even f then f else f + 1)"

definition rnd_pos :: "rat \<Rightarrow> double" where
  "rnd_pos x = (let s = pow2 (ilog2 x - 52) in of_int (round_half_even (x / s)) * s)"

definition rnd :: "rat \<Rightarrow> double" where
  "rnd x = (if x = 0 then 0 else if x < 0 then - rnd_pos (- x) else rnd_pos x)"

section \<open>Operations\<close>

definition d_of_u64 :: "u64 \<Rightarrow> double" where
  "d_of_u64 w = rnd (of_nat (unat w))"

definition d_of_i64 :: "64 word \<Rightarrow> double" where
  "d_of_i64 w = rnd (of_int (sint w))"

definition d_add :: "double \<Rightarrow> double \<Rightarrow> double" where
  "d_add x y = rnd (x + y)"

definition d_sub :: "double \<Rightarrow> double \<Rightarrow> double" where
  "d_sub x y = rnd (x - y)"

definition d_mul :: "double \<Rightarrow> double \<Rightarrow> double" where
  "d_mul x y = rnd (x * y)"

definition d_div :: "double \<Rightarrow> double \<Rightarrow> double" where
  "d_div x y = rnd (x / y)"

text \<open>\<^verbatim>\<open>(int)x\<close> truncates towards zero; \<^verbatim>\<open>std::to_string\<close> prints in decimal.\<close>

definition d_to_int :: "double \<Rightarrow> int" where
  "d_to_int x = (if x < 0 then - \<lfloor>- x\<rfloor> else \<lfloor>x\<rfloor>)"

fun nat_to_string :: "nat \<Rightarrow> string" where
  "nat_to_string n =
     (if n < 10 then [char_of (48 + n)]
      else nat_to_string (n div 10) @ [char_of (48 + n mod 10)])"

declare nat_to_string.simps [simp del]

definition int_to_string :: "int \<Rightarrow> string" where
  "int_to_string i =
     (if i < 0 then CHR ''-'' # nat_to_string (nat (- i)) else nat_to_string (nat i))"

section \<open>Powers of two and binary logarithm\<close>

lemma pow2_pos [simp]: "0 < pow2 k"
  by (simp add: pow2_def)

lemma pow2_nat: "pow2 (int n) = 2 ^ n"
  by (simp add: pow2_def)

lemma pow2_neg: "pow2 (- int n) = 1 / 2 ^ n"
  by (cases n) (simp_all add: pow2_def nat_add_distrib)

lemma pow2_Suc: "pow2 (k + 1) = 2 * pow2 k"
proof (cases "0 \<le> k")
  case True
  then show ?thesis by (simp add: pow2_def nat_add_distrib)
next
  case False
  then obtain n where n: "k = - int (Suc n)"
    by (metis int_nat_eq negD not_le_imp_less)
  have k: "k + 1 = - int n" using n by simp
  show ?thesis unfolding k unfolding n pow2_neg by simp
qed

lemma pow2_add_nat: "pow2 (k + int n) = pow2 k * 2 ^ n"
proof (induction n)
  case (Suc n)
  have "pow2 (k + int (Suc n)) = pow2 ((k + int n) + 1)" by (simp add: ac_simps)
  then show ?case using Suc by (simp only: pow2_Suc) simp
qed simp

lemma pow2_mono: "j \<le> k \<Longrightarrow> pow2 j \<le> pow2 k"
proof -
  assume "j \<le> k"
  then obtain n where "k = j + int n" using zle_iff_zadd by blast
  then show ?thesis by (simp add: pow2_add_nat)
qed

lemma bit_length_bounds: "0 < n \<Longrightarrow> 2 ^ (bit_length n - 1) \<le> n \<and> n < 2 ^ bit_length n"
proof (induction n rule: bit_length.induct)
  case (1 n)
  show ?case
  proof (cases "n div 2 = 0")
    case True
    then have "n = 1" using 1 by auto
    then show ?thesis by (simp add: bit_length.simps)
  next
    case False
    let ?b = "bit_length (n div 2)"
    have ih: "2 ^ (?b - 1) \<le> n div 2 \<and> n div 2 < 2 ^ ?b" using False 1 by simp
    have "?b \<noteq> 0" using False by (simp add: bit_length.simps [of "n div 2"])
    then have "2 * 2 ^ (?b - 1) = (2::nat) ^ ?b" by (cases ?b) auto
    moreover have "bit_length n = Suc ?b" using 1 by (simp add: bit_length.simps [of n])
    ultimately show ?thesis using ih by simp linarith
  qed
qed

lemma ilog2_bounds:
  assumes "0 < x"
  shows "pow2 (ilog2 x) \<le> x" "x < pow2 (ilog2 x + 1)"
proof -
  have "pow2 (ilog2 x) \<le> x \<and> x < pow2 (ilog2 x + 1)"
  proof (cases "1 \<le> x")
    case True
    let ?n = "nat \<lfloor>x\<rfloor>"
    let ?b = "bit_length ?n"
    have n: "0 < ?n" "of_nat ?n \<le> x" "x < of_nat ?n + 1" using True by linarith+
    have b: "2 ^ (?b - 1) \<le> ?n" "?n < 2 ^ ?b" using bit_length_bounds [OF n(1)] by auto
    have "?b \<noteq> 0" using n(1) by (simp add: bit_length.simps [of ?n])
    then have "ilog2 x = int (?b - 1)" "ilog2 x + 1 = int ?b"
      using True by (simp_all add: ilog2_def)
    then have eq: "pow2 (ilog2 x) = 2 ^ (?b - 1)" "pow2 (ilog2 x + 1) = 2 ^ ?b"
      by (simp_all only: pow2_nat)
    have "(2::rat) ^ (?b - 1) \<le> of_nat ?n" using b(1) by (metis of_nat_le_iff of_nat_numeral of_nat_power)
    moreover have "of_nat ?n + 1 \<le> (2::rat) ^ ?b"
      using b(2) by (metis Suc_leI of_nat_Suc of_nat_le_iff of_nat_numeral of_nat_power add.commute)
    ultimately show ?thesis unfolding eq using n by linarith
  next
    case False
    let ?y = "1 / x"
    let ?n = "nat (\<lceil>?y\<rceil> - 1)"
    let ?b = "bit_length ?n"
    have y: "1 < ?y" using assms False by simp
    have n: "0 < ?n" "of_nat ?n < ?y" "?y \<le> of_nat ?n + 1" using y by linarith+
    have b: "2 ^ (?b - 1) \<le> ?n" "?n < 2 ^ ?b" using bit_length_bounds [OF n(1)] by auto
    have b0: "?b \<noteq> 0" using n(1) by (simp add: bit_length.simps [of ?n])
    have "(2::rat) ^ (?b - 1) \<le> of_nat ?n" using b(1) by (metis of_nat_le_iff of_nat_numeral of_nat_power)
    then have lo: "2 ^ (?b - 1) < ?y" using n by linarith
    have "of_nat ?n + 1 \<le> (2::rat) ^ ?b"
      using b(2) by (metis Suc_leI of_nat_Suc of_nat_le_iff of_nat_numeral of_nat_power add.commute)
    then have hi: "?y \<le> 2 ^ ?b" using n by linarith
    have il: "ilog2 x = - int ?b" using False by (simp add: ilog2_def)
    have "pow2 (ilog2 x) = 1 / 2 ^ ?b" using b0 by (simp add: il pow2_def)
    moreover have "pow2 (ilog2 x + 1) = 1 / 2 ^ (?b - 1)"
    proof (cases "?b = 1")
      case False
      then have "nat (- (ilog2 x + 1)) = ?b - 1" "\<not> 0 \<le> ilog2 x + 1" using b0 il by linarith+
      then show ?thesis by (simp add: pow2_def)
    qed (simp add: il pow2_def)
    moreover have "1 / 2 ^ ?b \<le> x" "x < 1 / 2 ^ (?b - 1)"
      using lo hi assms by (simp_all add: field_simps)
    ultimately show ?thesis by simp
  qed
  then show "pow2 (ilog2 x) \<le> x" "x < pow2 (ilog2 x + 1)" by auto
qed

lemma ilog2_mono: "0 < x \<Longrightarrow> x \<le> y \<Longrightarrow> ilog2 x \<le> ilog2 y"
proof (rule ccontr)
  assume "0 < x" "x \<le> y" "\<not> ilog2 x \<le> ilog2 y"
  then have "pow2 (ilog2 y + 1) \<le> pow2 (ilog2 x)" by (intro pow2_mono) simp
  then show False using ilog2_bounds [of x] ilog2_bounds [of y] \<open>0 < x\<close> \<open>x \<le> y\<close> by linarith
qed

section \<open>Rounding is monotone\<close>

lemma round_half_even_bounds: "\<lfloor>y\<rfloor> \<le> round_half_even y" "round_half_even y \<le> \<lfloor>y\<rfloor> + 1"
  by (auto simp: round_half_even_def Let_def)

lemma round_half_even_of_int [simp]: "round_half_even (of_int i) = i"
  by (simp add: round_half_even_def)

lemma round_half_even_mono: "y \<le> z \<Longrightarrow> round_half_even y \<le> round_half_even z"
proof -
  assume yz: "y \<le> z"
  then have "\<lfloor>y\<rfloor> \<le> \<lfloor>z\<rfloor>" by (rule floor_mono)
  then consider "\<lfloor>y\<rfloor> + 1 \<le> \<lfloor>z\<rfloor>" | "\<lfloor>y\<rfloor> = \<lfloor>z\<rfloor>" by linarith
  then show ?thesis
  proof cases
    case 1
    then show ?thesis using round_half_even_bounds [of y] round_half_even_bounds [of z] by linarith
  next
    case 2
    then show ?thesis using yz by (auto simp: round_half_even_def Let_def)
  qed
qed

lemma rnd_pos_bounds:
  assumes "0 < x"
  shows "pow2 (ilog2 x) \<le> rnd_pos x" "rnd_pos x \<le> pow2 (ilog2 x + 1)"
proof -
  let ?s = "pow2 (ilog2 x - 52)"
  have s: "pow2 (ilog2 x) = 2 ^ 52 * ?s" "pow2 (ilog2 x + 1) = 2 ^ 53 * ?s"
    using pow2_add_nat [of "ilog2 x - 52" 52] pow2_add_nat [of "ilog2 x - 52" 53]
    by (simp_all add: ac_simps)
  have "of_int (2 ^ 52) \<le> x / ?s" "x / ?s \<le> of_int (2 ^ 53)"
    using ilog2_bounds [OF assms] s by (simp_all add: field_simps)
  then have "2 ^ 52 \<le> round_half_even (x / ?s)" "round_half_even (x / ?s) \<le> 2 ^ 53"
    using round_half_even_mono round_half_even_of_int by metis+
  then have "(2::rat) ^ 52 \<le> of_int (round_half_even (x / ?s))"
    "of_int (round_half_even (x / ?s)) \<le> (2::rat) ^ 53"
    by (metis of_int_le_iff of_int_numeral of_int_power)+
  then show "pow2 (ilog2 x) \<le> rnd_pos x" "rnd_pos x \<le> pow2 (ilog2 x + 1)"
    by (simp_all only: s rnd_pos_def Let_def mult_le_cancel_right_pos pow2_pos)
qed

lemma rnd_pos_mono: "0 < x \<Longrightarrow> x \<le> y \<Longrightarrow> rnd_pos x \<le> rnd_pos y"
proof -
  assume x: "0 < x" and xy: "x \<le> y"
  have "ilog2 x \<le> ilog2 y" using x xy by (rule ilog2_mono)
  then consider "ilog2 x = ilog2 y" | "ilog2 x + 1 \<le> ilog2 y" by linarith
  then show ?thesis
  proof cases
    case 1
    have "x / pow2 (ilog2 y - 52) \<le> y / pow2 (ilog2 y - 52)" using xy
      by (intro divide_right_mono) (simp_all add: less_imp_le)
    then show ?thesis using 1 round_half_even_mono by (simp add: rnd_pos_def Let_def mult_right_mono)
  next
    case 2
    then show ?thesis
      using rnd_pos_bounds [OF x] rnd_pos_bounds [of y] pow2_mono [OF 2] x xy by linarith
  qed
qed

lemma rnd_0 [simp]: "rnd 0 = 0"
  by (simp add: rnd_def)

lemma rnd_pos_gt_0: "0 < x \<Longrightarrow> 0 < rnd_pos x"
  using rnd_pos_bounds(1) [of x] pow2_pos [of "ilog2 x"] by linarith

theorem rnd_mono: "x \<le> y \<Longrightarrow> rnd x \<le> rnd y"
proof -
  assume xy: "x \<le> y"
  consider "0 < x" | "y < 0" | "x \<le> 0" "0 \<le> y" by linarith
  then show ?thesis
  proof cases
    case 1
    then show ?thesis using xy rnd_pos_mono [of x y] by (simp add: rnd_def)
  next
    case 2
    then show ?thesis using xy rnd_pos_mono [of "- y" "- x"] by (simp add: rnd_def)
  next
    case 3
    then show ?thesis
      using rnd_pos_gt_0 [of y] rnd_pos_gt_0 [of "- x"] by (auto simp: rnd_def)
  qed
qed

section \<open>Small integers are exact\<close>

lemma rnd_pos_of_nat: "0 < n \<Longrightarrow> n < 2 ^ 53 \<Longrightarrow> rnd_pos (of_nat n) = of_nat n"
proof -
  assume n: "0 < n" "n < 2 ^ 53"
  let ?k = "ilog2 (of_nat n)"
  have il: "?k = int (bit_length n) - 1" using n by (simp add: ilog2_def)
  have "(2::nat) ^ (bit_length n - 1) < 2 ^ 53" using bit_length_bounds [OF n(1)] n(2) by linarith
  then have "bit_length n - 1 < 53" by (simp only: power_strict_increasing_iff)
  then obtain j where j: "52 = ?k + int j" using il zle_iff_zadd [of ?k 52] by auto
  then have "?k - 52 = - int j" by simp
  then have "pow2 (?k - 52) = 1 / 2 ^ j" by (simp only: pow2_neg)
  moreover have "(of_nat n :: rat) / (1 / 2 ^ j) = of_int (int (n * 2 ^ j))" by simp
  ultimately show ?thesis by (simp only: rnd_pos_def Let_def round_half_even_of_int) simp
qed

lemma rnd_of_nat: "n < 2 ^ 53 \<Longrightarrow> rnd (of_nat n) = of_nat n"
  by (cases "n = 0") (simp_all add: rnd_def rnd_pos_of_nat)

lemma rnd_numeral: "numeral n < (2 ^ 53 :: nat) \<Longrightarrow> rnd (numeral n) = numeral n"
  using rnd_of_nat [of "numeral n"] by simp

lemma rnd_1 [simp]: "rnd 1 = 1"
  using rnd_of_nat [of 1] by simp

lemma rnd_unit: "0 \<le> x \<Longrightarrow> x \<le> 1 \<Longrightarrow> 0 \<le> rnd x \<and> rnd x \<le> 1"
  using rnd_mono [of 0 x] rnd_mono [of x 1] by simp

lemma rnd_percent: "0 \<le> x \<Longrightarrow> x \<le> 100 \<Longrightarrow> 0 \<le> rnd x \<and> rnd x \<le> 100"
  using rnd_mono [of 0 x] rnd_mono [of x 100] by (simp add: rnd_numeral)

text \<open>A quotient of two 64-bit counters, the smaller by the larger, is a fraction.\<close>

lemma d_of_u64_mono: "a \<le> b \<Longrightarrow> d_of_u64 a \<le> d_of_u64 b"
  unfolding d_of_u64_def by (rule rnd_mono) (simp only: of_nat_le_iff word_le_nat_alt)

lemma d_of_u64_pos: "a \<noteq> 0 \<Longrightarrow> 1 \<le> d_of_u64 a"
proof -
  assume "a \<noteq> 0"
  then have "1 \<le> unat a" by (simp add: unat_gt_0 Suc_le_eq)
  then have "of_nat 1 \<le> (of_nat (unat a) :: rat)" by (simp only: of_nat_le_iff)
  from rnd_mono [OF this] show ?thesis unfolding d_of_u64_def by simp
qed

lemma d_of_u64_ge_0: "0 \<le> d_of_u64 a"
  using rnd_mono [of 0 "of_nat (unat a)"] unfolding d_of_u64_def
  by (simp only: rnd_0 of_nat_0_le_iff)

lemma d_div_unit: "a \<le> b \<Longrightarrow> b \<noteq> 0 \<Longrightarrow> 0 \<le> d_div (d_of_u64 a) (d_of_u64 b) \<and>
    d_div (d_of_u64 a) (d_of_u64 b) \<le> 1"
  unfolding d_div_def
  using d_of_u64_mono [of a b] d_of_u64_pos [of b] d_of_u64_ge_0 [of a]
  by (intro rnd_unit) (simp_all add: divide_le_eq_1)

section \<open>Evaluation\<close>

text \<open>Code equations over binary integers, for evaluating the operations in proofs.\<close>

fun int_bits :: "int \<Rightarrow> int" where
  "int_bits i = (if i \<le> 0 then 0 else int_bits (i div 2) + 1)"

declare int_bits.simps [simp del]

lemma int_bits: "int_bits i = int (bit_length (nat i))"
proof (induction i rule: int_bits.induct)
  case (1 i)
  show ?case
  proof (cases "i \<le> 0")
    case True
    then show ?thesis by (simp add: int_bits.simps [of i] bit_length.simps [of 0])
  next
    case False
    then have "nat (i div 2) = nat i div 2" by (simp add: nat_div_distrib)
    with False 1 show ?thesis
      by (simp add: int_bits.simps [of i] bit_length.simps [of "nat i"])
  qed
qed

lemma ilog2_code [code]:
  "ilog2 x = (if 1 \<le> x then int_bits \<lfloor>x\<rfloor> - 1 else - int_bits (\<lceil>1 / x\<rceil> - 1))"
  by (simp add: ilog2_def int_bits)

lemma d_of_u64_code [code]: "d_of_u64 w = rnd (of_int (uint w))"
  by (simp add: d_of_u64_def)

lemma rnd_code [code]:
  "rnd x = (if \<lfloor>x\<rfloor> < 2 ^ 53 \<and> 0 \<le> x \<and> of_int \<lfloor>x\<rfloor> = x then x
            else if x < 0 then - rnd_pos (- x) else rnd_pos x)"
proof -
  have "rnd x = x" if "\<lfloor>x\<rfloor> < 2 ^ 53" "0 \<le> x" "of_int \<lfloor>x\<rfloor> = x"
  proof -
    have "0 \<le> \<lfloor>x\<rfloor>" using that(2) by simp
    then have "x = of_nat (nat \<lfloor>x\<rfloor>)" using that(3) by (metis of_int_of_nat_eq int_nat_eq)
    moreover have "nat \<lfloor>x\<rfloor> < 2 ^ 53" using that(1) \<open>0 \<le> \<lfloor>x\<rfloor>\<close> by (simp add: nat_less_iff del: floor_less_iff)
    ultimately show ?thesis by (metis rnd_of_nat)
  qed
  then show ?thesis by (auto simp: rnd_def)
qed

end
