(* ===== verification/Eligibility.thy ===== *)
theory Eligibility
  imports Registry Double
begin

text \<open>
  The eligibility engine: \<^verbatim>\<open>include/dpufabric/eligibility.h\<close>, \<^verbatim>\<open>src/eligibility.cpp\<close> and
  \<^verbatim>\<open>src/summarize.cpp\<close>. \<open>evaluate_offload\<close> looks at the devices of a snapshot in
  registration order; for each it collects the rejection reasons of the hard constraints, in
  the order the code pushes them, and scores the devices without any; the winner is the first
  element of a stable sort by total score, ties broken by registration order.

  Each group of checks of the loop body is a definition that returns the reasons it pushes, so
  the list of a candidate is their concatenation.
\<close>

section \<open>Results\<close>

datatype (plugins only: code size) RejectionReason =
    NONE | DEVICE_NOT_FOUND | DEVICE_NOT_READY | DEVICE_DRAINING | DEVICE_FAILED
    | DEVICE_EVIDENCE_STALE | DEVICE_GENERATION_STALE | DEVICE_BOOT_STALE
    | DEVICE_HEALTH_THRESHOLD | REQUIRED_CAPABILITY_UNSUPPORTED | REQUIRED_CAPABILITY_UNKNOWN
    | REQUIRED_CAPABILITY_STALE | CAPABILITY_VERSION_MISMATCH | FIRMWARE_INCOMPATIBLE
    | RUNTIME_INCOMPATIBLE | ARTIFACT_INCOMPATIBLE | ARCHITECTURE_INCOMPATIBLE
    | ABI_INCOMPATIBLE | ISOLATION_DOMAIN_MISMATCH | TENANT_MISMATCH
    | DEDICATED_ISOLATION_UNAVAILABLE | ISOLATION_UNPROVEN | PORT_MISMATCH | FUNCTION_MISMATCH
    | DEVICE_CLASS_MISMATCH | RESOURCE_INSUFFICIENT | QUEUE_PRESSURE_HIGH | HEADROOM_LOW
    | DEPENDENCY_UNAVAILABLE | POLICY_DISALLOWED | SECURITY_MODE_INCOMPATIBLE
    | LOCALITY_INSUFFICIENT | PINNED_DEVICE_MISMATCH | PROGRAM_GENERATION_STALE
    | SERVICE_GENERATION_STALE | DEPLOYMENT_GENERATION_STALE | OFFLOAD_REQUIRED_UNAVAILABLE
    | END_MARKER | Unnamed u16

primrec RejectionReason_value :: "RejectionReason \<Rightarrow> u16" where
  "RejectionReason_value RejectionReason.NONE = 0"
| "RejectionReason_value RejectionReason.DEVICE_NOT_FOUND = 1"
| "RejectionReason_value RejectionReason.DEVICE_NOT_READY = 2"
| "RejectionReason_value RejectionReason.DEVICE_DRAINING = 3"
| "RejectionReason_value RejectionReason.DEVICE_FAILED = 4"
| "RejectionReason_value RejectionReason.DEVICE_EVIDENCE_STALE = 5"
| "RejectionReason_value RejectionReason.DEVICE_GENERATION_STALE = 6"
| "RejectionReason_value RejectionReason.DEVICE_BOOT_STALE = 7"
| "RejectionReason_value RejectionReason.DEVICE_HEALTH_THRESHOLD = 8"
| "RejectionReason_value RejectionReason.REQUIRED_CAPABILITY_UNSUPPORTED = 9"
| "RejectionReason_value RejectionReason.REQUIRED_CAPABILITY_UNKNOWN = 10"
| "RejectionReason_value RejectionReason.REQUIRED_CAPABILITY_STALE = 11"
| "RejectionReason_value RejectionReason.CAPABILITY_VERSION_MISMATCH = 12"
| "RejectionReason_value RejectionReason.FIRMWARE_INCOMPATIBLE = 13"
| "RejectionReason_value RejectionReason.RUNTIME_INCOMPATIBLE = 14"
| "RejectionReason_value RejectionReason.ARTIFACT_INCOMPATIBLE = 15"
| "RejectionReason_value RejectionReason.ARCHITECTURE_INCOMPATIBLE = 16"
| "RejectionReason_value RejectionReason.ABI_INCOMPATIBLE = 17"
| "RejectionReason_value RejectionReason.ISOLATION_DOMAIN_MISMATCH = 18"
| "RejectionReason_value RejectionReason.TENANT_MISMATCH = 19"
| "RejectionReason_value RejectionReason.DEDICATED_ISOLATION_UNAVAILABLE = 20"
| "RejectionReason_value RejectionReason.ISOLATION_UNPROVEN = 21"
| "RejectionReason_value RejectionReason.PORT_MISMATCH = 22"
| "RejectionReason_value RejectionReason.FUNCTION_MISMATCH = 23"
| "RejectionReason_value RejectionReason.DEVICE_CLASS_MISMATCH = 24"
| "RejectionReason_value RejectionReason.RESOURCE_INSUFFICIENT = 25"
| "RejectionReason_value RejectionReason.QUEUE_PRESSURE_HIGH = 26"
| "RejectionReason_value RejectionReason.HEADROOM_LOW = 27"
| "RejectionReason_value RejectionReason.DEPENDENCY_UNAVAILABLE = 28"
| "RejectionReason_value RejectionReason.POLICY_DISALLOWED = 29"
| "RejectionReason_value RejectionReason.SECURITY_MODE_INCOMPATIBLE = 30"
| "RejectionReason_value RejectionReason.LOCALITY_INSUFFICIENT = 31"
| "RejectionReason_value RejectionReason.PINNED_DEVICE_MISMATCH = 32"
| "RejectionReason_value RejectionReason.PROGRAM_GENERATION_STALE = 33"
| "RejectionReason_value RejectionReason.SERVICE_GENERATION_STALE = 34"
| "RejectionReason_value RejectionReason.DEPLOYMENT_GENERATION_STALE = 35"
| "RejectionReason_value RejectionReason.OFFLOAD_REQUIRED_UNAVAILABLE = 36"
| "RejectionReason_value RejectionReason.END_MARKER = 37"
| "RejectionReason_value (RejectionReason.Unnamed v) = v"

definition RejectionReason_cast :: "u16 \<Rightarrow> RejectionReason" where
  "RejectionReason_cast v =
    (if v = 0 then RejectionReason.NONE
     else if v = 1 then RejectionReason.DEVICE_NOT_FOUND
     else if v = 2 then RejectionReason.DEVICE_NOT_READY
     else if v = 3 then RejectionReason.DEVICE_DRAINING
     else if v = 4 then RejectionReason.DEVICE_FAILED
     else if v = 5 then RejectionReason.DEVICE_EVIDENCE_STALE
     else if v = 6 then RejectionReason.DEVICE_GENERATION_STALE
     else if v = 7 then RejectionReason.DEVICE_BOOT_STALE
     else if v = 8 then RejectionReason.DEVICE_HEALTH_THRESHOLD
     else if v = 9 then RejectionReason.REQUIRED_CAPABILITY_UNSUPPORTED
     else if v = 10 then RejectionReason.REQUIRED_CAPABILITY_UNKNOWN
     else if v = 11 then RejectionReason.REQUIRED_CAPABILITY_STALE
     else if v = 12 then RejectionReason.CAPABILITY_VERSION_MISMATCH
     else if v = 13 then RejectionReason.FIRMWARE_INCOMPATIBLE
     else if v = 14 then RejectionReason.RUNTIME_INCOMPATIBLE
     else if v = 15 then RejectionReason.ARTIFACT_INCOMPATIBLE
     else if v = 16 then RejectionReason.ARCHITECTURE_INCOMPATIBLE
     else if v = 17 then RejectionReason.ABI_INCOMPATIBLE
     else if v = 18 then RejectionReason.ISOLATION_DOMAIN_MISMATCH
     else if v = 19 then RejectionReason.TENANT_MISMATCH
     else if v = 20 then RejectionReason.DEDICATED_ISOLATION_UNAVAILABLE
     else if v = 21 then RejectionReason.ISOLATION_UNPROVEN
     else if v = 22 then RejectionReason.PORT_MISMATCH
     else if v = 23 then RejectionReason.FUNCTION_MISMATCH
     else if v = 24 then RejectionReason.DEVICE_CLASS_MISMATCH
     else if v = 25 then RejectionReason.RESOURCE_INSUFFICIENT
     else if v = 26 then RejectionReason.QUEUE_PRESSURE_HIGH
     else if v = 27 then RejectionReason.HEADROOM_LOW
     else if v = 28 then RejectionReason.DEPENDENCY_UNAVAILABLE
     else if v = 29 then RejectionReason.POLICY_DISALLOWED
     else if v = 30 then RejectionReason.SECURITY_MODE_INCOMPATIBLE
     else if v = 31 then RejectionReason.LOCALITY_INSUFFICIENT
     else if v = 32 then RejectionReason.PINNED_DEVICE_MISMATCH
     else if v = 33 then RejectionReason.PROGRAM_GENERATION_STALE
     else if v = 34 then RejectionReason.SERVICE_GENERATION_STALE
     else if v = 35 then RejectionReason.DEPLOYMENT_GENERATION_STALE
     else if v = 36 then RejectionReason.OFFLOAD_REQUIRED_UNAVAILABLE
     else if v = 37 then RejectionReason.END_MARKER
     else RejectionReason.Unnamed v)"

primrec rejection_reason_name :: "RejectionReason \<Rightarrow> string" where
  "rejection_reason_name RejectionReason.NONE = ''NONE''"
| "rejection_reason_name RejectionReason.DEVICE_NOT_FOUND = ''DEVICE_NOT_FOUND''"
| "rejection_reason_name RejectionReason.DEVICE_NOT_READY = ''DEVICE_NOT_READY''"
| "rejection_reason_name RejectionReason.DEVICE_DRAINING = ''DEVICE_DRAINING''"
| "rejection_reason_name RejectionReason.DEVICE_FAILED = ''DEVICE_FAILED''"
| "rejection_reason_name RejectionReason.DEVICE_EVIDENCE_STALE = ''DEVICE_EVIDENCE_STALE''"
| "rejection_reason_name RejectionReason.DEVICE_GENERATION_STALE = ''DEVICE_GENERATION_STALE''"
| "rejection_reason_name RejectionReason.DEVICE_BOOT_STALE = ''DEVICE_BOOT_STALE''"
| "rejection_reason_name RejectionReason.DEVICE_HEALTH_THRESHOLD = ''DEVICE_HEALTH_THRESHOLD''"
| "rejection_reason_name RejectionReason.REQUIRED_CAPABILITY_UNSUPPORTED = ''REQUIRED_CAPABILITY_UNSUPPORTED''"
| "rejection_reason_name RejectionReason.REQUIRED_CAPABILITY_UNKNOWN = ''REQUIRED_CAPABILITY_UNKNOWN''"
| "rejection_reason_name RejectionReason.REQUIRED_CAPABILITY_STALE = ''REQUIRED_CAPABILITY_STALE''"
| "rejection_reason_name RejectionReason.CAPABILITY_VERSION_MISMATCH = ''CAPABILITY_VERSION_MISMATCH''"
| "rejection_reason_name RejectionReason.FIRMWARE_INCOMPATIBLE = ''FIRMWARE_INCOMPATIBLE''"
| "rejection_reason_name RejectionReason.RUNTIME_INCOMPATIBLE = ''RUNTIME_INCOMPATIBLE''"
| "rejection_reason_name RejectionReason.ARTIFACT_INCOMPATIBLE = ''ARTIFACT_INCOMPATIBLE''"
| "rejection_reason_name RejectionReason.ARCHITECTURE_INCOMPATIBLE = ''ARCHITECTURE_INCOMPATIBLE''"
| "rejection_reason_name RejectionReason.ABI_INCOMPATIBLE = ''ABI_INCOMPATIBLE''"
| "rejection_reason_name RejectionReason.ISOLATION_DOMAIN_MISMATCH = ''ISOLATION_DOMAIN_MISMATCH''"
| "rejection_reason_name RejectionReason.TENANT_MISMATCH = ''TENANT_MISMATCH''"
| "rejection_reason_name RejectionReason.DEDICATED_ISOLATION_UNAVAILABLE = ''DEDICATED_ISOLATION_UNAVAILABLE''"
| "rejection_reason_name RejectionReason.ISOLATION_UNPROVEN = ''ISOLATION_UNPROVEN''"
| "rejection_reason_name RejectionReason.PORT_MISMATCH = ''PORT_MISMATCH''"
| "rejection_reason_name RejectionReason.FUNCTION_MISMATCH = ''FUNCTION_MISMATCH''"
| "rejection_reason_name RejectionReason.DEVICE_CLASS_MISMATCH = ''DEVICE_CLASS_MISMATCH''"
| "rejection_reason_name RejectionReason.RESOURCE_INSUFFICIENT = ''RESOURCE_INSUFFICIENT''"
| "rejection_reason_name RejectionReason.QUEUE_PRESSURE_HIGH = ''QUEUE_PRESSURE_HIGH''"
| "rejection_reason_name RejectionReason.HEADROOM_LOW = ''HEADROOM_LOW''"
| "rejection_reason_name RejectionReason.DEPENDENCY_UNAVAILABLE = ''DEPENDENCY_UNAVAILABLE''"
| "rejection_reason_name RejectionReason.POLICY_DISALLOWED = ''POLICY_DISALLOWED''"
| "rejection_reason_name RejectionReason.SECURITY_MODE_INCOMPATIBLE = ''SECURITY_MODE_INCOMPATIBLE''"
| "rejection_reason_name RejectionReason.LOCALITY_INSUFFICIENT = ''LOCALITY_INSUFFICIENT''"
| "rejection_reason_name RejectionReason.PINNED_DEVICE_MISMATCH = ''PINNED_DEVICE_MISMATCH''"
| "rejection_reason_name RejectionReason.PROGRAM_GENERATION_STALE = ''PROGRAM_GENERATION_STALE''"
| "rejection_reason_name RejectionReason.SERVICE_GENERATION_STALE = ''SERVICE_GENERATION_STALE''"
| "rejection_reason_name RejectionReason.DEPLOYMENT_GENERATION_STALE = ''DEPLOYMENT_GENERATION_STALE''"
| "rejection_reason_name RejectionReason.OFFLOAD_REQUIRED_UNAVAILABLE = ''OFFLOAD_REQUIRED_UNAVAILABLE''"
| "rejection_reason_name RejectionReason.END_MARKER = ''END_MARKER''"
| "rejection_reason_name (RejectionReason.Unnamed v) = ''UNKNOWN''"

interpretation rjr_codes: cpp_enum RejectionReason_value RejectionReason_cast
  by unfold_locales (simp add: RejectionReason_cast_def)

record FactorScore =
  fs_factor :: RankFactor
  fs_normalized :: double
  fs_weighted :: double
  fs_note :: string

record CandidateReport =
  ca_device :: DeviceId
  ca_passed_hard :: bool
  ca_rejected :: "RejectionReason list"
  ca_scores :: "FactorScore list"
  ca_total :: double
  ca_detail :: string

record EligibilityResult =
  er_mode :: OffloadMode
  er_execution :: ExecutionClass
  er_selected :: "DeviceId option"
  er_hard_pass :: bool
  er_fallback_used :: bool
  er_global_rejections :: "RejectionReason list"
  er_candidates :: "CandidateReport list"
  er_fallback_reason :: string
  er_explanation :: string

definition EligibilityResult_init :: EligibilityResult where
  "EligibilityResult_init =
     \<lparr>er_mode = OffloadMode.OFFLOAD_REQUIRED, er_execution = ExecutionClass.UNSUPPORTED,
      er_selected = None, er_hard_pass = False, er_fallback_used = False,
      er_global_rejections = [], er_candidates = [], er_fallback_reason = [],
      er_explanation = []\<rparr>"

section \<open>Measures of a device\<close>

primrec health_severity :: "DeviceHealth \<Rightarrow> nat" where
  "health_severity DeviceHealth.HEALTHY = 1"
| "health_severity DeviceHealth.WARN = 2"
| "health_severity DeviceHealth.DEGRADED = 3"
| "health_severity DeviceHealth.FAILED = 4"
| "health_severity DeviceHealth.UNKNOWN = 5"
| "health_severity DeviceHealth.END_MARKER = 5"
| "health_severity (DeviceHealth.Unnamed v) = 5"

primrec locality_value :: "LocalityQuality \<Rightarrow> double" where
  "locality_value LocalityQuality.SAME_DEVICE = rnd 1"
| "locality_value LocalityQuality.SAME_FUNCTION = rnd (9 / 10)"
| "locality_value LocalityQuality.SAME_NIC = rnd (8 / 10)"
| "locality_value LocalityQuality.SAME_ROOT = rnd (6 / 10)"
| "locality_value LocalityQuality.REMOTE = rnd (3 / 10)"
| "locality_value LocalityQuality.UNKNOWN = rnd (2 / 10)"
| "locality_value LocalityQuality.END_MARKER = rnd (2 / 10)"
| "locality_value (LocalityQuality.Unnamed v) = rnd (2 / 10)"

definition health_meets_policy :: "DeviceHealth \<Rightarrow> DeviceHealth \<Rightarrow> bool" where
  "health_meets_policy h mn \<longleftrightarrow> health_severity h \<le> health_severity mn"

definition has_port :: "DeviceRecord \<Rightarrow> PortId \<Rightarrow> bool" where
  "has_port d p \<longleftrightarrow> list_ex (\<lambda>x. x = p) (dv_ports d)"

definition has_function :: "DeviceRecord \<Rightarrow> FunctionId \<Rightarrow> bool" where
  "has_function d f \<longleftrightarrow> list_ex (\<lambda>x. x = f) (dv_functions d)"

definition queue_pressure :: "DeviceRecord \<Rightarrow> Usage \<Rightarrow> double" where
  "queue_pressure d u =
     (let cap = rp_queues (dv_resource_capacity d) in
      if cap = 0 then 0
      else if us_queues u \<ge> cap then 1
      else d_div (d_of_u64 (us_queues u)) (d_of_u64 cap))"

definition device_load :: "DeviceRecord \<Rightarrow> Usage \<Rightarrow> double" where
  "device_load d u =
     (let slots = rp_slots (dv_resource_capacity d) in
      if slots = 0 then rnd (1 / 2)
      else if us_slots u \<ge> slots then 1
      else d_div (d_of_u64 (us_slots u)) (d_of_u64 slots))"

definition headroom_frac :: "u64 \<Rightarrow> u64 \<Rightarrow> double" where
  "headroom_frac used cap =
     (if cap = 0 then 1
      else if used \<ge> cap then 0
      else d_div (d_of_u64 (cap - used)) (d_of_u64 cap))"

definition headroom_pct :: "DeviceRecord \<Rightarrow> Usage \<Rightarrow> double" where
  "headroom_pct d u =
     (let c = dv_resource_capacity d; h = 1;
          h = min h (headroom_frac (us_memory_bytes u) (rp_memory_bytes c));
          h = min h (headroom_frac (us_queues u) (rp_queues c));
          h = min h (headroom_frac (us_functions u) (rp_functions c));
          h = min h (headroom_frac (us_slots u) (rp_slots c));
          h = min h (headroom_frac (us_contexts u) (rp_contexts c))
      in d_mul h 100)"

definition find_current_program ::
  "Snapshot \<Rightarrow> ProgramId \<Rightarrow> ProgramGeneration \<Rightarrow> ProgramArtifact option" where
  "find_current_program snap pid gen =
     (case map_find (sn_programs snap) pid of
        None \<Rightarrow> None
      | Some gens \<Rightarrow> map_find gens gen)"

definition can_admit :: "ResourceProfile \<Rightarrow> Usage \<Rightarrow> ResourceRequest \<Rightarrow> bool" where
  "can_admit cap u r =
     (if rp_memory_bytes cap \<noteq> 0 \<and> us_memory_bytes u + rr_memory_bytes r > rp_memory_bytes cap
      then False
      else if rp_queues cap \<noteq> 0 \<and> us_queues u + rr_queues r > rp_queues cap then False
      else if rp_functions cap \<noteq> 0 \<and> us_functions u + rr_functions r > rp_functions cap
        then False
      else if rp_slots cap \<noteq> 0 \<and> us_slots u + rr_slots r > rp_slots cap then False
      else if rp_contexts cap \<noteq> 0 \<and> us_contexts u + rr_contexts r > rp_contexts cap then False
      else True)"

text \<open>The position in the registration order, \<^verbatim>\<open>SIZE_MAX\<close> when absent.\<close>

fun order_index :: "DeviceId list \<Rightarrow> nat \<Rightarrow> DeviceId \<Rightarrow> nat" where
  "order_index [] i d = 2 ^ 64 - 1"
| "order_index (x # xs) i d = (if x = d then i else order_index xs (Suc i) d)"

definition device_order_index :: "Snapshot \<Rightarrow> DeviceId \<Rightarrow> nat" where
  "device_order_index snap d = order_index (sn_device_order snap) 0 d"

definition collect_required_caps ::
  "OffloadRequest \<Rightarrow> ServiceDefinition option \<Rightarrow> ProgramArtifact option
    \<Rightarrow> CapabilityRequirement list" where
  "collect_required_caps req svc prog =
     rq_required_caps req
     @ (case svc of None \<Rightarrow> [] | Some s \<Rightarrow> sd_required_caps s @ sd_optional_caps s)
     @ (case prog of None \<Rightarrow> [] | Some p \<Rightarrow> pa_required_caps p)"

section \<open>Hard constraints\<close>

text \<open>\<open>reject c r\<close> is \<^verbatim>\<open>if (c) rep.rejected.push_back(r)\<close>.\<close>

definition reject :: "bool \<Rightarrow> RejectionReason \<Rightarrow> RejectionReason list" where
  "reject c r = (if c then [r] else [])"

definition pin_rejections :: "OffloadRequest \<Rightarrow> DeviceId \<Rightarrow> DeviceRecord \<Rightarrow> RejectionReason list"
where
  "pin_rejections req did dev =
     (case rq_required_device_class req of
        None \<Rightarrow> [] | Some c \<Rightarrow> reject (c \<noteq> dv_device_class dev) RejectionReason.DEVICE_CLASS_MISMATCH)
     @ (case rq_pinned_device req of
        None \<Rightarrow> [] | Some p \<Rightarrow> reject (p \<noteq> did) RejectionReason.PINNED_DEVICE_MISMATCH)"

definition lifecycle_rejections :: "Policy \<Rightarrow> DeviceRecord \<Rightarrow> RejectionReason list" where
  "lifecycle_rejections policy dev =
     (if dv_lifecycle dev = DeviceLifecycle.DRAINING then [RejectionReason.DEVICE_DRAINING]
      else if dv_lifecycle dev = DeviceLifecycle.FAILED then [RejectionReason.DEVICE_FAILED]
      else if dv_lifecycle dev = DeviceLifecycle.REVALIDATION_REQUIRED \<or> \<not> dv_evidence_fresh dev
        then [RejectionReason.DEVICE_EVIDENCE_STALE]
      else if dv_lifecycle dev \<noteq> DeviceLifecycle.READY then [RejectionReason.DEVICE_NOT_READY]
      else [])
     @ reject (dv_lifecycle dev = DeviceLifecycle.READY \<and>
               \<not> health_meets_policy (dv_health dev) (po_min_device_health policy))
         RejectionReason.DEVICE_HEALTH_THRESHOLD"

definition class_rejections :: "OffloadRequest \<Rightarrow> DeviceRecord \<Rightarrow> RejectionReason list" where
  "class_rejections req dev =
     reject (rq_offload_class req \<noteq> OffloadClass.CUSTOM_INFRASTRUCTURE_SERVICE \<and>
             \<not> supports_class dev (rq_offload_class req))
       RejectionReason.REQUIRED_CAPABILITY_UNSUPPORTED"

definition candidate_program :: "Snapshot \<Rightarrow> ProgramId option \<Rightarrow> ProgramArtifact option" where
  "candidate_program snap wanted =
     (case wanted of
        None \<Rightarrow> None
      | Some pid \<Rightarrow> find_current_program snap pid (snap_current_gen snap pid))"

definition program_rejections ::
  "Snapshot \<Rightarrow> OffloadRequest \<Rightarrow> ProgramId option \<Rightarrow> DeviceRecord \<Rightarrow> RejectionReason list" where
  "program_rejections snap req wanted dev =
     (case wanted of
        None \<Rightarrow> []
      | Some pid \<Rightarrow>
          (case candidate_program snap wanted of
             None \<Rightarrow> [RejectionReason.ARTIFACT_INCOMPATIBLE]
           | Some prog \<Rightarrow>
               if pa_program_gen prog \<noteq> snap_current_gen snap pid
               then [RejectionReason.PROGRAM_GENERATION_STALE]
               else reject (dv_architecture dev \<noteq> [] \<and> pa_target_architecture prog \<noteq> [] \<and>
                            dv_architecture dev \<noteq> pa_target_architecture prog \<and>
                            pa_target_architecture prog \<noteq> ''any'')
                      RejectionReason.ARCHITECTURE_INCOMPATIBLE
                  @ reject (rq_required_abi req \<noteq> [] \<and> pa_runtime_abi prog \<noteq> [] \<and>
                            pa_runtime_abi prog \<noteq> rq_required_abi req)
                      RejectionReason.ABI_INCOMPATIBLE))"

definition firmware_floor :: "ServiceDefinition option \<Rightarrow> ProgramArtifact option \<Rightarrow> u64" where
  "firmware_floor svc prog =
     (let f = 0;
          f = (case svc of None \<Rightarrow> f | Some s \<Rightarrow> max f (as_u64 (sd_min_firmware_gen s)));
          f = (case prog of None \<Rightarrow> f | Some p \<Rightarrow> max f (as_u64 (pa_min_firmware_gen p)))
      in f)"

definition runtime_floor :: "ServiceDefinition option \<Rightarrow> u64" where
  "runtime_floor svc =
     (case svc of None \<Rightarrow> 0 | Some s \<Rightarrow> max 0 (as_u64 (sd_min_runtime_gen s)))"

definition floor_rejections ::
  "ServiceDefinition option \<Rightarrow> ProgramArtifact option \<Rightarrow> DeviceRecord \<Rightarrow> RejectionReason list" where
  "floor_rejections svc prog dev =
     reject (as_u64 (dv_firmware_gen dev) < firmware_floor svc prog)
       RejectionReason.FIRMWARE_INCOMPATIBLE
     @ reject (as_u64 (dv_runtime_gen dev) < runtime_floor svc)
       RejectionReason.RUNTIME_INCOMPATIBLE"

definition capability_rejection ::
  "DeviceRecord \<Rightarrow> CapabilityRequirement \<Rightarrow> RejectionReason list" where
  "capability_rejection dev c =
     (if cr_optional c then []
      else let st = state_of (dv_capabilities dev) (cr_key c) in
        if st = CapabilityState.SUPPORTED then
          (case map_find (dv_capabilities dev) (cr_key c) of
             None \<Rightarrow> []
           | Some cp \<Rightarrow> reject (cp_version cp < cr_min_version c)
                          RejectionReason.CAPABILITY_VERSION_MISMATCH)
        else if st = CapabilityState.UNKNOWN then [RejectionReason.REQUIRED_CAPABILITY_UNKNOWN]
        else if st = CapabilityState.REVALIDATION_REQUIRED
          then [RejectionReason.REQUIRED_CAPABILITY_STALE]
        else [RejectionReason.REQUIRED_CAPABILITY_UNSUPPORTED])"

definition capability_rejections ::
  "Policy \<Rightarrow> OffloadRequest \<Rightarrow> ServiceDefinition option \<Rightarrow> ProgramArtifact option \<Rightarrow> DeviceRecord
    \<Rightarrow> RejectionReason list" where
  "capability_rejections policy req svc prog dev =
     concat (map (capability_rejection dev) (collect_required_caps req svc prog))
     @ concat (map (\<lambda>c. reject (state_of (dv_capabilities dev) (cr_key c) \<noteq>
                               CapabilityState.SUPPORTED)
                         RejectionReason.REQUIRED_CAPABILITY_UNSUPPORTED)
               (po_hard_caps policy))"

definition iso_proven :: "DeviceRecord \<Rightarrow> bool" where
  "iso_proven dev \<longleftrightarrow> dv_hardware_isolation dev \<and> dv_isolation_proven dev \<and> dv_evidence_fresh dev"

definition requested_isolation :: "OffloadRequest \<Rightarrow> ServiceDefinition option \<Rightarrow> IsolationSpec" where
  "requested_isolation req svc = (case svc of None \<Rightarrow> rq_isolation req | Some s \<Rightarrow> sd_isolation s)"

definition isolation_rejections ::
  "OffloadRequest \<Rightarrow> ServiceDefinition option \<Rightarrow> DeviceRecord \<Rightarrow> RejectionReason list" where
  "isolation_rejections req svc dev =
     (let iso = requested_isolation req svc in
      reject (iso_level iso \<noteq> IsolationRequirement.NONE \<and>
              \<not> satisfied_by iso (iso_proven dev) (dv_isolation_domain dev) (dv_tenant dev))
        RejectionReason.ISOLATION_UNPROVEN)
     @ reject (\<not> is_null (rq_isolation_domain req) \<and> \<not> is_null (dv_isolation_domain dev) \<and>
               rq_isolation_domain req \<noteq> dv_isolation_domain dev)
         RejectionReason.ISOLATION_DOMAIN_MISMATCH
     @ reject (\<not> is_null (rq_tenant req) \<and> \<not> is_null (dv_tenant dev) \<and>
               rq_tenant req \<noteq> dv_tenant dev)
         RejectionReason.TENANT_MISMATCH"

definition attachment_rejections :: "OffloadRequest \<Rightarrow> DeviceRecord \<Rightarrow> RejectionReason list" where
  "attachment_rejections req dev =
     (case rq_required_port req of
        None \<Rightarrow> [] | Some p \<Rightarrow> reject (\<not> has_port dev p) RejectionReason.PORT_MISMATCH)
     @ (case rq_required_function req of
        None \<Rightarrow> [] | Some f \<Rightarrow> reject (\<not> has_function dev f) RejectionReason.FUNCTION_MISMATCH)"

definition load_rejections :: "Policy \<Rightarrow> DeviceRecord \<Rightarrow> Usage \<Rightarrow> RejectionReason list" where
  "load_rejections policy dev u =
     reject (headroom_pct dev u < d_of_u64 (po_min_headroom policy)) RejectionReason.HEADROOM_LOW
     @ reject (d_mul (queue_pressure dev u) 100 > d_of_u64 (po_max_queue_pressure policy))
         RejectionReason.QUEUE_PRESSURE_HIGH"

definition security_rejections :: "OffloadRequest \<Rightarrow> DeviceRecord \<Rightarrow> RejectionReason list" where
  "security_rejections req dev =
     reject ((rq_security req = SecurityMode.SECURE \<or> rq_security req = SecurityMode.ISOLATED) \<and>
             \<not> iso_proven dev)
       RejectionReason.SECURITY_MODE_INCOMPATIBLE
     @ reject (rq_min_locality req \<noteq> LocalityQuality.UNKNOWN \<and>
               locality_value (dv_locality dev) < locality_value (rq_min_locality req))
         RejectionReason.LOCALITY_INSUFFICIENT"

definition dependency_rejections ::
  "Snapshot \<Rightarrow> ServiceDefinition option \<Rightarrow> RejectionReason list" where
  "dependency_rejections snap svc =
     (case svc of
        None \<Rightarrow> []
      | Some s \<Rightarrow> reject (list_ex (\<lambda>d. snap_service snap d = None) (sd_dependencies s))
                    RejectionReason.DEPENDENCY_UNAVAILABLE)"

definition requested_resources ::
  "OffloadRequest \<Rightarrow> ServiceDefinition option \<Rightarrow> ResourceRequest" where
  "requested_resources req svc = (case svc of None \<Rightarrow> rq_resource req | Some s \<Rightarrow> sd_resource s)"

definition requested_service :: "Snapshot \<Rightarrow> OffloadRequest \<Rightarrow> ServiceDefinition option" where
  "requested_service snap req =
     (case rq_service req of None \<Rightarrow> None | Some s \<Rightarrow> snap_service snap s)"

definition wanted_program :: "OffloadRequest \<Rightarrow> ServiceDefinition option \<Rightarrow> ProgramId option" where
  "wanted_program req svc =
     (case svc of
        None \<Rightarrow> rq_required_program req
      | Some s \<Rightarrow> if \<not> is_null (sd_required_program s) then Some (sd_required_program s)
                  else rq_required_program req)"

definition device_usage :: "Snapshot \<Rightarrow> DeviceId \<Rightarrow> Usage" where
  "device_usage snap did = (case snap_usage snap did of None \<Rightarrow> Usage_init | Some u \<Rightarrow> u)"

definition hard_rejections ::
  "Snapshot \<Rightarrow> OffloadRequest \<Rightarrow> DeviceId \<Rightarrow> DeviceRecord \<Rightarrow> RejectionReason list" where
  "hard_rejections snap req did dev =
     (let policy = sn_policy snap;
          svc = requested_service snap req;
          wanted = wanted_program req svc;
          prog = candidate_program snap wanted;
          u = device_usage snap did
      in pin_rejections req did dev
         @ lifecycle_rejections policy dev
         @ class_rejections req dev
         @ program_rejections snap req wanted dev
         @ floor_rejections svc prog dev
         @ capability_rejections policy req svc prog dev
         @ isolation_rejections req svc dev
         @ attachment_rejections req dev
         @ load_rejections policy dev u
         @ security_rejections req dev
         @ dependency_rejections snap svc
         @ reject (\<not> can_admit (dv_resource_capacity dev) u (requested_resources req svc))
             RejectionReason.RESOURCE_INSUFFICIENT)"

section \<open>Scores\<close>

definition make_score :: "Policy \<Rightarrow> RankFactor \<Rightarrow> double \<Rightarrow> string \<Rightarrow> FactorScore" where
  "make_score policy f nrm note =
     \<lparr>fs_factor = f, fs_normalized = nrm,
      fs_weighted = d_mul nrm (d_of_i64 (weight_of policy f)), fs_note = note\<rparr>"

definition is_warm :: "Snapshot \<Rightarrow> ServiceDefinition option \<Rightarrow> DeviceId \<Rightarrow> bool" where
  "is_warm snap svc did \<longleftrightarrow>
     list_ex (\<lambda>(k, d). dp_device d = did \<and>
                (case svc of None \<Rightarrow> True | Some s \<Rightarrow> dp_service d = sd_service_id s) \<and>
                dp_state d = DeploymentState.ACTIVE)
       (map_entries (sn_deployments snap))"

definition candidate_scores ::
  "Snapshot \<Rightarrow> OffloadRequest \<Rightarrow> DeviceId \<Rightarrow> DeviceRecord \<Rightarrow> FactorScore list" where
  "candidate_scores snap req did dev =
     (let policy = sn_policy snap;
          svc = requested_service snap req;
          u = device_usage snap did;
          hr = headroom_pct dev u;
          qp = queue_pressure dev u;
          warm = is_warm snap svc did;
          host_save = (if rq_offload_class req = OffloadClass.ENCRYPTION \<or>
                          rq_offload_class req = OffloadClass.COMPRESSION
                       then rnd (8 / 10) else rnd (1 / 2));
          pref = list_ex (\<lambda>p. p = did) (po_preferred_devices policy);
          add = make_score policy
      in [add RankFactor.WARM_SERVICE (if warm then 1 else 0)
            (if warm then ''warm=YES'' else ''warm=NO''),
          add RankFactor.LOCALITY (locality_value (dv_locality dev))
            (locality_quality_name (dv_locality dev)),
          add RankFactor.HEADROOM (d_div hr 100) (int_to_string (d_to_int hr)),
          add RankFactor.QUEUE_PRESSURE (d_sub 1 qp) (int_to_string (d_to_int (d_mul qp 100))),
          add RankFactor.DEVICE_LOAD (d_sub 1 (device_load dev u))
            (int_to_string (d_to_int (d_mul (device_load dev u) 100))),
          add RankFactor.STATE_TRANSFER (if warm then 1 else rnd (4 / 10))
            (if warm then ''low'' else ''high''),
          add RankFactor.HOST_CPU_SAVINGS host_save ''estimated'',
          add RankFactor.OFFLOAD_VALUE (if warm then rnd (7 / 10) else rnd (1 / 2)) ''estimated'',
          add RankFactor.FAILURE_RISK (d_div (of_nat (health_severity (dv_health dev))) 5)
            ''estimated'',
          add RankFactor.ENERGY (rnd (1 / 2)) ''unset'',
          add RankFactor.POLICY_PREFERENCE (if pref then 1 else 0)
            (if pref then ''YES'' else ''NO''),
          add RankFactor.TIEBREAK_ID 0 ''identity''])"

definition score_total :: "FactorScore list \<Rightarrow> double" where
  "score_total ss = fold (\<lambda>s total. d_add total (fs_weighted s)) ss 0"

definition candidate_report ::
  "Snapshot \<Rightarrow> OffloadRequest \<Rightarrow> DeviceId \<Rightarrow> DeviceRecord \<Rightarrow> CandidateReport" where
  "candidate_report snap req did dev =
     (let rej = hard_rejections snap req did dev;
          passed = (rej = []);
          scores = (if passed then candidate_scores snap req did dev else [])
      in \<lparr>ca_device = did, ca_passed_hard = passed, ca_rejected = rej, ca_scores = scores,
          ca_total = (if passed then score_total scores else 0),
          ca_detail = ''device='' @ dv_model dev @ '' / '' @ dv_pci_reference dev\<rparr>)"

definition all_reports :: "Snapshot \<Rightarrow> OffloadRequest \<Rightarrow> CandidateReport list" where
  "all_reports snap req =
     concat (map (\<lambda>did. case snap_device snap did of
                          None \<Rightarrow> [] | Some dev \<Rightarrow> [candidate_report snap req did dev])
       (sn_device_order snap))"

section \<open>Selection\<close>

text \<open>
  \<^verbatim>\<open>std::stable_sort\<close> with comparator \<open>lt\<close>: elements are inserted from the left, each behind
  all elements it does not precede, so equivalent elements keep their order.
\<close>

fun sort_insert :: "('a \<Rightarrow> 'a \<Rightarrow> bool) \<Rightarrow> 'a \<Rightarrow> 'a list \<Rightarrow> 'a list" where
  "sort_insert lt x [] = [x]"
| "sort_insert lt x (y # ys) = (if lt x y then x # y # ys else y # sort_insert lt x ys)"

definition stable_sort :: "('a \<Rightarrow> 'a \<Rightarrow> bool) \<Rightarrow> 'a list \<Rightarrow> 'a list" where
  "stable_sort lt xs = fold (sort_insert lt) xs []"

definition candidate_before :: "Snapshot \<Rightarrow> CandidateReport \<Rightarrow> CandidateReport \<Rightarrow> bool" where
  "candidate_before snap a b =
     (if ca_total a \<noteq> ca_total b then ca_total a > ca_total b
      else device_order_index snap (ca_device a) < device_order_index snap (ca_device b))"

definition execution_class_of :: "DeviceClass \<Rightarrow> ExecutionClass" where
  "execution_class_of c =
     (if c = DeviceClass.DPU then ExecutionClass.DPU_OFFLOAD
      else if c = DeviceClass.SMARTNIC then ExecutionClass.SMARTNIC_OFFLOAD
      else if c = DeviceClass.INFRA_PROCESSOR then ExecutionClass.INFRA_PROCESSOR_OFFLOAD
      else ExecutionClass.HOST_FALLBACK)"

section \<open>Explanations\<close>

definition explain_score :: "FactorScore \<Rightarrow> string" where
  "explain_score fs =
     rank_factor_name (fs_factor fs) @ ''=''
     @ (if fs_factor fs = RankFactor.WARM_SERVICE
        then (if fs_normalized fs > 1 / 2 then ''YES'' else ''NO'')
        else int_to_string (d_to_int (d_mul (fs_normalized fs) 100)))
     @ '' ''"

text \<open>The distinct reasons in order of first appearance.\<close>

fun aggregate :: "RejectionReason list \<Rightarrow> RejectionReason list \<Rightarrow> RejectionReason list" where
  "aggregate agg [] = agg"
| "aggregate agg (r # rs) = aggregate (if r \<in> set agg then agg else agg @ [r]) rs"

definition explain_reasons :: "RejectionReason list \<Rightarrow> string" where
  "explain_reasons rs = concat (map (\<lambda>r. '' '' @ rejection_reason_name r) rs)"

definition build_explanation :: "EligibilityResult \<Rightarrow> Snapshot \<Rightarrow> string" where
  "build_explanation r snap =
     (case er_selected r of
        Some sel \<Rightarrow>
          ''SELECTED: hard_constraints=PASS ''
          @ (case List.find (\<lambda>c. ca_device c = sel) (er_candidates r) of
               None \<Rightarrow> [] | Some c \<Rightarrow> concat (map explain_score (ca_scores c)))
          @ (case snap_device snap sel of None \<Rightarrow> [] | Some dev \<Rightarrow> ''device='' @ dv_model dev)
          @ '' fallback_not_required''
      | None \<Rightarrow>
          ''REJECTED:'' @ explain_reasons (er_global_rejections r)
          @ explain_reasons (aggregate [] (concat (map ca_rejected (er_candidates r)))))"

definition summarize :: "EligibilityResult \<Rightarrow> string" where
  "summarize r =
     ''mode='' @ (if er_mode r = OffloadMode.OFFLOAD_REQUIRED then ''OFFLOAD_REQUIRED''
                 else ''OFFLOAD_PREFERRED'')
     @ '' execution='' @ execution_class_name (er_execution r)
     @ (case er_selected r of None \<Rightarrow> [] | Some d \<Rightarrow> '' selected='' @ id_encode d)
     @ '' hard_pass='' @ (if er_hard_pass r then ''true'' else ''false'')
     @ (if er_fallback_used r then '' fallback='' @ er_fallback_reason r else [])
     @ (if er_explanation r \<noteq> [] then '' | '' @ er_explanation r else [])"

section \<open>Evaluation\<close>

definition selection_result ::
  "Snapshot \<Rightarrow> EligibilityResult \<Rightarrow> CandidateReport \<Rightarrow> EligibilityResult" where
  "selection_result snap result front =
     (let sel = ca_device front;
          result = result\<lparr>er_hard_pass := True, er_selected := Some sel\<rparr>;
          result = (case snap_device snap sel of
                      None \<Rightarrow> result
                    | Some dev \<Rightarrow>
                        result\<lparr>er_execution := execution_class_of (dv_device_class dev)\<rparr>);
          result = result\<lparr>er_fallback_used := False\<rparr>
      in result\<lparr>er_explanation := build_explanation result snap\<rparr>)"

definition no_selection_result :: "OffloadRequest \<Rightarrow> EligibilityResult \<Rightarrow> EligibilityResult" where
  "no_selection_result req result =
     (let result = result\<lparr>er_hard_pass := False, er_selected := None\<rparr> in
      if rq_mode req = OffloadMode.OFFLOAD_REQUIRED then
        result\<lparr>er_execution := ExecutionClass.UNSUPPORTED,
               er_global_rejections := er_global_rejections result @
                 [RejectionReason.OFFLOAD_REQUIRED_UNAVAILABLE],
               er_explanation := ''OFFLOAD_REQUIRED: no authoritative offload candidate; host fallback not permitted''\<rparr>
      else if rq_allow_host_fallback req then
        result\<lparr>er_execution := ExecutionClass.HOST_FALLBACK, er_fallback_used := True,
               er_fallback_reason := ''DPU_CAPABILITY_UNAVAILABLE'',
               er_explanation := ''OFFLOAD_PREFERRED: insufficient authoritative DPU candidates; explicit host fallback selected''\<rparr>
      else
        result\<lparr>er_execution := ExecutionClass.UNSUPPORTED,
               er_explanation := ''OFFLOAD_PREFERRED: no authoritative offload candidate and fallback not permitted''\<rparr>)"

definition evaluate_offload :: "Snapshot \<Rightarrow> OffloadRequest \<Rightarrow> EligibilityResult result" where
  "evaluate_offload snap req =
     (if rq_min_headroom req > 100
      then throw_error ErrorCode.INVALID_ARGUMENT ''min_headroom out of range''
      else if rq_max_queue_pressure req > 100
      then throw_error ErrorCode.INVALID_ARGUMENT ''max_queue_pressure out of range''
      else
        (let reps = all_reports snap req;
             passed = filter ca_passed_hard reps;
             result = EligibilityResult_init\<lparr>er_mode := rq_mode req, er_candidates := reps\<rparr>
         in case stable_sort (candidate_before snap) passed of
              front # _ \<Rightarrow> Inr (selection_result snap result front)
            | [] \<Rightarrow> Inr (no_selection_result req result)))"

end
