(* ===== verification/Engine.thy ===== *)
theory Engine
  imports Eligibility
begin

text \<open>
  The coordinator engine \<^verbatim>\<open>DPUFabricEngine\<close> of \<^verbatim>\<open>include/dpufabric/engine.h\<close> and
  \<^verbatim>\<open>src/engine.cpp\<close>, except \<^verbatim>\<open>persist\<close> and \<^verbatim>\<open>recover_from\<close>, which go through the state file.

  An operation takes the engine and returns its outcome with the engine it leaves behind: an
  operation that throws keeps what it changed before the throw, as the code does. Each
  operation runs under the mutex from its first access to the state to its last, so an
  execution of the engine is a sequence of operations. The published snapshot is a field of
  its own; \<open>rebuild_snapshot\<close> is the only operation that writes it.
\<close>

section \<open>State\<close>

record DiscoveredDevice =
  dd_record :: DeviceRecord
  dd_physical_device_present :: bool
  dd_backend_label :: string

record DiscoveryResult =
  dr_backend_available :: bool
  dr_physical_dpu_present :: bool
  dr_devices :: "DiscoveredDevice list"
  dr_summary :: string

text \<open>A backend, with what its \<^verbatim>\<open>discover()\<close> returns or throws.\<close>

record DiscoveryBackend =
  bk_name :: string
  bk_is_vendor_backend :: bool
  bk_discover :: "DiscoveryResult result"
  bk_execution_capability :: ExecutionClass

record engine =
  en_state :: LiveState
  en_snap :: Snapshot
  en_backends :: "DiscoveryBackend list"
  en_id_seq :: u64
  en_recovered :: bool

type_synonym 'a op = "engine \<Rightarrow> 'a result \<times> engine"

definition on_state :: "(LiveState \<Rightarrow> LiveState) \<Rightarrow> engine \<Rightarrow> engine" where
  "on_state f e = e\<lparr>en_state := f (en_state e)\<rparr>"

definition rebuild_snapshot :: "engine \<Rightarrow> engine" where
  "rebuild_snapshot e = e\<lparr>en_snap := make_snapshot (en_state e)\<rparr>"

definition commit_state :: "(LiveState \<Rightarrow> LiveState) \<Rightarrow> engine \<Rightarrow> engine" where
  "commit_state f e = rebuild_snapshot (on_state f e)"

definition refuse :: "ErrorCode \<Rightarrow> string \<Rightarrow> 'a op" where
  "refuse c msg e = (throw_error c msg, e)"

definition next_id :: "engine \<Rightarrow> u64 \<times> engine" where
  "next_id e = (en_id_seq e, e\<lparr>en_id_seq := en_id_seq e + 1\<rparr>)"

definition engine_new :: "CoordinatorEpoch \<Rightarrow> Policy \<Rightarrow> engine" where
  "engine_new ep policy = rebuild_snapshot
     \<lparr>en_state = LiveState_init\<lparr>ls_epoch := ep, ls_policy := policy\<rparr>,
      en_snap = make_snapshot LiveState_init, en_backends = [], en_id_seq = 1,
      en_recovered = False\<rparr>"

definition epoch :: "engine \<Rightarrow> CoordinatorEpoch" where
  "epoch e = sn_epoch (en_snap e)"

definition current_policy :: "engine \<Rightarrow> Policy" where
  "current_policy e = sn_policy (en_snap e)"

section \<open>Loops over deployments and activations\<close>

definition put_deployment :: "DeploymentId \<Rightarrow> Deployment \<Rightarrow> LiveState \<Rightarrow> LiveState" where
  "put_deployment i d s = s\<lparr>ls_deployments := map_set i d (ls_deployments s)\<rparr>"

definition put_device :: "DeviceId \<Rightarrow> DeviceRecord \<Rightarrow> LiveState \<Rightarrow> LiveState" where
  "put_device i d s = s\<lparr>ls_devices := map_set i d (ls_devices s)\<rparr>"

definition put_activation :: "ActivationId \<Rightarrow> ActivationRecord \<Rightarrow> LiveState \<Rightarrow> LiveState" where
  "put_activation i a s = s\<lparr>ls_activations := map_set i a (ls_activations s)\<rparr>"

text \<open>\<^verbatim>\<open>if (dep.activation) { ... ait->second.state = st; }\<close>\<close>

definition mark_activation :: "ActivationState \<Rightarrow> Deployment \<Rightarrow> LiveState \<Rightarrow> LiveState" where
  "mark_activation st dep s =
     (case dp_activation dep of
        None \<Rightarrow> s
      | Some a \<Rightarrow>
          (case map_find (ls_activations s) a of
             None \<Rightarrow> s
           | Some r \<Rightarrow> put_activation a (r\<lparr>ar_state := st\<rparr>) s))"

definition release_resources :: "DeploymentId \<Rightarrow> LiveState \<Rightarrow> LiveState" where
  "release_resources i s =
     (case map_find (ls_deployments s) i of
        None \<Rightarrow> s
      | Some dep \<Rightarrow>
          (case map_find (ls_ledgers s) (dp_device dep) of
             None \<Rightarrow> s
           | Some l \<Rightarrow>
               let l' = ledger_release (dp_resources dep) l in
               s\<lparr>ls_ledgers := map_set (dp_device dep) l' (ls_ledgers s),
                 ls_usage := map_set (dp_device dep) (lg_used l') (ls_usage s)\<rparr>))"

text \<open>
  The fencing loops differ in the deployments they pick; the body sets the state, withdraws
  authority and marks the activation stale.
\<close>

definition fence :: "Deployment \<Rightarrow> Deployment" where
  "fence d = d\<lparr>dp_state := DeploymentState.REVALIDATION_REQUIRED, dp_authoritative := False\<rparr>"

definition fence_one ::
  "(Deployment \<Rightarrow> bool) \<Rightarrow> DeploymentId \<times> Deployment \<Rightarrow> LiveState \<Rightarrow> LiveState" where
  "fence_one P e s =
     (case e of (i, dep) \<Rightarrow>
        if P dep then
          mark_activation ActivationState.STALE dep (put_deployment i (fence dep) s)
        else s)"

definition fence_deployments :: "(Deployment \<Rightarrow> bool) \<Rightarrow> LiveState \<Rightarrow> LiveState" where
  "fence_deployments P s = fold (fence_one P) (map_entries (ls_deployments s)) s"

definition running :: "Deployment \<Rightarrow> bool" where
  "running d \<longleftrightarrow> dp_state d = DeploymentState.ACTIVE \<or> dp_state d = DeploymentState.DEGRADED"

definition running_on :: "DeviceId \<Rightarrow> Deployment \<Rightarrow> bool" where
  "running_on i d \<longleftrightarrow> dp_device d = i \<and> running d"

section \<open>Device registry\<close>

definition register_device :: "DeviceRecord \<Rightarrow> DeviceId op" where
  "register_device rec e =
     (let i = dv_device_id rec; s = en_state e in
      if is_null i then refuse ErrorCode.INVALID_ARGUMENT ''device id must be set'' e
      else if map_count (ls_devices s) i
        then refuse ErrorCode.ALREADY_EXISTS ''device already registered'' e
      else
        (Inr i, commit_state (\<lambda>s.
           s\<lparr>ls_devices := map_set i rec (ls_devices s),
             ls_device_order := ls_device_order s @ [i],
             ls_ledgers := map_emplace i (ledger_new (dv_resource_capacity rec)) (ls_ledgers s),
             ls_usage := map_set i Usage_init (ls_usage s),
             ls_port_owner := fold (\<lambda>p. map_set p i) (dv_ports rec) (ls_port_owner s),
             ls_function_owner :=
               fold (\<lambda>f. map_set f i) (dv_functions rec) (ls_function_owner s)\<rparr>) e))"

definition update_device :: "DeviceRecord \<Rightarrow> DeviceId op" where
  "update_device rec e =
     (let i = dv_device_id rec in
      if is_null i then refuse ErrorCode.INVALID_ARGUMENT ''device id must be set'' e
      else
        (case map_find (ls_devices (en_state e)) i of
           None \<Rightarrow> refuse ErrorCode.NOT_FOUND ''device not found'' e
         | Some old \<Rightarrow>
             if dv_pci_reference old \<noteq> [] \<and> dv_pci_reference rec \<noteq> [] \<and>
                dv_pci_reference old \<noteq> dv_pci_reference rec
             then refuse ErrorCode.ALREADY_EXISTS
                    ''conflicting immutable device identity (pci_reference)'' e
             else (Inr i, commit_state (put_device i rec) e)))"

definition retire_one :: "DeviceId \<Rightarrow> DeploymentId \<times> Deployment \<Rightarrow> LiveState \<Rightarrow> LiveState" where
  "retire_one dev e s =
     (case e of (i, dep) \<Rightarrow>
        if dp_device dep = dev \<and>
           (dp_state dep = DeploymentState.ACTIVE \<or> dp_state dep = DeploymentState.DEGRADED \<or>
            dp_state dep = DeploymentState.DRAINING)
        then
          (let dep' = (if valid_deployment_transition (dp_state dep)
                            DeploymentState.REVALIDATION_REQUIRED
                       then dep\<lparr>dp_state := DeploymentState.REVALIDATION_REQUIRED\<rparr> else dep);
               s = put_deployment i (dep'\<lparr>dp_authoritative := False\<rparr>) s;
               s = mark_activation ActivationState.STALE dep s
           in release_resources i s)
        else s)"

definition retire_device :: "DeviceId \<Rightarrow> unit op" where
  "retire_device i e =
     (case map_find (ls_devices (en_state e)) i of
        None \<Rightarrow> refuse ErrorCode.NOT_FOUND ''device not found'' e
      | Some rec \<Rightarrow>
          (Inr (), commit_state (\<lambda>s.
             put_device i
               (rec\<lparr>dv_lifecycle := DeviceLifecycle.RETIRED, dv_evidence_fresh := False\<rparr>)
               (fold (retire_one i) (map_entries (ls_deployments s)) s)) e))"

definition transition_device :: "DeviceId \<Rightarrow> DeviceLifecycle \<Rightarrow> unit op" where
  "transition_device i to e =
     (case map_find (ls_devices (en_state e)) i of
        None \<Rightarrow> refuse ErrorCode.NOT_FOUND ''device not found'' e
      | Some rec \<Rightarrow>
          if \<not> valid_device_transition (dv_lifecycle rec) to
          then refuse ErrorCode.INVALID_TRANSITION ''invalid device lifecycle transition'' e
          else if to = DeviceLifecycle.REVALIDATION_REQUIRED \<or> to = DeviceLifecycle.OFFLINE \<or>
                  to = DeviceLifecycle.FAILED
          then
            (Inr (), commit_state (\<lambda>s.
               put_device i (rec\<lparr>dv_evidence_fresh := False, dv_lifecycle := to\<rparr>)
                 (fence_deployments (running_on i) s)) e)
          else (Inr (), commit_state (put_device i (rec\<lparr>dv_lifecycle := to\<rparr>)) e))"

definition set_device_state :: "DeviceId \<Rightarrow> CapabilityState \<Rightarrow> CapabilityKey \<Rightarrow> unit op" where
  "set_device_state i st cap e =
     (case map_find (ls_devices (en_state e)) i of
        None \<Rightarrow> refuse ErrorCode.NOT_FOUND ''device not found'' e
      | Some rec \<Rightarrow>
          (Inr (), commit_state (put_device i
             (rec\<lparr>dv_capabilities := caps_set_state cap st (dv_capabilities rec)\<rparr>)) e))"

definition fence_device :: "DeviceId \<Rightarrow> string \<Rightarrow> unit op" where
  "fence_device i reason e =
     (case map_find (ls_devices (en_state e)) i of
        None \<Rightarrow> refuse ErrorCode.NOT_FOUND ''device not found'' e
      | Some rec \<Rightarrow>
          (Inr (), commit_state (\<lambda>s.
             fence_deployments (running_on i)
               (put_device i
                 (rec\<lparr>dv_evidence_fresh := False, dv_discovery_detail := reason,
                      dv_lifecycle :=
                        (if dv_lifecycle rec \<noteq> DeviceLifecycle.RETIRED \<and>
                            dv_lifecycle rec \<noteq> DeviceLifecycle.OFFLINE \<and>
                            dv_lifecycle rec \<noteq> DeviceLifecycle.FAILED
                         then DeviceLifecycle.REVALIDATION_REQUIRED
                         else dv_lifecycle rec)\<rparr>) s)) e))"

section \<open>Backends\<close>

definition import_backend :: "DiscoveryBackend option \<Rightarrow> unit op" where
  "import_backend b e =
     (case b of
        None \<Rightarrow> refuse ErrorCode.INVALID_ARGUMENT ''null backend'' e
      | Some b \<Rightarrow> (Inr (), e\<lparr>en_backends := en_backends e @ [b]\<rparr>))"

text \<open>A discovered device is registered or updated; a \<^verbatim>\<open>DpuError\<close> is swallowed.\<close>

definition import_discovered :: "DiscoveredDevice \<Rightarrow> engine \<Rightarrow> engine" where
  "import_discovered dd e =
     (if map_count (ls_devices (en_state e)) (dv_device_id (dd_record dd))
      then snd (update_device (dd_record dd) e)
      else snd (register_device (dd_record dd) e))"

fun run_backends :: "DiscoveryBackend list \<Rightarrow> DiscoveryResult list \<Rightarrow> DiscoveryResult list op" where
  "run_backends [] out e = (Inr out, e)"
| "run_backends (b # bs) out e =
     (case bk_discover b of
        Inl f \<Rightarrow> (Inl f, e)
      | Inr r \<Rightarrow> run_backends bs (out @ [r]) (fold import_discovered (dr_devices r) e))"

definition run_all_backends :: "DiscoveryResult list op" where
  "run_all_backends e = run_backends (en_backends e) [] e"

section \<open>Service and program registry\<close>

definition register_service :: "ServiceDefinition \<Rightarrow> ServiceId op" where
  "register_service d e =
     (let i = sd_service_id d in
      if is_null i then refuse ErrorCode.INVALID_ARGUMENT ''service id must be set'' e
      else if map_count (ls_services (en_state e)) i
        then refuse ErrorCode.ALREADY_EXISTS ''service already registered'' e
      else
        (Inr i, commit_state (\<lambda>s. s\<lparr>ls_services := map_set i d (ls_services s)\<rparr>) e))"

definition register_program :: "ProgramArtifact \<Rightarrow> ProgramId op" where
  "register_program art e =
     (let i = pa_program_id art; g = pa_program_gen art in
      if is_null i then refuse ErrorCode.INVALID_ARGUMENT ''program id must be set'' e
      else if is_null g then refuse ErrorCode.INVALID_ARGUMENT ''program generation must be set'' e
      else
        (Inr i, commit_state (\<lambda>s.
           let gens = (case map_find (ls_programs s) i of None \<Rightarrow> [] | Some gens \<Rightarrow> gens);
               s = s\<lparr>ls_programs := map_set i (map_set g art gens) (ls_programs s)\<rparr>
           in case map_find (ls_current_program_gen s) i of
                None \<Rightarrow>
                  s\<lparr>ls_current_program_gen := map_set i g (ls_current_program_gen s)\<rparr>
              | Some cur \<Rightarrow>
                  if cur < g
                  then s\<lparr>ls_current_program_gen := map_set i g (ls_current_program_gen s)\<rparr>
                  else s) e))"

definition retire_program :: "ProgramId \<Rightarrow> unit op" where
  "retire_program i e =
     (if \<not> map_count (ls_programs (en_state e)) i
      then refuse ErrorCode.NOT_FOUND ''program not found'' e
      else (Inr (), commit_state (\<lambda>s.
              s\<lparr>ls_current_program_gen := map_erase i (ls_current_program_gen s)\<rparr>) e))"

section \<open>Workers\<close>

definition register_worker :: "WorkerId \<Rightarrow> WorkerBootId \<Rightarrow> unit op" where
  "register_worker w boot e =
     (if is_null w then refuse ErrorCode.INVALID_ARGUMENT ''worker id must be set'' e
      else if is_null boot
        then refuse ErrorCode.INVALID_ARGUMENT ''worker boot id must be set'' e
      else
        (case map_find (ls_workers (en_state e)) w of
           Some b \<Rightarrow>
             if b = boot then (Inr (), e)
             else refuse ErrorCode.STALE_WORKER
                    ''worker already registered with a different boot id'' e
         | None \<Rightarrow>
             (Inr (), commit_state (\<lambda>s.
                s\<lparr>ls_workers := map_set w boot (ls_workers s),
                  ls_worker_seq :=
                    map_set w (of_nat (length (map_entries (ls_worker_seq s))) + 1)
                      (ls_worker_seq s)\<rparr>) e)))"

definition worker_heartbeat :: "WorkerId \<Rightarrow> WorkerBootId \<Rightarrow> unit op" where
  "worker_heartbeat w boot e =
     (if map_find (ls_workers (en_state e)) w \<noteq> Some boot
      then refuse ErrorCode.STALE_WORKER ''unknown worker or stale boot id'' e
      else (Inr (), e))"

definition orphan_device :: "WorkerId \<Rightarrow> DeviceRecord \<Rightarrow> DeviceRecord" where
  "orphan_device w rec =
     (if dv_owning_worker rec = w \<and> dv_lifecycle rec \<noteq> DeviceLifecycle.RETIRED
      then rec\<lparr>dv_evidence_fresh := False,
               dv_lifecycle := DeviceLifecycle.REVALIDATION_REQUIRED\<rparr>
      else rec)"

definition bound_to_boot :: "WorkerBootId \<Rightarrow> Deployment \<Rightarrow> bool" where
  "bound_to_boot boot d \<longleftrightarrow> dp_worker_boot d = boot \<and> dp_state d = DeploymentState.ACTIVE"

definition mark_worker_lost :: "WorkerId \<Rightarrow> unit op" where
  "mark_worker_lost w e =
     (Inr (), commit_state (\<lambda>s.
        let s = s\<lparr>ls_devices := map_update_all (\<lambda>_. orphan_device w) (ls_devices s)\<rparr>
        in case map_find (ls_workers s) w of
             None \<Rightarrow> s
           | Some old_boot \<Rightarrow>
               (let s = fence_deployments (bound_to_boot old_boot) s in
                s\<lparr>ls_workers := map_erase w (ls_workers s),
                  ls_worker_seq := map_erase w (ls_worker_seq s)\<rparr>)) e)"

end
