(* ===== verification/EngineDeploy.thy ===== *)
theory EngineDeploy
  imports Engine
begin

text \<open>
  The second half of \<^verbatim>\<open>src/engine.cpp\<close>: evaluation against the published snapshot, the
  deployment lifecycle, the restart operations, and the engine as a machine whose inputs are
  the operations a client may call.
\<close>

section \<open>Evaluation and planning\<close>

record PlanResult =
  pl_deployment_id :: DeploymentId
  pl_device :: DeviceId
  pl_planned :: bool
  pl_eligibility :: EligibilityResult
  pl_note :: string

definition PlanResult_init :: PlanResult where
  "PlanResult_init =
     \<lparr>pl_deployment_id = null_id, pl_device = null_id, pl_planned = False,
      pl_eligibility = EligibilityResult_init, pl_note = []\<rparr>"

definition evaluate :: "OffloadRequest \<Rightarrow> engine \<Rightarrow> EligibilityResult result" where
  "evaluate req e = evaluate_offload (en_snap e) req"

definition plan_deployment :: "OffloadRequest \<Rightarrow> engine \<Rightarrow> PlanResult result" where
  "plan_deployment req e =
     (case evaluate req e of
        Inl f \<Rightarrow> Inl f
      | Inr elig \<Rightarrow>
          let pr = PlanResult_init\<lparr>pl_eligibility := elig\<rparr> in
          (case er_selected elig of
             Some d \<Rightarrow>
               Inr (pr\<lparr>pl_planned := True, pl_device := d, pl_note := ''eligible device found''\<rparr>)
           | None \<Rightarrow>
               if rq_mode req = OffloadMode.OFFLOAD_PREFERRED \<and> rq_allow_host_fallback req
               then Inr (pr\<lparr>pl_planned := True, pl_note := ''host fallback''\<rparr>)
               else Inr (pr\<lparr>pl_planned := False,
                            pl_note := ''no eligible offload candidate''\<rparr>)))"

section \<open>Reservation\<close>

text \<open>The deployment a reservation builds, with the two identifiers it has drawn.\<close>

definition reserved_deployment ::
  "LiveState \<Rightarrow> OffloadRequest \<Rightarrow> ServiceDefinition option \<Rightarrow> DeviceId \<Rightarrow> DeviceRecord
    \<Rightarrow> u64 \<Rightarrow> u64 \<Rightarrow> Deployment" where
  "reserved_deployment s req svc did dev dep_id attempt_id =
     (let program = (case rq_required_program req of
                       Some p \<Rightarrow> p
                     | None \<Rightarrow> (case svc of Some sv \<Rightarrow> sd_required_program sv | None \<Rightarrow> null_id));
          program_gen = (if \<not> is_null program
                         then (case map_find (ls_current_program_gen s) program of
                                 Some g \<Rightarrow> g | None \<Rightarrow> null_id)
                         else null_id)
      in Deployment_init
         \<lparr>dp_deployment_id := Id dep_id,
          dp_generation := Id 1,
          dp_attempt_id := Id attempt_id,
          dp_service := (case rq_service req of Some i \<Rightarrow> i | None \<Rightarrow> null_id),
          dp_service_gen := (case svc of Some sv \<Rightarrow> sd_service_gen sv | None \<Rightarrow> null_id),
          dp_program := program,
          dp_program_gen := program_gen,
          dp_artifact := null_id,
          dp_device := did,
          dp_device_gen := dv_generation dev,
          dp_device_boot := dv_boot_id dev,
          dp_tenant := rq_tenant req,
          dp_isolation_domain := rq_isolation_domain req,
          dp_resources := requested_resources req svc,
          dp_state := DeploymentState.RESERVED,
          dp_authoritative := False\<rparr>)"

text \<open>
  The part after the lookups: two identifiers are drawn, then the ledger is asked; a refusal
  leaves the counter advanced.
\<close>

definition reserve_on ::
  "OffloadRequest \<Rightarrow> ServiceDefinition option \<Rightarrow> DeviceId \<Rightarrow> DeviceRecord \<Rightarrow> DeploymentId op" where
  "reserve_on req svc did dev e =
     (let (dep_id, e) = next_id e;
          (attempt_id, e) = next_id e;
          d = reserved_deployment (en_state e) req svc did dev dep_id attempt_id;
          rr = dp_resources d
      in case map_find (ls_ledgers (en_state e)) did of
           None \<Rightarrow> refuse ErrorCode.INVALID_STATE ''no ledger for device'' e
         | Some l \<Rightarrow>
             if \<not> can_reserve l rr
             then refuse ErrorCode.RESOURCE_EXHAUSTED ''device resource budget exhausted'' e
             else
               (case try_reserve rr l of
                  Inl f \<Rightarrow> (Inl f, e)
                | Inr (res, l1) \<Rightarrow>
                    let l2 = reservation_destroy (reservation_commit res) l1 in
                    (Inr (dp_deployment_id d), commit_state (\<lambda>s.
                       put_deployment (dp_deployment_id d) d
                         (s\<lparr>ls_ledgers := map_set did l2 (ls_ledgers s),
                            ls_usage := map_set did (lg_used l2) (ls_usage s)\<rparr>)) e)))"

definition reserve_deployment :: "OffloadRequest \<Rightarrow> EligibilityResult \<Rightarrow> DeploymentId op" where
  "reserve_deployment req elig e =
     (case er_selected elig of
        None \<Rightarrow> refuse ErrorCode.INVALID_STATE
                 ''cannot reserve without a selected offload device'' e
      | Some did \<Rightarrow>
          (case map_find (ls_devices (en_state e)) did of
             None \<Rightarrow> refuse ErrorCode.DEVICE_NOT_READY ''selected device is not ready'' e
           | Some dev \<Rightarrow>
               if \<not> is_ready_for_offload dev
               then refuse ErrorCode.DEVICE_NOT_READY ''selected device is not ready'' e
               else
                 (case rq_service req of
                    None \<Rightarrow> reserve_on req None did dev e
                  | Some i \<Rightarrow>
                      (case map_find (ls_services (en_state e)) i of
                         None \<Rightarrow> refuse ErrorCode.NOT_FOUND ''service not found'' e
                       | Some svc \<Rightarrow> reserve_on req (Some svc) did dev e))))"

section \<open>Transitions\<close>

definition do_deploy_transition :: "DeploymentId \<Rightarrow> DeploymentState \<Rightarrow> unit op" where
  "do_deploy_transition i to e =
     (case map_find (ls_deployments (en_state e)) i of
        None \<Rightarrow> refuse ErrorCode.NOT_FOUND ''deployment not found'' e
      | Some d \<Rightarrow>
          if \<not> valid_deployment_transition (dp_state d) to
          then refuse ErrorCode.INVALID_TRANSITION ''invalid deployment state transition'' e
          else (Inr (), commit_state (put_deployment i
                  (d\<lparr>dp_state := to, dp_authoritative := (to = DeploymentState.ACTIVE)\<rparr>)) e))"

definition stage_deployment :: "DeploymentId \<Rightarrow> unit op" where
  "stage_deployment i = do_deploy_transition i DeploymentState.STAGING"

definition load_deployment :: "DeploymentId \<Rightarrow> unit op" where
  "load_deployment i = do_deploy_transition i DeploymentState.LOADED"

definition validate_deployment :: "DeploymentId \<Rightarrow> unit op" where
  "validate_deployment i = do_deploy_transition i DeploymentState.VALIDATING"

definition activate_deployment :: "DeploymentId \<Rightarrow> ActivationId op" where
  "activate_deployment i e =
     (case do_deploy_transition i DeploymentState.ACTIVATING e of
        (Inl f, e) \<Rightarrow> (Inl f, e)
      | (Inr _, e) \<Rightarrow>
          (case map_find (ls_deployments (en_state e)) i of
             None \<Rightarrow> (Inl Undefined_Behaviour, e)
           | Some d \<Rightarrow>
               let (n, e) = next_id e;
                   gen = Id (next_generation (as_u64 (dp_activation_gen d)));
                   act = ActivationRecord_init
                     \<lparr>ar_activation_id := Id n, ar_activation_gen := gen,
                      ar_deployment_id := i, ar_deployment_gen := dp_generation d,
                      ar_state := ActivationState.PENDING\<rparr>
               in (Inr (Id n), commit_state (\<lambda>s.
                     put_activation (Id n) act
                       (put_deployment i
                         (d\<lparr>dp_activation := Some (Id n), dp_activation_gen := gen\<rparr>) s)) e)))"

text \<open>
  Committing grants authority. The device must be ready and the program's generation current;
  the comparison of the service's generation has an empty body in the code and decides
  nothing. The activation is read through \<^verbatim>\<open>*dep.activation\<close>, undefined when it is empty.
\<close>

definition commit_authority :: "LiveState \<Rightarrow> Deployment \<Rightarrow> DeviceRecord \<Rightarrow> ActivationAuthority" where
  "commit_authority s d dev =
     \<lparr>aa_epoch = ls_epoch s, aa_worker = null_id, aa_worker_boot = dp_worker_boot d,
      aa_device = dp_device d, aa_device_boot = dp_device_boot d,
      aa_device_gen = dp_device_gen d, aa_service_gen = dp_service_gen d,
      aa_program_gen = dp_program_gen d, aa_deployment_gen = dp_generation d,
      aa_activation_gen = dp_activation_gen d,
      aa_policy_gen = po_generation (ls_policy s), aa_evidence_gen = dv_evidence_gen dev\<rparr>"

definition grant_authority ::
  "DeploymentId \<Rightarrow> Deployment \<Rightarrow> DeviceRecord \<Rightarrow> unit op" where
  "grant_authority i d dev e =
     (case dp_activation d of
        None \<Rightarrow> (Inl Undefined_Behaviour, e)
      | Some a \<Rightarrow>
          (case map_find (ls_activations (en_state e)) a of
             None \<Rightarrow> refuse ErrorCode.INVALID_STATE ''activation missing'' e
           | Some r \<Rightarrow>
               (Inr (), commit_state (\<lambda>s.
                  put_deployment i
                    (d\<lparr>dp_state := DeploymentState.ACTIVE, dp_authoritative := True,
                       dp_epoch := ls_epoch s\<rparr>)
                    (put_activation a
                      (r\<lparr>ar_authority := commit_authority s d dev,
                         ar_state := ActivationState.ACTIVE, ar_reason := ''committed''\<rparr>) s)) e)))"

definition commit_deployment :: "DeploymentId \<Rightarrow> unit op" where
  "commit_deployment i e =
     (case map_find (ls_deployments (en_state e)) i of
        None \<Rightarrow> refuse ErrorCode.NOT_FOUND ''deployment not found'' e
      | Some d \<Rightarrow>
          if dp_state d \<noteq> DeploymentState.ACTIVATING
          then refuse ErrorCode.INVALID_STATE ''deployment must be ACTIVATING to commit'' e
          else
            (case map_find (ls_devices (en_state e)) (dp_device d) of
               None \<Rightarrow> refuse ErrorCode.DEVICE_NOT_READY ''device not ready for active authority'' e
             | Some dev \<Rightarrow>
                 if \<not> is_ready_for_offload dev
                 then refuse ErrorCode.DEVICE_NOT_READY
                        ''device not ready for active authority'' e
                 else if \<not> is_null (dp_program d) \<and>
                         map_find (ls_current_program_gen (en_state e)) (dp_program d) \<noteq>
                           Some (dp_program_gen d)
                 then refuse ErrorCode.STALE_PROGRAM_GENERATION
                        ''program generation no longer current'' e
                 else grant_authority i d dev e))"

text \<open>
  The remaining handlers share a shape: look the deployment up, check its state, change the
  activation and the ledger, then the state.
\<close>

definition close_deployment ::
  "DeploymentState \<Rightarrow> DeploymentId \<Rightarrow> Deployment \<Rightarrow> LiveState \<Rightarrow> LiveState" where
  "close_deployment st i d s =
     put_deployment i (d\<lparr>dp_state := st, dp_authoritative := False\<rparr>) s"

definition cancel_deployment :: "DeploymentId \<Rightarrow> unit op" where
  "cancel_deployment i e =
     (case map_find (ls_deployments (en_state e)) i of
        None \<Rightarrow> refuse ErrorCode.NOT_FOUND ''deployment not found'' e
      | Some d \<Rightarrow>
          if dp_state d \<noteq> DeploymentState.PLANNED \<and> dp_state d \<noteq> DeploymentState.RESERVED \<and>
             dp_state d \<noteq> DeploymentState.STAGING \<and> dp_state d \<noteq> DeploymentState.LOADED \<and>
             dp_state d \<noteq> DeploymentState.VALIDATING \<and> dp_state d \<noteq> DeploymentState.ACTIVATING
          then refuse ErrorCode.INVALID_STATE ''cannot cancel in current state'' e
          else (Inr (), commit_state (\<lambda>s.
                  close_deployment DeploymentState.ABORTED i d
                    (mark_activation ActivationState.CANCELLED d (release_resources i s))) e))"

definition rollback_deployment :: "DeploymentId \<Rightarrow> unit op" where
  "rollback_deployment i e =
     (case map_find (ls_deployments (en_state e)) i of
        None \<Rightarrow> refuse ErrorCode.NOT_FOUND ''deployment not found'' e
      | Some d \<Rightarrow>
          if dp_state d \<noteq> DeploymentState.FAILED \<and> dp_state d \<noteq> DeploymentState.RESERVED \<and>
             dp_state d \<noteq> DeploymentState.STAGING \<and> dp_state d \<noteq> DeploymentState.LOADED \<and>
             dp_state d \<noteq> DeploymentState.VALIDATING \<and> dp_state d \<noteq> DeploymentState.ACTIVATING
          then refuse ErrorCode.INVALID_STATE ''cannot rollback in current state'' e
          else (Inr (), commit_state (\<lambda>s.
                  close_deployment DeploymentState.ABORTED i d
                    (mark_activation ActivationState.CANCELLED d (release_resources i s))) e))"

definition drain_deployment :: "DeploymentId \<Rightarrow> unit op" where
  "drain_deployment i e =
     (case map_find (ls_deployments (en_state e)) i of
        None \<Rightarrow> refuse ErrorCode.NOT_FOUND ''deployment not found'' e
      | Some d \<Rightarrow>
          if dp_state d \<noteq> DeploymentState.ACTIVE \<and> dp_state d \<noteq> DeploymentState.DEGRADED \<and>
             dp_state d \<noteq> DeploymentState.REVALIDATION_REQUIRED
          then refuse ErrorCode.INVALID_STATE
                 ''only active/degraded/revalidation-required deployment can drain'' e
          else (Inr (), commit_state (\<lambda>s.
                  close_deployment DeploymentState.DRAINING i d
                    (mark_activation ActivationState.DRAINING d s)) e))"

definition retire_deployment :: "DeploymentId \<Rightarrow> unit op" where
  "retire_deployment i e =
     (case map_find (ls_deployments (en_state e)) i of
        None \<Rightarrow> refuse ErrorCode.NOT_FOUND ''deployment not found'' e
      | Some d \<Rightarrow>
          if dp_state d \<noteq> DeploymentState.DRAINING \<and> dp_state d \<noteq> DeploymentState.FAILED \<and>
             dp_state d \<noteq> DeploymentState.ABORTED \<and>
             dp_state d \<noteq> DeploymentState.REVALIDATION_REQUIRED \<and>
             dp_state d \<noteq> DeploymentState.ACTIVE \<and> dp_state d \<noteq> DeploymentState.DEGRADED
          then refuse ErrorCode.INVALID_STATE ''cannot retire in current state'' e
          else (Inr (), commit_state (\<lambda>s.
                  close_deployment DeploymentState.RETIRED i d
                    (if dp_state d = DeploymentState.ACTIVE \<or>
                        dp_state d = DeploymentState.DEGRADED \<or>
                        dp_state d = DeploymentState.DRAINING \<or>
                        dp_state d = DeploymentState.REVALIDATION_REQUIRED
                     then release_resources i (mark_activation ActivationState.RETIRED d s)
                     else s)) e))"

definition fail_deployment :: "DeploymentId \<Rightarrow> ErrorCode \<Rightarrow> string \<Rightarrow> unit op" where
  "fail_deployment i code reason e =
     (case map_find (ls_deployments (en_state e)) i of
        None \<Rightarrow> refuse ErrorCode.NOT_FOUND ''deployment not found'' e
      | Some d \<Rightarrow>
          if \<not> valid_deployment_transition (dp_state d) DeploymentState.FAILED
          then refuse ErrorCode.INVALID_TRANSITION ''cannot fail in current state'' e
          else (Inr (), commit_state (\<lambda>s.
                  close_deployment DeploymentState.FAILED i d
                    (mark_activation ActivationState.STALE d (release_resources i s))) e))"

section \<open>Restart\<close>

datatype (plugins only: code size) RecoveryPolicy =
    FENCE_ALL_DYNAMIC | FENCE_AUTHORITY_ONLY | Unnamed u8

definition advance_epoch :: "unit op" where
  "advance_epoch e =
     (Inr (), commit_state (\<lambda>s. s\<lparr>ls_epoch := Id (next_generation (as_u64 (ls_epoch s)))\<rparr>) e)"

definition fence_capability :: "Capability \<Rightarrow> Capability" where
  "fence_capability c =
     (if cp_state c = CapabilityState.SUPPORTED
      then c\<lparr>cp_state := CapabilityState.REVALIDATION_REQUIRED\<rparr> else c)"

definition recover_device :: "RecoveryPolicy \<Rightarrow> DeviceRecord \<Rightarrow> DeviceRecord" where
  "recover_device p rec =
     (if dv_lifecycle rec = DeviceLifecycle.RETIRED then rec
      else
        (let rec = rec\<lparr>dv_evidence_fresh := False\<rparr>;
             rec = (if dv_lifecycle rec \<noteq> DeviceLifecycle.FAILED \<and>
                       dv_lifecycle rec \<noteq> DeviceLifecycle.OFFLINE
                    then rec\<lparr>dv_lifecycle := DeviceLifecycle.REVALIDATION_REQUIRED\<rparr> else rec)
         in if p = FENCE_ALL_DYNAMIC
            then rec\<lparr>dv_capabilities :=
                   map_update_all (\<lambda>_. fence_capability) (dv_capabilities rec)\<rparr>
            else rec))"

definition apply_recovery :: "RecoveryPolicy \<Rightarrow> unit op" where
  "apply_recovery p e =
     (Inr (), commit_state (\<lambda>s.
        fence_deployments running
          (s\<lparr>ls_devices := map_update_all (\<lambda>_. recover_device p) (ls_devices s)\<rparr>)) e)"

section \<open>Summary\<close>

definition count_string :: "('k, 'v) stdmap \<Rightarrow> string" where
  "count_string m = nat_to_string (length (map_entries m))"

definition describe :: "engine \<Rightarrow> string" where
  "describe e =
     (let s = en_snap e in
      ''epoch='' @ id_encode (sn_epoch s)
      @ '' devices='' @ count_string (sn_devices s)
      @ '' services='' @ count_string (sn_services s)
      @ '' programs='' @ count_string (sn_programs s)
      @ '' deployments='' @ count_string (sn_deployments s)
      @ '' activations='' @ count_string (sn_activations s))"

section \<open>The engine as a machine\<close>

text \<open>The state-changing calls of the public interface, with their arguments.\<close>

datatype (plugins only: code size) engine_call =
    Import_Backend "DiscoveryBackend option"
  | Run_All_Backends
  | Register_Device DeviceRecord
  | Update_Device DeviceRecord
  | Retire_Device DeviceId
  | Transition_Device DeviceId DeviceLifecycle
  | Set_Device_State DeviceId CapabilityState CapabilityKey
  | Fence_Device DeviceId string
  | Register_Service ServiceDefinition
  | Register_Program ProgramArtifact
  | Retire_Program ProgramId
  | Register_Worker WorkerId WorkerBootId
  | Worker_Heartbeat WorkerId WorkerBootId
  | Mark_Worker_Lost WorkerId
  | Reserve OffloadRequest EligibilityResult
  | Stage DeploymentId
  | Load DeploymentId
  | Validate DeploymentId
  | Activate DeploymentId
  | Commit DeploymentId
  | Cancel DeploymentId
  | Rollback DeploymentId
  | Drain DeploymentId
  | Retire DeploymentId
  | Fail DeploymentId ErrorCode string
  | Advance_Epoch
  | Apply_Recovery RecoveryPolicy

definition outcome :: "'a result \<times> engine \<Rightarrow> unit result \<times> engine" where
  "outcome p = (map_sum (\<lambda>f. f) (\<lambda>_. ()) (fst p), snd p)"

fun call :: "engine_call \<Rightarrow> unit op" where
  "call (Import_Backend b) e = import_backend b e"
| "call Run_All_Backends e = outcome (run_all_backends e)"
| "call (Register_Device r) e = outcome (register_device r e)"
| "call (Update_Device r) e = outcome (update_device r e)"
| "call (Retire_Device i) e = retire_device i e"
| "call (Transition_Device i to) e = transition_device i to e"
| "call (Set_Device_State i st k) e = set_device_state i st k e"
| "call (Fence_Device i reason) e = fence_device i reason e"
| "call (Register_Service d) e = outcome (register_service d e)"
| "call (Register_Program a) e = outcome (register_program a e)"
| "call (Retire_Program i) e = retire_program i e"
| "call (Register_Worker w b) e = register_worker w b e"
| "call (Worker_Heartbeat w b) e = worker_heartbeat w b e"
| "call (Mark_Worker_Lost w) e = mark_worker_lost w e"
| "call (Reserve req elig) e = outcome (reserve_deployment req elig e)"
| "call (Stage i) e = stage_deployment i e"
| "call (Load i) e = load_deployment i e"
| "call (Validate i) e = validate_deployment i e"
| "call (Activate i) e = outcome (activate_deployment i e)"
| "call (Commit i) e = commit_deployment i e"
| "call (Cancel i) e = cancel_deployment i e"
| "call (Rollback i) e = rollback_deployment i e"
| "call (Drain i) e = drain_deployment i e"
| "call (Retire i) e = retire_deployment i e"
| "call (Fail i c reason) e = fail_deployment i c reason e"
| "call Advance_Epoch e = advance_epoch e"
| "call (Apply_Recovery p) e = apply_recovery p e"

text \<open>
  \<open>step e c e'\<close>: the call \<open>c\<close>, whatever its outcome, takes \<open>e\<close> to \<open>e'\<close>. \<open>reachable n e\<close>: some
  \<open>n\<close> calls lead from a newly constructed engine to \<open>e\<close>.
\<close>

inductive step :: "engine \<Rightarrow> engine_call \<Rightarrow> engine \<Rightarrow> bool" where
  step: "call c e = (r, e') \<Longrightarrow> step e c e'"

inductive reachable :: "nat \<Rightarrow> engine \<Rightarrow> bool" where
  start: "reachable 0 (engine_new ep policy)"
| more: "reachable n e \<Longrightarrow> step e c e' \<Longrightarrow> reachable (Suc n) e'"

inductive_cases stepE: "step e c e'"
inductive_simps step_iff: "step e c e'"

lemmas [op_defs] =
  import_backend_def register_device_def update_device_def set_device_state_def
  register_service_def register_program_def retire_program_def register_worker_def
  worker_heartbeat_def advance_epoch_def

end
