(* ===== verification/EngineInv.thy ===== *)
theory EngineInv
  imports EngineDeploy
begin

text \<open>
  The invariant of the engine's state and the proof that every call keeps it.

  The locale \<open>entry_loop\<close> is the contract of a loop over the deployments that changes the entry
  it stands on: what the loop does to the deployment map, and that it keeps whatever its body
  keeps. The locale \<open>machine\<close> turns an invariant of the single call into one of every
  reachable state. Both are interpreted on the engine's own loops and calls.
\<close>

section \<open>The invariant\<close>

definition registry_ok :: "LiveState \<Rightarrow> bool" where
  "registry_ok s \<longleftrightarrow>
     map_ordered (ls_devices s) \<and> distinct (ls_device_order s) \<and>
     (\<forall>i. i \<in> set (ls_device_order s) \<longleftrightarrow> map_find (ls_devices s) i \<noteq> None) \<and>
     (\<forall>i d. map_find (ls_devices s) i = Some d \<longrightarrow> dv_device_id d = i \<and> i \<noteq> null_id)"

text \<open>Every device has a ledger and a usage entry, the usage is the ledger's, within capacity.\<close>

definition accounting_ok :: "LiveState \<Rightarrow> bool" where
  "accounting_ok s \<longleftrightarrow>
     map_ordered (ls_ledgers s) \<and> map_ordered (ls_usage s) \<and>
     (\<forall>i. map_find (ls_ledgers s) i = None \<longleftrightarrow> map_find (ls_devices s) i = None) \<and>
     (\<forall>i. map_find (ls_usage s) i = map_option lg_used (map_find (ls_ledgers s) i)) \<and>
     (\<forall>i l. map_find (ls_ledgers s) i = Some l \<longrightarrow> within_capacity l)"

definition engine_states :: "DeploymentState set" where
  "engine_states =
     {DeploymentState.RESERVED, DeploymentState.STAGING, DeploymentState.LOADED,
      DeploymentState.VALIDATING, DeploymentState.ACTIVATING, DeploymentState.ACTIVE,
      DeploymentState.DRAINING, DeploymentState.FAILED, DeploymentState.ABORTED,
      DeploymentState.RETIRED, DeploymentState.REVALIDATION_REQUIRED}"

definition deployment_ok :: "LiveState \<Rightarrow> DeploymentId \<Rightarrow> Deployment \<Rightarrow> bool" where
  "deployment_ok s i d \<longleftrightarrow>
     dp_deployment_id d = i \<and>
     (dp_authoritative d \<longleftrightarrow> dp_state d = DeploymentState.ACTIVE) \<and>
     dp_state d \<in> engine_states \<and>
     map_find (ls_devices s) (dp_device d) \<noteq> None \<and>
     dp_worker_boot d = null_id \<and>
     (\<forall>a. dp_activation d = Some a \<longrightarrow> map_find (ls_activations s) a \<noteq> None) \<and>
     (dp_state d \<in> {DeploymentState.ACTIVATING, DeploymentState.ACTIVE} \<longrightarrow>
        dp_activation d \<noteq> None)"

definition deployments_ok :: "LiveState \<Rightarrow> bool" where
  "deployments_ok s \<longleftrightarrow>
     map_ordered (ls_deployments s) \<and> map_ordered (ls_activations s) \<and>
     (\<forall>i d. map_find (ls_deployments s) i = Some d \<longrightarrow> deployment_ok s i d) \<and>
     (\<forall>a r. map_find (ls_activations s) a = Some r \<longrightarrow>
        ar_activation_id r = a \<and> map_find (ls_deployments s) (ar_deployment_id r) \<noteq> None)"

definition workers_ok :: "LiveState \<Rightarrow> bool" where
  "workers_ok s \<longleftrightarrow>
     map_ordered (ls_workers s) \<and> map_ordered (ls_worker_seq s) \<and>
     (\<forall>w. map_find (ls_workers s) w = None \<longleftrightarrow> map_find (ls_worker_seq s) w = None) \<and>
     (\<forall>w b. map_find (ls_workers s) w = Some b \<longrightarrow> w \<noteq> null_id \<and> b \<noteq> null_id)"

text \<open>The current generation of a program is in its history, under its own key.\<close>

definition programs_ok :: "LiveState \<Rightarrow> bool" where
  "programs_ok s \<longleftrightarrow>
     map_ordered (ls_programs s) \<and> map_ordered (ls_current_program_gen s) \<and>
     map_ordered (ls_services s) \<and>
     (\<forall>p gens. map_find (ls_programs s) p = Some gens \<longrightarrow>
        gens \<noteq> [] \<and> map_ordered gens \<and>
        (\<forall>g a. map_find gens g = Some a \<longrightarrow> pa_program_gen a = g \<and> pa_program_id a = p)) \<and>
     (\<forall>p g. map_find (ls_current_program_gen s) p = Some g \<longrightarrow>
        (\<exists>gens a. map_find (ls_programs s) p = Some gens \<and> map_find gens g = Some a)) \<and>
     (\<forall>i sv. map_find (ls_services s) i = Some sv \<longrightarrow> sd_service_id sv = i)"

definition state_ok :: "LiveState \<Rightarrow> bool" where
  "state_ok s \<longleftrightarrow>
     registry_ok s \<and> accounting_ok s \<and> deployments_ok s \<and> workers_ok s \<and> programs_ok s"

definition engine_ok :: "engine \<Rightarrow> bool" where
  "engine_ok e \<longleftrightarrow> state_ok (en_state e) \<and> en_snap e = make_snapshot (en_state e)"

lemmas state_ok_defs =
  state_ok_def registry_ok_def accounting_ok_def deployments_ok_def workers_ok_def programs_ok_def

section \<open>Loops over the deployments\<close>

locale entry_loop =
  fixes body :: "DeploymentId \<times> Deployment \<Rightarrow> LiveState \<Rightarrow> LiveState"
    and effect :: "Deployment \<Rightarrow> Deployment"
  assumes body_find: "map_find (ls_deployments s) i = Some d \<Longrightarrow>
    map_find (ls_deployments (body (i, d) s)) j =
      (if j = i then Some (effect d) else map_find (ls_deployments s) j)"
begin

definition loop :: "LiveState \<Rightarrow> LiveState" where
  "loop s = fold body (map_entries (ls_deployments s)) s"

lemma fold_find:
  assumes "distinct (map fst es)"
    and "\<And>i d. (i, d) \<in> set es \<Longrightarrow> map_find (ls_deployments s) i = Some d"
  shows "map_find (ls_deployments (fold body es s)) j =
    (if j \<in> fst ` set es then map_option effect (map_find (ls_deployments s) j)
     else map_find (ls_deployments s) j)"
  using assms
proof (induction es arbitrary: s)
  case (Cons e es)
  obtain i d where e: "e = (i, d)" by (cases e)
  have here: "map_find (ls_deployments s) i = Some d" using Cons.prems(2) e by simp
  have i: "i \<notin> fst ` set es" using Cons.prems(1) e by auto
  have "map_find (ls_deployments (body e s)) i' = Some d'" if "(i', d') \<in> set es" for i' d'
    using that i Cons.prems(2) by (force simp: e body_find [OF here])
  then show ?case
    using Cons.IH [of "body e s"] Cons.prems(1) i here by (auto simp: e body_find [OF here])
qed simp

theorem loop_find:
  assumes "map_ordered (ls_deployments s)"
  shows "map_find (ls_deployments (loop s)) j = map_option effect (map_find (ls_deployments s) j)"
proof -
  let ?es = "map_entries (ls_deployments s)"
  have "distinct (map fst ?es)"
    using map_ordered_distinct [OF assms] by (simp add: map_entries_def)
  then have "map_find (ls_deployments (loop s)) j =
      (if j \<in> fst ` set ?es then map_option effect (map_find (ls_deployments s) j)
       else map_find (ls_deployments s) j)"
    unfolding loop_def by (rule fold_find) (simp add: map_ordered_entry [OF assms])
  then show ?thesis
    using map_find_None_keys [of "ls_deployments s" j]
    by (cases "map_find (ls_deployments s) j") (simp_all add: map_entries_def)
qed

lemma fold_keeps:
  assumes "distinct (map fst es)"
    and "\<And>i d. (i, d) \<in> set es \<Longrightarrow> map_find (ls_deployments s) i = Some d"
    and "Q s"
    and "\<And>i d s. Q s \<Longrightarrow> map_find (ls_deployments s) i = Some d \<Longrightarrow> Q (body (i, d) s)"
  shows "Q (fold body es s)"
  using assms(1-3)
proof (induction es arbitrary: s)
  case (Cons e es)
  obtain i d where e: "e = (i, d)" by (cases e)
  have here: "map_find (ls_deployments s) i = Some d" using Cons.prems(2) e by simp
  have i: "i \<notin> fst ` set es" using Cons.prems(1) e by auto
  have "map_find (ls_deployments (body e s)) i' = Some d'" if "(i', d') \<in> set es" for i' d'
    using that i Cons.prems(2) by (force simp: e body_find [OF here])
  then show ?case
    using Cons.IH [of "body e s"] Cons.prems(1,3) assms(4) [OF _ here] by (simp add: e)
qed simp

theorem loop_keeps:
  assumes "map_ordered (ls_deployments s)" "Q s"
    and "\<And>i d s. Q s \<Longrightarrow> map_find (ls_deployments s) i = Some d \<Longrightarrow> Q (body (i, d) s)"
  shows "Q (loop s)"
  unfolding loop_def
proof (rule fold_keeps)
  show "distinct (map fst (map_entries (ls_deployments s)))"
    using map_ordered_distinct [OF assms(1)] by (simp add: map_entries_def)
  show "map_find (ls_deployments s) i = Some d"
    if "(i, d) \<in> set (map_entries (ls_deployments s))" for i d
    using that map_ordered_entry [OF assms(1)] by simp
qed (fact assms)+

end

section \<open>Building blocks\<close>

lemma put_simps [simp]:
  "ls_deployments (put_deployment i d s) = map_set i d (ls_deployments s)"
  "ls_deployments (put_device k v s) = ls_deployments s"
  "ls_deployments (put_activation a r s) = ls_deployments s"
  "ls_devices (put_device k v s) = map_set k v (ls_devices s)"
  "ls_devices (put_deployment i d s) = ls_devices s"
  "ls_devices (put_activation a r s) = ls_devices s"
  "ls_activations (put_activation a r s) = map_set a r (ls_activations s)"
  "ls_activations (put_deployment i d s) = ls_activations s"
  "ls_activations (put_device k v s) = ls_activations s"
  by (simp_all add: put_deployment_def put_device_def put_activation_def)

lemma put_other [simp]:
  "ls_ledgers (put_deployment i d s) = ls_ledgers s"
  "ls_ledgers (put_device k v s) = ls_ledgers s"
  "ls_ledgers (put_activation a r s) = ls_ledgers s"
  "ls_usage (put_deployment i d s) = ls_usage s"
  "ls_usage (put_device k v s) = ls_usage s"
  "ls_usage (put_activation a r s) = ls_usage s"
  by (simp_all add: put_deployment_def put_device_def put_activation_def)

lemma mark_activation_simps [simp]:
  "ls_deployments (mark_activation st d s) = ls_deployments s"
  "ls_devices (mark_activation st d s) = ls_devices s"
  "ls_ledgers (mark_activation st d s) = ls_ledgers s"
  "ls_usage (mark_activation st d s) = ls_usage s"
  by (simp_all add: mark_activation_def split: option.split)

lemma mark_activation_find:
  "map_find (ls_activations (mark_activation st d s)) a =
     (if dp_activation d = Some a
      then map_option (\<lambda>r. r\<lparr>ar_state := st\<rparr>) (map_find (ls_activations s) a)
      else map_find (ls_activations s) a)"
  by (auto simp: mark_activation_def split: option.split)

lemma release_resources_simps [simp]:
  "ls_deployments (release_resources i s) = ls_deployments s"
  "ls_devices (release_resources i s) = ls_devices s"
  "ls_activations (release_resources i s) = ls_activations s"
  by (simp_all add: release_resources_def Let_def split: option.split)

interpretation fence_loop: entry_loop "fence_one P" "\<lambda>d. if P d then fence d else d" for P
  by unfold_locales (simp add: fence_one_def)

lemma fence_deployments_loop: "fence_deployments P s = fence_loop.loop P s"
  by (simp add: fence_deployments_def fence_loop.loop_def)

definition retire_effect :: "DeviceId \<Rightarrow> Deployment \<Rightarrow> Deployment" where
  "retire_effect dev d =
     (if dp_device d = dev \<and> (running d \<or> dp_state d = DeploymentState.DRAINING)
      then fence d else d)"

lemma retire_one_cases:
  "retire_one dev (i, d) s =
     (if dp_device d = dev \<and> (running d \<or> dp_state d = DeploymentState.DRAINING)
      then release_resources i
             (mark_activation ActivationState.STALE d (put_deployment i (fence d) s))
      else s)"
  by (auto simp: retire_one_def running_def fence_def Let_def valid_deployment_transition_def)

interpretation retire_loop: entry_loop "retire_one dev" "retire_effect dev" for dev
  by unfold_locales (auto simp: retire_one_cases retire_effect_def)

section \<open>The building blocks keep the invariant\<close>

lemma put_device_ok:
  assumes "state_ok s" "map_find (ls_devices s) i \<noteq> None" "dv_device_id rec = i"
  shows "state_ok (put_device i rec s)"
proof -
  have "registry_ok (put_device i rec s)"
    using assms by (auto simp: state_ok_def registry_ok_def put_device_def)
  moreover have "accounting_ok (put_device i rec s)"
    using assms by (auto simp: state_ok_def accounting_ok_def put_device_def)
  moreover have "deployments_ok (put_device i rec s)"
    using assms by (auto simp: state_ok_def deployments_ok_def deployment_ok_def put_device_def)
  ultimately show ?thesis
    using assms(1) by (simp add: state_ok_def workers_ok_def programs_ok_def put_device_def)
qed

lemma update_devices_ok:
  assumes "state_ok s" "\<And>i rec. dv_device_id (h i rec) = dv_device_id rec"
  shows "state_ok (s\<lparr>ls_devices := map_update_all h (ls_devices s)\<rparr>)"
proof -
  let ?s = "s\<lparr>ls_devices := map_update_all h (ls_devices s)\<rparr>"
  have "registry_ok ?s" using assms by (auto simp: state_ok_def registry_ok_def)
  moreover have "accounting_ok ?s" using assms by (auto simp: state_ok_def accounting_ok_def)
  moreover have "deployments_ok ?s"
    using assms by (auto simp: state_ok_def deployments_ok_def deployment_ok_def)
  ultimately show ?thesis
    using assms(1) by (simp add: state_ok_def workers_ok_def programs_ok_def)
qed

lemma put_deployment_ok:
  assumes "state_ok s" "deployment_ok s i d"
  shows "state_ok (put_deployment i d s)"
proof -
  have "deployments_ok (put_deployment i d s)"
    using assms by (auto simp: state_ok_def deployments_ok_def deployment_ok_def put_deployment_def)
  then show ?thesis
    using assms(1) by (simp add: state_ok_def registry_ok_def accounting_ok_def workers_ok_def
        programs_ok_def put_deployment_def)
qed

lemma put_activation_ok:
  assumes "state_ok s" "ar_activation_id r = a"
    "map_find (ls_deployments s) (ar_deployment_id r) \<noteq> None"
  shows "state_ok (put_activation a r s)"
proof -
  have "deployments_ok (put_activation a r s)"
    using assms by (auto simp: state_ok_def deployments_ok_def deployment_ok_def put_activation_def)
  then show ?thesis
    using assms(1) by (simp add: state_ok_def registry_ok_def accounting_ok_def workers_ok_def
        programs_ok_def put_activation_def)
qed

lemma state_ok_activation:
  "state_ok s \<Longrightarrow> map_find (ls_activations s) a = Some r \<Longrightarrow>
   ar_activation_id r = a \<and> map_find (ls_deployments s) (ar_deployment_id r) \<noteq> None"
  by (simp add: state_ok_def deployments_ok_def)

lemma mark_activation_ok: "state_ok s \<Longrightarrow> state_ok (mark_activation st d s)"
  using state_ok_activation [of s]
  by (auto simp: mark_activation_def split: option.split intro!: put_activation_ok)

lemma accounting_ledger_ok:
  assumes "state_ok s" "map_find (ls_ledgers s) i \<noteq> None" "within_capacity l"
  shows "state_ok (s\<lparr>ls_ledgers := map_set i l (ls_ledgers s),
                     ls_usage := map_set i (lg_used l) (ls_usage s)\<rparr>)"
proof -
  let ?s = "s\<lparr>ls_ledgers := map_set i l (ls_ledgers s),
                     ls_usage := map_set i (lg_used l) (ls_usage s)\<rparr>"
  have "accounting_ok ?s" using assms by (auto simp: state_ok_def accounting_ok_def)
  then show ?thesis
    using assms(1) by (simp add: state_ok_def registry_ok_def deployments_ok_def deployment_ok_def
        workers_ok_def programs_ok_def)
qed

lemma release_resources_ok:
  assumes "state_ok s"
  shows "state_ok (release_resources i s)"
proof -
  have "within_capacity l" if "map_find (ls_ledgers s) d = Some l" for d l
    using assms that by (simp add: state_ok_def accounting_ok_def)
  then show ?thesis
    using assms by (auto simp: release_resources_def Let_def within_capacity_release
        split: option.split intro!: accounting_ledger_ok)
qed

lemma state_ok_deployment:
  "state_ok s \<Longrightarrow> map_find (ls_deployments s) i = Some d \<Longrightarrow> deployment_ok s i d"
  by (simp add: state_ok_def deployments_ok_def)

lemma state_ok_ordered:
  "state_ok s \<Longrightarrow> map_ordered (ls_deployments s)"
  "state_ok s \<Longrightarrow> map_ordered (ls_devices s)"
  by (simp_all add: state_ok_def deployments_ok_def registry_ok_def)

text \<open>A deployment stays well-formed in every state with its device and its activation.\<close>

lemma deployment_ok_state:
  assumes "deployment_ok s i d"
    and "\<And>a. map_find (ls_activations s) a \<noteq> None \<Longrightarrow> map_find (ls_activations s') a \<noteq> None"
    and "\<And>k. map_find (ls_devices s) k \<noteq> None \<Longrightarrow> map_find (ls_devices s') k \<noteq> None"
  shows "deployment_ok s' i d"
  using assms unfolding deployment_ok_def by blast

lemma deployment_ok_close:
  assumes "deployment_ok s i d"
    and "st \<in> engine_states - {DeploymentState.ACTIVATING, DeploymentState.ACTIVE}"
  shows "deployment_ok s i (d\<lparr>dp_state := st, dp_authoritative := False\<rparr>)"
  using assms by (auto simp: deployment_ok_def)

lemma deployment_ok_fence: "deployment_ok s i d \<Longrightarrow> deployment_ok s i (fence d)"
  unfolding fence_def by (rule deployment_ok_close) (simp_all add: engine_states_def)

lemma fence_one_ok:
  assumes "state_ok s" "map_find (ls_deployments s) i = Some d"
  shows "state_ok (fence_one P (i, d) s)"
  using assms deployment_ok_fence [OF state_ok_deployment [OF assms]]
  by (simp add: fence_one_def mark_activation_ok put_deployment_ok)

lemma fence_deployments_ok: "state_ok s \<Longrightarrow> state_ok (fence_deployments P s)"
  unfolding fence_deployments_loop
  by (rule fence_loop.loop_keeps) (simp_all add: state_ok_ordered fence_one_ok)

lemma retire_one_ok:
  assumes "state_ok s" "map_find (ls_deployments s) i = Some d"
  shows "state_ok (retire_one dev (i, d) s)"
  using assms deployment_ok_fence [OF state_ok_deployment [OF assms]]
  by (simp add: retire_one_cases release_resources_ok mark_activation_ok put_deployment_ok)

lemma retire_loop_ok: "state_ok s \<Longrightarrow> state_ok (retire_loop.loop dev s)"
  by (rule retire_loop.loop_keeps) (simp_all add: state_ok_ordered retire_one_ok)

text \<open>What the fencing loops leave alone.\<close>

lemma fence_deployments_devices [simp]: "ls_devices (fence_deployments P s) = ls_devices s"
proof -
  have "ls_devices (fold (fence_one P) es s) = ls_devices s" for es
    by (induction es arbitrary: s) (simp_all add: fence_one_def split_def)
  then show ?thesis by (simp add: fence_deployments_def)
qed

lemma retire_loop_devices [simp]: "ls_devices (retire_loop.loop dev s) = ls_devices s"
proof -
  have "ls_devices (fold (retire_one dev) es s) = ls_devices s" for es
    by (induction es arbitrary: s) (simp_all add: retire_one_cases split_paired_all)
  then show ?thesis by (simp add: retire_loop.loop_def)
qed

section \<open>Every call keeps the invariant\<close>

lemma commit_state_simps [simp]:
  "en_state (commit_state f e) = f (en_state e)"
  "en_snap (commit_state f e) = make_snapshot (f (en_state e))"
  "en_backends (commit_state f e) = en_backends e"
  "en_id_seq (commit_state f e) = en_id_seq e"
  "en_recovered (commit_state f e) = en_recovered e"
  by (simp_all add: commit_state_def rebuild_snapshot_def on_state_def)

lemma commit_state_ok: "state_ok (f (en_state e)) \<Longrightarrow> engine_ok (commit_state f e)"
  by (simp add: engine_ok_def)

lemma refuse_simps [simp]: "snd (refuse c m e) = e" "fst (refuse c m e) = throw_error c m"
  by (simp_all add: refuse_def)

lemma engine_ok_state: "engine_ok e \<Longrightarrow> state_ok (en_state e)"
  by (simp add: engine_ok_def)

lemma register_device_ok:
  assumes "engine_ok e"
  shows "engine_ok (snd (register_device rec e))"
proof -
  let ?i = "dv_device_id rec"
  have "state_ok
      (s\<lparr>ls_devices := map_set ?i rec (ls_devices s),
         ls_device_order := ls_device_order s @ [?i],
         ls_ledgers := map_emplace ?i (ledger_new (dv_resource_capacity rec)) (ls_ledgers s),
         ls_usage := map_set ?i Usage_init (ls_usage s),
         ls_port_owner := pm, ls_function_owner := fm\<rparr>)" (is "state_ok ?s")
    if "state_ok s" "?i \<noteq> null_id" "map_find (ls_devices s) ?i = None" for s pm fm
  proof -
    have "registry_ok ?s" using that by (auto simp: state_ok_def registry_ok_def)
    moreover have "accounting_ok ?s"
      using that by (auto simp: state_ok_def accounting_ok_def ledger_new_def
          within_capacity_new [unfolded ledger_new_def])
    moreover have "deployments_ok ?s"
      using that by (auto simp: state_ok_def deployments_ok_def deployment_ok_def)
    ultimately show ?thesis
      using that by (simp add: state_ok_def workers_ok_def programs_ok_def)
  qed
  then show ?thesis
    using assms by (auto simp: register_device_def Let_def map_count_def engine_ok_state
        intro!: commit_state_ok)
qed

lemma update_device_ok: "engine_ok e \<Longrightarrow> engine_ok (snd (update_device rec e))"
  by (auto simp: update_device_def Let_def engine_ok_state split: option.split
      intro!: commit_state_ok put_device_ok)

lemma state_ok_device:
  "state_ok s \<Longrightarrow> map_find (ls_devices s) i = Some rec \<Longrightarrow> dv_device_id rec = i \<and> i \<noteq> null_id"
  by (simp add: state_ok_def registry_ok_def)

lemma retire_device_ok: "engine_ok e \<Longrightarrow> engine_ok (snd (retire_device i e))"
  by (auto simp: retire_device_def retire_loop.loop_def [symmetric] engine_ok_state
      state_ok_device [OF engine_ok_state] split: option.split
      intro!: commit_state_ok put_device_ok retire_loop_ok)

lemma transition_device_ok: "engine_ok e \<Longrightarrow> engine_ok (snd (transition_device i to e))"
  by (auto simp: transition_device_def engine_ok_state state_ok_device [OF engine_ok_state]
      split: option.split intro!: commit_state_ok put_device_ok fence_deployments_ok)

lemma set_device_state_ok: "engine_ok e \<Longrightarrow> engine_ok (snd (set_device_state i st k e))"
  by (auto simp: set_device_state_def engine_ok_state state_ok_device [OF engine_ok_state]
      split: option.split intro!: commit_state_ok put_device_ok)

lemma fence_device_ok: "engine_ok e \<Longrightarrow> engine_ok (snd (fence_device i reason e))"
  by (auto simp: fence_device_def engine_ok_state state_ok_device [OF engine_ok_state]
      split: option.split intro!: commit_state_ok put_device_ok fence_deployments_ok)

lemma import_backend_ok: "engine_ok e \<Longrightarrow> engine_ok (snd (import_backend b e))"
  by (simp add: import_backend_def engine_ok_def split: option.split)

lemma import_discovered_ok: "engine_ok e \<Longrightarrow> engine_ok (import_discovered dd e)"
  by (simp add: import_discovered_def update_device_ok register_device_ok)

lemma run_backends_ok: "engine_ok e \<Longrightarrow> engine_ok (snd (run_backends bs out e))"
proof (induction bs out e rule: run_backends.induct)
  case (2 b bs out e)
  have "engine_ok (fold import_discovered ds e')" if "engine_ok e'" for ds e'
    using that by (induction ds arbitrary: e') (simp_all add: import_discovered_ok)
  with 2 show ?case by (simp split: sum.split)
qed simp

lemma register_service_ok: "engine_ok e \<Longrightarrow> engine_ok (snd (register_service d e))"
  by (auto simp: register_service_def Let_def engine_ok_def state_ok_def registry_ok_def
      accounting_ok_def deployments_ok_def deployment_ok_def workers_ok_def programs_ok_def)

lemma add_generation_ok:
  assumes "state_ok s"
  shows "state_ok (s\<lparr>ls_programs := map_set (pa_program_id art)
      (map_set (pa_program_gen art) art
        (case map_find (ls_programs s) (pa_program_id art) of None \<Rightarrow> [] | Some gens \<Rightarrow> gens))
      (ls_programs s)\<rparr>)" (is "state_ok ?s")
proof -
  have p: "programs_ok s" using assms by (simp add: state_ok_def)
  have "programs_ok ?s"
  proof (cases "map_find (ls_programs s) (pa_program_id art)")
    case None
    then have "map_find (ls_current_program_gen s) (pa_program_id art) = None"
      using p unfolding programs_ok_def by (metis not_None_eq)
    with None p show ?thesis unfolding programs_ok_def by simp
  next
    case (Some gens)
    with p have "map_ordered gens"
      "\<And>g a. map_find gens g = Some a \<Longrightarrow> pa_program_gen a = g \<and> pa_program_id a = pa_program_id art"
      by (simp_all add: programs_ok_def)
    with p Some show ?thesis by (auto simp: programs_ok_def) (metis option.inject)
  qed
  then show ?thesis
    using assms by (simp add: state_ok_def registry_ok_def accounting_ok_def deployments_ok_def
      deployment_ok_def workers_ok_def)
qed

lemma set_generation_ok:
  assumes "state_ok s" "map_find (ls_programs s) p = Some gens" "map_find gens g = Some a"
  shows "state_ok (s\<lparr>ls_current_program_gen := map_set p g (ls_current_program_gen s)\<rparr>)"
  using assms by (simp add: state_ok_def registry_ok_def accounting_ok_def deployments_ok_def
      deployment_ok_def workers_ok_def programs_ok_def)

lemma register_program_ok:
  assumes "engine_ok e"
  shows "engine_ok (snd (register_program art e))"
proof -
  note added = add_generation_ok [OF engine_ok_state [OF assms], of art]
  show ?thesis
    using assms added set_generation_ok [OF added, of "pa_program_id art" _ "pa_program_gen art" art]
    by (simp add: register_program_def Let_def commit_state_ok split: option.split)
qed

lemma retire_program_ok: "engine_ok e \<Longrightarrow> engine_ok (snd (retire_program i e))"
  by (auto simp: retire_program_def engine_ok_def state_ok_def registry_ok_def
      accounting_ok_def deployments_ok_def deployment_ok_def workers_ok_def programs_ok_def)

lemma register_worker_ok: "engine_ok e \<Longrightarrow> engine_ok (snd (register_worker w b e))"
  by (auto simp: register_worker_def engine_ok_def state_ok_def registry_ok_def
      accounting_ok_def deployments_ok_def deployment_ok_def workers_ok_def programs_ok_def
      split: option.split)

lemma worker_heartbeat_ok: "engine_ok e \<Longrightarrow> engine_ok (snd (worker_heartbeat w b e))"
  by (simp add: worker_heartbeat_def)

lemma erase_worker_ok:
  "state_ok s \<Longrightarrow> state_ok (s\<lparr>ls_workers := map_erase w (ls_workers s),
     ls_worker_seq := map_erase w (ls_worker_seq s)\<rparr>)"
  by (auto simp: state_ok_def registry_ok_def accounting_ok_def deployments_ok_def
      deployment_ok_def workers_ok_def programs_ok_def)

lemma mark_worker_lost_ok:
  assumes "engine_ok e"
  shows "engine_ok (snd (mark_worker_lost w e))"
proof -
  have "state_ok (s\<lparr>ls_devices := map_update_all (\<lambda>_. orphan_device w) (ls_devices s)\<rparr>)"
    if "state_ok s" for s
    using that by (intro update_devices_ok) (simp_all add: orphan_device_def)
  then show ?thesis
    using engine_ok_state [OF assms]
    by (simp add: mark_worker_lost_def Let_def erase_worker_ok fence_deployments_ok commit_state_ok
        split: option.split)
qed

lemma next_id_simps [simp]:
  "fst (next_id e) = en_id_seq e" "snd (next_id e) = e\<lparr>en_id_seq := en_id_seq e + 1\<rparr>"
  by (simp_all add: next_id_def)

lemma engine_ok_id_seq [simp]: "engine_ok (e\<lparr>en_id_seq := n\<rparr>) \<longleftrightarrow> engine_ok e"
  by (simp add: engine_ok_def)

lemma reserved_deployment_simps [simp]:
  "dp_deployment_id (reserved_deployment s req svc did dev n m) = Id n"
  "dp_device (reserved_deployment s req svc did dev n m) = did"
  "dp_state (reserved_deployment s req svc did dev n m) = DeploymentState.RESERVED"
  "dp_resources (reserved_deployment s req svc did dev n m) = requested_resources req svc"
  "dp_authoritative (reserved_deployment s req svc did dev n m) = False"
  "dp_activation (reserved_deployment s req svc did dev n m) = None"
  "dp_worker_boot (reserved_deployment s req svc did dev n m) = null_id"
  by (simp_all add: reserved_deployment_def Let_def Deployment_init_def)

text \<open>The outcomes of a reservation once the lookups have succeeded.\<close>

lemma committed_reservation:
  "try_reserve r l = Inr (res, l') \<Longrightarrow>
   reservation_destroy (reservation_commit res) l' = ledger_apply r l"
  by (auto simp: try_reserve_def reservation_open_def reservation_destroy_def
      reservation_commit_def split: if_splits)

definition reserve_state ::
  "OffloadRequest \<Rightarrow> ServiceDefinition option \<Rightarrow> DeviceId \<Rightarrow> DeviceRecord \<Rightarrow> ResourceLedger \<Rightarrow> u64
    \<Rightarrow> LiveState \<Rightarrow> LiveState" where
  "reserve_state req svc did dev l n s =
     (let l' = ledger_apply (requested_resources req svc) l in
      put_deployment (Id n) (reserved_deployment s req svc did dev n (n + 1))
        (s\<lparr>ls_ledgers := map_set did l' (ls_ledgers s),
           ls_usage := map_set did (lg_used l') (ls_usage s)\<rparr>))"

lemma reserve_on_cases:
  "reserve_on req svc did dev e =
     (let e2 = e\<lparr>en_id_seq := en_id_seq e + 2\<rparr> in
      case map_find (ls_ledgers (en_state e)) did of
        None \<Rightarrow> refuse ErrorCode.INVALID_STATE ''no ledger for device'' e2
      | Some l \<Rightarrow>
          if can_reserve l (requested_resources req svc)
          then (Inr (Id (en_id_seq e)),
                commit_state (reserve_state req svc did dev l (en_id_seq e)) e2)
          else refuse ErrorCode.RESOURCE_EXHAUSTED ''device resource budget exhausted'' e2)"
  by (auto simp: reserve_on_def next_id_def Let_def try_reserve_def committed_reservation
      reserve_state_def reservation_open_def reservation_destroy_def reservation_commit_def
      commit_state_def on_state_def rebuild_snapshot_def add.assoc split: option.split)

lemma reserve_state_ok:
  assumes "state_ok s" "map_find (ls_ledgers s) did = Some l"
    and "can_reserve l (requested_resources req svc)"
  shows "state_ok (reserve_state req svc did dev l n s)"
proof -
  have "map_find (ls_devices s) did \<noteq> None"
    using assms(1,2) unfolding state_ok_def accounting_ok_def by (metis option.distinct(1))
  then show ?thesis
    unfolding reserve_state_def Let_def
    using assms by (intro put_deployment_ok accounting_ledger_ok within_capacity_apply)
      (simp_all add: deployment_ok_def engine_states_def)
qed

lemma reserve_on_ok: "engine_ok e \<Longrightarrow> engine_ok (snd (reserve_on req svc did dev e))"
  by (auto simp: reserve_on_cases Let_def engine_ok_state split: option.split
      intro!: commit_state_ok reserve_state_ok)

lemma reserve_deployment_ok: "engine_ok e \<Longrightarrow> engine_ok (snd (reserve_deployment req elig e))"
  by (simp add: reserve_deployment_def reserve_on_ok split: option.split)

lemma deployment_ok_move:
  assumes "deployment_ok s i d" "valid_deployment_transition (dp_state d) to"
    and "to \<in> {DeploymentState.STAGING, DeploymentState.LOADED, DeploymentState.VALIDATING}"
  shows "deployment_ok s i (d\<lparr>dp_state := to, dp_authoritative := False\<rparr>)"
  using assms by (auto intro!: deployment_ok_close simp: engine_states_def)

lemma do_deploy_transition_ok:
  assumes "engine_ok e"
    and "to \<in> {DeploymentState.STAGING, DeploymentState.LOADED, DeploymentState.VALIDATING}"
  shows "engine_ok (snd (do_deploy_transition i to e))"
proof -
  have "to \<noteq> DeploymentState.ACTIVE" using assms(2) by auto
  then show ?thesis
    using assms deployment_ok_move [OF state_ok_deployment [OF engine_ok_state]]
    by (auto simp: do_deploy_transition_def engine_ok_state split: option.split
        intro!: commit_state_ok put_deployment_ok)
qed

text \<open>Activation, as one change of the state.\<close>

definition activate_state :: "DeploymentId \<Rightarrow> Deployment \<Rightarrow> u64 \<Rightarrow> LiveState \<Rightarrow> LiveState" where
  "activate_state i d n s =
     (let gen = Id (next_generation (as_u64 (dp_activation_gen d))) in
      put_activation (Id n)
        (ActivationRecord_init
          \<lparr>ar_activation_id := Id n, ar_activation_gen := gen, ar_deployment_id := i,
           ar_deployment_gen := dp_generation d, ar_state := ActivationState.PENDING\<rparr>)
        (put_deployment i
          (d\<lparr>dp_state := DeploymentState.ACTIVATING, dp_authoritative := False,
             dp_activation := Some (Id n), dp_activation_gen := gen\<rparr>) s))"

lemma put_deployment_twice [simp]:
  "put_deployment i d (put_deployment i d' s) = put_deployment i d s"
  by (simp add: put_deployment_def)

lemma put_activation_deployment:
  "put_activation a r (put_deployment i d s) = put_deployment i d (put_activation a r s)"
  by (cases s) (simp add: put_deployment_def put_activation_def)

lemma activate_deployment_cases:
  "activate_deployment i e =
     (case map_find (ls_deployments (en_state e)) i of
        None \<Rightarrow> refuse ErrorCode.NOT_FOUND ''deployment not found'' e
      | Some d \<Rightarrow>
          if valid_deployment_transition (dp_state d) DeploymentState.ACTIVATING
          then (Inr (Id (en_id_seq e)),
                commit_state (activate_state i d (en_id_seq e))
                  (e\<lparr>en_id_seq := en_id_seq e + 1\<rparr>))
          else refuse ErrorCode.INVALID_TRANSITION ''invalid deployment state transition'' e)"
  by (simp add: activate_deployment_def do_deploy_transition_def next_id_def refuse_def throw_error_def
      activate_state_def commit_state_def on_state_def rebuild_snapshot_def Let_def
      split: option.split)

lemma activate_state_ok:
  assumes "state_ok s" "map_find (ls_deployments s) i = Some d"
  shows "state_ok (activate_state i d n s)"
proof -
  have d: "deployment_ok s i d" using assms by (rule state_ok_deployment)
  let ?gen = "Id (next_generation (as_u64 (dp_activation_gen d)))"
  let ?r = "ActivationRecord_init
      \<lparr>ar_activation_id := Id n, ar_activation_gen := ?gen, ar_deployment_id := i,
       ar_deployment_gen := dp_generation d, ar_state := ActivationState.PENDING\<rparr>"
  have "state_ok (put_activation (Id n) ?r s)"
    using assms by (intro put_activation_ok) simp_all
  then have "state_ok (put_deployment i
      (d\<lparr>dp_state := DeploymentState.ACTIVATING, dp_authoritative := False,
         dp_activation := Some (Id n), dp_activation_gen := ?gen\<rparr>) (put_activation (Id n) ?r s))"
    using d by (intro put_deployment_ok) (auto simp: deployment_ok_def engine_states_def)
  then show ?thesis by (simp add: activate_state_def Let_def put_activation_deployment)
qed

lemma activate_deployment_ok: "engine_ok e \<Longrightarrow> engine_ok (snd (activate_deployment i e))"
  by (auto simp: activate_deployment_cases engine_ok_state split: option.split
      intro!: commit_state_ok activate_state_ok)

definition grant_state ::
  "DeploymentId \<Rightarrow> Deployment \<Rightarrow> DeviceRecord \<Rightarrow> ActivationId \<Rightarrow> ActivationRecord \<Rightarrow> LiveState
    \<Rightarrow> LiveState" where
  "grant_state i d dev a r s =
     put_deployment i
       (d\<lparr>dp_state := DeploymentState.ACTIVE, dp_authoritative := True, dp_epoch := ls_epoch s\<rparr>)
       (put_activation a
         (r\<lparr>ar_authority := commit_authority s d dev, ar_state := ActivationState.ACTIVE,
            ar_reason := ''committed''\<rparr>) s)"

text \<open>The successful commits: every check that was passed, and the state that results.\<close>

lemma commit_deployment_cases:
  obtains (refused) f where "commit_deployment i e = (Inl f, e)"
  | (granted) d dev a r where
      "commit_deployment i e = (Inr (), commit_state (grant_state i d dev a r) e)"
      "map_find (ls_deployments (en_state e)) i = Some d"
      "dp_state d = DeploymentState.ACTIVATING"
      "map_find (ls_devices (en_state e)) (dp_device d) = Some dev"
      "is_ready_for_offload dev"
      "dp_program d = null_id \<or>
       map_find (ls_current_program_gen (en_state e)) (dp_program d) = Some (dp_program_gen d)"
      "dp_activation d = Some a" "map_find (ls_activations (en_state e)) a = Some r"
proof -
  have "(\<exists>f. commit_deployment i e = (Inl f, e)) \<or>
    (\<exists>d dev a r. commit_deployment i e = (Inr (), commit_state (grant_state i d dev a r) e) \<and>
      map_find (ls_deployments (en_state e)) i = Some d \<and>
      dp_state d = DeploymentState.ACTIVATING \<and>
      map_find (ls_devices (en_state e)) (dp_device d) = Some dev \<and>
      is_ready_for_offload dev \<and>
      (dp_program d = null_id \<or>
       map_find (ls_current_program_gen (en_state e)) (dp_program d) = Some (dp_program_gen d)) \<and>
      dp_activation d = Some a \<and> map_find (ls_activations (en_state e)) a = Some r)"
    by (auto simp: commit_deployment_def grant_authority_def refuse_def throw_error_def
        grant_state_def [abs_def] split: option.split)
  then show thesis using refused granted by blast
qed

lemma grant_state_ok:
  assumes "state_ok s" "map_find (ls_deployments s) i = Some d" "dp_activation d = Some a"
    and "map_find (ls_activations s) a = Some r"
  shows "state_ok (grant_state i d dev a r s)"
  unfolding grant_state_def
  using state_ok_deployment [OF assms(1,2)] state_ok_activation [OF assms(1,4)] assms(1,3)
  by (intro put_deployment_ok put_activation_ok) (auto simp: deployment_ok_def engine_states_def)

lemma commit_deployment_ok:
  assumes "engine_ok e"
  shows "engine_ok (snd (commit_deployment i e))"
proof (cases rule: commit_deployment_cases [of i e])
  case (refused f)
  with assms show ?thesis by simp
next
  case (granted d dev a r)
  then show ?thesis
    using grant_state_ok [OF engine_ok_state [OF assms]] by (simp add: commit_state_ok)
qed

text \<open>The handlers that take a deployment out of service.\<close>

definition closing_states :: "DeploymentState set" where
  "closing_states = {DeploymentState.ABORTED, DeploymentState.DRAINING,
     DeploymentState.RETIRED, DeploymentState.FAILED}"

lemma close_deployment_ok:
  assumes "state_ok s" "deployment_ok s i d" "st \<in> closing_states"
  shows "state_ok (close_deployment st i d s)"
  unfolding close_deployment_def
  using assms
  by (intro put_deployment_ok deployment_ok_close) (auto simp: closing_states_def engine_states_def)

lemma deployment_ok_marked [simp]:
  "deployment_ok (mark_activation st d' s) i d \<longleftrightarrow> deployment_ok s i d"
  by (auto simp: deployment_ok_def mark_activation_find)

lemma deployment_ok_released [simp]:
  "deployment_ok (release_resources j s) i d \<longleftrightarrow> deployment_ok s i d"
  by (simp add: deployment_ok_def)

lemmas close_intros =
  commit_state_ok close_deployment_ok mark_activation_ok release_resources_ok

lemma cancel_deployment_ok: "engine_ok e \<Longrightarrow> engine_ok (snd (cancel_deployment i e))"
  by (auto simp: cancel_deployment_def engine_ok_state state_ok_deployment closing_states_def
      split: option.split intro!: close_intros)

lemma rollback_deployment_ok: "engine_ok e \<Longrightarrow> engine_ok (snd (rollback_deployment i e))"
  by (auto simp: rollback_deployment_def engine_ok_state state_ok_deployment closing_states_def
      split: option.split intro!: close_intros)

lemma drain_deployment_ok: "engine_ok e \<Longrightarrow> engine_ok (snd (drain_deployment i e))"
  by (auto simp: drain_deployment_def engine_ok_state state_ok_deployment closing_states_def
      split: option.split intro!: close_intros)

lemma retire_deployment_ok: "engine_ok e \<Longrightarrow> engine_ok (snd (retire_deployment i e))"
  by (auto simp: retire_deployment_def engine_ok_state state_ok_deployment closing_states_def
      split: option.split intro!: close_intros)

lemma fail_deployment_ok: "engine_ok e \<Longrightarrow> engine_ok (snd (fail_deployment i c reason e))"
  by (auto simp: fail_deployment_def engine_ok_state state_ok_deployment closing_states_def
      split: option.split intro!: close_intros)

lemma advance_epoch_ok: "engine_ok e \<Longrightarrow> engine_ok (snd (advance_epoch e))"
  by (auto simp: advance_epoch_def engine_ok_def state_ok_def registry_ok_def accounting_ok_def
      deployments_ok_def deployment_ok_def workers_ok_def programs_ok_def)

lemma apply_recovery_ok:
  assumes "engine_ok e"
  shows "engine_ok (snd (apply_recovery p e))"
proof -
  have "state_ok (s\<lparr>ls_devices := map_update_all (\<lambda>_. recover_device p) (ls_devices s)\<rparr>)"
    if "state_ok s" for s
    using that by (intro update_devices_ok) (simp_all add: recover_device_def Let_def)
  then show ?thesis
    using engine_ok_state [OF assms]
    by (simp add: apply_recovery_def fence_deployments_ok commit_state_ok)
qed

lemma outcome_simps [simp]: "snd (outcome p) = snd p"
  by (simp add: outcome_def)

theorem call_ok: "engine_ok e \<Longrightarrow> engine_ok (snd (call c e))"
  by (cases c) (simp_all add: import_backend_ok run_all_backends_def run_backends_ok
      register_device_ok update_device_ok retire_device_ok transition_device_ok
      set_device_state_ok fence_device_ok register_service_ok register_program_ok
      retire_program_ok register_worker_ok worker_heartbeat_ok mark_worker_lost_ok
      reserve_deployment_ok stage_deployment_def load_deployment_def validate_deployment_def
      do_deploy_transition_ok activate_deployment_ok commit_deployment_ok cancel_deployment_ok
      rollback_deployment_ok drain_deployment_ok retire_deployment_ok fail_deployment_ok
      advance_epoch_ok apply_recovery_ok)

section \<open>Reachable states\<close>

locale machine =
  fixes initial :: "'s \<Rightarrow> bool"
    and move :: "'c \<Rightarrow> 's \<Rightarrow> 's"
    and inv :: "'s \<Rightarrow> bool"
  assumes inv_initial: "initial s \<Longrightarrow> inv s"
    and inv_move: "inv s \<Longrightarrow> inv (move c s)"
begin

definition run :: "'c list \<Rightarrow> 's \<Rightarrow> 's" where
  "run cs s = fold move cs s"

lemma run_inv: "inv s \<Longrightarrow> inv (run cs s)"
  by (induction cs arbitrary: s) (simp_all add: run_def inv_move)

theorem initial_run_inv: "initial s \<Longrightarrow> inv (run cs s)"
  by (simp add: inv_initial run_inv)

text \<open>A property no move destroys holds ever after.\<close>

lemma run_stable:
  assumes "\<And>s c. inv s \<Longrightarrow> P s \<Longrightarrow> P (move c s)" "inv s" "P s"
  shows "P (run cs s)"
proof -
  have "inv (run cs s) \<and> P (run cs s)"
    using assms(2,3) by (induction cs arbitrary: s) (simp_all add: run_def inv_move assms(1))
  then show ?thesis by simp
qed

end

definition new_engine :: "engine \<Rightarrow> bool" where
  "new_engine e \<longleftrightarrow> (\<exists>ep policy. e = engine_new ep policy)"

definition after_call :: "engine_call \<Rightarrow> engine \<Rightarrow> engine" where
  "after_call c e = snd (call c e)"

lemma engine_new_ok: "engine_ok (engine_new ep policy)"
  by (simp add: engine_ok_def engine_new_def rebuild_snapshot_def LiveState_init_def state_ok_defs)

interpretation engine_machine: machine new_engine after_call engine_ok
  by unfold_locales (auto simp: new_engine_def after_call_def engine_new_ok call_ok)

lemma step_after_call: "step e c e' \<longleftrightarrow> e' = after_call c e"
  by (auto simp: step_iff after_call_def) (metis prod.collapse)

lemma reachable_run:
  "reachable n e \<longleftrightarrow> (\<exists>ep policy cs. length cs = n \<and> e = engine_machine.run cs (engine_new ep policy))"
proof
  assume "reachable n e"
  then show "\<exists>ep policy cs. length cs = n \<and> e = engine_machine.run cs (engine_new ep policy)"
  proof induction
    case (start ep policy)
    show ?case by (intro exI [of _ ep] exI [of _ policy] exI [of _ "[]"])
        (simp add: engine_machine.run_def)
  next
    case (more n e c e')
    then obtain ep policy cs where "length cs = n" "e = engine_machine.run cs (engine_new ep policy)"
      by blast
    with more show ?case
      by (intro exI [of _ ep] exI [of _ policy] exI [of _ "cs @ [c]"])
        (simp add: engine_machine.run_def step_after_call)
  qed
next
  assume "\<exists>ep policy cs. length cs = n \<and> e = engine_machine.run cs (engine_new ep policy)"
  then obtain ep policy cs where "length cs = n" "e = engine_machine.run cs (engine_new ep policy)"
    by blast
  moreover have "reachable (length cs) (engine_machine.run cs (engine_new ep policy))"
  proof (induction cs rule: rev_induct)
    case Nil
    then show ?case by (simp add: engine_machine.run_def reachable.start)
  next
    case (snoc c cs)
    then show ?case
      using reachable.more [of "length cs" _ c]
      by (simp add: engine_machine.run_def step_after_call)
  qed
  ultimately show "reachable n e" by simp
qed

lemma reachable_ok: "reachable n e \<Longrightarrow> engine_ok e"
  using engine_machine.initial_run_inv by (auto simp: reachable_run new_engine_def)

end
