(* ===== verification/EngineEvolve.thy ===== *)
theory EngineEvolve
  imports EngineInv
begin

text \<open>
  How a call changes the deployments: what it keeps of a deployment, which state changes it
  makes, which identifiers it draws. \<open>evolves d d'\<close> relates a deployment before and after: its
  binding (identity, device, tenant, resources, generations) is the same and its state has
  stayed or moved along the transition table.
\<close>

definition same_binding :: "Deployment \<Rightarrow> Deployment \<Rightarrow> bool" where
  "same_binding d d' \<longleftrightarrow>
     d' = d\<lparr>dp_state := dp_state d', dp_authoritative := dp_authoritative d',
            dp_activation := dp_activation d', dp_activation_gen := dp_activation_gen d',
            dp_epoch := dp_epoch d'\<rparr>"

definition evolves :: "Deployment \<Rightarrow> Deployment \<Rightarrow> bool" where
  "evolves d d' \<longleftrightarrow>
     same_binding d d' \<and>
     (dp_state d' = dp_state d \<or> valid_deployment_transition (dp_state d) (dp_state d'))"

lemma evolves_refl [simp]: "evolves d d"
  by (simp add: evolves_def same_binding_def)

lemma evolves_state:
  "valid_deployment_transition (dp_state d) st \<Longrightarrow>
   evolves d (d\<lparr>dp_state := st, dp_authoritative := b\<rparr>)"
  by (simp add: evolves_def same_binding_def)

lemma same_binding_fields:
  assumes "same_binding d d'"
  shows "dp_device d' = dp_device d" "dp_resources d' = dp_resources d"
    "dp_worker_boot d' = dp_worker_boot d" "dp_deployment_id d' = dp_deployment_id d"
    "dp_service d' = dp_service d" "dp_program d' = dp_program d"
    "dp_program_gen d' = dp_program_gen d" "dp_tenant d' = dp_tenant d"
  by (subst assms [unfolded same_binding_def], simp)+

section \<open>Calls that do not touch deployments\<close>

lemma deployments_kept [simp]:
  "ls_deployments (en_state (snd (import_backend b e))) = ls_deployments (en_state e)"
  "ls_deployments (en_state (snd (register_device rec e))) = ls_deployments (en_state e)"
  "ls_deployments (en_state (snd (update_device rec e))) = ls_deployments (en_state e)"
  "ls_deployments (en_state (snd (set_device_state i st k e))) = ls_deployments (en_state e)"
  "ls_deployments (en_state (snd (register_service sd e))) = ls_deployments (en_state e)"
  "ls_deployments (en_state (snd (register_program art e))) = ls_deployments (en_state e)"
  "ls_deployments (en_state (snd (retire_program p e))) = ls_deployments (en_state e)"
  "ls_deployments (en_state (snd (register_worker w boot e))) = ls_deployments (en_state e)"
  "ls_deployments (en_state (snd (worker_heartbeat w boot e))) = ls_deployments (en_state e)"
  "ls_deployments (en_state (snd (advance_epoch e))) = ls_deployments (en_state e)"
  by (simp_all add: op_defs Let_def split: option.split)

lemma activations_kept [simp]:
  "ls_activations (en_state (snd (import_backend b e))) = ls_activations (en_state e)"
  "ls_activations (en_state (snd (register_device rec e))) = ls_activations (en_state e)"
  "ls_activations (en_state (snd (update_device rec e))) = ls_activations (en_state e)"
  "ls_activations (en_state (snd (set_device_state i st k e))) = ls_activations (en_state e)"
  "ls_activations (en_state (snd (register_service sd e))) = ls_activations (en_state e)"
  "ls_activations (en_state (snd (register_program art e))) = ls_activations (en_state e)"
  "ls_activations (en_state (snd (retire_program p e))) = ls_activations (en_state e)"
  "ls_activations (en_state (snd (register_worker w boot e))) = ls_activations (en_state e)"
  "ls_activations (en_state (snd (worker_heartbeat w boot e))) = ls_activations (en_state e)"
  "ls_activations (en_state (snd (advance_epoch e))) = ls_activations (en_state e)"
  by (simp_all add: op_defs Let_def split: option.split)

lemma import_discovered_kept [simp]:
  "ls_deployments (en_state (import_discovered dd e)) = ls_deployments (en_state e)"
  "ls_activations (en_state (import_discovered dd e)) = ls_activations (en_state e)"
  by (simp_all add: import_discovered_def)

lemma fold_import_kept [simp]:
  "ls_deployments (en_state (fold import_discovered ds e)) = ls_deployments (en_state e)"
  "ls_activations (en_state (fold import_discovered ds e)) = ls_activations (en_state e)"
  by (induction ds arbitrary: e) simp_all

lemma run_backends_kept [simp]:
  "ls_deployments (en_state (snd (run_backends bs out e))) = ls_deployments (en_state e)"
  "ls_activations (en_state (snd (run_backends bs out e))) = ls_activations (en_state e)"
  by (induction bs out e rule: run_backends.induct) (simp_all split: sum.split)

section \<open>The fencing calls\<close>

lemma fence_deployments_find:
  "map_ordered (ls_deployments s) \<Longrightarrow>
   map_find (ls_deployments (fence_deployments P s)) i =
     map_option (\<lambda>d. if P d then fence d else d) (map_find (ls_deployments s) i)"
  by (simp add: fence_deployments_loop fence_loop.loop_find)

lemma evolves_fence:
  "running d \<or> dp_state d = DeploymentState.DRAINING \<Longrightarrow> evolves d (fence d)"
  unfolding fence_def
  by (rule evolves_state) (auto simp: running_def valid_deployment_transition_def)

lemma fence_deployments_evolves:
  assumes "map_ordered (ls_deployments s)" "\<And>d. P d \<Longrightarrow> running d"
    and "map_find (ls_deployments s) i = Some d"
  shows "\<exists>d'. map_find (ls_deployments (fence_deployments P s)) i = Some d' \<and> evolves d d'"
  using assms by (simp add: fence_deployments_find evolves_fence)

definition activation_keys :: "LiveState \<Rightarrow> ActivationId set" where
  "activation_keys s = {a. map_find (ls_activations s) a \<noteq> None}"

definition deployment_keys :: "LiveState \<Rightarrow> DeploymentId set" where
  "deployment_keys s = {i. map_find (ls_deployments s) i \<noteq> None}"

lemma activation_keys_mark [simp]: "activation_keys (mark_activation st d s) = activation_keys s"
  by (auto simp: activation_keys_def mark_activation_find)

lemma activation_keys_put [simp]:
  "activation_keys (put_deployment i d s) = activation_keys s"
  "activation_keys (put_device k v s) = activation_keys s"
  "activation_keys (release_resources j s) = activation_keys s"
  "activation_keys (put_activation a r s) = insert a (activation_keys s)"
  by (auto simp: activation_keys_def)

lemma activation_keys_fence [simp]: "activation_keys (fence_deployments P s) = activation_keys s"
proof -
  have "activation_keys (fold (fence_one P) es s) = activation_keys s" for es
    by (induction es arbitrary: s) (simp_all add: fence_one_def split_def)
  then show ?thesis by (simp add: fence_deployments_def)
qed

lemma activation_keys_retire [simp]:
  "activation_keys (fold (retire_one dev) es s) = activation_keys s"
  by (induction es arbitrary: s) (simp_all add: retire_one_cases split_paired_all)

section \<open>Every call\<close>

lemma call_evolves:
  assumes "engine_ok e" "map_find (ls_deployments (en_state e)) i = Some d"
    and "i \<noteq> Id (en_id_seq e)"
  shows "\<exists>d'. map_find (ls_deployments (en_state (after_call c e))) i = Some d' \<and> evolves d d'"
proof -
  note ord = state_ok_ordered(1) [OF engine_ok_state [OF assms(1)]]
  have move: "\<exists>d'. map_find (ls_deployments (en_state (snd (do_deploy_transition j to e)))) i = Some d' \<and>
      evolves d d'" for j to
    using assms(2) by (auto simp: do_deploy_transition_def evolves_state split: option.split)
  have close: "\<exists>d'. map_find (map_set j (dj\<lparr>dp_state := st, dp_authoritative := False\<rparr>)
        (ls_deployments (en_state e))) i = Some d' \<and> evolves d d'"
    if "map_find (ls_deployments (en_state e)) j = Some dj"
      "valid_deployment_transition (dp_state dj) st" for j dj st
    using assms(2) that by (auto simp: evolves_state)
  show ?thesis
  proof (cases c)
    case (Retire_Device dev)
    have "evolves d (retire_effect dev d)" by (simp add: retire_effect_def evolves_fence)
    then show ?thesis
      using assms(2) ord Retire_Device
      by (auto simp: after_call_def retire_device_def retire_loop.loop_def [symmetric]
          retire_loop.loop_find split: option.split)
  next
    case (Transition_Device dev to)
    then show ?thesis
      using assms(2) fence_deployments_evolves [OF ord, of "running_on dev" i d]
      by (auto simp: after_call_def transition_device_def running_on_def split: option.split)
  next
    case (Fence_Device dev reason)
    have "\<exists>d'. map_find (ls_deployments
        (fence_deployments (running_on dev) (put_device dev rec (en_state e)))) i = Some d' \<and>
        evolves d d'" for rec
      using assms(2) ord by (intro fence_deployments_evolves) (simp_all add: running_on_def)
    then show ?thesis
      using assms(2) Fence_Device by (auto simp: after_call_def fence_device_def split: option.split)
  next
    case (Mark_Worker_Lost w)
    have "\<exists>d'. map_find (ls_deployments
        (fence_deployments (bound_to_boot b) (en_state e\<lparr>ls_devices := m\<rparr>))) i = Some d' \<and>
        evolves d d'" for b m
      using assms(2) ord
      by (intro fence_deployments_evolves) (simp_all add: bound_to_boot_def running_def)
    then show ?thesis
      using assms(2) Mark_Worker_Lost
      by (auto simp: after_call_def mark_worker_lost_def Let_def split: option.split)
  next
    case (Apply_Recovery p)
    have "\<exists>d'. map_find (ls_deployments
        (fence_deployments running (en_state e\<lparr>ls_devices := m\<rparr>))) i = Some d' \<and>
        evolves d d'" for m
      using assms(2) ord by (intro fence_deployments_evolves) simp_all
    then show ?thesis
      using Apply_Recovery by (auto simp: after_call_def apply_recovery_def)
  next
    case (Reserve req elig)
    then show ?thesis
      using assms(2,3)
      by (auto simp: after_call_def reserve_deployment_def reserve_on_cases reserve_state_def Let_def
          split: option.split)
  next
    case (Activate j)
    have "evolves d (d\<lparr>dp_state := DeploymentState.ACTIVATING, dp_authoritative := False,
        dp_activation := x, dp_activation_gen := y\<rparr>)"
      if "valid_deployment_transition (dp_state d) DeploymentState.ACTIVATING" for x y
      using that by (simp add: evolves_def same_binding_def)
    then show ?thesis
      using assms(2) Activate
      by (auto simp: after_call_def activate_deployment_cases activate_state_def Let_def
          split: option.split)
  next
    case (Commit j)
    show ?thesis
    proof (cases rule: commit_deployment_cases [of j e])
      case (refused f)
      then show ?thesis using assms(2) Commit by (simp add: after_call_def)
    next
      case (granted dj dev a r)
      have "evolves dj (dj\<lparr>dp_state := DeploymentState.ACTIVE, dp_authoritative := True,
          dp_epoch := x\<rparr>)" for x
        using granted(3) by (simp add: evolves_def same_binding_def valid_deployment_transition_def)
      then show ?thesis
        using granted assms(2) Commit by (auto simp: after_call_def grant_state_def)
    qed
  next
    case (Cancel j)
    then show ?thesis
      using assms(2) close [of j _ DeploymentState.ABORTED]
      by (auto simp: after_call_def cancel_deployment_def close_deployment_def
          valid_deployment_transition_def split: option.split)
  next
    case (Rollback j)
    then show ?thesis
      using assms(2) close [of j _ DeploymentState.ABORTED]
      by (auto simp: after_call_def rollback_deployment_def close_deployment_def
          valid_deployment_transition_def split: option.split)
  next
    case (Drain j)
    then show ?thesis
      using assms(2) close [of j _ DeploymentState.DRAINING]
      by (auto simp: after_call_def drain_deployment_def close_deployment_def
          valid_deployment_transition_def split: option.split)
  next
    case (Retire j)
    then show ?thesis
      using assms(2) close [of j _ DeploymentState.RETIRED]
      by (auto simp: after_call_def retire_deployment_def close_deployment_def
          valid_deployment_transition_def split: option.split)
  next
    case (Fail j code reason)
    then show ?thesis
      using assms(2) close [of j _ DeploymentState.FAILED]
      by (auto simp: after_call_def fail_deployment_def close_deployment_def split: option.split)
  qed (use assms(2) move in \<open>simp_all add: after_call_def run_all_backends_def
      stage_deployment_def load_deployment_def validate_deployment_def\<close>)
qed

section \<open>Identifiers\<close>

text \<open>
  The counter behind \<^verbatim>\<open>next_id\<close> is a 64-bit integer. A call draws at most two numbers, so for
  fewer than \<open>2 ^ 62\<close> calls it does not wrap, and every identifier in use lies below it.
\<close>

definition ids_below :: "engine \<Rightarrow> bool" where
  "ids_below e \<longleftrightarrow>
     (\<forall>i\<in>deployment_keys (en_state e). as_u64 i < en_id_seq e) \<and>
     (\<forall>a\<in>activation_keys (en_state e). as_u64 a < en_id_seq e)"

lemma deployment_keys_put [simp]:
  "deployment_keys (put_deployment i d s) = insert i (deployment_keys s)"
  "deployment_keys (put_device k v s) = deployment_keys s"
  "deployment_keys (release_resources j s) = deployment_keys s"
  "deployment_keys (mark_activation st d s) = deployment_keys s"
  "deployment_keys (put_activation a r s) = deployment_keys s"
  by (auto simp: deployment_keys_def)

lemma deployment_keys_fence:
  "map_ordered (ls_deployments s) \<Longrightarrow> deployment_keys (fence_deployments P s) = deployment_keys s"
  by (auto simp: deployment_keys_def fence_deployments_find)

lemma deployment_keys_retire:
  "map_ordered (ls_deployments s) \<Longrightarrow>
   deployment_keys (fold (retire_one dev) (map_entries (ls_deployments s)) s) = deployment_keys s"
  by (auto simp: deployment_keys_def retire_loop.loop_def [symmetric] retire_loop.loop_find)

lemma keys_cong:
  "ls_deployments s' = ls_deployments s \<Longrightarrow> deployment_keys s' = deployment_keys s"
  "ls_activations s' = ls_activations s \<Longrightarrow> activation_keys s' = activation_keys s"
  by (simp_all add: deployment_keys_def activation_keys_def)

lemmas keys_kept [simp] =
  deployments_kept [THEN keys_cong(1)] activations_kept [THEN keys_cong(2)]
  run_backends_kept(1) [THEN keys_cong(1)] run_backends_kept(2) [THEN keys_cong(2)]

lemma keys_update [simp]:
  "deployment_keys (s\<lparr>ls_devices := m\<rparr>) = deployment_keys s"
  "activation_keys (s\<lparr>ls_devices := m\<rparr>) = activation_keys s"
  "deployment_keys (s\<lparr>ls_workers := w, ls_worker_seq := q\<rparr>) = deployment_keys s"
  "activation_keys (s\<lparr>ls_workers := w, ls_worker_seq := q\<rparr>) = activation_keys s"
  "deployment_keys (s\<lparr>ls_ledgers := l, ls_usage := u\<rparr>) = deployment_keys s"
  "activation_keys (s\<lparr>ls_ledgers := l, ls_usage := u\<rparr>) = activation_keys s"
  by (simp_all add: deployment_keys_def activation_keys_def)

lemma key_found: "map_find (ls_deployments s) i = Some d \<Longrightarrow> insert i (deployment_keys s) = deployment_keys s"
  by (auto simp: deployment_keys_def)

lemma id_seq_kept [simp]:
  "en_id_seq (snd (import_backend b e)) = en_id_seq e"
  "en_id_seq (snd (register_device rec e)) = en_id_seq e"
  "en_id_seq (snd (update_device rec e)) = en_id_seq e"
  "en_id_seq (snd (retire_device i e)) = en_id_seq e"
  "en_id_seq (snd (transition_device i to e)) = en_id_seq e"
  "en_id_seq (snd (set_device_state i st k e)) = en_id_seq e"
  "en_id_seq (snd (fence_device i reason e)) = en_id_seq e"
  "en_id_seq (snd (register_service sd e)) = en_id_seq e"
  "en_id_seq (snd (register_program art e)) = en_id_seq e"
  "en_id_seq (snd (retire_program p e)) = en_id_seq e"
  "en_id_seq (snd (register_worker w boot e)) = en_id_seq e"
  "en_id_seq (snd (worker_heartbeat w boot e)) = en_id_seq e"
  "en_id_seq (snd (mark_worker_lost w e)) = en_id_seq e"
  "en_id_seq (snd (do_deploy_transition j st' e)) = en_id_seq e"
  "en_id_seq (snd (cancel_deployment j e)) = en_id_seq e"
  "en_id_seq (snd (rollback_deployment j e)) = en_id_seq e"
  "en_id_seq (snd (drain_deployment j e)) = en_id_seq e"
  "en_id_seq (snd (retire_deployment j e)) = en_id_seq e"
  "en_id_seq (snd (fail_deployment j code reason e)) = en_id_seq e"
  "en_id_seq (snd (advance_epoch e)) = en_id_seq e"
  "en_id_seq (snd (apply_recovery rp e)) = en_id_seq e"
  by (simp_all add: op_defs retire_device_def transition_device_def fence_device_def
      mark_worker_lost_def do_deploy_transition_def cancel_deployment_def rollback_deployment_def
      drain_deployment_def retire_deployment_def fail_deployment_def apply_recovery_def Let_def split: option.split)

lemma run_backends_id_seq [simp]: "en_id_seq (snd (run_backends bs out e)) = en_id_seq e"
proof -
  have "en_id_seq (fold import_discovered ds e) = en_id_seq e" for ds e
    by (induction ds arbitrary: e) (simp_all add: import_discovered_def)
  then show ?thesis
    by (induction bs out e rule: run_backends.induct) (simp_all split: sum.split)
qed

lemma commit_id_seq [simp]: "en_id_seq (snd (commit_deployment j e)) = en_id_seq e"
  by (cases rule: commit_deployment_cases [of j e]) simp_all

definition draws :: "engine \<Rightarrow> engine \<Rightarrow> bool" where
  "draws e e' \<longleftrightarrow>
     (let n = en_id_seq e; dk = deployment_keys (en_state e); ak = activation_keys (en_state e);
          dk' = deployment_keys (en_state e'); ak' = activation_keys (en_state e') in
      en_id_seq e' = n \<and> dk' = dk \<and> ak' = ak \<or>
      en_id_seq e' = n + 1 \<and> dk' = dk \<and> ak' = insert (Id n) ak \<or>
      en_id_seq e' = n + 2 \<and> dk' \<subseteq> insert (Id n) dk \<and> ak' = ak)"

lemma call_draws:
  assumes "engine_ok e"
  shows "draws e (after_call c e)"
proof -
  note ord = state_ok_ordered(1) [OF engine_ok_state [OF assms]]
  note defs = draws_def Let_def after_call_def
  show ?thesis
  proof (cases c)
    case (Mark_Worker_Lost w)
    then show ?thesis
      using ord by (auto simp: defs mark_worker_lost_def deployment_keys_fence split: option.split)
  next
    case (Apply_Recovery p)
    then show ?thesis using ord by (simp add: defs apply_recovery_def deployment_keys_fence)
  next
    case (Commit j)
    show ?thesis
    proof (cases rule: commit_deployment_cases [of j e])
      case (refused f)
      then show ?thesis using Commit by (simp add: defs)
    next
      case (granted dj dev a r)
      have "insert a (activation_keys (en_state e)) = activation_keys (en_state e)"
        using granted(8) by (auto simp: activation_keys_def)
      then show ?thesis
        using granted(1,2) Commit by (simp add: defs grant_state_def key_found)
    qed
  next
    case (Reserve req elig)
    then show ?thesis
      using Reserve by (auto simp: defs reserve_deployment_def reserve_on_cases reserve_state_def
          split: option.split)
  qed (auto simp: defs run_all_backends_def
      stage_deployment_def load_deployment_def validate_deployment_def
      do_deploy_transition_def activate_deployment_cases activate_state_def
      cancel_deployment_def rollback_deployment_def drain_deployment_def
      retire_deployment_def fail_deployment_def close_deployment_def
      retire_device_def transition_device_def fence_device_def
      deployment_keys_fence deployment_keys_retire ord key_found
      split: option.split)
qed

lemma ids_below_call:
  assumes "engine_ok e" "ids_below e" "unat (en_id_seq e) < 2 ^ 64 - 2"
  shows "ids_below (after_call c e)"
    and "unat (en_id_seq (after_call c e)) \<le> unat (en_id_seq e) + 2"
proof -
  let ?n = "en_id_seq e"
  have n1: "unat (?n + 1) = unat ?n + 1" and n2: "unat (?n + 2) = unat ?n + 2"
    using assms(3) by (simp_all add: unat_add_no_wrap)
  have seq: "en_id_seq (after_call c e) = ?n \<or> en_id_seq (after_call c e) = ?n + 1 \<or>
      en_id_seq (after_call c e) = ?n + 2"
    and dk: "\<And>i. i \<in> deployment_keys (en_state (after_call c e)) \<Longrightarrow>
      i \<in> deployment_keys (en_state e) \<or> i = Id ?n \<and> en_id_seq (after_call c e) = ?n + 2"
    and ak: "\<And>a. a \<in> activation_keys (en_state (after_call c e)) \<Longrightarrow>
      a \<in> activation_keys (en_state e) \<or> a = Id ?n \<and> en_id_seq (after_call c e) = ?n + 1"
    using call_draws [OF assms(1), of c] by (auto simp: draws_def Let_def)
  from seq show "unat (en_id_seq (after_call c e)) \<le> unat ?n + 2" using n1 n2 by auto
  have up: "?n \<le> en_id_seq (after_call c e)"
    using seq n1 n2 by (auto simp: word_le_nat_alt)
  have lt: "?n < ?n + 1" "?n < ?n + 2" using n1 n2 by (simp_all add: word_less_nat_alt)
  show "ids_below (after_call c e)"
    unfolding ids_below_def
  proof (intro conjI ballI)
    fix i
    assume "i \<in> deployment_keys (en_state (after_call c e))"
    from dk [OF this] show "as_u64 i < en_id_seq (after_call c e)"
      using assms(2) up lt by (auto simp: ids_below_def intro: less_le_trans)
  next
    fix a
    assume "a \<in> activation_keys (en_state (after_call c e))"
    from ak [OF this] show "as_u64 a < en_id_seq (after_call c e)"
      using assms(2) up lt by (auto simp: ids_below_def intro: less_le_trans)
  qed
qed

lemma reachable_ids:
  "reachable n e \<Longrightarrow> n < 2 ^ 62 \<Longrightarrow> ids_below e \<and> unat (en_id_seq e) \<le> 2 * n + 1"
proof (induction rule: reachable.induct)
  case (start ep policy)
  show ?case
    by (simp add: ids_below_def engine_new_def rebuild_snapshot_def LiveState_init_def
        deployment_keys_def activation_keys_def)
next
  case (more n e c e')
  then have "ids_below e" "unat (en_id_seq e) \<le> 2 * n + 1" by simp_all
  moreover from this(2) more.prems have "unat (en_id_seq e) < 2 ^ 64 - 2" by simp
  ultimately show ?case
    using ids_below_call [OF reachable_ok [OF more.hyps(1)], of c] more.hyps(2)
    by (fastforce simp: step_after_call)
qed

lemma fresh_deployment:
  assumes "ids_below e" "map_find (ls_deployments (en_state e)) i = Some d"
  shows "i \<noteq> Id (en_id_seq e)"
  using assms by (force simp: ids_below_def deployment_keys_def)

text \<open>A deployment evolves from any reachable state to any later one.\<close>

lemma reachable_fold:
  "reachable n e \<Longrightarrow> reachable (n + length cs) (fold after_call cs e)"
proof (induction cs arbitrary: n e)
  case (Cons c cs)
  have "reachable (Suc n) (after_call c e)"
    using Cons.prems by (rule reachable.more) (simp add: step_after_call)
  from Cons.IH [OF this] show ?case by simp
qed simp

lemma reachable_evolves:
  assumes "reachable n e" "n < 2 ^ 62" "map_find (ls_deployments (en_state e)) i = Some d"
  shows "\<exists>d'. map_find (ls_deployments (en_state (after_call c e))) i = Some d' \<and> evolves d d'"
  using call_evolves [OF reachable_ok [OF assms(1)] assms(3)]
    fresh_deployment [OF _ assms(3)] reachable_ids [OF assms(1,2)] by blast

lemma retired_fold:
  assumes "reachable n e" "n + length cs < 2 ^ 62"
    and "map_find (ls_deployments (en_state e)) i = Some d" "dp_state d = DeploymentState.RETIRED"
  shows "\<exists>d'. map_find (ls_deployments (en_state (fold after_call cs e))) i = Some d' \<and>
    dp_state d' = DeploymentState.RETIRED \<and> same_binding d d'"
  using assms
proof (induction cs arbitrary: n e d)
  case (Cons c cs)
  obtain d' where d': "map_find (ls_deployments (en_state (after_call c e))) i = Some d'"
    "evolves d d'"
    using reachable_evolves [OF Cons.prems(1) _ Cons.prems(3), of c] Cons.prems(2) by auto
  then have st: "dp_state d' = DeploymentState.RETIRED" using Cons.prems(4) by (auto simp: evolves_def)
  have "reachable (Suc n) (after_call c e)"
    using Cons.prems(1) by (rule reachable.more) (simp add: step_after_call)
  from Cons.IH [OF this _ d'(1) st] Cons.prems(2)
  obtain d'' where "map_find (ls_deployments (en_state (fold after_call (c # cs) e))) i = Some d''"
    "dp_state d'' = DeploymentState.RETIRED" "same_binding d' d''" by auto
  moreover have "same_binding d d''"
    using d'(2) calculation(3) unfolding evolves_def same_binding_def
    by (cases d; cases d'; cases d'') simp
  ultimately show ?case by blast
qed (simp add: same_binding_def)

end
