(* ===== verification/EngineAccounting.thy ===== *)
theory EngineAccounting
  imports EngineEvolve
begin

text \<open>
  Exact accounting. The ledger of a device is meant to hold the sum of the resources of the
  deployments that are placed on it and have not been failed, aborted or retired. \<open>exact\<close> states
  that, as natural numbers, in each of the five dimensions. Every call keeps it except three:
  a reservation whose sums wrap, a rollback of a deployment that has failed already, and the
  retirement of a device.
\<close>

section \<open>Sums over a map\<close>

definition map_total :: "('v \<Rightarrow> nat) \<Rightarrow> ('k, 'v) stdmap \<Rightarrow> nat" where
  "map_total w m = sum_list (map (\<lambda>(k, v). w v) (map_entries m))"

lemma map_total_set:
  "map_ordered m \<Longrightarrow>
   map_total w (map_set k v m) + (case map_find m k of None \<Rightarrow> 0 | Some v' \<Rightarrow> w v') =
     map_total w m + w v"
proof (induction k v m rule: map_set.induct)
  case (2 k v k' v' m)
  have rest: "map_ordered m" "\<forall>x\<in>fst ` set m. k' < x"
    using "2.prems" by (auto simp: map_ordered_def)
  show ?case
  proof (cases "k < k'")
    case True
    then have "map_find m k = None"
      using rest(2) by (auto simp: map_find_None_keys dest: less_trans)
    with True show ?thesis by (auto simp: map_total_def map_entries_def)
  next
    case False
    with 2 rest show ?thesis by (auto simp: map_total_def map_entries_def)
  qed
qed (simp add: map_total_def map_entries_def)

lemma map_total_update:
  "(\<And>k v. w (h k v) = w v) \<Longrightarrow> map_total w (map_update_all h m) = map_total w m"
  by (induction m) (auto simp: map_total_def map_entries_def map_update_all_def)

lemma map_total_same:
  assumes "map_ordered m" "map_ordered m'" "\<And>k. map_find m' k = map_option h (map_find m k)"
    and "\<And>v. w (h v) = w v"
  shows "map_total w m' = map_total w m"
proof -
  have "m' = map_update_all (\<lambda>_. h) m" using assms(1-3) by (intro map_ordered_ext) simp_all
  then show ?thesis using assms(4) by (simp add: map_total_update)
qed

lemma map_total_member: "map_find m k = Some v \<Longrightarrow> w v \<le> map_total w m"
  by (induction m) (auto simp: map_total_def map_entries_def split: if_splits)

lemma map_total_zero: "(\<And>k v. (k, v) \<in> set m \<Longrightarrow> w v = 0) \<Longrightarrow> map_total w m = 0"
  by (induction m) (auto simp: map_total_def map_entries_def)

section \<open>What a device should have booked\<close>

definition holding :: "Deployment \<Rightarrow> bool" where
  "holding d \<longleftrightarrow>
     dp_state d \<notin> {DeploymentState.FAILED, DeploymentState.ABORTED, DeploymentState.RETIRED}"

definition weight :: "(ResourceRequest \<Rightarrow> u64) \<Rightarrow> DeviceId \<Rightarrow> Deployment \<Rightarrow> nat" where
  "weight f dev d = (if dp_device d = dev \<and> holding d then unat (f (dp_resources d)) else 0)"

definition held :: "(ResourceRequest \<Rightarrow> u64) \<Rightarrow> DeviceId \<Rightarrow> LiveState \<Rightarrow> nat" where
  "held f dev s = map_total (weight f dev) (ls_deployments s)"

definition dimensions :: "((ResourceRequest \<Rightarrow> u64) \<times> (Usage \<Rightarrow> u64)) list" where
  "dimensions =
     [(rr_memory_bytes, us_memory_bytes), (rr_queues, us_queues),
      (rr_functions, us_functions), (rr_slots, us_slots), (rr_contexts, us_contexts)]"

definition exact :: "LiveState \<Rightarrow> bool" where
  "exact s \<longleftrightarrow>
     (\<forall>dev l f u. map_find (ls_ledgers s) dev = Some l \<longrightarrow> (f, u) \<in> set dimensions \<longrightarrow>
        unat (u (lg_used l)) = held f dev s)"

lemma held_put:
  "map_ordered (ls_deployments s) \<Longrightarrow>
   held f dev (put_deployment i d s) +
     (case map_find (ls_deployments s) i of None \<Rightarrow> 0 | Some d' \<Rightarrow> weight f dev d') =
   held f dev s + weight f dev d"
  by (simp add: held_def map_total_set)

lemma held_cong: "ls_deployments s' = ls_deployments s \<Longrightarrow> held f dev s' = held f dev s"
  by (simp add: held_def)

lemma held_member:
  "map_find (ls_deployments s) i = Some d \<Longrightarrow> weight f dev d \<le> held f dev s"
  by (simp add: held_def map_total_member)

lemma exact_cong:
  "ls_deployments s' = ls_deployments s \<Longrightarrow> ls_ledgers s' = ls_ledgers s \<Longrightarrow> exact s' \<longleftrightarrow> exact s"
  by (simp add: exact_def held_def)

text \<open>A change of one deployment that keeps its weight, the ledgers untouched.\<close>

lemma exact_put:
  assumes "exact s" "map_ordered (ls_deployments s)" "map_find (ls_deployments s) i = Some d"
    and "\<And>f dev. weight f dev d' = weight f dev d"
  shows "exact (put_deployment i d' s)"
proof -
  have "held f dev (put_deployment i d' s) = held f dev s" for f dev
    using held_put [OF assms(2), of f dev i d'] assms(3,4) by simp
  then show ?thesis using assms(1) by (simp add: exact_def)
qed

lemma exact_fence:
  assumes "exact s" "map_ordered (ls_deployments s)" "map_ordered (ls_deployments (fence_deployments P s))"
    and "\<And>d. P d \<Longrightarrow> holding d" "ls_ledgers (fence_deployments P s) = ls_ledgers s"
  shows "exact (fence_deployments P s)"
proof -
  have "weight f dev (if P d then fence d else d) = weight f dev d" for f dev d
    using assms(4) by (auto simp: weight_def fence_def holding_def)
  then have "held f dev (fence_deployments P s) = held f dev s" for f dev
    unfolding held_def
    by (rule map_total_same [OF assms(2,3) fence_deployments_find [OF assms(2)]])
  then show ?thesis using assms(1,5) by (simp add: exact_def)
qed

lemma fence_ledgers [simp]: "ls_ledgers (fence_deployments P s) = ls_ledgers s"
proof -
  have "ls_ledgers (fold (fence_one P) es s) = ls_ledgers s" for es
    by (induction es arbitrary: s) (simp_all add: fence_one_def split_def)
  then show ?thesis by (simp add: fence_deployments_def)
qed

section \<open>Booking and giving back\<close>

lemma usage_add_dimensions:
  "no_wrap r u \<Longrightarrow> (f, v) \<in> set dimensions \<Longrightarrow>
   unat (v (usage_add r u)) = unat (v u) + unat (f r)"
  by (auto simp: dimensions_def usage_add_def no_wrap_def unat_add_no_wrap)

lemma usage_sub_dimensions:
  "\<not> underflows r u \<Longrightarrow> (f, v) \<in> set dimensions \<Longrightarrow>
   unat (v (usage_sub r u)) = unat (v u) - unat (f r)"
  by (auto simp: dimensions_def usage_sub_def underflows_def not_less unat_sub)

lemma no_underflow:
  "(\<And>f v. (f, v) \<in> set dimensions \<Longrightarrow> unat (f r) \<le> unat (v u)) \<Longrightarrow> \<not> underflows r u"
  by (auto simp: underflows_def dimensions_def word_less_nat_alt not_less)

text \<open>Releasing a holding deployment and taking it out of service keeps the sums exact.\<close>

lemma exact_release:
  assumes "exact s" "state_ok s" "map_find (ls_deployments s) i = Some d" "holding d"
    and "\<not> holding d'" "dp_device d' = dp_device d"
  shows "exact (put_deployment i d' (release_resources i s))"
proof -
  have ord: "map_ordered (ls_deployments s)" using assms(2) by (rule state_ok_ordered(1))
  have "map_find (ls_devices s) (dp_device d) \<noteq> None"
    using state_ok_deployment [OF assms(2,3)] by (simp add: deployment_ok_def)
  then obtain l where l: "map_find (ls_ledgers s) (dp_device d) = Some l"
    using assms(2) unfolding state_ok_def accounting_ok_def by (metis not_None_eq)
  have used: "unat (v (lg_used l)) = held f (dp_device d) s" if "(f, v) \<in> set dimensions" for f v
    using assms(1) l that by (auto simp: exact_def)
  have "unat (f (dp_resources d)) \<le> unat (v (lg_used l))" if "(f, v) \<in> set dimensions" for f v
    using held_member [OF assms(3), of f "dp_device d"] assms(4) used [OF that]
    by (simp add: weight_def)
  then have no: "\<not> underflows (dp_resources d) (lg_used l)" by (rule no_underflow)
  let ?s = "release_resources i s"
  have led: "map_find (ls_ledgers ?s) dev = (if dev = dp_device d
      then Some (l\<lparr>lg_used := usage_sub (dp_resources d) (lg_used l)\<rparr>)
      else map_find (ls_ledgers s) dev)" for dev
    using assms(3) l no by (simp add: release_resources_def ledger_release_def Let_def)
  have dep: "ls_deployments ?s = ls_deployments s" by simp
  have sum: "held f dev (put_deployment i d' ?s) + weight f dev d = held f dev s" for f dev
    using held_put [of ?s f dev i d'] ord assms(3,5) held_cong [OF dep]
    by (simp add: weight_def)
  show ?thesis
    unfolding exact_def
  proof (intro allI impI)
    fix dev l' f v
    assume l': "map_find (ls_ledgers (put_deployment i d' ?s)) dev = Some l'"
      and fv: "(f, v) \<in> set dimensions"
    show "unat (v (lg_used l')) = held f dev (put_deployment i d' ?s)"
    proof (cases "dev = dp_device d")
      case True
      then have "unat (v (lg_used l')) = held f dev s - unat (f (dp_resources d))"
        using l' led used [OF fv] usage_sub_dimensions [OF no fv] by auto
      then show ?thesis using sum [of f dev] True assms(4) by (simp add: weight_def)
    next
      case False
      then have "unat (v (lg_used l')) = held f dev s"
        using l' led assms(1) fv by (auto simp: exact_def)
      then show ?thesis using sum [of f dev] False by (simp add: weight_def)
    qed
  qed
qed

lemma exact_mark [simp]: "exact (mark_activation st d s) \<longleftrightarrow> exact s"
  by (rule exact_cong) simp_all

lemma exact_reserve:
  assumes "exact s" "state_ok s" "map_find (ls_deployments s) (Id n) = None"
    and "map_find (ls_ledgers s) did = Some l"
    and "no_wrap (requested_resources req svc) (lg_used l)"
  shows "exact (reserve_state req svc did dev l n s)"
proof -
  let ?r = "requested_resources req svc"
  let ?d = "reserved_deployment s req svc did dev n (n + 1)"
  let ?s = "s\<lparr>ls_ledgers := map_set did (ledger_apply ?r l) (ls_ledgers s),
      ls_usage := map_set did (lg_used (ledger_apply ?r l)) (ls_usage s)\<rparr>"
  have "map_ordered (ls_deployments ?s)" using state_ok_ordered(1) [OF assms(2)] by simp
  from held_put [OF this, of _ _ "Id n" ?d]
  have sum: "held f k (put_deployment (Id n) ?d ?s) = held f k s + weight f k ?d" for f k
    using assms(3) held_cong [of ?s s f k] by simp
  have w: "weight f k ?d = (if k = did then unat (f ?r) else 0)" for f k
    by (simp add: weight_def holding_def)
  have "unat (v (lg_used (ledger_apply ?r l))) = held f did s + unat (f ?r)"
    if "(f, v) \<in> set dimensions" for f v
    using usage_add_dimensions [OF assms(5) that] assms(1,4) that
    by (auto simp: ledger_apply_def exact_def)
  then show ?thesis
    using assms(1) unfolding reserve_state_def Let_def exact_def sum w
    by (auto split: if_splits)
qed

section \<open>The calls that keep the sums exact\<close>

definition clean_call :: "engine \<Rightarrow> engine_call \<Rightarrow> bool" where
  "clean_call e c \<longleftrightarrow>
     (\<forall>dev. c \<noteq> Retire_Device dev) \<and>
     (\<forall>i d. c = Rollback i \<and> map_find (ls_deployments (en_state e)) i = Some d \<longrightarrow>
        dp_state d \<noteq> DeploymentState.FAILED) \<and>
     (\<forall>req elig l. c = Reserve req elig \<and>
        map_find (ls_ledgers (en_state e)) (the (er_selected elig)) = Some l \<longrightarrow>
        no_wrap (requested_resources req
          (case rq_service req of None \<Rightarrow> None
           | Some i \<Rightarrow> map_find (ls_services (en_state e)) i)) (lg_used l))"

lemma held_unregistered:
  assumes "state_ok s" "map_find (ls_devices s) dev = None"
  shows "held f dev s = 0"
  unfolding held_def
proof (rule map_total_zero)
  fix i d
  assume "(i, d) \<in> set (ls_deployments s)"
  then have "map_find (ls_deployments s) i = Some d"
    using map_ordered_entry [OF state_ok_ordered(1) [OF assms(1)]] by (simp add: map_entries_def)
  from state_ok_deployment [OF assms(1) this] have "dp_device d \<noteq> dev"
    using assms(2) by (auto simp: deployment_ok_def)
  then show "weight f dev d = 0" by (simp add: weight_def)
qed

lemma exact_register_device:
  assumes "engine_ok e" "exact (en_state e)"
  shows "exact (en_state (snd (register_device rec e)))"
proof -
  note ok = engine_ok_state [OF assms(1)]
  let ?i = "dv_device_id rec"
  have "ls_deployments (en_state (snd (register_device rec e))) = ls_deployments (en_state e)" by simp
  note same = held_cong [OF this]
  have cases: "map_find (ls_ledgers (en_state e)) dev = Some l \<or>
      map_find (ls_devices (en_state e)) dev = None \<and> lg_used l = Usage_init"
    if "map_find (ls_ledgers (en_state (snd (register_device rec e)))) dev = Some l" for dev l
    using that by (auto simp: register_device_def Let_def map_count_def ledger_new_def split: if_splits)
  have zero: "unat (u Usage_init) = 0" if "(f, u) \<in> set dimensions" for f u
    using that by (auto simp: dimensions_def Usage_init_def)
  show ?thesis
    unfolding exact_def same
  proof (intro allI impI)
    fix dev l f u
    assume "map_find (ls_ledgers (en_state (snd (register_device rec e)))) dev = Some l"
      and fu: "(f, u) \<in> set dimensions"
    from cases [OF this(1)] show "unat (u (lg_used l)) = held f dev (en_state e)"
      using assms(2) fu zero [OF fu] held_unregistered [OF ok] by (auto simp: exact_def)
  qed
qed

lemma ledgers_kept [simp]:
  "ls_ledgers (en_state (snd (import_backend b e))) = ls_ledgers (en_state e)"
  "ls_ledgers (en_state (snd (update_device rec e))) = ls_ledgers (en_state e)"
  "ls_ledgers (en_state (snd (set_device_state i st k e))) = ls_ledgers (en_state e)"
  "ls_ledgers (en_state (snd (register_service sd e))) = ls_ledgers (en_state e)"
  "ls_ledgers (en_state (snd (register_program art e))) = ls_ledgers (en_state e)"
  "ls_ledgers (en_state (snd (retire_program p e))) = ls_ledgers (en_state e)"
  "ls_ledgers (en_state (snd (register_worker w boot e))) = ls_ledgers (en_state e)"
  "ls_ledgers (en_state (snd (worker_heartbeat w boot e))) = ls_ledgers (en_state e)"
  "ls_ledgers (en_state (snd (advance_epoch e))) = ls_ledgers (en_state e)"
  by (simp_all add: import_backend_def update_device_def
      set_device_state_def register_service_def register_program_def retire_program_def
      register_worker_def worker_heartbeat_def advance_epoch_def Let_def split: option.split)

lemmas exact_kept [simp] =
  exact_cong [OF deployments_kept(1) ledgers_kept(1)]
  exact_cong [OF deployments_kept(3) ledgers_kept(2)]
  exact_cong [OF deployments_kept(4) ledgers_kept(3)]
  exact_cong [OF deployments_kept(5) ledgers_kept(4)]
  exact_cong [OF deployments_kept(6) ledgers_kept(5)]
  exact_cong [OF deployments_kept(7) ledgers_kept(6)]
  exact_cong [OF deployments_kept(8) ledgers_kept(7)]
  exact_cong [OF deployments_kept(9) ledgers_kept(8)]
  exact_cong [OF deployments_kept(10) ledgers_kept(9)]

lemma exact_import_discovered:
  "engine_ok e \<Longrightarrow> exact (en_state e) \<Longrightarrow> exact (en_state (import_discovered dd e))"
  by (simp add: import_discovered_def exact_register_device)

lemma exact_fold_import:
  "engine_ok e \<Longrightarrow> exact (en_state e) \<Longrightarrow>
   engine_ok (fold import_discovered ds e) \<and> exact (en_state (fold import_discovered ds e))"
  by (induction ds arbitrary: e) (simp_all add: import_discovered_ok exact_import_discovered)

lemma exact_run_backends:
  "engine_ok e \<Longrightarrow> exact (en_state e) \<Longrightarrow> exact (en_state (snd (run_backends bs out e)))"
  by (induction bs out e rule: run_backends.induct)
    (simp_all add: exact_fold_import split: sum.split)

lemma exact_fence_deployments:
  assumes "exact s" "state_ok s" "\<And>d. P d \<Longrightarrow> holding d"
  shows "exact (fence_deployments P s)"
  using assms fence_deployments_ok [OF assms(2)]
  by (intro exact_fence) (simp_all add: state_ok_ordered)

lemma running_holding [simp]: "running d \<Longrightarrow> holding d"
  by (auto simp: running_def holding_def)

lemma exact_put_device [simp]: "exact (put_device i rec s) \<longleftrightarrow> exact s"
  by (rule exact_cong) simp_all

lemma exact_put_activation [simp]: "exact (put_activation a r s) \<longleftrightarrow> exact s"
  by (rule exact_cong) simp_all

lemma exact_devices [simp]: "exact (s\<lparr>ls_devices := m\<rparr>) \<longleftrightarrow> exact s"
  by (rule exact_cong) simp_all

lemma exact_workers [simp]: "exact (s\<lparr>ls_workers := m, ls_worker_seq := q\<rparr>) \<longleftrightarrow> exact s"
  by (rule exact_cong) simp_all

lemma exact_move:
  assumes "exact s" "state_ok s" "map_find (ls_deployments s) i = Some d"
    and "dp_device d' = dp_device d" "dp_resources d' = dp_resources d" "holding d' \<longleftrightarrow> holding d"
  shows "exact (put_deployment i d' s)"
  using assms by (intro exact_put [OF assms(1) state_ok_ordered(1) [OF assms(2)] assms(3)])
    (simp add: weight_def)

lemma exact_close:
  assumes "exact s" "state_ok s" "map_find (ls_deployments s) i = Some d" "holding d"
    and "st \<in> {DeploymentState.FAILED, DeploymentState.ABORTED, DeploymentState.RETIRED}"
  shows "exact (close_deployment st i d (mark_activation x d (release_resources i s)))"
    and "exact (close_deployment st i d (release_resources i (mark_activation x d s)))"
proof -
  let ?d = "d\<lparr>dp_state := st, dp_authoritative := False\<rparr>"
  have "\<not> holding ?d" using assms(5) by (auto simp: holding_def)
  then have "exact (put_deployment i ?d (release_resources i s))"
    using assms(1-4) by (intro exact_release) simp_all
  moreover have "exact (put_deployment i ?d (mark_activation x d (release_resources i s))) \<longleftrightarrow>
      exact (put_deployment i ?d (release_resources i s))"
    by (rule exact_cong) simp_all
  ultimately show "exact (close_deployment st i d (mark_activation x d (release_resources i s)))"
    by (simp add: close_deployment_def)
  have "exact (put_deployment i ?d (release_resources i (mark_activation x d s)))"
    using assms(1-4) \<open>\<not> holding ?d\<close>
    by (intro exact_release) (simp_all add: mark_activation_ok)
  then show "exact (close_deployment st i d (release_resources i (mark_activation x d s)))"
    by (simp add: close_deployment_def)
qed

lemma to_service_from_holding:
  "valid_deployment_transition (dp_state d) to \<Longrightarrow>
   to \<in> {DeploymentState.STAGING, DeploymentState.LOADED, DeploymentState.VALIDATING,
         DeploymentState.ACTIVATING, DeploymentState.FAILED} \<Longrightarrow> holding d"
  by (cases "dp_state d") (auto simp: holding_def valid_deployment_transition_def)

lemma exact_transition:
  assumes "engine_ok e" "exact (en_state e)"
    and "to \<in> {DeploymentState.STAGING, DeploymentState.LOADED, DeploymentState.VALIDATING}"
  shows "exact (en_state (snd (do_deploy_transition i to e)))"
proof -
  have "exact (put_deployment i (d\<lparr>dp_state := to, dp_authoritative := b\<rparr>) (en_state e))"
    if "map_find (ls_deployments (en_state e)) i = Some d"
      "valid_deployment_transition (dp_state d) to" for d b
    using assms to_service_from_holding [OF that(2)] that(1)
    by (intro exact_move [OF assms(2) engine_ok_state [OF assms(1)] that(1)])
      (auto simp: holding_def)
  then show ?thesis
    using assms(2) by (simp add: do_deploy_transition_def split: option.split)
qed

lemma exact_activate:
  assumes "engine_ok e" "exact (en_state e)"
  shows "exact (en_state (snd (activate_deployment i e)))"
proof -
  have "exact (activate_state i d n (en_state e))"
    if "map_find (ls_deployments (en_state e)) i = Some d"
      "valid_deployment_transition (dp_state d) DeploymentState.ACTIVATING" for d n
    using to_service_from_holding [OF that(2)]
    by (auto simp: activate_state_def Let_def holding_def
        intro!: exact_move [OF assms(2) engine_ok_state [OF assms(1)] that(1)])
  then show ?thesis
    using assms(2) by (simp add: activate_deployment_cases split: option.split)
qed

lemma exact_commit:
  assumes "engine_ok e" "exact (en_state e)"
  shows "exact (en_state (snd (commit_deployment i e)))"
proof (cases rule: commit_deployment_cases [of i e])
  case (refused f)
  with assms show ?thesis by simp
next
  case (granted d dev a r)
  let ?d = "d\<lparr>dp_state := DeploymentState.ACTIVE, dp_authoritative := True,
      dp_epoch := ls_epoch (en_state e)\<rparr>"
  have "exact (put_deployment i ?d (en_state e))"
    using granted(3) by (intro exact_move [OF assms(2) engine_ok_state [OF assms(1)] granted(2)])
      (simp_all add: holding_def)
  moreover have "exact (grant_state i d dev a r (en_state e)) \<longleftrightarrow>
      exact (put_deployment i ?d (en_state e))"
    by (rule exact_cong) (simp_all add: grant_state_def)
  ultimately show ?thesis using granted(1) by simp
qed

lemma call_exact:
  assumes "engine_ok e" "ids_below e" "exact (en_state e)" "clean_call e c"
  shows "exact (en_state (after_call c e))"
proof -
  note ok = engine_ok_state [OF assms(1)]
  note close = exact_close [OF assms(3) ok]
  have devs: "state_ok (en_state e\<lparr>ls_devices := map_update_all (\<lambda>_. h) (ls_devices (en_state e))\<rparr>)"
    if "\<And>rec. dv_device_id (h rec) = dv_device_id rec" for h
    using that by (intro update_devices_ok ok) simp
  show ?thesis
  proof (cases c)
    case (Transition_Device dev to)
    then show ?thesis
      using assms(3) ok by (auto simp: after_call_def transition_device_def running_on_def
          split: option.split intro!: exact_fence_deployments)
  next
    case (Fence_Device dev reason)
    then show ?thesis
      using assms(3) ok state_ok_device [OF ok]
      by (auto simp: after_call_def fence_device_def running_on_def put_device_ok
          split: option.split intro!: exact_fence_deployments)
  next
    case (Mark_Worker_Lost w)
    have "holding d" if "bound_to_boot b d" for b d
      using that by (simp add: bound_to_boot_def holding_def)
    then show ?thesis
      using Mark_Worker_Lost assms(3) devs [of "orphan_device w"]
      by (simp add: after_call_def mark_worker_lost_def Let_def exact_fence_deployments
          orphan_device_def split: option.split)
  next
    case (Apply_Recovery p)
    then show ?thesis
      using assms(3) devs [of "recover_device p"]
      by (simp add: after_call_def apply_recovery_def exact_fence_deployments recover_device_def
          Let_def)
  next
    case (Reserve req elig)
    have fresh: "map_find (ls_deployments (en_state e)) (Id (en_id_seq e)) = None"
      using fresh_deployment [OF assms(2), of "Id (en_id_seq e)"]
      by (cases "map_find (ls_deployments (en_state e)) (Id (en_id_seq e))") auto
    have "exact (en_state (snd (reserve_on req svc did dev e)))"
      if "\<And>l. map_find (ls_ledgers (en_state e)) did = Some l \<Longrightarrow>
        no_wrap (requested_resources req svc) (lg_used l)" for svc did dev
      using that exact_reserve [OF assms(3) ok fresh] assms(3)
      by (simp add: reserve_on_cases Let_def split: option.split)
    then show ?thesis
      using Reserve assms(3,4)
      by (auto simp: after_call_def reserve_deployment_def clean_call_def split: option.split)
  next
    case (Cancel j)
    then show ?thesis
      using assms(3) close(1) [of j _ DeploymentState.ABORTED]
      by (auto simp: after_call_def cancel_deployment_def holding_def split: option.split)
  next
    case (Rollback j)
    then show ?thesis
      using assms(3,4) close(1) [of j _ DeploymentState.ABORTED]
      by (auto simp: after_call_def rollback_deployment_def holding_def clean_call_def
          split: option.split)
  next
    case (Drain j)
    have "exact (close_deployment DeploymentState.DRAINING j d
        (mark_activation ActivationState.DRAINING d (en_state e)))"
      if "map_find (ls_deployments (en_state e)) j = Some d" "holding d" for d
      unfolding close_deployment_def
      using assms(3) ok that
      by (intro exact_move [of _ j d]) (simp_all add: mark_activation_ok, simp_all add: holding_def)
    then show ?thesis
      using Drain assms(3)
      by (auto simp: after_call_def drain_deployment_def holding_def split: option.split)
  next
    case (Retire j)
    have "exact (close_deployment DeploymentState.RETIRED j d (en_state e))"
      if "map_find (ls_deployments (en_state e)) j = Some d" "\<not> holding d" for d
      unfolding close_deployment_def
      using that by (intro exact_move [OF assms(3) ok that(1)]) (simp_all add: holding_def)
    then show ?thesis
      using Retire assms(3) close(2) [of j _ DeploymentState.RETIRED]
      by (auto simp: after_call_def retire_deployment_def holding_def split: option.split)
  next
    case (Fail j code reason)
    then show ?thesis
      using assms(3) close(1) [of j _ DeploymentState.FAILED]
      by (auto simp: after_call_def fail_deployment_def to_service_from_holding split: option.split)
  qed (use assms in \<open>simp_all add: after_call_def run_all_backends_def exact_run_backends
      exact_register_device exact_transition exact_activate exact_commit
      stage_deployment_def load_deployment_def validate_deployment_def clean_call_def\<close>)
qed

section \<open>Histories without the three exceptions\<close>

inductive clean_history :: "nat \<Rightarrow> engine \<Rightarrow> bool" where
  start: "clean_history 0 (engine_new ep policy)"
| more: "clean_history n e \<Longrightarrow> clean_call e c \<Longrightarrow> clean_history (Suc n) (after_call c e)"

lemma clean_reachable: "clean_history n e \<Longrightarrow> reachable n e"
  by (induction rule: clean_history.induct)
    (auto intro: reachable.start reachable.more simp: step_after_call)

lemma clean_exact: "clean_history n e \<Longrightarrow> n < 2 ^ 62 \<Longrightarrow> exact (en_state e)"
proof (induction rule: clean_history.induct)
  case (start ep policy)
  show ?case by (simp add: exact_def engine_new_def rebuild_snapshot_def LiveState_init_def)
next
  case (more n e c)
  note r = clean_reachable [OF more.hyps(1)]
  show ?case
    using more reachable_ids [OF r] by (intro call_exact reachable_ok [OF r]) simp_all
qed

end
