(* ===== verification/Selection.thy ===== *)
theory Selection
  imports Eligibility "HOL-Library.Multiset"
begin

text \<open>
  Correctness of the eligibility engine. The locale \<open>strict_weak\<close> is the contract
  \<^verbatim>\<open>std::stable_sort\<close> puts on its comparator, and what the sort then returns: a sorted
  rearrangement that keeps the order of equivalent elements. Its interpretation shows that the
  comparator of \<open>evaluate_offload\<close> meets the contract. \<open>offload_valid\<close> is the specification
  of a valid candidate; the loop's list of reasons is empty for exactly those devices.
\<close>

section \<open>Stable sorting\<close>

locale strict_weak =
  fixes lt :: "'a \<Rightarrow> 'a \<Rightarrow> bool"
  assumes irreflexive: "\<not> lt x x"
    and transitive: "lt x y \<Longrightarrow> lt y z \<Longrightarrow> lt x z"
    and incomparable: "lt x z \<Longrightarrow> lt x y \<or> lt y z"
begin

lemma asymmetric: "lt x y \<Longrightarrow> \<not> lt y x"
  using irreflexive transitive by blast

definition sorted_lt :: "'a list \<Rightarrow> bool" where
  "sorted_lt xs \<longleftrightarrow> sorted_wrt (\<lambda>x y. \<not> lt y x) xs"

definition equivalent :: "'a \<Rightarrow> 'a \<Rightarrow> bool" where
  "equivalent x y \<longleftrightarrow> \<not> lt x y \<and> \<not> lt y x"

lemma mset_insert [simp]: "mset (sort_insert lt x ys) = add_mset x (mset ys)"
  by (induction ys) auto

lemma set_insert [simp]: "set (sort_insert lt x ys) = insert x (set ys)"
  by (induction ys) auto

lemma sorted_insert: "sorted_lt ys \<Longrightarrow> sorted_lt (sort_insert lt x ys)"
proof (induction ys)
  case (Cons y ys)
  show ?case
  proof (cases "lt x y")
    case True
    have "\<not> lt z x" if "z \<in> set ys" for z
      using Cons.prems True that transitive by (auto simp: sorted_lt_def)
    with True Cons.prems show ?thesis
      by (auto simp: sorted_lt_def asymmetric)
  next
    case False
    with Cons show ?thesis by (auto simp: sorted_lt_def)
  qed
qed (simp add: sorted_lt_def)

lemma filter_insert:
  "sorted_lt ys \<Longrightarrow> filter (equivalent a) (sort_insert lt x ys) =
     filter (equivalent a) ys @ (if equivalent a x then [x] else [])"
proof (induction ys)
  case (Cons y ys)
  show ?case
  proof (cases "lt x y")
    case True
    then have "\<not> equivalent a z" if "equivalent a x" "z \<in> set (y # ys)" for z
      using Cons.prems that incomparable transitive
      unfolding sorted_lt_def equivalent_def by (auto dest: incomparable)
    then have "filter (equivalent a) (y # ys) = []" if "equivalent a x"
      using that by (auto simp: filter_empty_conv)
    with True show ?thesis by auto
  next
    case False
    with Cons show ?thesis by (auto simp: sorted_lt_def)
  qed
qed simp

lemma sort_fold:
  assumes "sorted_lt ys"
  shows "sorted_lt (fold (sort_insert lt) xs ys)"
    and "mset (fold (sort_insert lt) xs ys) = mset xs + mset ys"
    and "filter (equivalent a) (fold (sort_insert lt) xs ys) =
      filter (equivalent a) ys @ filter (equivalent a) xs"
  using assms by (induction xs arbitrary: ys) (simp_all add: sorted_insert filter_insert)

theorem stable_sort_sorted: "sorted_lt (stable_sort lt xs)"
  and stable_sort_mset: "mset (stable_sort lt xs) = mset xs"
  and stable_sort_stable: "filter (equivalent a) (stable_sort lt xs) = filter (equivalent a) xs"
  using sort_fold [where ys = "[]" and xs = xs] by (simp_all add: stable_sort_def sorted_lt_def)

lemma stable_sort_set: "set (stable_sort lt xs) = set xs"
  using stable_sort_mset [of xs] by (metis set_mset_mset)

lemma stable_sort_Nil: "stable_sort lt xs = [] \<longleftrightarrow> xs = []"
  using stable_sort_set [of xs] by (metis set_empty)

theorem stable_sort_front:
  assumes "stable_sort lt xs = front # rest"
  shows "front \<in> set xs" and "x \<in> set xs \<Longrightarrow> \<not> lt x front"
proof -
  show "front \<in> set xs" using stable_sort_set [of xs] assms by auto
  assume "x \<in> set xs"
  then have "x = front \<or> x \<in> set rest" using stable_sort_set [of xs] assms by auto
  then show "\<not> lt x front"
    using stable_sort_sorted [of xs] assms irreflexive by (auto simp: sorted_lt_def)
qed

end

text \<open>The comparator of the engine: higher totals first, then registration order.\<close>

interpretation candidate_order: strict_weak "candidate_before snap" for snap
  by unfold_locales (auto simp: candidate_before_def split: if_splits)


section \<open>Hard constraints\<close>

text \<open>What a valid candidate is, constraint by constraint.\<close>

definition meets_capability :: "DeviceRecord \<Rightarrow> CapabilityRequirement \<Rightarrow> bool" where
  "meets_capability dev c \<longleftrightarrow>
     (\<exists>cp. map_find (dv_capabilities dev) (cr_key c) = Some cp \<and> satisfies_hard cp \<and>
           cr_min_version c \<le> cp_version cp)"

definition program_compatible :: "OffloadRequest \<Rightarrow> ProgramArtifact \<Rightarrow> DeviceRecord \<Rightarrow> bool" where
  "program_compatible req prog dev \<longleftrightarrow>
     (dv_architecture dev = [] \<or>
      pa_target_architecture prog \<in> {[], ''any'', dv_architecture dev}) \<and>
     (rq_required_abi req = [] \<or> pa_runtime_abi prog \<in> {[], rq_required_abi req}) \<and>
     pa_min_firmware_gen prog \<le> dv_firmware_gen dev"

definition placement_valid :: "OffloadRequest \<Rightarrow> DeviceId \<Rightarrow> DeviceRecord \<Rightarrow> bool" where
  "placement_valid req did dev \<longleftrightarrow>
     rq_required_device_class req \<in> {None, Some (dv_device_class dev)} \<and>
     rq_pinned_device req \<in> {None, Some did} \<and>
     (rq_offload_class req = OffloadClass.CUSTOM_INFRASTRUCTURE_SERVICE \<or>
      rq_offload_class req \<in> set (dv_offload_classes dev)) \<and>
     (\<forall>p. rq_required_port req = Some p \<longrightarrow> p \<in> set (dv_ports dev)) \<and>
     (\<forall>f. rq_required_function req = Some f \<longrightarrow> f \<in> set (dv_functions dev)) \<and>
     (rq_min_locality req = LocalityQuality.UNKNOWN \<or>
      locality_value (rq_min_locality req) \<le> locality_value (dv_locality dev))"

definition isolation_valid :: "OffloadRequest \<Rightarrow> IsolationSpec \<Rightarrow> DeviceRecord \<Rightarrow> bool" where
  "isolation_valid req ispec dev \<longleftrightarrow>
     satisfied_by ispec (iso_proven dev) (dv_isolation_domain dev) (dv_tenant dev) \<and>
     (rq_isolation_domain req = null_id \<or>
      dv_isolation_domain dev \<in> {null_id, rq_isolation_domain req}) \<and>
     (rq_tenant req = null_id \<or> dv_tenant dev \<in> {null_id, rq_tenant req}) \<and>
     (rq_security req \<in> {SecurityMode.SECURE, SecurityMode.ISOLATED} \<longrightarrow> iso_proven dev)"

definition program_valid ::
  "Snapshot \<Rightarrow> OffloadRequest \<Rightarrow> ProgramId option \<Rightarrow> DeviceRecord \<Rightarrow> bool" where
  "program_valid snap req wanted dev \<longleftrightarrow>
     (\<forall>pid. wanted = Some pid \<longrightarrow>
        (\<exists>prog. find_current_program snap pid (snap_current_gen snap pid) = Some prog \<and>
                pa_program_gen prog = snap_current_gen snap pid \<and>
                program_compatible req prog dev \<and>
                (\<forall>c\<in>set (pa_required_caps prog). \<not> cr_optional c \<longrightarrow> meets_capability dev c)))"

definition service_valid :: "Snapshot \<Rightarrow> ServiceDefinition \<Rightarrow> DeviceRecord \<Rightarrow> bool" where
  "service_valid snap s dev \<longleftrightarrow>
     sd_min_firmware_gen s \<le> dv_firmware_gen dev \<and>
     sd_min_runtime_gen s \<le> dv_runtime_gen dev \<and>
     (\<forall>c\<in>set (sd_required_caps s @ sd_optional_caps s).
        \<not> cr_optional c \<longrightarrow> meets_capability dev c) \<and>
     (\<forall>d\<in>set (sd_dependencies s). snap_service snap d \<noteq> None)"

definition load_valid :: "Policy \<Rightarrow> ResourceRequest \<Rightarrow> DeviceRecord \<Rightarrow> Usage \<Rightarrow> bool" where
  "load_valid policy r dev u \<longleftrightarrow>
     d_of_u64 (po_min_headroom policy) \<le> headroom_pct dev u \<and>
     d_mul (queue_pressure dev u) 100 \<le> d_of_u64 (po_max_queue_pressure policy) \<and>
     fits (dv_resource_capacity dev) u r"

definition offload_valid :: "Snapshot \<Rightarrow> OffloadRequest \<Rightarrow> DeviceId \<Rightarrow> DeviceRecord \<Rightarrow> bool" where
  "offload_valid snap req did dev \<longleftrightarrow>
     (let policy = sn_policy snap; svc = requested_service snap req in
      is_ready_for_offload dev \<and>
      health_severity (dv_health dev) \<le> health_severity (po_min_device_health policy) \<and>
      placement_valid req did dev \<and>
      isolation_valid req (requested_isolation req svc) dev \<and>
      program_valid snap req (wanted_program req svc) dev \<and>
      (\<forall>s. svc = Some s \<longrightarrow> service_valid snap s dev) \<and>
      (\<forall>c\<in>set (rq_required_caps req). \<not> cr_optional c \<longrightarrow> meets_capability dev c) \<and>
      (\<forall>c\<in>set (po_hard_caps policy). authoritative (dv_capabilities dev) (cr_key c)) \<and>
      load_valid policy (requested_resources req svc) dev (device_usage snap did))"

lemma reject_Nil [simp]: "reject c r = [] \<longleftrightarrow> \<not> c"
  by (simp add: reject_def)

lemma can_admit_fits: "can_admit cap u r \<longleftrightarrow> fits cap u r"
  by (simp add: can_admit_def fits_def)

lemma pin_rejections_Nil:
  "pin_rejections req did dev = [] \<longleftrightarrow>
     rq_required_device_class req \<in> {None, Some (dv_device_class dev)} \<and>
     rq_pinned_device req \<in> {None, Some did}"
  by (auto simp: pin_rejections_def split: option.splits)

lemma lifecycle_rejections_Nil:
  "lifecycle_rejections policy dev = [] \<longleftrightarrow>
     is_ready_for_offload dev \<and>
     health_severity (dv_health dev) \<le> health_severity (po_min_device_health policy)"
  by (auto simp: lifecycle_rejections_def is_ready_for_offload_def health_meets_policy_def)

lemma class_rejections_Nil:
  "class_rejections req dev = [] \<longleftrightarrow>
     rq_offload_class req = OffloadClass.CUSTOM_INFRASTRUCTURE_SERVICE \<or>
     rq_offload_class req \<in> set (dv_offload_classes dev)"
  by (auto simp: class_rejections_def supports_class_def list_ex_iff)

lemma attachment_rejections_Nil:
  "attachment_rejections req dev = [] \<longleftrightarrow>
     (\<forall>p. rq_required_port req = Some p \<longrightarrow> p \<in> set (dv_ports dev)) \<and>
     (\<forall>f. rq_required_function req = Some f \<longrightarrow> f \<in> set (dv_functions dev))"
  by (auto simp: attachment_rejections_def has_port_def has_function_def list_ex_iff
      split: option.splits)

lemma satisfied_by_none: "iso_level i = IsolationRequirement.NONE \<Longrightarrow> satisfied_by i p d t"
  by (simp add: satisfied_by_def)

lemma isolation_rejections_Nil:
  "isolation_rejections req svc dev = [] \<longleftrightarrow>
     satisfied_by (requested_isolation req svc) (iso_proven dev) (dv_isolation_domain dev)
       (dv_tenant dev) \<and>
     (rq_isolation_domain req = null_id \<or>
      dv_isolation_domain dev \<in> {null_id, rq_isolation_domain req}) \<and>
     (rq_tenant req = null_id \<or> dv_tenant dev \<in> {null_id, rq_tenant req})"
  unfolding isolation_rejections_def Let_def append_is_Nil_conv reject_Nil is_null_iff
  by (intro arg_cong2 [where f = "(\<and>)"]) (auto simp: satisfied_by_none)

lemma security_rejections_Nil:
  "security_rejections req dev = [] \<longleftrightarrow>
     (rq_security req \<in> {SecurityMode.SECURE, SecurityMode.ISOLATED} \<longrightarrow> iso_proven dev) \<and>
     (rq_min_locality req = LocalityQuality.UNKNOWN \<or>
      locality_value (rq_min_locality req) \<le> locality_value (dv_locality dev))"
  unfolding security_rejections_def append_is_Nil_conv reject_Nil not_less [symmetric] by blast

lemma capability_rejection_Nil:
  "capability_rejection dev c = [] \<longleftrightarrow> cr_optional c \<or> meets_capability dev c"
  by (auto simp: capability_rejection_def meets_capability_def satisfies_hard_def state_of_def
      Let_def not_less split: option.splits)

lemma dependency_rejections_Nil:
  "dependency_rejections snap svc = [] \<longleftrightarrow>
     (\<forall>s. svc = Some s \<longrightarrow> (\<forall>d\<in>set (sd_dependencies s). snap_service snap d \<noteq> None))"
  by (auto simp: dependency_rejections_def list_ex_iff split: option.splits)

lemma hard_caps_Nil:
  "concat (map (\<lambda>c. reject (state_of m (cr_key c) \<noteq> CapabilityState.SUPPORTED) r) cs) = [] \<longleftrightarrow>
     (\<forall>c\<in>set cs. authoritative m (cr_key c))"
  by (auto simp: authoritative_iff supports_def)

lemma capability_rejections_Nil:
  "capability_rejections policy req svc prog dev = [] \<longleftrightarrow>
     (\<forall>c\<in>set (collect_required_caps req svc prog). \<not> cr_optional c \<longrightarrow> meets_capability dev c) \<and>
     (\<forall>c\<in>set (po_hard_caps policy). authoritative (dv_capabilities dev) (cr_key c))"
  unfolding capability_rejections_def append_is_Nil_conv hard_caps_Nil
  by (auto simp: capability_rejection_Nil)

lemma id_le_as_u64: "a \<le> b \<longleftrightarrow> as_u64 a \<le> as_u64 b"
  by (simp add: less_eq_Id_def)

lemma floor_rejections_Nil:
  "floor_rejections svc prog dev = [] \<longleftrightarrow>
     (\<forall>s. svc = Some s \<longrightarrow> sd_min_firmware_gen s \<le> dv_firmware_gen dev \<and>
        sd_min_runtime_gen s \<le> dv_runtime_gen dev) \<and>
     (\<forall>p. prog = Some p \<longrightarrow> pa_min_firmware_gen p \<le> dv_firmware_gen dev)"
  by (auto simp: floor_rejections_def firmware_floor_def runtime_floor_def id_le_as_u64 not_less
      Let_def split: option.splits)

lemma program_rejections_Nil:
  "program_rejections snap req wanted dev = [] \<longleftrightarrow>
     (\<forall>pid. wanted = Some pid \<longrightarrow>
        (\<exists>prog. candidate_program snap wanted = Some prog \<and>
           pa_program_gen prog = snap_current_gen snap pid \<and>
           (dv_architecture dev = [] \<or>
            pa_target_architecture prog \<in> {[], ''any'', dv_architecture dev}) \<and>
           (rq_required_abi req = [] \<or> pa_runtime_abi prog \<in> {[], rq_required_abi req})))"
  by (auto simp: program_rejections_def split: option.splits)

lemma program_part_Nil:
  "program_rejections snap req wanted dev = [] \<and>
   (\<forall>p. candidate_program snap wanted = Some p \<longrightarrow> pa_min_firmware_gen p \<le> dv_firmware_gen dev \<and>
      (\<forall>c\<in>set (pa_required_caps p). \<not> cr_optional c \<longrightarrow> meets_capability dev c)) \<longleftrightarrow>
   program_valid snap req wanted dev"
  by (auto simp: program_rejections_Nil program_valid_def program_compatible_def
      candidate_program_def split: option.splits)

lemma collect_required_caps_all:
  "(\<forall>c\<in>set (collect_required_caps req svc prog). P c) \<longleftrightarrow>
     (\<forall>c\<in>set (rq_required_caps req). P c) \<and>
     (\<forall>s. svc = Some s \<longrightarrow> (\<forall>c\<in>set (sd_required_caps s @ sd_optional_caps s). P c)) \<and>
     (\<forall>p. prog = Some p \<longrightarrow> (\<forall>c\<in>set (pa_required_caps p). P c))"
  by (cases svc; cases prog) (auto simp: collect_required_caps_def)

lemma load_part_Nil:
  "load_rejections policy dev u = [] \<and> can_admit (dv_resource_capacity dev) u r \<longleftrightarrow>
     load_valid policy r dev u"
  by (auto simp: load_rejections_def load_valid_def can_admit_fits not_less)

lemma hard_rejections_Nil: "hard_rejections snap req did dev = [] \<longleftrightarrow> offload_valid snap req did dev"
  unfolding hard_rejections_def offload_valid_def Let_def append_is_Nil_conv reject_Nil not_not
    pin_rejections_Nil lifecycle_rejections_Nil class_rejections_Nil attachment_rejections_Nil
    capability_rejections_Nil dependency_rejections_Nil floor_rejections_Nil
    isolation_rejections_Nil security_rejections_Nil isolation_valid_def
    collect_required_caps_all placement_valid_def service_valid_def
    program_part_Nil [symmetric] load_part_Nil [symmetric]
  by (simp only: imp_conjR all_conj_distrib conj_ac)

end
