(* ===== verification/Evaluation.thy ===== *)
theory Evaluation
  imports Selection
begin

text \<open>
  What \<open>evaluate_offload\<close> returns: the selected device, the report of every registered
  device, the fallback decision and the range of the scores.
\<close>

section \<open>Candidates\<close>

definition valid_candidate :: "Snapshot \<Rightarrow> OffloadRequest \<Rightarrow> DeviceId \<Rightarrow> bool" where
  "valid_candidate snap req did \<longleftrightarrow>
     did \<in> set (sn_device_order snap) \<and>
     (\<exists>dev. snap_device snap did = Some dev \<and> offload_valid snap req did dev)"

definition candidate_total :: "Snapshot \<Rightarrow> OffloadRequest \<Rightarrow> DeviceId \<Rightarrow> double" where
  "candidate_total snap req did =
     (case snap_device snap did of
        None \<Rightarrow> 0 | Some dev \<Rightarrow> score_total (candidate_scores snap req did dev))"

text \<open>\<open>a\<close> precedes \<open>b\<close> in the registration order.\<close>

definition registered_before :: "Snapshot \<Rightarrow> DeviceId \<Rightarrow> DeviceId \<Rightarrow> bool" where
  "registered_before snap a b \<longleftrightarrow> device_order_index snap a < device_order_index snap b"

definition beats :: "Snapshot \<Rightarrow> OffloadRequest \<Rightarrow> DeviceId \<Rightarrow> DeviceId \<Rightarrow> bool" where
  "beats snap req a b \<longleftrightarrow>
     candidate_total snap req b < candidate_total snap req a \<or>
     candidate_total snap req b = candidate_total snap req a \<and> registered_before snap a b"

lemma order_index_member:
  "d \<in> set xs \<Longrightarrow> \<exists>j < length xs. order_index xs i d = i + j \<and> xs ! j = d"
proof (induction xs arbitrary: i)
  case (Cons x xs)
  show ?case
  proof (cases "x = d")
    case True
    then show ?thesis by (intro exI [of _ 0]) simp
  next
    case False
    with Cons obtain j where "j < length xs" "order_index xs (Suc i) d = Suc i + j" "xs ! j = d"
      by fastforce
    with False show ?thesis by (intro exI [of _ "Suc j"]) simp
  qed
qed simp

lemma order_index_inj:
  "d \<in> set (sn_device_order snap) \<Longrightarrow> d' \<in> set (sn_device_order snap) \<Longrightarrow>
   device_order_index snap d = device_order_index snap d' \<Longrightarrow> d = d'"
  using order_index_member [of d "sn_device_order snap" 0]
    order_index_member [of d' "sn_device_order snap" 0]
  by (auto simp: device_order_index_def)

lemma ca_device_report [simp]: "ca_device (candidate_report snap req did dev) = did"
  by (simp add: candidate_report_def Let_def)

lemma ca_passed_report [simp]:
  "ca_passed_hard (candidate_report snap req did dev) \<longleftrightarrow> offload_valid snap req did dev"
  by (simp add: candidate_report_def Let_def hard_rejections_Nil)

lemma ca_total_report:
  "snap_device snap did = Some dev \<Longrightarrow> offload_valid snap req did dev \<Longrightarrow>
   ca_total (candidate_report snap req did dev) = candidate_total snap req did"
  by (simp add: candidate_report_def Let_def hard_rejections_Nil candidate_total_def)

lemma set_all_reports:
  "rep \<in> set (all_reports snap req) \<longleftrightarrow>
     (\<exists>did dev. did \<in> set (sn_device_order snap) \<and> snap_device snap did = Some dev \<and>
        rep = candidate_report snap req did dev)"
  by (force simp: all_reports_def split: option.splits)

lemma passed_report:
  assumes "rep \<in> set (filter ca_passed_hard (all_reports snap req))"
  shows "valid_candidate snap req (ca_device rep)"
    and "ca_total rep = candidate_total snap req (ca_device rep)"
  using assms by (auto simp: set_all_reports valid_candidate_def ca_total_report)

lemma valid_candidate_report:
  assumes "valid_candidate snap req did"
  obtains rep where "rep \<in> set (filter ca_passed_hard (all_reports snap req))"
    "ca_device rep = did" "ca_total rep = candidate_total snap req did"
  using assms by (force simp: set_all_reports valid_candidate_def ca_total_report)

section \<open>Selection\<close>

lemma selection_selected [simp]:
  "er_selected (selection_result snap r front) = Some (ca_device front)"
  by (simp add: selection_result_def Let_def split: option.split)

lemma no_selection_selected [simp]: "er_selected (no_selection_result req r) = None"
  by (simp add: no_selection_result_def Let_def)

lemma evaluate_Inr:
  assumes "evaluate_offload snap req = Inr r"
  obtains (none) "filter ca_passed_hard (all_reports snap req) = []"
      "r = no_selection_result req
         (EligibilityResult_init\<lparr>er_mode := rq_mode req, er_candidates := all_reports snap req\<rparr>)"
  | (some) front rest where
      "stable_sort (candidate_before snap) (filter ca_passed_hard (all_reports snap req)) =
         front # rest"
      "r = selection_result snap
         (EligibilityResult_init\<lparr>er_mode := rq_mode req, er_candidates := all_reports snap req\<rparr>)
         front"
  using assms
  by (auto simp: evaluate_offload_def Let_def candidate_order.stable_sort_Nil
      split: if_splits list.splits)

lemma selected_iff:
  assumes "evaluate_offload snap req = Inr r"
  shows "er_selected r = Some d \<longleftrightarrow>
    valid_candidate snap req d \<and>
    (\<forall>d'. valid_candidate snap req d' \<and> d' \<noteq> d \<longrightarrow> beats snap req d d')"
  using assms
proof (cases rule: evaluate_Inr)
  case none
  then have "\<not> valid_candidate snap req d" by (metis empty_iff list.set(1) valid_candidate_report)
  with none show ?thesis by simp
next
  case (some front rest)
  let ?f = "ca_device front"
  note front = candidate_order.stable_sort_front [OF some(1)]
  have f: "valid_candidate snap req ?f" "ca_total front = candidate_total snap req ?f"
    using passed_report [OF front(1)] by simp_all
  have best: "beats snap req ?f d'" if v: "valid_candidate snap req d'" "d' \<noteq> ?f" for d'
  proof -
    obtain rep where rep: "rep \<in> set (filter ca_passed_hard (all_reports snap req))"
      "ca_device rep = d'" "ca_total rep = candidate_total snap req d'"
      using v(1) by (rule valid_candidate_report)
    have "device_order_index snap ?f \<noteq> device_order_index snap d'"
      using v f(1) order_index_inj by (auto simp: valid_candidate_def)
    then show ?thesis
      using front(2) [OF rep(1)] rep(2,3) f(2)
      by (auto simp: candidate_before_def beats_def registered_before_def split: if_splits)
  qed
  have "\<not> (beats snap req ?f d \<and> beats snap req d ?f)" by (auto simp: beats_def registered_before_def)
  then show ?thesis using some(2) f(1) best by auto
qed

lemma selected_None_iff:
  assumes "evaluate_offload snap req = Inr r"
  shows "er_selected r = None \<longleftrightarrow> (\<forall>d. \<not> valid_candidate snap req d)"
  using assms
proof (cases rule: evaluate_Inr)
  case none
  then show ?thesis by (metis empty_iff list.set(1) no_selection_selected valid_candidate_report)
next
  case (some front rest)
  then show ?thesis
    using passed_report(1) candidate_order.stable_sort_front(1) [OF some(1)] by auto
qed

lemma evaluate_total:
  "(\<exists>r. evaluate_offload snap req = Inr r) \<longleftrightarrow>
     rq_min_headroom req \<le> 100 \<and> rq_max_queue_pressure req \<le> 100"
  by (auto simp: evaluate_offload_def Let_def not_less split: list.splits)


section \<open>Reports\<close>


section \<open>Fallback\<close>

text \<open>
  The fallback decision. Host fallback is used exactly when no registered device is valid,
  the request is not \<open>OFFLOAD_REQUIRED\<close> and it allows fallback; without a valid device and
  without fallback the execution class is \<open>UNSUPPORTED\<close>, and a required offload then carries
  the global rejection \<open>OFFLOAD_REQUIRED_UNAVAILABLE\<close>.
\<close>

theorem evaluate_fallback:
  assumes "evaluate_offload snap req = Inr r"
  shows "(er_fallback_used r \<longleftrightarrow>
            (\<forall>d. \<not> valid_candidate snap req d) \<and>
            rq_mode req \<noteq> OffloadMode.OFFLOAD_REQUIRED \<and> rq_allow_host_fallback req) \<and>
         (er_hard_pass r \<longleftrightarrow> (\<exists>d. valid_candidate snap req d)) \<and>
         ((\<forall>d. \<not> valid_candidate snap req d) \<and> \<not> er_fallback_used r \<longrightarrow>
            er_execution r = ExecutionClass.UNSUPPORTED) \<and>
         (er_fallback_used r \<longrightarrow> er_execution r = ExecutionClass.HOST_FALLBACK) \<and>
         er_global_rejections r =
           (if rq_mode req = OffloadMode.OFFLOAD_REQUIRED \<and> (\<forall>d. \<not> valid_candidate snap req d)
            then [RejectionReason.OFFLOAD_REQUIRED_UNAVAILABLE] else [])"
  using assms
proof (cases rule: evaluate_Inr)
  case none
  then have "\<forall>d. \<not> valid_candidate snap req d" using selected_None_iff [OF assms] by simp
  with none show ?thesis by (auto simp: no_selection_result_def Let_def EligibilityResult_init_def)
next
  case (some front rest)
  then have "\<not> (\<forall>d. \<not> valid_candidate snap req d)" using selected_None_iff [OF assms] by simp
  with some show ?thesis
    by (auto simp: selection_result_def Let_def EligibilityResult_init_def split: option.split)
qed

text \<open>
  The execution class of a selection is the one of the selected device's class, and it is
  \<open>HOST_FALLBACK\<close>, without any fallback being reported, exactly when that class is none of the
  three offload classes: a request in mode \<open>OFFLOAD_REQUIRED\<close> can be placed on such a device.
\<close>

theorem evaluate_execution_class:
  assumes "evaluate_offload snap req = Inr r" "er_selected r = Some d"
  shows "\<exists>dev. snap_device snap d = Some dev \<and>
    er_execution r = execution_class_of (dv_device_class dev) \<and>
    \<not> er_fallback_used r \<and>
    (er_execution r = ExecutionClass.HOST_FALLBACK \<longleftrightarrow>
       dv_device_class dev \<notin>
         {DeviceClass.DPU, DeviceClass.SMARTNIC, DeviceClass.INFRA_PROCESSOR})"
  using assms(1)
proof (cases rule: evaluate_Inr)
  case none
  with assms(2) show ?thesis by simp
next
  case (some front rest)
  obtain dev where dev: "snap_device snap d = Some dev"
    using selected_iff [OF assms(1), of d] assms(2) by (auto simp: valid_candidate_def)
  have "ca_device front = d" using some(2) assms(2) by simp
  with dev have "er_execution r = execution_class_of (dv_device_class dev)" "\<not> er_fallback_used r"
    using some(2) by (simp_all add: selection_result_def Let_def)
  with dev show ?thesis by (simp add: execution_class_of_def)
qed

section \<open>Scores\<close>

lemma locality_value_unit: "0 \<le> locality_value q \<and> locality_value q \<le> 1"
  by (cases q) (simp_all add: rnd_unit)

lemma headroom_frac_unit: "0 \<le> headroom_frac used cap \<and> headroom_frac used cap \<le> 1"
proof (cases "cap = 0 \<or> cap \<le> used")
  case False
  then have "cap - used \<le> cap" by (simp add: word_sub_le less_imp_le not_le)
  with False show ?thesis using d_div_unit by (simp add: headroom_frac_def not_le)
qed (auto simp: headroom_frac_def)

lemma headroom_pct_percent: "0 \<le> headroom_pct dev u \<and> headroom_pct dev u \<le> 100"
  unfolding headroom_pct_def Let_def d_mul_def
  by (intro rnd_percent) (simp_all add: headroom_frac_unit min_le_iff_disj)

lemma ratio_unit: "\<not> cap \<le> used \<Longrightarrow> 0 \<le> d_div (d_of_u64 used) (d_of_u64 cap) \<and>
    d_div (d_of_u64 used) (d_of_u64 cap) \<le> 1"
  by (rule d_div_unit) (auto simp: not_le word_not_simps)

lemma queue_pressure_unit: "0 \<le> queue_pressure dev u \<and> queue_pressure dev u \<le> 1"
  using ratio_unit by (simp add: queue_pressure_def Let_def)

lemma device_load_unit: "0 \<le> device_load dev u \<and> device_load dev u \<le> 1"
  using ratio_unit by (simp add: device_load_def Let_def rnd_unit)

lemma d_div_const_unit: "0 \<le> x \<Longrightarrow> x \<le> c \<Longrightarrow> 0 < c \<Longrightarrow> 0 \<le> d_div x c \<and> d_div x c \<le> 1"
  unfolding d_div_def by (rule rnd_unit) simp_all

lemma d_sub_unit: "0 \<le> x \<and> x \<le> 1 \<Longrightarrow> 0 \<le> d_sub 1 x \<and> d_sub 1 x \<le> 1"
  unfolding d_sub_def by (rule rnd_unit) auto

lemma health_severity_bounds: "1 \<le> health_severity h \<and> health_severity h \<le> 5"
  by (cases h) simp_all

text \<open>
  C37. Every normalized score of a candidate lies between 0 and 1, for whatever counters,
  capacities and usage, with the rounding of every double operation taken into account, and
  the factors are scored once each in the order of the enumeration.
\<close>

theorem scores_normalized:
  "map fs_factor (candidate_scores snap req did dev) =
     [RankFactor.WARM_SERVICE, RankFactor.LOCALITY, RankFactor.HEADROOM,
      RankFactor.QUEUE_PRESSURE, RankFactor.DEVICE_LOAD, RankFactor.STATE_TRANSFER,
      RankFactor.HOST_CPU_SAVINGS, RankFactor.OFFLOAD_VALUE, RankFactor.FAILURE_RISK,
      RankFactor.ENERGY, RankFactor.POLICY_PREFERENCE, RankFactor.TIEBREAK_ID] \<and>
   (\<forall>s\<in>set (candidate_scores snap req did dev). 0 \<le> fs_normalized s \<and> fs_normalized s \<le> 1)"
proof -
  have "of_nat (health_severity h) \<le> (5 :: rat)" for h
    using health_severity_bounds [of h] by (metis of_nat_le_iff of_nat_numeral)
  then have risk: "0 \<le> d_div (of_nat (health_severity h)) 5 \<and>
      d_div (of_nat (health_severity h)) 5 \<le> 1" for h
    by (intro d_div_const_unit) simp_all
  have head: "0 \<le> d_div (headroom_pct dev u) 100 \<and> d_div (headroom_pct dev u) 100 \<le> 1" for u
    using headroom_pct_percent by (intro d_div_const_unit) simp_all
  show ?thesis
    by (simp add: candidate_scores_def Let_def make_score_def locality_value_unit risk head
        d_sub_unit queue_pressure_unit device_load_unit rnd_unit)
qed

section \<open>Witnesses\<close>

lemma valid_candidate_code [code]:
  "valid_candidate snap req did \<longleftrightarrow>
     did \<in> set (sn_device_order snap) \<and>
     (case snap_device snap did of
        None \<Rightarrow> False | Some dev \<Rightarrow> hard_rejections snap req did dev = [])"
  by (auto simp: valid_candidate_def hard_rejections_Nil split: option.splits)

lemma sole_candidate:
  assumes "evaluate_offload snap req = Inr r"
    and "filter (valid_candidate snap req) (sn_device_order snap) = [d]"
  shows "er_selected r = Some d"
proof -
  have "valid_candidate snap req x \<longleftrightarrow> x \<in> set [d]" for x
    unfolding assms(2) [symmetric] by (auto simp: valid_candidate_def)
  then show ?thesis using selected_iff [OF assms(1), of d] by simp
qed

text \<open>
  A registry with four devices: a DPU, a SmartNIC of the same capacity that is half loaded, a
  draining DPU and a ready host processor. The requests ask for encryption on a pinned device.
\<close>

definition demo_caps :: CapabilitySet where
  "demo_caps = [(CapabilityKey ''crypto'', Capability_init
     \<lparr>cp_key := CapabilityKey ''crypto'', cp_state := CapabilityState.SUPPORTED, cp_version := 2\<rparr>)]"

definition demo_device :: "u64 \<Rightarrow> DeviceClass \<Rightarrow> DeviceRecord" where
  "demo_device i c = DeviceRecord_init
     \<lparr>dv_device_id := Id i, dv_device_class := c,
      dv_resource_capacity := \<lparr>rp_memory_bytes = 1000, rp_queues = 8, rp_functions = 0,
        rp_slots = 4, rp_contexts = 4\<rparr>,
      dv_capabilities := demo_caps, dv_offload_classes := [OffloadClass.ENCRYPTION],
      dv_locality := LocalityQuality.SAME_NIC, dv_health := DeviceHealth.HEALTHY,
      dv_lifecycle := DeviceLifecycle.READY, dv_evidence_fresh := True\<rparr>"

definition demo_snapshot :: Snapshot where
  "demo_snapshot = make_snapshot (LiveState_init
     \<lparr>ls_policy := Policy_defaults (Id 1),
      ls_devices :=
        [(Id 1, demo_device 1 DeviceClass.DPU), (Id 2, demo_device 2 DeviceClass.SMARTNIC),
         (Id 3, (demo_device 3 DeviceClass.DPU)\<lparr>dv_lifecycle := DeviceLifecycle.DRAINING\<rparr>),
         (Id 4, demo_device 4 DeviceClass.HOST_PROCESSOR)],
      ls_usage := [(Id 2, Usage_init\<lparr>us_slots := 2, us_queues := 4\<rparr>)],
      ls_device_order := [Id 2, Id 1, Id 3, Id 4]\<rparr>)"

definition demo_request :: "u64 \<Rightarrow> OffloadRequest" where
  "demo_request i = OffloadRequest_init
     \<lparr>rq_offload_class := OffloadClass.ENCRYPTION,
      rq_required_caps := [\<lparr>cr_key = CapabilityKey ''crypto'', cr_optional = False,
        cr_min_version = 1\<rparr>],
      rq_pinned_device := Some (Id i)\<rparr>"

definition demo_result :: "u64 \<Rightarrow> EligibilityResult" where
  "demo_result i = projr (evaluate_offload demo_snapshot (demo_request i))"

lemma demo_result: "evaluate_offload demo_snapshot (demo_request i) = Inr (demo_result i)"
  using evaluate_total [of demo_snapshot "demo_request i"]
  by (auto simp: demo_result_def demo_request_def OffloadRequest_init_def)

lemma demo_candidates:
  "filter (valid_candidate demo_snapshot (demo_request 1)) (sn_device_order demo_snapshot) = [Id 1]"
  "filter (valid_candidate demo_snapshot (demo_request 3)) (sn_device_order demo_snapshot) = []"
  "filter (valid_candidate demo_snapshot (demo_request 4)) (sn_device_order demo_snapshot) = [Id 4]"
  by code_simp+


theorem scores_normalized_witness:
  "list_all (\<lambda>s. 0 \<le> fs_normalized s \<and> fs_normalized s \<le> 1)
     (candidate_scores demo_snapshot (demo_request 1) (Id 1) (demo_device 1 DeviceClass.DPU))"
  using scores_normalized by (simp add: list_all_iff)


theorem evaluate_fallback_witness:
  "\<not> er_fallback_used (demo_result 3) \<and>
   er_execution (demo_result 3) = ExecutionClass.UNSUPPORTED \<and>
   er_global_rejections (demo_result 3) = [RejectionReason.OFFLOAD_REQUIRED_UNAVAILABLE]"
proof -
  have "\<forall>d. \<not> valid_candidate demo_snapshot (demo_request 3) d"
    using demo_candidates(2) by (auto simp: filter_empty_conv valid_candidate_def)
  moreover have "rq_mode (demo_request 3) = OffloadMode.OFFLOAD_REQUIRED"
    by (simp add: demo_request_def OffloadRequest_init_def)
  ultimately show ?thesis using evaluate_fallback [OF demo_result, of 3] by auto
qed

theorem evaluate_execution_class_witness:
  "rq_mode (demo_request 4) = OffloadMode.OFFLOAD_REQUIRED \<and>
   er_selected (demo_result 4) = Some (Id 4) \<and>
   er_execution (demo_result 4) = ExecutionClass.HOST_FALLBACK"
proof -
  have sel: "er_selected (demo_result 4) = Some (Id 4)"
    by (rule sole_candidate [OF demo_result demo_candidates(3)])
  have dev: "snap_device demo_snapshot (Id 4) = Some (demo_device 4 DeviceClass.HOST_PROCESSOR)"
    by (simp add: demo_snapshot_def make_snapshot_def snap_device_def LiveState_init_def)
  have "rq_mode (demo_request 4) = OffloadMode.OFFLOAD_REQUIRED"
    by (simp add: demo_request_def OffloadRequest_init_def)
  then show ?thesis
    using evaluate_execution_class [OF demo_result sel] dev sel
    by (simp add: demo_device_def execution_class_of_def)
qed

end
