(* ===== verification/EngineProps.thy ===== *)
theory EngineProps
  imports EngineEvolve Evaluation
begin

text \<open>
  What the engine guarantees: in every reachable state (snapshot, authority, accounting, no
  undefined behaviour), across every call (lifecycle, atomicity), and per operation (commit,
  fencing, recovery, reservation).
\<close>

section \<open>Facts of reachable states\<close>

lemma reachable_state: "reachable n e \<Longrightarrow> state_ok (en_state e)"
  by (simp add: reachable_ok engine_ok_state)

lemma reachable_snapshot: "reachable n e \<Longrightarrow> en_snap e = make_snapshot (en_state e)"
  using reachable_ok by (simp add: engine_ok_def)

lemma reachable_deployment:
  "reachable n e \<Longrightarrow> map_find (ls_deployments (en_state e)) i = Some d \<Longrightarrow>
   deployment_ok (en_state e) i d"
  by (rule state_ok_deployment [OF reachable_state])

text \<open>A history of a few calls on a new engine, for the witnesses.\<close>

definition demo_engine :: "engine_call list \<Rightarrow> engine" where
  "demo_engine cs = fold after_call cs (engine_new (Id 1) (Policy_defaults (Id 1)))"

lemma demo_reachable: "reachable (length cs) (demo_engine cs)"
  unfolding reachable_run demo_engine_def engine_machine.run_def by blast

definition demo_selection :: EligibilityResult where
  "demo_selection = EligibilityResult_init\<lparr>er_selected := Some (Id 7)\<rparr>"

definition demo_plain :: OffloadRequest where
  "demo_plain = OffloadRequest_init\<lparr>rq_offload_class := OffloadClass.ENCRYPTION\<rparr>"

text \<open>Device 7 registered, one deployment reserved, then taken to ACTIVE.\<close>

definition demo_reserve :: "engine_call list" where
  "demo_reserve =
     [Register_Device (demo_device 7 DeviceClass.DPU), Reserve demo_plain demo_selection]"

definition demo_activate :: "engine_call list" where
  "demo_activate = demo_reserve @ [Stage (Id 1), Load (Id 1), Validate (Id 1), Activate (Id 1)]"

definition demo_commit :: "engine_call list" where
  "demo_commit = demo_activate @ [Commit (Id 1)]"

definition demo_deployment :: "engine_call list \<Rightarrow> Deployment" where
  "demo_deployment cs = the (map_find (ls_deployments (en_state (demo_engine cs))) (Id 1))"

lemma demo_committed:
  "map_find (ls_deployments (en_state (demo_engine demo_commit))) (Id 1) =
     Some (demo_deployment demo_commit)"
  "dp_state (demo_deployment demo_commit) = DeploymentState.ACTIVE"
  "dp_device (demo_deployment demo_commit) = Id 7"
  by code_simp+

text \<open>
  Readers see the live state: in every reachable state the published snapshot is the one
  \<open>make_snapshot\<close> takes of the current state, so no call leaves a stale or partial snapshot
  behind, whether it succeeds or throws.
\<close>

theorem snapshot_is_current:
  assumes "reachable n e"
  shows "en_snap e = make_snapshot (en_state e)"
  using assms by (rule reachable_snapshot)

theorem snapshot_is_current_witness:
  "en_snap (demo_engine demo_commit) = make_snapshot (en_state (demo_engine demo_commit)) \<and>
   map_find (sn_deployments (en_snap (demo_engine demo_commit))) (Id 1) \<noteq> None"
  using snapshot_is_current [OF demo_reachable, of demo_commit] demo_committed(1)
  by (simp add: make_snapshot_def)

text \<open>
  C12. Authority and lifecycle agree. In every reachable state a deployment is marked
  authoritative exactly when it is \<open>ACTIVE\<close>; its device is registered; a deployment that is
  \<open>ACTIVATING\<close> or \<open>ACTIVE\<close> has an activation, and that activation is recorded; and the states
  \<open>PLANNED\<close> and \<open>DEGRADED\<close>, although the transition table lists them, are never entered.
\<close>

theorem authority_iff_active:
  assumes "reachable n e" "map_find (ls_deployments (en_state e)) i = Some d"
  shows "(dp_authoritative d \<longleftrightarrow> dp_state d = DeploymentState.ACTIVE) \<and>
    map_find (ls_devices (en_state e)) (dp_device d) \<noteq> None \<and>
    (dp_state d \<in> {DeploymentState.ACTIVATING, DeploymentState.ACTIVE} \<longrightarrow>
       (\<exists>a r. dp_activation d = Some a \<and> map_find (ls_activations (en_state e)) a = Some r)) \<and>
    dp_state d \<notin> {DeploymentState.PLANNED, DeploymentState.DEGRADED}"
  using reachable_deployment [OF assms]
  by (auto simp: deployment_ok_def engine_states_def)

theorem authority_iff_active_witness:
  "dp_authoritative (demo_deployment demo_commit) \<and>
   map_find (ls_devices (en_state (demo_engine demo_commit))) (Id 7) \<noteq> None"
  using authority_iff_active [OF demo_reachable demo_committed(1)] demo_committed(2,3) by simp

text \<open>
  C1. Accounting. In every reachable state a device has a ledger exactly when it is
  registered, its published usage is what the ledger holds, and no dimension with a capacity
  is used past it, in whatever order deployments are reserved, cancelled, rolled back, failed
  and retired.
\<close>

theorem usage_within_capacity:
  assumes "reachable n e" "map_find (ls_devices (en_state e)) i \<noteq> None"
  shows "\<exists>l. map_find (ls_ledgers (en_state e)) i = Some l \<and>
    map_find (sn_device_usage (en_snap e)) i = Some (lg_used l) \<and> within_capacity l"
proof -
  have "accounting_ok (en_state e)" using reachable_state [OF assms(1)] by (simp add: state_ok_def)
  moreover from this assms(2) obtain l where "map_find (ls_ledgers (en_state e)) i = Some l"
    unfolding accounting_ok_def by (metis not_None_eq)
  ultimately show ?thesis
    using reachable_snapshot [OF assms(1)] by (auto simp: accounting_ok_def make_snapshot_def)
qed

theorem usage_within_capacity_witness:
  "\<exists>l. map_find (ls_ledgers (en_state (demo_engine demo_commit))) (Id 7) = Some l \<and>
    map_find (sn_device_usage (en_snap (demo_engine demo_commit))) (Id 7) = Some (lg_used l) \<and>
    within_capacity l"
proof -
  have "map_find (ls_devices (en_state (demo_engine demo_commit))) (Id 7) \<noteq> None" by code_simp
  then show ?thesis by (rule usage_within_capacity [OF demo_reachable])
qed

section \<open>Committing\<close>

lemma commit_no_undefined:
  assumes "engine_ok e"
  shows "fst (commit_deployment i e) \<noteq> Inl Undefined_Behaviour"
proof (cases "map_find (ls_deployments (en_state e)) i")
  case None
  then show ?thesis by (simp add: commit_deployment_def throw_error_def)
next
  case (Some d)
  then have "deployment_ok (en_state e) i d"
    using state_ok_deployment [OF engine_ok_state [OF assms]] by simp
  then have "dp_state d = DeploymentState.ACTIVATING \<Longrightarrow> dp_activation d \<noteq> None"
    by (simp add: deployment_ok_def)
  with Some show ?thesis
    by (auto simp: commit_deployment_def grant_authority_def throw_error_def split: option.split)
qed

lemma call_defined:
  assumes "engine_ok e"
    and "c = Run_All_Backends \<Longrightarrow> Inl Undefined_Behaviour \<notin> bk_discover ` set (en_backends e)"
  shows "fst (call c e) \<noteq> Inl Undefined_Behaviour"
proof (cases c)
  case (Commit i)
  then show ?thesis using commit_no_undefined [OF assms(1)] by simp
next
  case Run_All_Backends
  have backends: "fst (run_backends bs out e') \<noteq> Inl Undefined_Behaviour"
    if "Inl Undefined_Behaviour \<notin> bk_discover ` set bs" for bs out e'
    using that
  proof (induction bs arbitrary: out e')
    case (Cons b bs)
    then show ?case by (cases "bk_discover b") auto
  qed simp
  show ?thesis
    using Run_All_Backends backends [OF assms(2) [OF Run_All_Backends], of "[]" e]
    by (cases "fst (run_all_backends e)") (auto simp: outcome_def run_all_backends_def)
qed (auto simp: import_backend_def register_device_def update_device_def retire_device_def
    transition_device_def set_device_state_def fence_device_def register_service_def
    register_program_def retire_program_def register_worker_def worker_heartbeat_def
    mark_worker_lost_def reserve_deployment_def reserve_on_cases stage_deployment_def
    load_deployment_def validate_deployment_def do_deploy_transition_def
    activate_deployment_cases cancel_deployment_def rollback_deployment_def
    drain_deployment_def retire_deployment_def fail_deployment_def advance_epoch_def
    apply_recovery_def throw_error_def outcome_def Let_def split: option.splits)



definition commit_ready :: "LiveState \<Rightarrow> Deployment \<Rightarrow> bool" where
  "commit_ready s d \<longleftrightarrow>
     dp_state d = DeploymentState.ACTIVATING \<and>
     (\<exists>dev. map_find (ls_devices s) (dp_device d) = Some dev \<and> is_ready_for_offload dev) \<and>
     (dp_program d = null_id \<or>
      map_find (ls_current_program_gen s) (dp_program d) = Some (dp_program_gen d))"

lemma commit_ready_grants:
  assumes "engine_ok e" "map_find (ls_deployments (en_state e)) i = Some d"
  shows "if commit_ready (en_state e) d
    then \<exists>dev a r. map_find (ls_devices (en_state e)) (dp_device d) = Some dev \<and>
      dp_activation d = Some a \<and> map_find (ls_activations (en_state e)) a = Some r \<and>
      commit_deployment i e = (Inr (), commit_state (grant_state i d dev a r) e)
    else \<exists>err. commit_deployment i e = (Inl (Thrown err), e)"
proof -
  have ok: "deployment_ok (en_state e) i d"
    using assms state_ok_deployment engine_ok_state by blast
  show ?thesis
  proof (cases rule: commit_deployment_cases [of i e])
    case (refused f)
    have "f \<noteq> Undefined_Behaviour" using commit_no_undefined [OF assms(1), of i] refused by auto
    moreover have "\<not> commit_ready (en_state e) d"
      using refused assms(2) ok
      by (auto simp: commit_deployment_def commit_ready_def grant_authority_def deployment_ok_def
          refuse_def throw_error_def split: option.splits if_splits)
    ultimately show ?thesis using refused by (cases f) auto
  next
    case (granted d' dev a r)
    moreover from this have "d' = d" using assms(2) by simp
    ultimately show ?thesis by (auto simp: commit_ready_def)
  qed
qed


lemma demo_activated:
  "map_find (ls_deployments (en_state (demo_engine demo_activate))) (Id 1) =
     Some (demo_deployment demo_activate)"
  "dp_state (demo_deployment demo_activate) = DeploymentState.ACTIVATING"
  "dp_device (demo_deployment demo_activate) = Id 7"
  "dp_program (demo_deployment demo_activate) = null_id"
  "map_find (ls_devices (en_state (demo_engine demo_activate))) (Id 7) =
     Some (demo_device 7 DeviceClass.DPU)"
  "is_ready_for_offload (demo_device 7 DeviceClass.DPU)"
  by code_simp+


section \<open>Lifecycle\<close>




definition demo_retire :: "engine_call list" where
  "demo_retire = demo_commit @ [Retire (Id 1)]"

lemma demo_retired:
  "map_find (ls_deployments (en_state (demo_engine demo_retire))) (Id 1) =
     Some (demo_deployment demo_retire)"
  "dp_state (demo_deployment demo_retire) = DeploymentState.RETIRED"
  by code_simp+


section \<open>Atomicity\<close>

definition atomic :: "engine \<Rightarrow> 'a result \<times> engine \<Rightarrow> bool" where
  "atomic e p \<longleftrightarrow> isl (fst p) \<longrightarrow> snd p = e"

lemma atomic_intros [simp]:
  "atomic e (refuse c m e)" "atomic e (Inr x, e')" "atomic e (r, e)"
  "atomic e (outcome p) \<longleftrightarrow> atomic e p"
  by (simp_all add: atomic_def refuse_def outcome_def isl_map_sum)

lemma commit_atomic [simp]: "atomic e (commit_deployment i e)"
  by (cases rule: commit_deployment_cases [of i e]) simp_all

lemma transition_atomic [simp]: "atomic e (do_deploy_transition i to e)"
  by (simp add: do_deploy_transition_def split: option.split)

lemma registry_atomic [simp]:
  "atomic e (import_backend b e)" "atomic e (register_device rec e)"
  "atomic e (update_device rec e)" "atomic e (retire_device i e)"
  "atomic e (transition_device i to e)" "atomic e (set_device_state i st k e)"
  "atomic e (fence_device i reason e)" "atomic e (register_service sd e)"
  "atomic e (register_program art e)" "atomic e (retire_program p e)"
  "atomic e (register_worker w boot e)" "atomic e (worker_heartbeat w boot e)"
  "atomic e (mark_worker_lost w e)"
  by (simp_all add: import_backend_def register_device_def update_device_def retire_device_def
      transition_device_def set_device_state_def fence_device_def register_service_def
      register_program_def retire_program_def register_worker_def worker_heartbeat_def
      mark_worker_lost_def Let_def split: option.split)

lemma deployment_atomic [simp]:
  "atomic e (stage_deployment i e)" "atomic e (load_deployment i e)"
  "atomic e (validate_deployment i e)" "atomic e (activate_deployment i e)"
  "atomic e (cancel_deployment i e)" "atomic e (rollback_deployment i e)"
  "atomic e (drain_deployment i e)" "atomic e (retire_deployment i e)"
  "atomic e (fail_deployment i code reason e)" "atomic e (advance_epoch e)"
  "atomic e (apply_recovery rp e)"
  by (simp_all add: stage_deployment_def load_deployment_def validate_deployment_def
      activate_deployment_cases cancel_deployment_def rollback_deployment_def
      drain_deployment_def retire_deployment_def fail_deployment_def advance_epoch_def
      apply_recovery_def split: option.split)

lemma reserve_failure:
  assumes "isl (fst (reserve_deployment req elig e))"
  shows "snd (reserve_deployment req elig e) = e \<or>
    snd (reserve_deployment req elig e) = e\<lparr>en_id_seq := en_id_seq e + 2\<rparr>"
proof -
  have "snd (reserve_on req svc did dev e) = e\<lparr>en_id_seq := en_id_seq e + 2\<rparr>"
    if "isl (fst (reserve_on req svc did dev e))" for svc did dev
    using that by (simp add: reserve_on_cases Let_def split: option.splits if_splits)
  then have "isl (fst (reserve_deployment req elig e)) \<longrightarrow>
      snd (reserve_deployment req elig e) = e \<or>
      snd (reserve_deployment req elig e) = e\<lparr>en_id_seq := en_id_seq e + 2\<rparr>"
    by (simp add: reserve_deployment_def split: option.split)
  then show ?thesis using assms by simp
qed

lemma call_atomic:
  assumes "c \<noteq> Run_All_Backends" "\<And>req elig. c \<noteq> Reserve req elig"
  shows "atomic e (call c e)"
  using assms(1) assms(2) by (cases c) (simp_all, blast?)



section \<open>Fencing\<close>

text \<open>The calls that withdraw a device from service, for the device they name.\<close>

definition withdraws :: "DeviceId \<Rightarrow> engine_call \<Rightarrow> bool" where
  "withdraws i c \<longleftrightarrow>
     (\<exists>reason. c = Fence_Device i reason) \<or> c = Retire_Device i \<or>
     (\<exists>to\<in>{DeviceLifecycle.REVALIDATION_REQUIRED, DeviceLifecycle.OFFLINE, DeviceLifecycle.FAILED}.
        c = Transition_Device i to)"

lemma withdraws_effect:
  assumes "engine_ok e" "withdraws i c" "fst (call c e) = Inr ()"
  shows "\<exists>rec P. map_find (ls_devices (en_state (after_call c e))) i = Some rec \<and>
    \<not> dv_evidence_fresh rec \<and>
    (\<forall>d. dp_device d = i \<and> running d \<longrightarrow> P d) \<and> (\<forall>d. P d \<longrightarrow> dp_device d = i) \<and>
    (\<forall>j. map_find (ls_deployments (en_state (after_call c e))) j =
       map_option (\<lambda>d. if P d then fence d else d) (map_find (ls_deployments (en_state e)) j))"
proof -
  note ord = state_ok_ordered(1) [OF engine_ok_state [OF assms(1)]]
  from assms(2) consider (fence) reason where "c = Fence_Device i reason"
    | (retire) "c = Retire_Device i"
    | (transition) to where "c = Transition_Device i to"
      "to = DeviceLifecycle.REVALIDATION_REQUIRED \<or> to = DeviceLifecycle.OFFLINE \<or>
       to = DeviceLifecycle.FAILED"
    by (auto simp: withdraws_def)
  then show ?thesis
  proof cases
    case fence
    then show ?thesis
      using assms(3) ord
      by (intro exI [of _ "the (map_find (ls_devices (en_state (after_call c e))) i)"]
          exI [of _ "running_on i"])
        (auto simp: after_call_def fence_device_def fence_deployments_find running_on_def
          refuse_def throw_error_def split: option.splits)
  next
    case retire
    then show ?thesis
      using assms(3) ord
      by (intro exI [of _ "the (map_find (ls_devices (en_state (after_call c e))) i)"]
          exI [of _ "\<lambda>d. dp_device d = i \<and> (running d \<or> dp_state d = DeploymentState.DRAINING)"])
        (auto simp: after_call_def retire_device_def retire_loop.loop_def [symmetric]
          retire_loop.loop_find retire_effect_def [abs_def] refuse_def throw_error_def
          split: option.splits)
  next
    case transition
    then show ?thesis
      using assms(3) ord
      by (intro exI [of _ "the (map_find (ls_devices (en_state (after_call c e))) i)"]
          exI [of _ "running_on i"])
        (auto simp: after_call_def transition_device_def fence_deployments_find running_on_def
          refuse_def throw_error_def split: option.splits if_splits)
  qed
qed

text \<open>
  C16. Fencing a device revokes every authority on it. After a successful \<open>fence_device\<close>,
  \<open>retire_device\<close> or transition to \<open>REVALIDATION_REQUIRED\<close>, \<open>OFFLINE\<close> or \<open>FAILED\<close>, the device
  is not ready for offload, no deployment on it is authoritative, an \<open>ACTIVE\<close> one is
  \<open>REVALIDATION_REQUIRED\<close>, and the deployments of other devices are exactly as before.
\<close>

theorem withdrawing_revokes_authority:
  assumes "reachable n e" "withdraws i c" "fst (call c e) = Inr ()"
    and "map_find (ls_deployments (en_state e)) j = Some d"
  shows "\<exists>d' rec. map_find (ls_deployments (en_state (after_call c e))) j = Some d' \<and>
    map_find (ls_devices (en_state (after_call c e))) i = Some rec \<and>
    \<not> is_ready_for_offload rec \<and>
    (dp_device d = i \<longrightarrow> \<not> dp_authoritative d' \<and>
       (dp_state d = DeploymentState.ACTIVE \<longrightarrow>
          dp_state d' = DeploymentState.REVALIDATION_REQUIRED)) \<and>
    (dp_device d \<noteq> i \<longrightarrow> d' = d)"
proof -
  obtain rec P where eff: "map_find (ls_devices (en_state (after_call c e))) i = Some rec"
    "\<not> dv_evidence_fresh rec" "\<And>d. dp_device d = i \<and> running d \<Longrightarrow> P d" "\<And>d. P d \<Longrightarrow> dp_device d = i"
    "map_find (ls_deployments (en_state (after_call c e))) j =
       map_option (\<lambda>d. if P d then fence d else d) (map_find (ls_deployments (en_state e)) j)"
    using withdraws_effect [OF reachable_ok [OF assms(1)] assms(2,3)] by blast
  let ?d' = "if P d then fence d else d"
  have "dp_device d = i \<longrightarrow> \<not> dp_authoritative ?d' \<and> (dp_state d = DeploymentState.ACTIVE \<longrightarrow>
      dp_state ?d' = DeploymentState.REVALIDATION_REQUIRED)"
    using reachable_deployment [OF assms(1,4)] eff(3) [of d]
    by (auto simp: fence_def running_def deployment_ok_def)
  moreover have "dp_device d \<noteq> i \<longrightarrow> ?d' = d" using eff(4) [of d] by auto
  ultimately show ?thesis
    using eff(1,2,5) assms(4)
    by (intro exI [of _ ?d'] exI [of _ rec]) (simp add: is_ready_for_offload_def)
qed

theorem withdrawing_revokes_authority_witness:
  "\<exists>d' rec. map_find (ls_deployments (en_state
        (after_call (Fence_Device (Id 7) ''reboot'') (demo_engine demo_commit)))) (Id 1) = Some d' \<and>
    map_find (ls_devices (en_state
        (after_call (Fence_Device (Id 7) ''reboot'') (demo_engine demo_commit)))) (Id 7) = Some rec \<and>
    \<not> is_ready_for_offload rec \<and> \<not> dp_authoritative d' \<and>
    dp_state d' = DeploymentState.REVALIDATION_REQUIRED"
proof -
  have "withdraws (Id 7) (Fence_Device (Id 7) ''reboot'')" by (simp add: withdraws_def)
  moreover have "fst (call (Fence_Device (Id 7) ''reboot'') (demo_engine demo_commit)) = Inr ()"
    by code_simp
  ultimately show ?thesis
    using withdrawing_revokes_authority [OF demo_reachable _ _ demo_committed(1)] demo_committed(2,3)
    by blast
qed

section \<open>Losing a worker\<close>

lemma fence_none:
  assumes "map_ordered (ls_deployments s)"
    and "\<And>i d. map_find (ls_deployments s) i = Some d \<Longrightarrow> \<not> P d"
  shows "map_find (ls_deployments (fence_deployments P s)) i = map_find (ls_deployments s) i"
  using assms(2) [of i] by (cases "map_find (ls_deployments s) i")
    (simp_all add: fence_deployments_find [OF assms(1)])

text \<open>
  C40. Losing a worker fences its devices but none of its deployments. After
  \<open>mark_worker_lost\<close> every device the worker owned and that is not retired is
  \<open>REVALIDATION_REQUIRED\<close> without fresh evidence, other devices are untouched and the worker may
  register again; but every deployment is exactly as before, so one that was \<open>ACTIVE\<close> on a lost
  device stays \<open>ACTIVE\<close> and authoritative. The code compares the boot identity of the worker
  with the one of each deployment, which no operation ever sets.
\<close>

theorem worker_loss_keeps_deployments:
  assumes "reachable n e"
  shows "map_find (ls_deployments (en_state (after_call (Mark_Worker_Lost w) e))) i =
      map_find (ls_deployments (en_state e)) i \<and>
    map_find (ls_devices (en_state (after_call (Mark_Worker_Lost w) e))) k =
      map_option (orphan_device w) (map_find (ls_devices (en_state e)) k) \<and>
    map_find (ls_workers (en_state (after_call (Mark_Worker_Lost w) e))) w = None"
proof -
  let ?s = "en_state e\<lparr>ls_devices := map_update_all (\<lambda>_. orphan_device w) (ls_devices (en_state e))\<rparr>"
  note ok = reachable_state [OF assms]
  have boot: "b \<noteq> null_id" if "map_find (ls_workers (en_state e)) w = Some b" for b
    using ok that by (auto simp: state_ok_def workers_ok_def)
  have "map_find (ls_deployments (fence_deployments (bound_to_boot b) ?s)) i =
      map_find (ls_deployments (en_state e)) i" if "b \<noteq> null_id" for b
  proof -
    have "\<not> bound_to_boot b d" if "map_find (ls_deployments ?s) i = Some d" for i d
      using state_ok_deployment [OF ok, of i d] that \<open>b \<noteq> null_id\<close>
      by (simp add: deployment_ok_def bound_to_boot_def)
    then show ?thesis
      using fence_none [of ?s "bound_to_boot b" i] state_ok_ordered(1) [OF ok] by simp
  qed
  then show ?thesis
    using boot by (auto simp: after_call_def mark_worker_lost_def Let_def split: option.split)
qed

text \<open>The counterexample to \<open>README.md\<close>, which promises no authority outlives its worker.\<close>

definition demo_worker :: "engine_call list" where
  "demo_worker =
     [Register_Worker (Id 3) (Id 30),
      Register_Device ((demo_device 7 DeviceClass.DPU)\<lparr>dv_owning_worker := Id 3\<rparr>),
      Reserve demo_plain demo_selection, Stage (Id 1), Load (Id 1), Validate (Id 1),
      Activate (Id 1), Commit (Id 1)]"

theorem worker_loss_keeps_deployments_witness:
  "dp_authoritative (demo_deployment (demo_worker @ [Mark_Worker_Lost (Id 3)])) \<and>
   map_option is_ready_for_offload (map_find (ls_devices (en_state
     (after_call (Mark_Worker_Lost (Id 3)) (demo_engine demo_worker)))) (Id 7)) = Some False"
proof -
  have "map_option dp_authoritative
      (map_find (ls_deployments (en_state (demo_engine demo_worker))) (Id 1)) = Some True"
    "map_option (is_ready_for_offload \<circ> orphan_device (Id 3))
      (map_find (ls_devices (en_state (demo_engine demo_worker))) (Id 7)) = Some False"
    by code_simp+
  moreover have "demo_engine (demo_worker @ [c]) = after_call c (demo_engine demo_worker)" for c
    by (simp add: demo_engine_def)
  ultimately show ?thesis
    using worker_loss_keeps_deployments [OF demo_reachable, of "Id 3" demo_worker "Id 1" "Id 7"]
    by (auto simp: demo_deployment_def)
qed

section \<open>Restart\<close>

lemma recover_device_fenced:
  "\<not> is_ready_for_offload (recover_device p rec)"
  by (auto simp: recover_device_def is_ready_for_offload_def Let_def)

lemma no_ready_device_no_candidate:
  assumes "\<And>i dev. snap_device snap i = Some dev \<Longrightarrow> \<not> is_ready_for_offload dev"
  shows "\<not> valid_candidate snap req d"
  using assms by (auto simp: valid_candidate_def offload_valid_def Let_def)

text \<open>
  Recovery fails closed. After \<open>apply_recovery\<close>, under either policy, no deployment is
  authoritative, no device is ready, and an evaluation of any request against the published
  snapshot selects no device until evidence has been renewed.
\<close>

theorem recovery_fails_closed:
  assumes "reachable n e"
  shows "(\<forall>i d. map_find (ls_deployments (en_state (after_call (Apply_Recovery p) e))) i = Some d \<longrightarrow>
            \<not> dp_authoritative d \<and> dp_state d \<noteq> DeploymentState.ACTIVE) \<and>
         (\<forall>req r. evaluate req (after_call (Apply_Recovery p) e) = Inr r \<longrightarrow> er_selected r = None)"
proof (intro conjI allI impI)
  let ?m = "map_update_all (\<lambda>_. recover_device p) (ls_devices (en_state e))"
  let ?s = "en_state e\<lparr>ls_devices := ?m\<rparr>"
  have after: "en_state (after_call (Apply_Recovery p) e) = fence_deployments running ?s"
    by (simp add: after_call_def apply_recovery_def)
  have "map_ordered (ls_deployments ?s)"
    using state_ok_ordered(1) [OF reachable_state [OF assms]] by simp
  note deps = fence_deployments_find [OF this, of running]
  fix i d
  assume "map_find (ls_deployments (en_state (after_call (Apply_Recovery p) e))) i = Some d"
  then obtain d0 where d0: "map_find (ls_deployments (en_state e)) i = Some d0"
    "d = (if running d0 then fence d0 else d0)"
    by (auto simp: after deps)
  show "dp_state d \<noteq> DeploymentState.ACTIVE" and "\<not> dp_authoritative d"
    using d0 reachable_deployment [OF assms d0(1)]
    by (auto simp: fence_def running_def deployment_ok_def)
next
  fix req r
  let ?e = "after_call (Apply_Recovery p) e"
  assume "evaluate req ?e = Inr r"
  then have ev: "evaluate_offload (en_snap ?e) req = Inr r" by (simp add: evaluate_def)
  have "\<not> is_ready_for_offload dev" if "snap_device (en_snap ?e) i = Some dev" for i dev
    using that by (auto simp: after_call_def apply_recovery_def snap_device_def make_snapshot_def
        recover_device_fenced)
  then show "er_selected r = None"
    using selected_None_iff [OF ev] no_ready_device_no_candidate by blast
qed

theorem recovery_fails_closed_witness:
  "map_option dp_authoritative (map_find (ls_deployments (en_state
      (after_call (Apply_Recovery FENCE_AUTHORITY_ONLY) (demo_engine demo_commit)))) (Id 1)) =
    Some False"
proof -
  have "map_find (ls_deployments (en_state
      (after_call (Apply_Recovery FENCE_AUTHORITY_ONLY) (demo_engine demo_commit)))) (Id 1) \<noteq> None"
    by code_simp
  then show ?thesis
    using recovery_fails_closed [OF demo_reachable, where p = FENCE_AUTHORITY_ONLY] by force
qed

text \<open>
  Advancing the epoch of a running engine only changes the epoch: it becomes the next
  generation, never zero, and every deployment keeps its state and its authority flag, so an
  authority granted under the earlier epoch is still marked authoritative although its token
  names that epoch. Only \<open>apply_recovery\<close>, a fence or a drain withdraws it.
\<close>

theorem epoch_advance_keeps_authority:
  "en_state (after_call Advance_Epoch e) =
     (en_state e)\<lparr>ls_epoch := Id (next_generation (as_u64 (ls_epoch (en_state e))))\<rparr> \<and>
   ls_epoch (en_state (after_call Advance_Epoch e)) \<noteq> null_id \<and>
   ls_deployments (en_state (after_call Advance_Epoch e)) = ls_deployments (en_state e)"
  using next_generation_pos [of "as_u64 (ls_epoch (en_state e))"]
  by (simp add: after_call_def advance_epoch_def null_id_def)

section \<open>Reservation\<close>

lemma reachable_snapshot_simps:
  assumes "reachable n e"
  shows "sn_devices (en_snap e) = ls_devices (en_state e)"
    "sn_services (en_snap e) = ls_services (en_state e)"
    "sn_device_usage (en_snap e) = ls_usage (en_state e)"
  by (simp_all add: reachable_snapshot [OF assms] make_snapshot_def)

lemma reserve_deployment_accepts:
  assumes "er_selected r = Some did" "map_find (ls_devices (en_state e)) did = Some dev"
    and "is_ready_for_offload dev"
    and "\<And>i. rq_service req = Some i \<Longrightarrow> map_find (ls_services (en_state e)) i = svc"
    and "rq_service req = None \<Longrightarrow> svc = None" "rq_service req \<noteq> None \<Longrightarrow> svc \<noteq> None"
  shows "reserve_deployment req r e = reserve_on req svc did dev e"
  using assms by (auto simp: reserve_deployment_def split: option.splits)

lemma reachable_ledger:
  assumes "reachable n e" "map_find (ls_devices (en_state e)) did \<noteq> None"
  obtains l where "map_find (ls_ledgers (en_state e)) did = Some l"
    "map_find (ls_usage (en_state e)) did = Some (lg_used l)" "within_capacity l"
proof -
  have acc: "accounting_ok (en_state e)" using reachable_state [OF assms(1)] by (simp add: state_ok_def)
  with assms(2) obtain l where "map_find (ls_ledgers (en_state e)) did = Some l"
    unfolding accounting_ok_def by (metis not_None_eq)
  with acc show thesis by (intro that [of l]) (simp_all add: accounting_ok_def)
qed

lemma selected_reserves:
  assumes "reachable n e" "evaluate req e = Inr r" "er_selected r = Some did"
    and "\<And>i. rq_service req = Some i \<Longrightarrow> map_find (ls_services (en_state e)) i \<noteq> None"
    and "map_option lg_cap (map_find (ls_ledgers (en_state e)) did) =
      map_option dv_resource_capacity (map_find (ls_devices (en_state e)) did)"
  obtains svc dev l where "offload_valid (en_snap e) req did dev"
    "map_find (ls_devices (en_state e)) did = Some dev" "map_find (ls_ledgers (en_state e)) did = Some l"
    "reserve_deployment req r e = (Inr (Id (en_id_seq e)),
       commit_state (reserve_state req svc did dev l (en_id_seq e)) (e\<lparr>en_id_seq := en_id_seq e + 2\<rparr>))"
    "svc = requested_service (en_snap e) req"
proof -
  let ?svc = "requested_service (en_snap e) req"
  note snap = reachable_snapshot_simps [OF assms(1)]
  have "valid_candidate (en_snap e) req did"
    using selected_iff [of "en_snap e" req r did] assms(2,3) by (simp add: evaluate_def)
  then obtain dev where dev: "map_find (ls_devices (en_state e)) did = Some dev"
    and valid: "offload_valid (en_snap e) req did dev"
    by (auto simp: valid_candidate_def snap_device_def snap)
  from dev have "map_find (ls_devices (en_state e)) did \<noteq> None" by simp
  then obtain l where l: "map_find (ls_ledgers (en_state e)) did = Some l"
    "map_find (ls_usage (en_state e)) did = Some (lg_used l)"
    by (rule reachable_ledger [OF assms(1)])
  have "device_usage (en_snap e) did = lg_used l" by (simp add: device_usage_def snap_usage_def snap l(2))
  then have can: "can_reserve l (requested_resources req ?svc)"
    using valid assms(5) l(1) dev by (simp add: offload_valid_def load_valid_def Let_def can_reserve_def)
  have svc: "\<And>i. rq_service req = Some i \<Longrightarrow> map_find (ls_services (en_state e)) i = ?svc"
    "rq_service req = None \<Longrightarrow> ?svc = None"
    by (simp_all add: requested_service_def snap_service_def snap)
  have "reserve_deployment req r e = reserve_on req ?svc did dev e"
    using svc valid assms(4)
    by (intro reserve_deployment_accepts [OF assms(3) dev])
      (auto simp: offload_valid_def Let_def requested_service_def snap_service_def snap)
  then show thesis
    using l(1) can valid dev by (intro that) (simp_all add: reserve_on_cases Let_def)
qed


definition demo_registered :: "engine_call list" where
  "demo_registered = [Register_Device (demo_device 7 DeviceClass.DPU)]"

definition demo_plan :: EligibilityResult where
  "demo_plan = projr (evaluate demo_plain (demo_engine demo_registered))"

lemma demo_plan:
  "evaluate demo_plain (demo_engine demo_registered) = Inr demo_plan"
  "er_selected demo_plan = Some (Id 7)"
proof -
  show ev: "evaluate demo_plain (demo_engine demo_registered) = Inr demo_plan"
    using evaluate_total [of "en_snap (demo_engine demo_registered)" demo_plain]
    by (auto simp: demo_plan_def evaluate_def demo_plain_def OffloadRequest_init_def)
  have "filter (valid_candidate (en_snap (demo_engine demo_registered)) demo_plain)
      (sn_device_order (en_snap (demo_engine demo_registered))) = [Id 7]"
    by code_simp
  then show "er_selected demo_plan = Some (Id 7)"
    using ev by (intro sole_candidate) (simp_all add: evaluate_def)
qed


lemma reserve_then_cancel:
  assumes "engine_ok e" "reserve_deployment req r e = (Inr i, e')"
  obtains did l d where "er_selected r = Some did" "dp_device d = did"
    "i = Id (en_id_seq e)"
    "map_find (ls_ledgers (en_state e)) did = Some l"
    "map_find (ls_deployments (en_state e')) i = Some d"
    "dp_state d = DeploymentState.RESERVED" "dp_activation d = None"
    "map_find (ls_ledgers (en_state (after_call (Cancel i) e'))) did =
       Some (ledger_release (dp_resources d) (ledger_apply (dp_resources d) l))"
    "map_find (ls_usage (en_state (after_call (Cancel i) e'))) did =
       Some (lg_used (ledger_release (dp_resources d) (ledger_apply (dp_resources d) l)))"
proof -
  obtain did dev svc where r: "er_selected r = Some did"
      "reserve_on req svc did dev e = (Inr i, e')"
    using assms(2) by (auto simp: reserve_deployment_def refuse_def throw_error_def
        split: option.splits if_splits)
  obtain l where l: "map_find (ls_ledgers (en_state e)) did = Some l"
    and i: "i = Id (en_id_seq e)"
    and e': "e' = commit_state (reserve_state req svc did dev l (en_id_seq e))
        (e\<lparr>en_id_seq := en_id_seq e + 2\<rparr>)"
    using r(2) by (auto simp: reserve_on_cases Let_def refuse_def throw_error_def
        split: option.splits if_splits)
  show thesis
    by (rule that [OF r(1) _ i l,
          of "reserved_deployment (en_state e) req svc did dev (en_id_seq e) (en_id_seq e + 1)"])
      (simp_all add: e' i reserve_state_def Let_def after_call_def cancel_deployment_def
        close_deployment_def release_resources_def mark_activation_def)
qed

text \<open>
  A cancelled reservation gives back what it took. Cancelling a deployment right after it
  has been reserved restores the ledger and the published usage of its device to what they were
  before, exactly when no sum of the reservation wraps at \<open>2 ^ 64\<close>; after a wrap-around the
  release refuses and the usage stays wrong.
\<close>

theorem reserve_cancel_restores:
  assumes "reachable n e" "reserve_deployment req r e = (Inr i, e')"
  shows "\<exists>did d l. er_selected r = Some did \<and>
    map_find (ls_deployments (en_state e')) i = Some d \<and> dp_device d = did \<and>
    map_find (ls_ledgers (en_state e)) did = Some l \<and>
    fst (call (Cancel i) e') = Inr () \<and>
    (map_find (ls_ledgers (en_state (after_call (Cancel i) e'))) did = Some l \<longleftrightarrow>
       no_wrap (dp_resources d) (lg_used l)) \<and>
    (no_wrap (dp_resources d) (lg_used l) \<longrightarrow>
       map_find (ls_usage (en_state (after_call (Cancel i) e'))) did =
         map_find (ls_usage (en_state e)) did)"
proof -
  obtain did l d where facts: "er_selected r = Some did" "dp_device d = did"
    "map_find (ls_ledgers (en_state e)) did = Some l"
    "map_find (ls_deployments (en_state e')) i = Some d" "dp_state d = DeploymentState.RESERVED"
    "map_find (ls_ledgers (en_state (after_call (Cancel i) e'))) did =
       Some (ledger_release (dp_resources d) (ledger_apply (dp_resources d) l))"
    "map_find (ls_usage (en_state (after_call (Cancel i) e'))) did =
       Some (lg_used (ledger_release (dp_resources d) (ledger_apply (dp_resources d) l)))"
    by (rule reserve_then_cancel [OF reachable_ok [OF assms(1)] assms(2)])
  have "map_find (ls_usage (en_state e)) did = Some (lg_used l)"
    using facts(3) reachable_state [OF assms(1)] by (simp add: state_ok_def accounting_ok_def)
  moreover have "fst (call (Cancel i) e') = Inr ()"
    using facts(4,5) by (simp add: cancel_deployment_def)
  ultimately show ?thesis
    using facts release_apply [of "dp_resources d" l] by auto
qed

theorem reserve_cancel_restores_witness:
  "map_find (ls_usage (en_state (after_call (Cancel (Id 1)) (demo_engine demo_reserve)))) (Id 7) =
     map_find (ls_usage (en_state (demo_engine demo_registered))) (Id 7)"
proof -
  let ?e = "demo_engine demo_registered"
  have "fst (reserve_deployment demo_plain demo_selection ?e) = Inr (Id 1)" by code_simp
  moreover have "snd (reserve_deployment demo_plain demo_selection ?e) = demo_engine demo_reserve"
    by (simp add: demo_engine_def demo_registered_def demo_reserve_def after_call_def)
  ultimately have res: "reserve_deployment demo_plain demo_selection ?e = (Inr (Id 1), demo_engine demo_reserve)"
    by (metis prod.collapse)
  have "map_option dp_resources (map_find (ls_deployments (en_state (demo_engine demo_reserve))) (Id 1)) =
      Some ResourceRequest_init"
    "map_option lg_used (map_find (ls_ledgers (en_state ?e)) (Id 7)) = Some Usage_init"
    "er_selected demo_selection = Some (Id 7)"
    by code_simp+
  moreover have "no_wrap ResourceRequest_init Usage_init"
    by (simp add: no_wrap_def ResourceRequest_init_def Usage_init_def)
  ultimately show ?thesis
    using reserve_cancel_restores [OF demo_reachable res] by auto
qed

section \<open>Programs and workers\<close>

text \<open>
  Registering a program never lowers its current generation: afterwards the current
  generation is the larger of the one before and the artifact's, and it is in the program's
  history; the artifact itself is stored under its own generation, and no other program is
  touched.
\<close>

theorem program_generation_advances:
  assumes "reachable n e" "pa_program_id art \<noteq> null_id" "pa_program_gen art \<noteq> null_id"
  shows "fst (register_program art e) = Inr (pa_program_id art) \<and>
    map_find (ls_current_program_gen (en_state (snd (register_program art e)))) (pa_program_id art) =
      Some (case map_find (ls_current_program_gen (en_state e)) (pa_program_id art) of
              None \<Rightarrow> pa_program_gen art | Some g \<Rightarrow> max g (pa_program_gen art)) \<and>
    find_current_program (en_snap (snd (register_program art e))) (pa_program_id art)
      (pa_program_gen art) = Some art \<and>
    (\<forall>p. p \<noteq> pa_program_id art \<longrightarrow>
       map_find (ls_programs (en_state (snd (register_program art e)))) p =
         map_find (ls_programs (en_state e)) p \<and>
       map_find (ls_current_program_gen (en_state (snd (register_program art e)))) p =
         map_find (ls_current_program_gen (en_state e)) p)"
  using assms
  by (auto simp: register_program_def Let_def find_current_program_def make_snapshot_def max_def
      split: option.split)

definition demo_art :: ProgramArtifact where
  "demo_art = ProgramArtifact_init\<lparr>pa_program_id := Id 5, pa_program_gen := Id 2\<rparr>"

theorem program_generation_advances_witness:
  "fst (register_program demo_art (demo_engine demo_registered)) = Inr (Id 5)"
proof -
  have "pa_program_id demo_art = Id 5" "pa_program_gen demo_art \<noteq> null_id" "(Id 5 :: ProgramId) \<noteq> null_id"
    by (simp_all add: demo_art_def null_id_def)
  then show ?thesis using program_generation_advances [OF demo_reachable, of demo_art] by simp
qed

text \<open>
  One boot per worker. A worker that is registered can only register again with the same
  boot identity, which changes nothing; a different one is refused with \<open>STALE_WORKER\<close>, and so
  is a heartbeat that does not carry the registered boot identity.
\<close>

theorem worker_boot_exclusive:
  assumes "reachable n e" "map_find (ls_workers (en_state e)) w = Some b" "boot \<noteq> null_id"
  shows "register_worker w boot e =
      (if boot = b then (Inr (), e)
       else refuse ErrorCode.STALE_WORKER ''worker already registered with a different boot id'' e) \<and>
    (fst (worker_heartbeat w boot e) = Inr () \<longleftrightarrow> boot = b)"
proof -
  have "w \<noteq> null_id"
    using reachable_state [OF assms(1)] assms(2) by (auto simp: state_ok_def workers_ok_def)
  then show ?thesis
    using assms(2,3) by (auto simp: register_worker_def worker_heartbeat_def throw_error_def)
qed

theorem worker_boot_exclusive_witness:
  "fst (worker_heartbeat (Id 3) (Id 31) (demo_engine demo_worker)) \<noteq> Inr ()"
proof -
  have "map_find (ls_workers (en_state (demo_engine demo_worker))) (Id 3) = Some (Id 30)"
    by code_simp
  moreover have "(Id 31 :: WorkerBootId) \<noteq> null_id" by (simp add: null_id_def)
  ultimately show ?thesis
    using worker_boot_exclusive [OF demo_reachable, of demo_worker "Id 3" "Id 30" "Id 31"] by simp
qed

end
