(* ===== verification/AccountingProps.thy ===== *)
theory AccountingProps
  imports EngineAccounting EngineProps
begin

text \<open>
  What the accounting guarantees, and the three ways it fails: sums that wrap, a rollback after
  a failure, and the retirement of a device with running deployments.
\<close>


text \<open>Two deployments on device 7; the first one fails.\<close>

definition demo_two :: "engine_call list" where
  "demo_two = demo_reserve @ [Reserve demo_plain demo_selection]"

definition demo_failed :: "engine_call list" where
  "demo_failed = demo_two @ [Fail (Id 1) ErrorCode.BACKEND_ERROR ''link lost'']"

definition slots_used :: "engine \<Rightarrow> DeviceId \<Rightarrow> u64 option" where
  "slots_used e dev = map_option (us_slots \<circ> lg_used) (map_find (ls_ledgers (en_state e)) dev)"

lemma demo_engine_snoc: "demo_engine (cs @ [c]) = after_call c (demo_engine cs)"
  by (simp add: demo_engine_def)

lemma clean_snoc:
  "clean_history n (demo_engine cs) \<Longrightarrow> clean_call (demo_engine cs) c \<Longrightarrow>
   clean_history (Suc n) (demo_engine (cs @ [c]))"
  by (simp add: demo_engine_snoc clean_history.more)

lemma clean_reserve:
  assumes "map_option lg_used (map_find (ls_ledgers (en_state e)) (Id 7)) = Some u"
    and "no_wrap ResourceRequest_init u"
  shows "clean_call e (Reserve demo_plain demo_selection)"
  using assms by (auto simp: clean_call_def demo_selection_def demo_plain_def
      OffloadRequest_init_def requested_resources_def)

lemma demo_failed_clean: "clean_history 4 (demo_engine demo_failed)"
proof -
  have "clean_history 0 (demo_engine [])"
    by (simp add: demo_engine_def clean_history.start)
  from clean_snoc [OF this, of "Register_Device (demo_device 7 DeviceClass.DPU)"]
  have 1: "clean_history 1 (demo_engine demo_registered)"
    by (simp add: clean_call_def demo_registered_def)
  have "map_option lg_used (map_find (ls_ledgers (en_state (demo_engine demo_registered))) (Id 7)) =
      Some Usage_init"
    by code_simp
  moreover have "no_wrap ResourceRequest_init Usage_init"
    by (simp add: no_wrap_def ResourceRequest_init_def Usage_init_def)
  ultimately have "clean_call (demo_engine demo_registered) (Reserve demo_plain demo_selection)"
    by (rule clean_reserve)
  from clean_snoc [OF 1 this] have 2: "clean_history 2 (demo_engine demo_reserve)"
    by (simp add: demo_reserve_def demo_registered_def numeral_2_eq_2)
  have "map_option lg_used (map_find (ls_ledgers (en_state (demo_engine demo_reserve))) (Id 7)) =
      Some (Usage_init\<lparr>us_slots := 1, us_contexts := 1\<rparr>)"
    by code_simp
  from clean_snoc [OF 2 clean_reserve [OF this]]
  have 3: "clean_history 3 (demo_engine demo_two)"
    by (simp add: demo_two_def no_wrap_def ResourceRequest_init_def Usage_init_def)
  from clean_snoc [OF 3, of "Fail (Id 1) ErrorCode.BACKEND_ERROR ''link lost''"]
  show ?thesis by (simp add: clean_call_def demo_failed_def)
qed


text \<open>
  Rolling back a failed deployment releases its resources a second time. Failing has
  already given them back; the rollback subtracts them again from whatever the device's other
  deployments have booked, unless that would go below zero.
\<close>

theorem rollback_of_failed_releases_again:
  assumes "map_find (ls_deployments (en_state e)) i = Some d" "dp_state d = DeploymentState.FAILED"
    and "map_find (ls_ledgers (en_state e)) (dp_device d) = Some l"
    and "\<not> underflows (dp_resources d) (lg_used l)"
  shows "fst (call (Rollback i) e) = Inr () \<and>
    map_find (ls_ledgers (en_state (after_call (Rollback i) e))) (dp_device d) =
      Some (l\<lparr>lg_used := usage_sub (dp_resources d) (lg_used l)\<rparr>)"
  using assms
  by (simp add: after_call_def rollback_deployment_def close_deployment_def release_resources_def
      ledger_release_def Let_def)

text \<open>
  Here the second deployment is still \<open>RESERVED\<close> with one slot, and after the rollback of the
  first one the ledger of the device shows none in use.
\<close>

theorem rollback_of_failed_releases_again_witness:
  "slots_used (demo_engine demo_failed) (Id 7) = Some 1 \<and>
   slots_used (demo_engine (demo_failed @ [Rollback (Id 1)])) (Id 7) = Some 0 \<and>
   map_option dp_state (map_find (ls_deployments (en_state
     (demo_engine (demo_failed @ [Rollback (Id 1)])))) (Id 3)) = Some DeploymentState.RESERVED"
proof -
  let ?e = "demo_engine demo_failed"
  let ?u = "Usage_init\<lparr>us_slots := 1, us_contexts := 1\<rparr>"
  have dep: "map_option (\<lambda>d. (dp_state d, dp_device d, dp_resources d))
      (map_find (ls_deployments (en_state ?e)) (Id 1)) =
      Some (DeploymentState.FAILED, Id 7, ResourceRequest_init)"
    and led: "map_option lg_used (map_find (ls_ledgers (en_state ?e)) (Id 7)) = Some ?u"
    and other: "map_option dp_state (map_find (ls_deployments (en_state
        (after_call (Rollback (Id 1)) ?e))) (Id 3)) = Some DeploymentState.RESERVED"
    by code_simp+
  obtain d where d: "map_find (ls_deployments (en_state ?e)) (Id 1) = Some d"
    "dp_state d = DeploymentState.FAILED" "dp_device d = Id 7" "dp_resources d = ResourceRequest_init"
    using dep by auto
  obtain l where l: "map_find (ls_ledgers (en_state ?e)) (Id 7) = Some l" "lg_used l = ?u"
    using led by auto
  have "\<not> underflows ResourceRequest_init ?u"
    by (simp add: underflows_def ResourceRequest_init_def Usage_init_def)
  then have "slots_used (after_call (Rollback (Id 1)) ?e) (Id 7) = Some 0"
    using rollback_of_failed_releases_again [OF d(1,2), of l] d(3,4) l
    by (simp add: slots_used_def usage_sub_def ResourceRequest_init_def Usage_init_def)
  then show ?thesis
    using l other by (simp add: slots_used_def Usage_init_def demo_engine_snoc)
qed

text \<open>
  Retiring a device and then the deployment that was \<open>ACTIVE\<close> on it releases its resources
  twice: the device's retirement gives them back and leaves the deployment in
  \<open>REVALIDATION_REQUIRED\<close>, and retiring a deployment in that state gives them back again. Of two
  deployments with a slot each, one is left \<open>RESERVED\<close> while no slot is booked.
\<close>

theorem retired_device_releases_twice:
  "let e = demo_engine (demo_commit @ [Reserve demo_plain demo_selection]);
       e' = after_call (Retire_Device (Id 7)) e;
       e'' = after_call (Retire (Id 1)) e'
   in slots_used e (Id 7) = Some 2 \<and> slots_used e' (Id 7) = Some 1 \<and>
      slots_used e'' (Id 7) = Some 0 \<and>
      map_option dp_state (map_find (ls_deployments (en_state e'')) (Id 4)) =
        Some DeploymentState.RESERVED"
  by code_simp

section \<open>Wrap-around\<close>

definition negate_usage :: "Usage \<Rightarrow> ResourceRequest" where
  "negate_usage u =
     \<lparr>rr_memory_bytes = - us_memory_bytes u, rr_queues = - us_queues u,
      rr_functions = - us_functions u, rr_slots = - us_slots u, rr_contexts = - us_contexts u\<rparr>"

text \<open>
  C38. The admission test is exact for requests whose sums stay below \<open>2 ^ 64\<close>: it admits a
  request exactly when, in every dimension with a capacity, the exact sum of usage and request
  is at most the capacity. It is not exact beyond: whatever is booked, the huge request whose
  amounts are the negated usage is admitted, and booking it empties the ledger.
\<close>

theorem admission_exact_below_wrap:
  "(no_wrap r (lg_used l) \<longrightarrow>
      (can_reserve l r \<longleftrightarrow>
         bounded_nats (profile_nat (lg_cap l)) (add_nats (usage_nat (lg_used l)) (request_nat r)))) \<and>
   can_reserve l (negate_usage (lg_used l)) \<and>
   lg_used (ledger_apply (negate_usage (lg_used l)) l) = Usage_init"
proof -
  have "can_reserve l (negate_usage (lg_used l))"
    by (simp add: can_reserve_def fits_def negate_usage_def)
  then show ?thesis
    by (simp add: can_reserve_def fits_exact negate_usage_def ledger_apply_def usage_add_def
        Usage_init_def)
qed

theorem admission_exact_below_wrap_witness:
  "can_reserve (ledger_new (dv_resource_capacity (demo_device 7 DeviceClass.DPU))) ResourceRequest_init \<and>
   bounded_nats [1000, 8, 0, 4, 4] [0, 0, 0, 1, 1]"
proof -
  let ?l = "ledger_new (dv_resource_capacity (demo_device 7 DeviceClass.DPU))"
  have "no_wrap ResourceRequest_init (lg_used ?l)"
    by (simp add: ledger_new_def no_wrap_def Usage_init_def ResourceRequest_init_def)
  moreover have "can_reserve ?l ResourceRequest_init" by code_simp
  moreover have "profile_nat (lg_cap ?l) = [1000, 8, 0, 4, 4]"
    "add_nats (usage_nat (lg_used ?l)) (request_nat ResourceRequest_init) = [0, 0, 0, 1, 1]"
    by (simp_all add: ledger_new_def demo_device_def profile_nat_def add_nats_def usage_nat_def
        request_nat_def Usage_init_def ResourceRequest_init_def)
  ultimately show ?thesis using admission_exact_below_wrap [of ResourceRequest_init ?l] by simp
qed

end
