(* ===== verification/CoreProps.thy ===== *)
theory CoreProps
  imports EngineProps
begin

text \<open>
  Properties of the data the engine is built on: error codes, identities, capability sets,
  authority tokens, ledgers, the arithmetic of the load checks and the device lifecycle.
\<close>

section \<open>Names and identities\<close>

text \<open>
  Error codes and their names correspond one to one: \<open>error_code_from_name\<close> accepts exactly
  the names \<open>error_code_name\<close> gives to the listed codes, and returns the code of that name.
\<close>

theorem error_code_roundtrip:
  "error_code_from_name s = Some c \<longleftrightarrow> c \<in> set all_error_codes \<and> s = error_code_name c"
  by (rule err.from_name_Some_iff)

text \<open>
  C39. The text form of an identity. Encoding gives sixteen characters that decode back to the
  identity, if its tag admits it; and decoding accepts a string exactly when it is a non-empty
  string of at most sixteen hexadecimal digits, in either case, whose value the tag admits, and
  returns that value. The overflow test of the loop never refuses a string of sixteen digits.
\<close>

theorem id_text_roundtrip:
  "id_decode tr (id_encode i) = (if id_valid tr i then Some i else None) \<and>
   length (id_encode i) = 16 \<and>
   (id_decode tr s = Some j \<longleftrightarrow>
      s \<noteq> [] \<and> length s \<le> 16 \<and> hex_number 0 s = Some (unat (as_u64 j)) \<and> id_valid tr j)"
  by (simp add: id_decode_encode id_decode_Some_iff) (simp add: id_encode_def length_encode_loop)

section \<open>Capabilities\<close>

text \<open>
  Capabilities fail closed. A key is authoritative exactly when the set has a record for it
  in state \<open>SUPPORTED\<close>; setting the state of one key makes it authoritative only when the new
  state is \<open>SUPPORTED\<close>, leaves every other key as it was, and never adds a record for an absent
  key unless that state is \<open>SUPPORTED\<close>.
\<close>

theorem capabilities_fail_closed:
  "(authoritative m k \<longleftrightarrow> (\<exists>c. map_find m k = Some c \<and> cp_state c = CapabilityState.SUPPORTED)) \<and>
   (authoritative (caps_set_state k st m) k \<longleftrightarrow> st = CapabilityState.SUPPORTED) \<and>
   (k' \<noteq> k \<longrightarrow> map_find (caps_set_state k st m) k' = map_find m k') \<and>
   (map_find m k = None \<and> st \<noteq> CapabilityState.SUPPORTED \<longrightarrow> caps_set_state k st m = m)"
proof -
  have "authoritative (caps_set_state k st m) k \<longleftrightarrow> st = CapabilityState.SUPPORTED"
    by (simp add: authoritative_iff supports_set_state)
  moreover have "k' \<noteq> k \<Longrightarrow> map_find (caps_set_state k st m) k' = map_find m k'"
    by (simp add: caps_set_state_def split: option.split)
  ultimately show ?thesis
    by (auto simp: authoritative_record satisfies_hard_def caps_set_state_def)
qed

theorem capabilities_fail_closed_witness:
  "caps_set_state (CapabilityKey ''rdma'') CapabilityState.UNKNOWN demo_caps = demo_caps \<and>
   map_find (caps_set_state (CapabilityKey ''rdma'') CapabilityState.SUPPORTED demo_caps)
     (CapabilityKey ''crypto'') = map_find demo_caps (CapabilityKey ''crypto'')"
proof -
  have "map_find demo_caps (CapabilityKey ''rdma'') = None" by code_simp
  then show ?thesis
    using capabilities_fail_closed [of demo_caps "CapabilityKey ''rdma''" CapabilityState.UNKNOWN]
      capabilities_fail_closed [of demo_caps "CapabilityKey ''rdma''" CapabilityState.SUPPORTED
        "CapabilityKey ''crypto''"]
    by simp
qed

section \<open>Authority tokens\<close>

text \<open>
  The token a commit grants is current in exactly one context: the coordinator's epoch and
  policy generation, the device's evidence generation and the generations and boots recorded in
  the deployment, with no worker. Changing any of the eleven components makes it stale.
\<close>

theorem granted_token_current_iff:
  "is_current (commit_authority s d dev) cur \<longleftrightarrow>
     ac_epoch cur = ls_epoch s \<and> ac_worker cur = null_id \<and>
     ac_worker_boot cur = dp_worker_boot d \<and> ac_device_boot cur = dp_device_boot d \<and>
     ac_device_gen cur = dp_device_gen d \<and> ac_service_gen cur = dp_service_gen d \<and>
     ac_program_gen cur = dp_program_gen d \<and> ac_deployment_gen cur = dp_generation d \<and>
     ac_activation_gen cur = dp_activation_gen d \<and>
     ac_policy_gen cur = po_generation (ls_policy s) \<and> ac_evidence_gen cur = dv_evidence_gen dev"
  by (auto simp: is_current_def commit_authority_def)

section \<open>Ledgers and reservations\<close>

text \<open>
  No sequence of admitted bookings and releases, in any order and with any amounts, takes a
  ledger past a capacity: a booking that does not fit changes nothing and a release that would
  go below zero changes nothing.
\<close>

theorem ledger_never_exceeds_capacity:
  "within_capacity (fold (\<lambda>x l. case x of
       Inl r \<Rightarrow> if can_reserve l r then ledger_apply r l else l
     | Inr r \<Rightarrow> ledger_release r l) ops (ledger_new cap))"
proof -
  have "(\<lambda>x l. case x of Inl r \<Rightarrow> if can_reserve l r then ledger_apply r l else l
      | Inr r \<Rightarrow> ledger_release r l) =
    (\<lambda>x. case x of Inl r \<Rightarrow> ledger.book_if r | Inr r \<Rightarrow> ledger_release r)"
    by (intro ext) (simp add: ledger.book_if_def split: sum.split)
  then show ?thesis
    using ledger.run_store_ok [OF within_capacity_new, of ops cap] by (simp add: ledger.run_store_def)
qed

text \<open>
  Scoped reservations. \<open>try_reserve\<close> succeeds exactly when the request fits and books it;
  destroying the object gives an uncommitted reservation back, restoring the ledger unless a
  sum wrapped, and leaves a committed one booked; an object that has been moved from does
  nothing when it is destroyed.
\<close>

theorem scoped_reservation_undone:
  "(is_ok (try_reserve r l) \<longleftrightarrow> can_reserve l r) \<and>
   (try_reserve r l = Inr (res, l') \<longrightarrow>
      l' = ledger_apply r l \<and>
      (reservation_destroy res l' = l \<longleftrightarrow> no_wrap r (lg_used l)) \<and>
      reservation_destroy (reservation_commit res) l' = l' \<and>
      reservation_destroy (snd (reservation_move res)) l' = l' \<and>
      fst (reservation_move res) = res)"
  by (auto simp: try_reserve_def is_ok_def reservation_open_def reservation_destroy_def
      reservation_commit_def reservation_move_def release_apply throw_error_def)

theorem scoped_reservation_undone_witness:
  "reservation_destroy (fst (reservation_open ResourceRequest_init (ledger_new ResourceProfile_init)))
     (ledger_apply ResourceRequest_init (ledger_new ResourceProfile_init)) =
   ledger_new ResourceProfile_init"
proof -
  let ?l = "ledger_new ResourceProfile_init" and ?r = ResourceRequest_init
  have "can_reserve ?l ?r" by code_simp
  then have "try_reserve ?r ?l = Inr (fst (reservation_open ?r ?l), ledger_apply ?r ?l)"
    by (simp add: try_reserve_def reservation_open_def)
  moreover have "no_wrap ?r (lg_used ?l)"
    by (simp add: no_wrap_def ledger_new_def Usage_init_def ResourceRequest_init_def)
  ultimately show ?thesis using scoped_reservation_undone [of ?r ?l] by blast
qed

section \<open>Load checks\<close>

text \<open>
  The headroom test is not exact. A device with 29 of 100 queues free has exactly 29 percent
  headroom and is rejected under a policy that asks for 29: the quotient 29/100 is rounded down
  to a double and the product with 100 stays below 29. An idle device has 100 percent and a
  device with an exhausted dimension 0.
\<close>

theorem headroom_rounding:
  "headroom_pct (DeviceRecord_init\<lparr>dv_resource_capacity := ResourceProfile_init\<lparr>rp_queues := 100\<rparr>\<rparr>)
     (Usage_init\<lparr>us_queues := 71\<rparr>) < 29 \<and>
   load_rejections ((Policy_defaults g)\<lparr>po_min_headroom := 29\<rparr>)
     (DeviceRecord_init\<lparr>dv_resource_capacity := ResourceProfile_init\<lparr>rp_queues := 100\<rparr>\<rparr>)
     (Usage_init\<lparr>us_queues := 71\<rparr>) = [RejectionReason.HEADROOM_LOW] \<and>
   headroom_pct dev Usage_init = 100"
proof -
  let ?dev = "DeviceRecord_init\<lparr>dv_resource_capacity := ResourceProfile_init\<lparr>rp_queues := 100\<rparr>\<rparr>"
  let ?u = "Usage_init\<lparr>us_queues := 71\<rparr>"
  have low: "headroom_pct ?dev ?u < 29" "\<not> d_mul (queue_pressure ?dev ?u) 100 > 90" by code_simp+
  have "d_of_u64 29 = 29" "d_of_u64 90 = 90" by code_simp+
  with low have "load_rejections ((Policy_defaults g)\<lparr>po_min_headroom := 29\<rparr>) ?dev ?u =
      [RejectionReason.HEADROOM_LOW]"
    by (simp add: load_rejections_def reject_def Policy_defaults_def Policy_init_def)
  moreover have "headroom_frac 0 c = 1" for c
  proof (cases "c = 0")
    case False
    then have "1 \<le> d_of_u64 c" by (rule d_of_u64_pos)
    then have "d_of_u64 c \<noteq> 0" by auto
    with False show ?thesis by (simp add: headroom_frac_def d_div_def word_gt_0)
  qed (simp add: headroom_frac_def)
  then have "headroom_pct dev Usage_init = 100"
    by (simp add: headroom_pct_def Let_def Usage_init_def d_mul_def rnd_numeral)
  ultimately show ?thesis using low(1) by simp
qed

section \<open>Device lifecycle\<close>

text \<open>
  \<open>transition_device\<close> enforces the device lifecycle: it succeeds exactly when the device is
  registered and the table lists the new state as a successor of its state, the device is then
  in the new state, and a retired device is refused every transition. \<open>update_device\<close> does not:
  it replaces the record of a registered device by any record with the same identity and no
  conflicting PCI reference, and so can take a retired device back to \<open>READY\<close>.
\<close>

theorem device_lifecycle_enforced:
  "(fst (transition_device i to e) = Inr () \<longleftrightarrow>
      (\<exists>rec. map_find (ls_devices (en_state e)) i = Some rec \<and>
         valid_device_transition (dv_lifecycle rec) to)) \<and>
   (fst (transition_device i to e) = Inr () \<longrightarrow>
      map_option dv_lifecycle (map_find (ls_devices (en_state (snd (transition_device i to e)))) i) =
        Some to) \<and>
   (map_option dv_lifecycle (map_find (ls_devices (en_state e)) i) = Some DeviceLifecycle.RETIRED \<longrightarrow>
      fst (transition_device i to e) \<noteq> Inr ()) \<and>
   (map_find (ls_devices (en_state e)) i = Some rec \<and> i \<noteq> null_id \<and> dv_device_id rec = i \<longrightarrow>
      map_find (ls_devices (en_state (snd (update_device
        (rec\<lparr>dv_lifecycle := DeviceLifecycle.READY, dv_evidence_fresh := True\<rparr>) e)))) i =
        Some (rec\<lparr>dv_lifecycle := DeviceLifecycle.READY, dv_evidence_fresh := True\<rparr>))"
  by (auto simp: transition_device_def update_device_def Let_def throw_error_def
      split: option.splits)

theorem device_lifecycle_enforced_witness:
  "fst (transition_device (Id 7) DeviceLifecycle.READY
     (demo_engine (demo_registered @ [Retire_Device (Id 7)]))) \<noteq> Inr () \<and>
   map_option dv_lifecycle (map_find (ls_devices (en_state (snd (update_device
     (demo_device 7 DeviceClass.DPU) (demo_engine (demo_registered @ [Retire_Device (Id 7)]))))))
     (Id 7)) = Some DeviceLifecycle.READY"
proof -
  let ?e = "demo_engine (demo_registered @ [Retire_Device (Id 7)])"
  have retired: "map_find (ls_devices (en_state ?e)) (Id 7) =
      Some ((demo_device 7 DeviceClass.DPU)\<lparr>dv_lifecycle := DeviceLifecycle.RETIRED,
        dv_evidence_fresh := False\<rparr>)"
    by code_simp
  have "(demo_device 7 DeviceClass.DPU)\<lparr>dv_lifecycle := DeviceLifecycle.READY,
      dv_evidence_fresh := True\<rparr> = demo_device 7 DeviceClass.DPU" by code_simp
  moreover have "(Id 7 :: DeviceId) \<noteq> null_id" by (simp add: null_id_def)
  moreover have "dv_device_id (demo_device 7 DeviceClass.DPU) = Id 7" by code_simp
  ultimately show ?thesis
    using retired device_lifecycle_enforced [of "Id 7" DeviceLifecycle.READY ?e
        "(demo_device 7 DeviceClass.DPU)\<lparr>dv_lifecycle := DeviceLifecycle.RETIRED,
          dv_evidence_fresh := False\<rparr>"]
    by (simp add: demo_device_def)
qed

end
