(* ===== verification/Wire.thy ===== *)
theory Wire
  imports Prelude
begin

unbundle bit_operations_syntax

text \<open>
  The bounded binary writer and reader and the checksum of \<^verbatim>\<open>include/dpufabric/wire.h\<close>.

  A writer is the buffer it has filled. A reader is its data with its position; a read returns
  the value and the advanced reader, or the error it throws, in which case nothing was read
  past the end. \<^verbatim>\<open>std::string\<close> holds bytes; a character and a byte are converted by value.

  The locale \<open>codec\<close> is the contract of a pair of write and read functions: what is written is
  read back, from any position and with anything behind it. It gives the contract for
  sequences; the interpretations give it for every primitive of the format.
\<close>

section \<open>Bounds\<close>

definition kMaxStringBytes :: nat where
  "kMaxStringBytes = 1048576"

definition kMaxContainerCount :: nat where
  "kMaxContainerCount = 1048576"

definition kMaxBlobBytes :: nat where
  "kMaxBlobBytes = 67108864"

section \<open>Writer\<close>

type_synonym Writer = bytes

definition byte_of_char :: "char \<Rightarrow> u8" where
  "byte_of_char c = of_nat (of_char c)"

definition char_of_byte :: "u8 \<Rightarrow> char" where
  "char_of_byte b = char_of (unat b)"

definition w_u8 :: "u8 \<Rightarrow> Writer \<Rightarrow> Writer" where
  "w_u8 v w = w @ [v]"

definition w_u16 :: "u16 \<Rightarrow> Writer \<Rightarrow> Writer" where
  "w_u16 v w = w_u8 (ucast (drop_bit 8 v AND 0xFF)) (w_u8 (ucast (v AND 0xFF)) w)"

definition w_u32 :: "u32 \<Rightarrow> Writer \<Rightarrow> Writer" where
  "w_u32 v w = w_u16 (ucast (drop_bit 16 v AND 0xFFFF)) (w_u16 (ucast (v AND 0xFFFF)) w)"

definition w_u64 :: "u64 \<Rightarrow> Writer \<Rightarrow> Writer" where
  "w_u64 v w = w_u32 (ucast (drop_bit 32 v AND 0xFFFFFFFF)) (w_u32 (ucast (v AND 0xFFFFFFFF)) w)"

definition w_raw :: "bytes \<Rightarrow> Writer \<Rightarrow> Writer" where
  "w_raw s w = w @ s"

definition w_str :: "string \<Rightarrow> Writer \<Rightarrow> Writer result" where
  "w_str s w =
     (if length s > kMaxStringBytes
      then throw_error ErrorCode.INVALID_ARGUMENT ''string too long to encode''
      else Inr (w_raw (map byte_of_char s) (w_u32 (of_nat (length s)) w)))"

section \<open>Reader\<close>

record Reader =
  rd_data :: bytes
  rd_pos :: nat

type_synonym 'a reader = "Reader \<Rightarrow> ('a \<times> Reader) result"

definition reader_new :: "bytes \<Rightarrow> Reader" where
  "reader_new d = \<lparr>rd_data = d, rd_pos = 0\<rparr>"

definition at_end :: "Reader \<Rightarrow> bool" where
  "at_end r \<longleftrightarrow> rd_pos r \<ge> length (rd_data r)"

definition remaining :: "Reader \<Rightarrow> nat" where
  "remaining r = length (rd_data r) - rd_pos r"

definition r_return :: "'a \<Rightarrow> 'a reader" where
  "r_return x r = Inr (x, r)"

definition r_bind :: "'a reader \<Rightarrow> ('a \<Rightarrow> 'b reader) \<Rightarrow> 'b reader" where
  "r_bind m k r = (case m r of Inl f \<Rightarrow> Inl f | Inr (x, r') \<Rightarrow> k x r')"

definition r_throw :: "ErrorCode \<Rightarrow> string \<Rightarrow> 'a reader" where
  "r_throw c msg r = throw_error c msg"

definition require :: "nat \<Rightarrow> unit reader" where
  "require n r =
     (if n > remaining r then throw_error ErrorCode.PROTOCOL_ERROR ''truncated message''
      else Inr ((), r))"

text \<open>\<open>r_raw n\<close> is the next \<open>n\<close> bytes, after \<open>require\<close>.\<close>

definition r_raw :: "nat \<Rightarrow> bytes reader" where
  "r_raw n = r_bind (require n) (\<lambda>_ r.
     Inr (take n (drop (rd_pos r) (rd_data r)), r\<lparr>rd_pos := rd_pos r + n\<rparr>))"

definition r_u8 :: "u8 reader" where
  "r_u8 = r_bind (require 1) (\<lambda>_ r. Inr (rd_data r ! rd_pos r, r\<lparr>rd_pos := rd_pos r + 1\<rparr>))"

definition r_u16 :: "u16 reader" where
  "r_u16 = r_bind (require 2) (\<lambda>_ r.
     let lo = ucast (rd_data r ! rd_pos r) :: u16; hi = ucast (rd_data r ! (rd_pos r + 1)) :: u16
     in Inr (lo OR push_bit 8 hi, r\<lparr>rd_pos := rd_pos r + 2\<rparr>))"

definition r_u32 :: "u32 reader" where
  "r_u32 = r_bind (require 4) (\<lambda>_ r.
     let p = rd_pos r; d = rd_data r;
         v = ucast (d ! p) OR push_bit 8 (ucast (d ! (p + 1)))
             OR push_bit 16 (ucast (d ! (p + 2))) OR push_bit 24 (ucast (d ! (p + 3))) :: u32
     in Inr (v, r\<lparr>rd_pos := p + 4\<rparr>))"

definition r_u64 :: "u64 reader" where
  "r_u64 = r_bind r_u32 (\<lambda>lo. r_bind r_u32 (\<lambda>hi.
     r_return (ucast lo OR push_bit 32 (ucast hi))))"

definition r_str :: "string reader" where
  "r_str = r_bind r_u32 (\<lambda>len.
     if unat len > kMaxStringBytes
     then r_throw ErrorCode.INVALID_ARGUMENT ''string length exceeds bound''
     else r_bind (r_raw (unat len)) (\<lambda>b. r_return (map char_of_byte b)))"

definition r_blob :: "bytes reader" where
  "r_blob = r_bind r_u32 (\<lambda>len.
     if unat len > kMaxBlobBytes
     then r_throw ErrorCode.INVALID_ARGUMENT ''blob length exceeds bound''
     else r_raw (unat len))"

definition expect_end :: "unit reader" where
  "expect_end r =
     (if \<not> at_end r then throw_error ErrorCode.PROTOCOL_ERROR ''trailing bytes after message''
      else Inr ((), r))"

text \<open>\<^verbatim>\<open>for (i = 0; i < n; ++i) out.push_back(get(r))\<close>\<close>

fun r_times :: "nat \<Rightarrow> 'a reader \<Rightarrow> 'a list reader" where
  "r_times 0 g = r_return []"
| "r_times (Suc n) g = r_bind g (\<lambda>x. r_bind (r_times n g) (\<lambda>xs. r_return (x # xs)))"

section \<open>Checksum\<close>

definition crc_step :: "u32 \<Rightarrow> u32" where
  "crc_step crc =
     (let mask = - (crc AND 1) in drop_bit 1 crc XOR (0xEDB88320 AND mask))"

definition crc_byte :: "u8 \<Rightarrow> u32 \<Rightarrow> u32" where
  "crc_byte b crc = (crc_step ^^ 8) (crc XOR ucast b)"

definition crc32_compute :: "bytes \<Rightarrow> u32 \<Rightarrow> u32" where
  "crc32_compute data seed = NOT (fold crc_byte data seed)"

definition crc32 :: "bytes \<Rightarrow> u32" where
  "crc32 data = crc32_compute data 0xFFFFFFFF"

section \<open>Bytes of words\<close>

lemma mask_numerals:
  "(0xFF :: 'a :: len word) = mask 8" "(0xFFFF :: 'a word) = mask 16" "(0xFFFFFFFF :: 'a word) = mask 32"
  by (simp_all add: mask_eq_exp_minus_1)

lemmas bits_of_words =
  bit_and_iff bit_or_iff bit_xor_iff bit_not_iff bit_push_bit_iff bit_drop_bit_eq bit_mask_iff
  bit_unsigned_iff

lemma u16_bytes:
  "ucast (ucast (v AND 0xFF) :: u8) OR push_bit 8 (ucast (ucast (drop_bit 8 v AND 0xFF) :: u8)) = v"
  for v :: u16
  unfolding mask_numerals by (rule bit_word_eqI) (auto simp: bits_of_words)

definition bytes16 :: "u16 \<Rightarrow> bytes" where
  "bytes16 v = [ucast (v AND 0xFF), ucast (drop_bit 8 v AND 0xFF)]"

definition bytes32 :: "u32 \<Rightarrow> bytes" where
  "bytes32 v = bytes16 (ucast (v AND 0xFFFF)) @ bytes16 (ucast (drop_bit 16 v AND 0xFFFF))"

definition bytes64 :: "u64 \<Rightarrow> bytes" where
  "bytes64 v = bytes32 (ucast (v AND 0xFFFFFFFF)) @ bytes32 (ucast (drop_bit 32 v AND 0xFFFFFFFF))"

lemma writer_appends [simp]:
  "w_u8 v8 w = w @ [v8]" "w_u16 v16 w = w @ bytes16 v16" "w_u32 v32 w = w @ bytes32 v32"
  "w_u64 v64 w = w @ bytes64 v64" "w_raw s w = w @ s"
  by (simp_all add: w_u8_def w_u16_def w_u32_def w_u64_def w_raw_def bytes16_def bytes32_def
      bytes64_def)

lemma length_bytes [simp]:
  "length (bytes16 v16) = 2" "length (bytes32 v32) = 4" "length (bytes64 v64) = 8"
  by (simp_all add: bytes16_def bytes32_def bytes64_def)

definition word16 :: "u8 \<Rightarrow> u8 \<Rightarrow> u16" where
  "word16 a b = ucast a OR push_bit 8 (ucast b)"

definition word32 :: "u8 \<Rightarrow> u8 \<Rightarrow> u8 \<Rightarrow> u8 \<Rightarrow> u32" where
  "word32 a b c d =
     ucast a OR push_bit 8 (ucast b) OR push_bit 16 (ucast c) OR push_bit 24 (ucast d)"

definition word64 :: "u32 \<Rightarrow> u32 \<Rightarrow> u64" where
  "word64 lo hi = ucast lo OR push_bit 32 (ucast hi)"

lemma word16_bytes: "bytes16 v = [a, b] \<longleftrightarrow> v = word16 a b"
proof
  assume "bytes16 v = [a, b]"
  then show "v = word16 a b" using u16_bytes [of v] by (auto simp: bytes16_def word16_def)
next
  assume v: "v = word16 a b"
  have "ucast (v AND mask 8) = a" "ucast (drop_bit 8 v AND mask 8) = b"
    unfolding v word16_def by (rule bit_word_eqI; auto simp: bits_of_words dest: bit_imp_le_length)+
  then show "bytes16 v = [a, b]" by (simp add: bytes16_def mask_numerals)
qed

lemma bytes32_flat:
  "bytes32 v = [ucast v, ucast (drop_bit 8 v), ucast (drop_bit 16 v), ucast (drop_bit 24 v)]"
  unfolding bytes32_def bytes16_def mask_numerals
  by (simp; intro conjI; rule bit_word_eqI; auto simp: bits_of_words)

lemma word32_bytes: "bytes32 v = [a, b, c, d] \<longleftrightarrow> v = word32 a b c d"
proof
  assume "bytes32 v = [a, b, c, d]"
  then have "a = ucast v" "b = ucast (drop_bit 8 v)" "c = ucast (drop_bit 16 v)"
    "d = ucast (drop_bit 24 v)" by (simp_all add: bytes32_flat)
  then show "v = word32 a b c d"
    unfolding word32_def by (simp only:, intro bit_word_eqI) (auto simp: bits_of_words not_less less_diff_conv2,
      metis le_add_diff_inverse not_less)
next
  assume v: "v = word32 a b c d"
  have "ucast v = a" "ucast (drop_bit 8 v) = b" "ucast (drop_bit 16 v) = c"
    "ucast (drop_bit 24 v) = d"
    unfolding v word32_def by (rule bit_word_eqI; auto simp: bits_of_words dest: bit_imp_le_length)+
  then show "bytes32 v = [a, b, c, d]" by (simp add: bytes32_flat)
qed

lemma word64_halves: "ucast (v AND 0xFFFFFFFF) = lo \<and> ucast (drop_bit 32 v AND 0xFFFFFFFF) = hi \<longleftrightarrow>
    v = word64 lo hi" for v :: u64
proof
  assume a: "ucast (v AND 0xFFFFFFFF) = lo \<and> ucast (drop_bit 32 v AND 0xFFFFFFFF) = hi"
  have "v = word64 (ucast (v AND mask 32)) (ucast (drop_bit 32 v AND mask 32))"
    unfolding word64_def by (rule bit_word_eqI) (auto simp: bits_of_words)
  with a show "v = word64 lo hi" unfolding mask_numerals by simp
next
  assume v: "v = word64 lo hi"
  have "ucast (v AND mask 32) = lo" "ucast (drop_bit 32 v AND mask 32) = hi"
    unfolding v word64_def by (rule bit_word_eqI; auto simp: bits_of_words dest: bit_imp_le_length)+
  then show "ucast (v AND 0xFFFFFFFF) = lo \<and> ucast (drop_bit 32 v AND 0xFFFFFFFF) = hi"
    by (simp add: mask_numerals)
qed

section \<open>The contract of a codec\<close>

text \<open>The reader that has consumed \<open>pre\<close> and has \<open>rest\<close> before it.\<close>

definition reader_at :: "bytes \<Rightarrow> bytes \<Rightarrow> Reader" where
  "reader_at pre rest = \<lparr>rd_data = pre @ rest, rd_pos = length pre\<rparr>"

lemma reader_new_at: "reader_new d = reader_at [] d"
  by (simp add: reader_new_def reader_at_def)

lemma remaining_at [simp]: "remaining (reader_at pre rest) = length rest"
  by (simp add: remaining_def reader_at_def)

lemma at_end_at [simp]: "at_end (reader_at pre rest) \<longleftrightarrow> rest = []"
  by (auto simp: at_end_def reader_at_def)

text \<open>Writing a sequence element by element.\<close>

fun w_all :: "('a \<Rightarrow> Writer \<Rightarrow> Writer result) \<Rightarrow> 'a list \<Rightarrow> Writer \<Rightarrow> Writer result" where
  "w_all put [] w = Inr w"
| "w_all put (x # xs) w = res_bind (put x w) (w_all put xs)"

lemma r_bind_Inr:
  "r_bind m k r = Inr z \<longleftrightarrow> (\<exists>x r'. m r = Inr (x, r') \<and> k x r' = Inr z)"
  by (auto simp: r_bind_def split: sum.splits)

lemma r_bind_eq: "m r = Inr (x, r') \<Longrightarrow> r_bind m k r = k x r'"
  by (simp add: r_bind_def)

locale codec =
  fixes put :: "'a \<Rightarrow> Writer \<Rightarrow> Writer result"
    and get :: "'a reader"
    and ok :: "'a \<Rightarrow> bool"
    and enc :: "'a \<Rightarrow> bytes"
  assumes put_enc: "ok a \<Longrightarrow> put a w = Inr (w @ enc a)"
    and get_enc: "ok a \<Longrightarrow> get (reader_at pre (enc a @ post)) = Inr (a, reader_at (pre @ enc a) post)"
begin

lemma bind_enc [simp]:
  "ok a \<Longrightarrow> r_bind get k (reader_at pre (enc a @ post)) = k a (reader_at (pre @ enc a) post)"
  by (rule r_bind_eq) (rule get_enc)

theorem round_trip: "ok a \<Longrightarrow> put a [] = Inr bs \<Longrightarrow> get (reader_new (bs @ post)) = Inr (a, reader_at bs post)"
  using get_enc [of a "[]" post] by (simp add: put_enc reader_new_at)

lemma put_all: "list_all ok xs \<Longrightarrow> w_all put xs w = Inr (w @ concat (map enc xs))"
  by (induction xs arbitrary: w) (simp_all add: put_enc)

lemma get_all:
  "list_all ok xs \<Longrightarrow>
   r_times (length xs) get (reader_at pre (concat (map enc xs) @ post)) =
     Inr (xs, reader_at (pre @ concat (map enc xs)) post)"
  by (induction xs arbitrary: pre) (simp_all add: r_return_def r_bind_def get_enc)

end

text \<open>A codec whose reader accepts nothing but what its writer produces.\<close>

locale canonical_codec = codec +
  assumes get_only: "get (reader_at pre rest) = Inr (a, r) \<Longrightarrow>
    ok a \<and> (\<exists>post. rest = enc a @ post \<and> r = reader_at (pre @ enc a) post)"
begin

lemma get_iff:
  "get (reader_at pre rest) = Inr (a, r) \<longleftrightarrow>
     ok a \<and> (\<exists>post. rest = enc a @ post \<and> r = reader_at (pre @ enc a) post)"
  using get_only get_enc by blast

lemma get_all_only:
  "r_times n get (reader_at pre rest) = Inr (xs, r) \<Longrightarrow>
   length xs = n \<and> list_all ok xs \<and>
   (\<exists>post. rest = concat (map enc xs) @ post \<and> r = reader_at (pre @ concat (map enc xs)) post)"
proof (induction n arbitrary: pre rest xs)
  case (Suc n)
  then obtain x r1 xs' where x: "get (reader_at pre rest) = Inr (x, r1)"
    and xs: "xs = x # xs'" "r_times n get r1 = Inr (xs', r)"
    by (auto simp: r_bind_def r_return_def split: sum.splits prod.splits)
  obtain post where p: "ok x" "rest = enc x @ post" "r1 = reader_at (pre @ enc x) post"
    using get_only [OF x] by blast
  from Suc.IH [of "pre @ enc x" post xs'] xs(2) p(3)
  have "length xs' = n \<and> list_all ok xs' \<and> (\<exists>post'. post = concat (map enc xs') @ post' \<and>
      r = reader_at ((pre @ enc x) @ concat (map enc xs')) post')" by simp
  with xs(1) p show ?case by auto
qed (auto simp: r_return_def)

end

section \<open>The primitives meet the contract\<close>

lemma r_raw_at:
  "r_raw n (reader_at pre rest) =
     (if n > length rest then throw_error ErrorCode.PROTOCOL_ERROR ''truncated message''
      else Inr (take n rest, reader_at (pre @ take n rest) (drop n rest)))"
  by (simp add: r_raw_def r_bind_def require_def throw_error_def) (simp add: reader_at_def)

lemma r_bind_raw_rest [simp]:
  "r_bind (r_raw (length p)) k (reader_at pre p) = k p (reader_at (pre @ p) [])"
  by (simp add: r_bind_def r_raw_at)

lemma r_u8_at:
  "r_u8 (reader_at pre rest) =
     (case rest of [] \<Rightarrow> throw_error ErrorCode.PROTOCOL_ERROR ''truncated message''
      | b # post \<Rightarrow> Inr (b, reader_at (pre @ [b]) post))"
  by (cases rest) (simp_all add: r_u8_def r_bind_def require_def throw_error_def,
      simp add: reader_at_def nth_append)

lemma r_u16_at:
  "r_u16 (reader_at pre rest) =
     (case rest of a # b # post \<Rightarrow> Inr (word16 a b, reader_at (pre @ [a, b]) post)
      | _ \<Rightarrow> throw_error ErrorCode.PROTOCOL_ERROR ''truncated message'')"
  by (auto simp: r_u16_def r_bind_def require_def throw_error_def word16_def split: list.splits)
    (simp_all add: reader_at_def nth_append)

lemma r_u32_at:
  "r_u32 (reader_at pre rest) =
     (case rest of a # b # c # d # post \<Rightarrow>
        Inr (word32 a b c d, reader_at (pre @ [a, b, c, d]) post)
      | _ \<Rightarrow> throw_error ErrorCode.PROTOCOL_ERROR ''truncated message'')"
  by (auto simp: r_u32_def r_bind_def require_def throw_error_def word32_def split: list.splits)
    (simp_all add: reader_at_def nth_append eval_nat_numeral)

interpretation u8_codec: canonical_codec "\<lambda>v w. Inr (w_u8 v w)" r_u8 "\<lambda>_. True" "\<lambda>v. [v]"
  by unfold_locales (auto simp: r_u8_at throw_error_def split: list.splits)

interpretation u16_codec: canonical_codec "\<lambda>v w. Inr (w_u16 v w)" r_u16 "\<lambda>_. True" bytes16
proof unfold_locales
  fix a :: u16 and pre post :: bytes
  obtain x y where xy: "bytes16 a = [x, y]" by (simp add: bytes16_def)
  then show "r_u16 (reader_at pre (bytes16 a @ post)) = Inr (a, reader_at (pre @ bytes16 a) post)"
    using word16_bytes [of a x y] by (simp add: r_u16_at)
next
  fix pre rest a r
  assume "r_u16 (reader_at pre rest) = Inr (a, r)"
  then obtain x y post where "rest = x # y # post" "a = word16 x y" "r = reader_at (pre @ [x, y]) post"
    by (auto simp: r_u16_at throw_error_def split: list.splits)
  then show "True \<and> (\<exists>post. rest = bytes16 a @ post \<and> r = reader_at (pre @ bytes16 a) post)"
    using word16_bytes [of a x y] by auto
qed simp

interpretation u32_codec: canonical_codec "\<lambda>v w. Inr (w_u32 v w)" r_u32 "\<lambda>_. True" bytes32
proof unfold_locales
  fix a :: u32 and pre post :: bytes
  obtain b c d e where bs: "bytes32 a = [b, c, d, e]" by (simp add: bytes32_flat)
  then show "r_u32 (reader_at pre (bytes32 a @ post)) = Inr (a, reader_at (pre @ bytes32 a) post)"
    using word32_bytes [of a b c d e] by (simp add: r_u32_at)
next
  fix pre rest a r
  assume "r_u32 (reader_at pre rest) = Inr (a, r)"
  then obtain b c d e post where "rest = b # c # d # e # post" "a = word32 b c d e"
      "r = reader_at (pre @ [b, c, d, e]) post"
    by (auto simp: r_u32_at throw_error_def split: list.splits)
  then show "True \<and> (\<exists>post. rest = bytes32 a @ post \<and> r = reader_at (pre @ bytes32 a) post)"
    using word32_bytes [of a b c d e] by auto
qed simp

interpretation u64_codec: canonical_codec "\<lambda>v w. Inr (w_u64 v w)" r_u64 "\<lambda>_. True" bytes64
proof unfold_locales
  fix a :: u64 and pre post :: bytes
  let ?lo = "ucast (a AND 0xFFFFFFFF) :: u32" and ?hi = "ucast (drop_bit 32 a AND 0xFFFFFFFF) :: u32"
  have "r_u32 (reader_at pre (bytes64 a @ post)) =
      Inr (?lo, reader_at (pre @ bytes32 ?lo) (bytes32 ?hi @ post))"
    using u32_codec.get_enc [where a = ?lo and pre = pre and post = "bytes32 ?hi @ post"] by (simp add: bytes64_def)
  moreover have "r_u32 (reader_at (pre @ bytes32 ?lo) (bytes32 ?hi @ post)) =
      Inr (?hi, reader_at (pre @ bytes64 a) post)"
    using u32_codec.get_enc [where a = ?hi and pre = "pre @ bytes32 ?lo" and post = post] by (simp add: bytes64_def)
  ultimately show "r_u64 (reader_at pre (bytes64 a @ post)) = Inr (a, reader_at (pre @ bytes64 a) post)"
    using word64_halves [of a ?lo ?hi] by (simp add: r_u64_def r_bind_eq r_return_def word64_def)
next
  fix pre rest a r
  assume "r_u64 (reader_at pre rest) = Inr (a, r)"
  then obtain lo hi r1 where lo: "r_u32 (reader_at pre rest) = Inr (lo, r1)"
    and hi: "r_u32 r1 = Inr (hi, r)" and a: "a = word64 lo hi"
    by (auto simp: r_u64_def r_bind_Inr r_return_def word64_def)
  from u32_codec.get_only [OF lo] obtain post where
    p: "rest = bytes32 lo @ post" "r1 = reader_at (pre @ bytes32 lo) post" by auto
  from u32_codec.get_only [OF hi [unfolded p(2)]] obtain post' where
    q: "post = bytes32 hi @ post'" "r = reader_at ((pre @ bytes32 lo) @ bytes32 hi) post'" by auto
  have "bytes64 a = bytes32 lo @ bytes32 hi"
    using word64_halves [of a lo hi] a by (simp add: bytes64_def)
  with p q show "True \<and> (\<exists>post. rest = bytes64 a @ post \<and> r = reader_at (pre @ bytes64 a) post)"
    by auto
qed simp

definition str_bytes :: "string \<Rightarrow> bytes" where
  "str_bytes s = bytes32 (of_nat (length s)) @ map byte_of_char s"

definition str_ok :: "string \<Rightarrow> bool" where
  "str_ok s \<longleftrightarrow> length s \<le> kMaxStringBytes"

lemma char_of_byte_of_char [simp]: "char_of_byte (byte_of_char c) = c"
  by (simp add: char_of_byte_def byte_of_char_def unat_of_nat)

lemma byte_of_char_of_byte [simp]: "byte_of_char (char_of_byte b) = b"
  using unsigned_less [of b, where ?'a = nat]
  by (simp add: char_of_byte_def byte_of_char_def)

lemma map_char_bytes [simp]:
  "map char_of_byte (map byte_of_char s) = s" "map byte_of_char (map char_of_byte b) = b"
  by (simp_all add: comp_def)

lemma unat_of_length: "n \<le> kMaxBlobBytes \<Longrightarrow> unat (of_nat n :: u32) = n"
  by (simp add: unat_of_nat kMaxBlobBytes_def)

interpretation str_codec: canonical_codec w_str r_str str_ok str_bytes
proof unfold_locales
  fix s :: string and w :: Writer
  assume "str_ok s"
  then show "w_str s w = Inr (w @ str_bytes s)"
    by (simp add: w_str_def str_ok_def str_bytes_def)
next
  fix s :: string and pre post :: bytes
  assume s: "str_ok s"
  then have n: "unat (of_nat (length s) :: u32) = length s"
    by (intro unat_of_length) (simp add: str_ok_def kMaxStringBytes_def kMaxBlobBytes_def)
  have "r_u32 (reader_at pre (str_bytes s @ post)) = Inr (of_nat (length s),
      reader_at (pre @ bytes32 (of_nat (length s))) (map byte_of_char s @ post))"
    using u32_codec.get_enc [where a = "of_nat (length s)" and pre = pre and
        post = "map byte_of_char s @ post"]
    by (simp add: str_bytes_def)
  then show "r_str (reader_at pre (str_bytes s @ post)) = Inr (s, reader_at (pre @ str_bytes s) post)"
    using s n by (simp add: r_str_def r_bind_eq r_raw_at r_bind_def r_return_def str_bytes_def
        str_ok_def del: map_map)
next
  fix pre rest s r
  assume "r_str (reader_at pre rest) = Inr (s, r)"
  then obtain len r1 b where len: "r_u32 (reader_at pre rest) = Inr (len, r1)"
    and bound: "unat len \<le> kMaxStringBytes"
    and raw: "r_raw (unat len) r1 = Inr (b, r)" and s: "s = map char_of_byte b"
    by (auto simp: r_str_def r_bind_Inr r_throw_def r_return_def not_less split: if_splits)
  from u32_codec.get_only [OF len] obtain post where
    p: "rest = bytes32 len @ post" "r1 = reader_at (pre @ bytes32 len) post" by auto
  from raw have q: "unat len \<le> length post" "b = take (unat len) post"
      "r = reader_at ((pre @ bytes32 len) @ b) (drop (unat len) post)"
    by (auto simp: p(2) r_raw_at throw_error_def split: if_splits)
  have "of_nat (length s) = len" using s q by simp
  then have "str_bytes s = bytes32 len @ b" using s by (simp add: str_bytes_def del: map_map)
  moreover have "str_ok s" using bound s q by (simp add: str_ok_def)
  ultimately show "str_ok s \<and> (\<exists>post. rest = str_bytes s @ post \<and>
      r = reader_at (pre @ str_bytes s) post)"
    using p q by (intro conjI exI [of _ "drop (unat len) post"]) simp_all
qed

section \<open>The errors a reader can throw\<close>

definition throws_only :: "ErrorCode set \<Rightarrow> 'a reader \<Rightarrow> bool" where
  "throws_only cs m \<longleftrightarrow> (\<forall>r x. m r = Inl x \<longrightarrow> (\<exists>e. x = Thrown e \<and> err_code e \<in> cs))"

lemma throws_onlyD: "throws_only cs m \<Longrightarrow> m r = Inl x \<Longrightarrow> \<exists>e. x = Thrown e \<and> err_code e \<in> cs"
  by (simp add: throws_only_def)

lemma throws_bind [throws_intros]: "throws_only cs m \<Longrightarrow> (\<And>x. throws_only cs (k x)) \<Longrightarrow> throws_only cs (r_bind m k)"
  by (force simp: throws_only_def r_bind_def split: sum.splits prod.splits)

lemma throws_if [throws_intros]:
  "(b \<Longrightarrow> throws_only cs m) \<Longrightarrow> (\<not> b \<Longrightarrow> throws_only cs m') \<Longrightarrow> throws_only cs (if b then m else m')"
  by simp

lemma throws_throw [throws_intros]: "c \<in> cs \<Longrightarrow> throws_only cs (r_throw c msg)"
  by (simp add: throws_only_def r_throw_def throw_error_def make_error_def)

lemma throws_return [throws_intros]: "throws_only cs (r_return x)" "throws_only cs (\<lambda>r. Inr (f r))"
  by (simp_all add: throws_only_def r_return_def)

lemma throws_require [throws_intros]: "ErrorCode.PROTOCOL_ERROR \<in> cs \<Longrightarrow> throws_only cs (require n)"
  by (simp add: throws_only_def require_def throw_error_def make_error_def)

lemma throws_expect_end [throws_intros]: "ErrorCode.PROTOCOL_ERROR \<in> cs \<Longrightarrow> throws_only cs expect_end"
  by (simp add: throws_only_def expect_end_def throw_error_def make_error_def)

lemma throws_primitives [throws_intros]:
  assumes "ErrorCode.PROTOCOL_ERROR \<in> cs"
  shows "throws_only cs r_u8" "throws_only cs r_u16" "throws_only cs r_u32"
    "throws_only cs (r_raw n)" "throws_only cs r_u64"
proof -
  note rules = throws_bind throws_require throws_return assms
  show "throws_only cs r_u8" unfolding r_u8_def by (intro rules)
  show "throws_only cs r_u16" unfolding r_u16_def Let_def by (intro rules)
  show u32: "throws_only cs r_u32" unfolding r_u32_def Let_def by (intro rules)
  show "throws_only cs (r_raw n)" unfolding r_raw_def by (intro rules)
  show "throws_only cs r_u64" unfolding r_u64_def by (intro rules u32)
qed

lemma throws_str [throws_intros]:
  "ErrorCode.PROTOCOL_ERROR \<in> cs \<Longrightarrow> ErrorCode.INVALID_ARGUMENT \<in> cs \<Longrightarrow> throws_only cs r_str"
  unfolding r_str_def by (intro throws_bind throws_if throws_throw throws_return throws_primitives)

section \<open>The checksum detects a corrupted byte\<close>

lemma xor_cancel: "a XOR m = b XOR m \<longleftrightarrow> a = b" "m XOR a = m XOR b \<longleftrightarrow> a = b" for a b m :: u32
  by (metis xor.assoc xor.right_neutral xor_self_eq) (metis xor.assoc xor.left_neutral xor_self_eq)

lemma crc_mask: "- (c AND 1) = (if bit c 0 then - 1 else 0)" for c :: u32
  by (simp add: and_one_eq bit_0 mod_2_eq_odd)

lemma crc_step_cases:
  "crc_step c = (if bit c 0 then drop_bit 1 c XOR 0xEDB88320 else drop_bit 1 c)"
  unfolding crc_step_def Let_def crc_mask by simp

lemma crc_poly_top: "bit (0xEDB88320 :: u32) 31"
  by code_simp

lemma crc_step_lsb: "bit (crc_step c) 31 \<longleftrightarrow> bit c 0"
proof -
  have "\<not> bit (drop_bit 1 c) 31" by (auto simp: bit_drop_bit_eq dest: bit_imp_le_length)
  then show ?thesis using crc_poly_top by (simp add: crc_step_cases bit_xor_iff)
qed

lemma crc_step_inject: "crc_step a = crc_step b \<Longrightarrow> a = b"
proof -
  assume eq: "crc_step a = crc_step b"
  then have lsb: "bit a 0 \<longleftrightarrow> bit b 0" using crc_step_lsb by metis
  then have "drop_bit 1 a = drop_bit 1 b"
    using eq by (simp add: crc_step_cases xor_cancel split: if_splits)
  then have "bit a (Suc n) \<longleftrightarrow> bit b (Suc n)" for n
    by (metis bit_drop_bit_eq comp_apply plus_1_eq_Suc)
  with lsb show ?thesis by (intro bit_eqI) (metis not0_implies_Suc)
qed

lemma crc_steps_inject: "(crc_step ^^ n) c = (crc_step ^^ n) d \<Longrightarrow> c = d"
  by (induction n) (simp_all, metis crc_step_inject)

lemma crc_byte_inject: "crc_byte x a = crc_byte x b \<Longrightarrow> a = b"
  unfolding crc_byte_def using crc_steps_inject xor_cancel by blast

lemma crc_byte_byte_inject: "crc_byte x a = crc_byte y a \<Longrightarrow> x = y"
proof -
  assume "crc_byte x a = crc_byte y a"
  then have "(ucast x :: u32) = ucast y"
    unfolding crc_byte_def using crc_steps_inject xor_cancel by blast
  moreover have "bit (ucast z :: u32) n \<longleftrightarrow> bit z n" if "n < 8" for z :: u8 and n
    using that by (simp add: bit_unsigned_iff)
  ultimately have "bit x n \<longleftrightarrow> bit y n" if "n < 8" for n using that by metis
  then show "x = y" by (intro bit_word_eqI) simp
qed

lemma fold_crc_inject: "fold crc_byte bs a = fold crc_byte bs b \<Longrightarrow> a = b"
  by (induction bs arbitrary: a b) (simp_all, metis crc_byte_inject)

lemma crc32_detects:
  assumes "x \<noteq> y"
  shows "crc32 (pre @ x # post) \<noteq> crc32 (pre @ y # post)"
proof
  assume "crc32 (pre @ x # post) = crc32 (pre @ y # post)"
  then have "fold crc_byte post (crc_byte x (fold crc_byte pre 0xFFFFFFFF)) =
      fold crc_byte post (crc_byte y (fold crc_byte pre 0xFFFFFFFF))"
    by (simp add: crc32_def crc32_compute_def)
  with assms show False using fold_crc_inject crc_byte_byte_inject by blast
qed

end
