(* ===== verification/Codec.thy ===== *)
theory Codec
  imports Wire
begin

text \<open>
  Serializers as sequences of statements. The code writes a record as a list of writer calls and
  reads it as a list of assignments \<^verbatim>\<open>d.field = r.u64();\<close> with checks between them; \<open>w_seq\<close> and
  \<open>r_seq\<close> are such lists, run in order, and stop at the first error.

  \<open>codes p g a\<close> is the contract between a writer and a reader: what \<open>p\<close> writes, \<open>g\<close> reads as \<open>a\<close>,
  from any position and with anything behind it. It is closed under the statements, so the
  contract of a record is a chain of the rules \<open>codes_intros\<close>, one per statement.
\<close>

section \<open>Statements\<close>

type_synonym putter = "Writer \<Rightarrow> Writer result"

definition p_u8 :: "u8 \<Rightarrow> putter" where "p_u8 v w = Inr (w_u8 v w)"

definition p_u16 :: "u16 \<Rightarrow> putter" where "p_u16 v w = Inr (w_u16 v w)"

definition p_u32 :: "u32 \<Rightarrow> putter" where "p_u32 v w = Inr (w_u32 v w)"

definition p_u64 :: "u64 \<Rightarrow> putter" where "p_u64 v w = Inr (w_u64 v w)"

text \<open>\<^verbatim>\<open>w.i32(static_cast<int32_t>(v))\<close> of a 64-bit value keeps its low 32 bits.\<close>

definition p_i32 :: "64 word \<Rightarrow> putter" where "p_i32 v = p_u32 (ucast v)"

definition p_bool :: "bool \<Rightarrow> putter" where "p_bool b = p_u8 (if b then 1 else 0)"

fun w_seq :: "putter list \<Rightarrow> putter" where
  "w_seq [] w = Inr w"
| "w_seq (p # ps) w = res_bind (p w) (w_seq ps)"

text \<open>A count and the elements: \<^verbatim>\<open>w.u32(xs.size()); for (auto& x : xs) put(w, x);\<close>\<close>

definition w_vec :: "('a \<Rightarrow> putter) \<Rightarrow> 'a list \<Rightarrow> putter" where
  "w_vec put xs = w_seq [p_u32 (of_nat (length xs)), w_all put xs]"

definition r_map :: "('a \<Rightarrow> 'b) \<Rightarrow> 'a reader \<Rightarrow> 'b reader" where
  "r_map f g = r_bind g (\<lambda>x. r_return (f x))"

definition r_lift :: "'a result \<Rightarrow> 'a reader" where
  "r_lift m r = map_sum (\<lambda>f. f) (\<lambda>x. (x, r)) m"

definition r_i32 :: "64 word reader" where
  "r_i32 = r_map (\<lambda>v. scast v) r_u32"

definition r_bool :: "bool reader" where
  "r_bool = r_map (\<lambda>b. b \<noteq> 0) r_u8"

definition field :: "'v reader \<Rightarrow> ('v \<Rightarrow> 'd \<Rightarrow> 'd) \<Rightarrow> 'd \<Rightarrow> 'd reader" where
  "field g f d = r_bind g (\<lambda>v. r_return (f v d))"

definition assign :: "(('v \<Rightarrow> 'v) \<Rightarrow> 'd \<Rightarrow> 'd) \<Rightarrow> 'v reader \<Rightarrow> 'd \<Rightarrow> 'd reader" where
  "assign update g = field g (\<lambda>v. update (\<lambda>_. v))"

definition check :: "('d \<Rightarrow> bool) \<Rightarrow> string \<Rightarrow> 'd \<Rightarrow> 'd reader" where
  "check P msg d = (if P d then r_return d else r_throw ErrorCode.CORRUPT_STATE msg)"

fun r_seq :: "('d \<Rightarrow> 'd reader) list \<Rightarrow> 'd \<Rightarrow> 'd reader" where
  "r_seq [] d = r_return d"
| "r_seq (g # gs) d = r_bind (g d) (r_seq gs)"

text \<open>\<^verbatim>\<open>n = r.u32(); if (n > bound) throw_error(CORRUPT_STATE, msg); for (...) get(r);\<close>\<close>

definition r_vec :: "nat \<Rightarrow> string \<Rightarrow> 'a reader \<Rightarrow> 'a list reader" where
  "r_vec bound msg get = r_bind r_u32 (\<lambda>n.
     if unat n > bound then r_throw ErrorCode.CORRUPT_STATE msg else r_times (unat n) get)"

section \<open>The contract\<close>

definition writes :: "putter \<Rightarrow> bytes \<Rightarrow> bool" where
  "writes p bs \<longleftrightarrow> (\<forall>w. p w = Inr (w @ bs))"

definition reads :: "'a reader \<Rightarrow> bytes \<Rightarrow> 'a \<Rightarrow> bool" where
  "reads g bs a \<longleftrightarrow>
     (\<forall>pre post. g (reader_at pre (bs @ post)) = Inr (a, reader_at (pre @ bs) post))"

definition codes :: "putter \<Rightarrow> 'a reader \<Rightarrow> 'a \<Rightarrow> bool" where
  "codes p g a \<longleftrightarrow> (\<exists>bs. writes p bs \<and> reads g bs a)"

named_theorems codes_intros \<open>the contract of a statement from those of its parts\<close>

lemma codesI: "writes p bs \<Longrightarrow> reads g bs a \<Longrightarrow> codes p g a"
  by (auto simp: codes_def)

lemma codesE:
  assumes "codes p g a"
  obtains bs where "writes p bs" "reads g bs a"
  using assms by (auto simp: codes_def)

lemma readsD: "reads g bs a \<Longrightarrow> g (reader_at pre (bs @ post)) = Inr (a, reader_at (pre @ bs) post)"
  by (simp add: reads_def)

lemma readsD_assoc:
  "reads g bs a \<Longrightarrow> g (reader_at pre (bs @ cs @ post)) = Inr (a, reader_at (pre @ bs) (cs @ post))"
  by (simp add: reads_def)

lemma reads_return: "reads (r_return a) [] a"
  by (simp add: reads_def r_return_def)

lemma reads_bind: "reads g bs a \<Longrightarrow> reads (k a) cs b \<Longrightarrow> reads (r_bind g k) (bs @ cs) b"
  by (simp add: reads_def r_bind_def)

lemma reads_map: "reads g bs a \<Longrightarrow> reads (r_map f g) bs (f a)"
  using reads_bind [OF _ reads_return, of g bs a "\<lambda>x. f x"] by (simp add: r_map_def)

lemma writes_seq_Nil: "writes (w_seq []) []"
  by (simp add: writes_def)

lemma writes_seq_Cons: "writes p bs \<Longrightarrow> writes (w_seq ps) cs \<Longrightarrow> writes (w_seq (p # ps)) (bs @ cs)"
  by (simp add: writes_def)

lemma writes_unique: "writes p bs \<Longrightarrow> writes p cs \<Longrightarrow> bs = cs"
  by (simp add: writes_def)

lemma writes_primitive [simp]:
  "writes (p_u8 a) bs \<longleftrightarrow> bs = [a]" "writes (p_u16 b) bs \<longleftrightarrow> bs = bytes16 b"
  "writes (p_u32 c) bs \<longleftrightarrow> bs = bytes32 c" "writes (p_u64 d) bs \<longleftrightarrow> bs = bytes64 d"
  by (auto simp: writes_def p_u8_def p_u16_def p_u32_def p_u64_def)

lemma codes_eq: "codes p g a \<Longrightarrow> a = b \<Longrightarrow> codes p g b"
  by simp

lemma reads_primitive:
  "reads r_u8 [a] a" "reads r_u16 (bytes16 b) b" "reads r_u32 (bytes32 c) c" "reads r_u64 (bytes64 d) d"
  unfolding reads_def
  using u8_codec.get_enc [where a = a] u16_codec.get_enc [where a = b]
    u32_codec.get_enc [where a = c]
    u64_codec.get_enc [where a = d] by simp_all

lemma codes_primitive [codes_intros]:
  "codes (p_u8 a) r_u8 a" "codes (p_u16 b) r_u16 b" "codes (p_u32 c) r_u32 c"
  "codes (p_u64 d) r_u64 d"
  by (rule codesI [OF _ reads_primitive(1)], simp, rule codesI [OF _ reads_primitive(2)], simp,
      rule codesI [OF _ reads_primitive(3)], simp, rule codesI [OF _ reads_primitive(4)], simp)

lemma codes_str [codes_intros]: "str_ok s \<Longrightarrow> codes (w_str s) r_str s"
  by (rule codesI [of _ "str_bytes s"])
    (simp_all add: writes_def reads_def str_codec.put_enc str_codec.get_enc)

lemma codes_map: "codes p g a \<Longrightarrow> codes p (r_map f g) (f a)"
  by (auto simp: codes_def intro: reads_map)

lemma codes_map_eq [codes_intros]: "codes p g a \<Longrightarrow> f a = b \<Longrightarrow> codes p (r_map f g) b"
  by (drule codes_map [of _ _ _ f]) simp

lemma codes_bool [codes_intros]: "codes (p_bool b) r_bool b"
  unfolding p_bool_def r_bool_def by (rule codes_map_eq, rule codes_primitive) simp

lemma codes_i32 [codes_intros]: "scast (ucast v :: u32) = v \<Longrightarrow> codes (p_i32 v) r_i32 v"
  unfolding p_i32_def r_i32_def by (rule codes_map_eq, rule codes_primitive)

lemma codes_seq_Nil [codes_intros]: "d = d' \<Longrightarrow> codes (w_seq []) (r_seq [] d) d'"
  by (rule codesI [OF writes_seq_Nil]) (simp add: reads_return)

lemma codes_field [codes_intros]:
  assumes "codes p g v" "codes (w_seq ps) (r_seq gs (f v d)) d'"
  shows "codes (w_seq (p # ps)) (r_seq (field g f # gs) d) d'"
proof -
  obtain bs where b: "writes p bs" "reads g bs v"
    using assms(1) by (rule codesE)
  obtain cs where c: "writes (w_seq ps) cs" "reads (r_seq gs (f v d)) cs d'"
    using assms(2) by (rule codesE)
  have "reads (field g f d) bs (f v d)"
    using reads_map [OF b(2), of "\<lambda>v. f v d"] by (simp add: field_def r_map_def)
  then have "reads (r_seq (field g f # gs) d) (bs @ cs) d'" using c(2) by (simp add: reads_bind)
  with writes_seq_Cons [OF b(1) c(1)] show ?thesis by (rule codesI)
qed

lemma codes_assign [codes_intros]:
  "codes p g v \<Longrightarrow> codes (w_seq ps) (r_seq gs (update (\<lambda>_. v) d)) d' \<Longrightarrow>
   codes (w_seq (p # ps)) (r_seq (assign update g # gs) d) d'"
  unfolding assign_def by (rule codes_field)

lemma codes_check [codes_intros]:
  assumes "P d" "codes (w_seq ps) (r_seq gs d) d'"
  shows "codes (w_seq ps) (r_seq (check P msg # gs) d) d'"
proof -
  have "r_seq (check P msg # gs) d = r_seq gs d"
    using assms(1) by (simp add: fun_eq_iff check_def r_bind_def r_return_def)
  with assms(2) show ?thesis by (simp only:)
qed

lemma codes_times:
  assumes "\<And>x. x \<in> set xs \<Longrightarrow> codes (put x) get (view x)"
  shows "codes (w_all put xs) (r_times (length xs) get) (map view xs)"
  using assms
proof (induction xs)
  case Nil
  show ?case by (rule codesI [of _ "[]"]) (simp_all add: writes_def reads_return)
next
  case (Cons x xs)
  from Cons.prems [of x] obtain bs where b: "writes (put x) bs" "reads get bs (view x)"
    by (auto elim: codesE)
  from Cons obtain cs where c: "writes (w_all put xs) cs"
    "reads (r_times (length xs) get) cs (map view xs)"
    by (auto elim: codesE)
  have "writes (w_all put (x # xs)) (bs @ cs)" using b(1) c(1) by (simp add: writes_def)
  moreover have "reads (r_times (length (x # xs)) get) (bs @ cs) (map view (x # xs))"
    using reads_bind [OF b(2), of _ cs] reads_map [OF c(2), of "\<lambda>xs. view x # xs"]
    by (simp add: r_map_def)
  ultimately show ?case by (rule codesI)
qed

lemma codes_vec [codes_intros]:
  assumes "length xs \<le> bound" "bound < 2 ^ 32"
    and "\<And>x. x \<in> set xs \<Longrightarrow> codes (put x) get (view x)" "map view xs = ys"
  shows "codes (w_vec put xs) (r_vec bound msg get) ys"
proof -
  obtain cs where c: "writes (w_all put xs) cs" "reads (r_times (length xs) get) cs ys"
    using codes_times [of xs put get view] assms(3,4) by (auto elim: codesE)
  let ?n = "of_nat (length xs) :: u32"
  have n: "unat ?n = length xs" using assms(1,2) by (simp add: unat_of_nat)
  have "writes (w_vec put xs) (bytes32 ?n @ cs)"
    using c(1) by (simp add: w_vec_def writes_def p_u32_def)
  moreover have "reads (r_vec bound msg get) (bytes32 ?n @ cs) ys"
    unfolding r_vec_def
    by (rule reads_bind [where a = ?n]) (use n assms(1) c(2) u32_codec.get_enc in \<open>simp_all add: reads_def\<close>)
  ultimately show ?thesis by (rule codesI)
qed

lemma w_seq_single [simp]: "w_seq [p] = p"
proof
  show "w_seq [p] w = p w" for w by (cases "p w") simp_all
qed

lemma codes_bind:
  "codes p g v \<Longrightarrow> codes (w_seq ps) (k v) y \<Longrightarrow> codes (w_seq (p # ps)) (r_bind g k) y"
  by (elim codesE, rule codesI, erule writes_seq_Cons, assumption, erule reads_bind, assumption)

lemma codes_last: "codes p g y \<Longrightarrow> codes (w_seq [p]) g y"
  by simp

text \<open>A writer and reader of this kind form a codec, with the bytes the writer produces.\<close>

definition enc_of :: "('a \<Rightarrow> putter) \<Rightarrow> 'a \<Rightarrow> bytes" where
  "enc_of put a = projr (put a [])"

lemma writes_enc: "codes (put a) g b \<Longrightarrow> writes (put a) (enc_of put a)"
  by (erule codesE) (simp add: writes_def enc_of_def)

lemma codec_of_codes:
  assumes codes: "\<And>a. ok a \<Longrightarrow> codes (put a) get a"
  shows "codec put get ok (enc_of put)"
proof
  fix a w
  assume "ok a"
  then show "put a w = Inr (w @ enc_of put a)"
    using writes_enc [where put = put and a = a, OF codes] by (simp add: writes_def)
next
  fix a pre post
  assume a: "ok a"
  then obtain bs where b: "writes (put a) bs" "reads get bs a" using codes by (blast elim: codesE)
  have "bs = enc_of put a"
    by (rule writes_unique [OF b(1) writes_enc [where put = put and a = a, OF codes [OF a]]])
  with b(2) show "get (reader_at pre (enc_of put a @ post)) =
      Inr (a, reader_at (pre @ enc_of put a) post)" by (simp add: readsD)
qed

section \<open>Errors of the statements\<close>

lemma throws_r_map [throws_intros]: "throws_only cs g \<Longrightarrow> throws_only cs (r_map f g)"
  unfolding r_map_def by (intro throws_bind throws_return)

lemma throws_field [throws_intros]: "throws_only cs g \<Longrightarrow> throws_only cs (field g f d)"
  unfolding field_def by (intro throws_bind throws_return)

lemma throws_assign [throws_intros]: "throws_only cs g \<Longrightarrow> throws_only cs (assign u g d)"
  unfolding assign_def by (intro throws_field)

lemma throws_check [throws_intros]: "ErrorCode.CORRUPT_STATE \<in> cs \<Longrightarrow> throws_only cs (check P msg d)"
  unfolding check_def by (intro throws_if throws_return throws_throw)

lemma throws_seq [throws_intros]:
  "(\<And>g d. g \<in> set gs \<Longrightarrow> throws_only cs (g d)) \<Longrightarrow> throws_only cs (r_seq gs d)"
  by (induction gs arbitrary: d) (simp_all add: throws_return throws_bind)

lemma throws_times [throws_intros]: "throws_only cs g \<Longrightarrow> throws_only cs (r_times n g)"
  by (induction n) (simp_all add: throws_return throws_bind)

lemma throws_vec [throws_intros]:
  "ErrorCode.CORRUPT_STATE \<in> cs \<Longrightarrow> ErrorCode.PROTOCOL_ERROR \<in> cs \<Longrightarrow> throws_only cs g \<Longrightarrow>
   throws_only cs (r_vec bound msg g)"
  unfolding r_vec_def by (intro throws_bind throws_if throws_throw throws_times throws_primitives)

lemma throws_bool [throws_intros]: "ErrorCode.PROTOCOL_ERROR \<in> cs \<Longrightarrow> throws_only cs r_bool"
  unfolding r_bool_def by (intro throws_r_map throws_primitives)

lemma throws_i32 [throws_intros]: "ErrorCode.PROTOCOL_ERROR \<in> cs \<Longrightarrow> throws_only cs r_i32"
  unfolding r_i32_def by (intro throws_r_map throws_primitives)

end
