(* ===== verification/StateCodec.thy ===== *)
theory StateCodec
  imports Codec Registry
begin

text \<open>
  The record serializers of the state file, \<^verbatim>\<open>src/persistence.cpp\<close>: one writer and one reader per
  record, the fields in the order of the code, the checks where the code has them. Every
  enumeration is one byte on disk; a reader checks the range of some of them (\<open>is_valid_\<dots>\<close>) and
  accepts any byte for the others.

  \<open>\<dots>_ok\<close> says which records survive: bounded strings and vectors, canonical enumeration values
  within the checked ranges, valid keys, a capability filed under its own key. The
  interpretations give the \<open>codec\<close> contract for each record.
\<close>

section \<open>Helpers\<close>

definition is_valid_lifecycle :: "u8 \<Rightarrow> bool" where
  "is_valid_lifecycle v \<longleftrightarrow> v \<ge> 1 \<and> v \<le> 10"

definition is_valid_deploy_state :: "u8 \<Rightarrow> bool" where
  "is_valid_deploy_state v \<longleftrightarrow> v \<ge> 1 \<and> v \<le> 13"

definition is_valid_cap_state :: "u8 \<Rightarrow> bool" where
  "is_valid_cap_state v \<longleftrightarrow> v \<ge> 1 \<and> v \<le> 4"

definition is_valid_device_class :: "u8 \<Rightarrow> bool" where
  "is_valid_device_class v \<longleftrightarrow> v \<ge> 1 \<and> v \<le> 6"

definition is_valid_offload_class :: "u8 \<Rightarrow> bool" where
  "is_valid_offload_class v \<longleftrightarrow> v \<ge> 1 \<and> v \<le> 16"

definition is_valid_health :: "u8 \<Rightarrow> bool" where
  "is_valid_health v \<longleftrightarrow> v \<ge> 1 \<and> v \<le> 5"

definition p_id :: "'tag Id \<Rightarrow> putter" where
  "p_id i = p_u64 (as_u64 i)"

definition rd_id :: "'tag Id reader" where
  "rd_id = r_map Id r_u64"

definition rd_key :: "CapabilityKey reader" where
  "rd_key = r_bind r_str (\<lambda>s. r_lift (make_key s))"

text \<open>An \<^verbatim>\<open>OffloadClass\<close> has 16 bits and is written as a byte.\<close>

definition p_offload_class :: "OffloadClass \<Rightarrow> putter" where
  "p_offload_class c = p_u8 (ucast (OffloadClass_value c))"

definition rd_offload_class :: "OffloadClass reader" where
  "rd_offload_class = r_map (\<lambda>b. OffloadClass_cast (ucast b)) r_u8"

definition write_sha :: "Sha256 \<Rightarrow> putter" where
  "write_sha a = w_all p_u8 a"

definition read_sha :: "Sha256 reader" where
  "read_sha = r_times 32 r_u8"

definition write_activation :: "ActivationId option \<Rightarrow> putter" where
  "write_activation a =
     (case a of None \<Rightarrow> p_bool False | Some i \<Rightarrow> w_seq [p_bool True, p_id i])"

definition read_activation :: "ActivationId option reader" where
  "read_activation = r_bind r_bool (\<lambda>b. if b then r_map Some rd_id else r_return None)"

definition CapabilityRequirement_init :: CapabilityRequirement where
  "CapabilityRequirement_init =
     \<lparr>cr_key = CapabilityKey [], cr_optional = False, cr_min_version = 0\<rparr>"

section \<open>Records\<close>

definition write_cap :: "Capability \<Rightarrow> putter" where
  "write_cap x = w_seq
    [w_str (key_str (cp_key x)), p_u8 (CapabilityState_value (cp_state x)),
     p_id (cp_evidence_gen x), p_u64 (cp_version x), p_id (cp_min_firmware_gen x),
     p_id (cp_min_runtime_gen x), p_u64 (cp_max_scale x), p_bool (cp_requires_isolation x),
     p_u8 (ProvenanceSource_value (cp_source x)), w_str (cp_detail x)]"

definition read_cap :: "Capability reader" where
  "read_cap = r_seq
    [assign cp_key_update rd_key, assign cp_state_update (r_map CapabilityState_cast r_u8),
     check (\<lambda>x. is_valid_cap_state (CapabilityState_value (cp_state x)))
       ''bad capability state'',
     assign cp_evidence_gen_update rd_id, assign cp_version_update r_u64,
     assign cp_min_firmware_gen_update rd_id, assign cp_min_runtime_gen_update rd_id,
     assign cp_max_scale_update r_u64, assign cp_requires_isolation_update r_bool,
     assign cp_source_update (r_map ProvenanceSource_cast r_u8),
     assign cp_detail_update r_str]
    Capability_init"

definition write_capreq :: "CapabilityRequirement \<Rightarrow> putter" where
  "write_capreq x = w_seq
    [w_str (key_str (cr_key x)), p_bool (cr_optional x), p_u64 (cr_min_version x)]"

definition read_capreq :: "CapabilityRequirement reader" where
  "read_capreq = r_seq
    [assign cr_key_update rd_key, assign cr_optional_update r_bool,
     assign cr_min_version_update r_u64]
    CapabilityRequirement_init"

definition write_resource_req :: "ResourceRequest \<Rightarrow> putter" where
  "write_resource_req x = w_seq
    [p_u64 (rr_memory_bytes x), p_u64 (rr_queues x), p_u64 (rr_functions x),
     p_u64 (rr_slots x), p_u64 (rr_contexts x)]"

definition read_resource_req :: "ResourceRequest reader" where
  "read_resource_req = r_seq
    [assign rr_memory_bytes_update r_u64, assign rr_queues_update r_u64,
     assign rr_functions_update r_u64, assign rr_slots_update r_u64,
     assign rr_contexts_update r_u64]
    ResourceRequest_init"

definition write_resource_cap :: "ResourceProfile \<Rightarrow> putter" where
  "write_resource_cap x = w_seq
    [p_u64 (rp_memory_bytes x), p_u64 (rp_queues x), p_u64 (rp_functions x),
     p_u64 (rp_slots x), p_u64 (rp_contexts x)]"

definition read_resource_cap :: "ResourceProfile reader" where
  "read_resource_cap = r_seq
    [assign rp_memory_bytes_update r_u64, assign rp_queues_update r_u64,
     assign rp_functions_update r_u64, assign rp_slots_update r_u64,
     assign rp_contexts_update r_u64]
    ResourceProfile_init"

definition write_isolation :: "IsolationSpec \<Rightarrow> putter" where
  "write_isolation x = w_seq
    [p_u8 (IsolationRequirement_value (iso_level x)), p_id (iso_isolation_domain x),
     p_id (iso_tenant x), w_str (iso_trust_domain x), w_str (iso_security_domain x),
     p_u8 (SecurityMode_value (iso_security x))]"

definition read_isolation :: "IsolationSpec reader" where
  "read_isolation = r_seq
    [assign iso_level_update (r_map IsolationRequirement_cast r_u8),
     assign iso_isolation_domain_update rd_id, assign iso_tenant_update rd_id,
     assign iso_trust_domain_update r_str, assign iso_security_domain_update r_str,
     assign iso_security_update (r_map SecurityMode_cast r_u8)]
    IsolationSpec_init"

definition write_device :: "DeviceRecord \<Rightarrow> putter" where
  "write_device x = w_seq
    [p_id (dv_device_id x), p_id (dv_generation x), p_id (dv_boot_id x), w_str (dv_vendor x),
     w_str (dv_model x), p_u8 (DeviceClass_value (dv_device_class x)),
     w_str (dv_pci_reference x), w_str (dv_parent_nic_reference x),
     p_id (dv_parent_function x), w_str (dv_firmware_version x), p_id (dv_firmware_gen x),
     w_str (dv_runtime_version x), p_id (dv_runtime_gen x), w_str (dv_architecture x),
     p_u64 (dv_processing_units x), p_u64 (dv_memory_bytes x),
     p_u64 (dv_available_programmable_memory x), write_resource_cap (dv_resource_capacity x),
     w_vec p_id (dv_ports x), w_vec p_id (dv_functions x),
     w_vec write_cap (map snd (map_entries (dv_capabilities x))),
     w_vec p_offload_class (dv_offload_classes x),
     w_vec (\<lambda>m. p_u8 (ExecutionModel_value m)) (dv_execution_models x),
     w_vec w_str (dv_program_formats x), p_bool (dv_supports_dma x),
     p_bool (dv_rdma_adjacent x), w_str (dv_host_comm x), p_bool (dv_hardware_isolation x),
     p_id (dv_isolation_domain x), p_id (dv_tenant x), p_bool (dv_isolation_proven x),
     p_u8 (LocalityQuality_value (dv_locality x)), p_u8 (DeviceHealth_value (dv_health x)),
     p_u8 (DeviceLifecycle_value (dv_lifecycle x)),
     p_u8 (ProvenanceSource_value (dv_discovery_source x)), p_id (dv_evidence_gen x),
     p_bool (dv_evidence_fresh x), w_str (dv_discovery_detail x), p_id (dv_owning_worker x),
     p_id (dv_owner_worker_boot x)]"

definition read_device :: "DeviceRecord reader" where
  "read_device = r_seq
    [assign dv_device_id_update rd_id, assign dv_generation_update rd_id,
     assign dv_boot_id_update rd_id, assign dv_vendor_update r_str,
     assign dv_model_update r_str,
     assign dv_device_class_update (r_map DeviceClass_cast r_u8),
     check (\<lambda>x. is_valid_device_class (DeviceClass_value (dv_device_class x)))
       ''bad device class'',
     assign dv_pci_reference_update r_str, assign dv_parent_nic_reference_update r_str,
     assign dv_parent_function_update rd_id, assign dv_firmware_version_update r_str,
     assign dv_firmware_gen_update rd_id, assign dv_runtime_version_update r_str,
     assign dv_runtime_gen_update rd_id, assign dv_architecture_update r_str,
     assign dv_processing_units_update r_u64, assign dv_memory_bytes_update r_u64,
     assign dv_available_programmable_memory_update r_u64,
     assign dv_resource_capacity_update read_resource_cap,
     assign dv_ports_update
       (r_vec kMaxContainerCount ''port count out of bounds'' rd_id),
     assign dv_functions_update
       (r_vec kMaxContainerCount ''function count out of bounds'' rd_id),
     field (r_vec kMaxContainerCount ''capability count out of bounds'' read_cap)
       (\<lambda>v. dv_capabilities_update (fold caps_add v)),
     assign dv_offload_classes_update
       (r_vec 64 ''offload class count out of bounds'' rd_offload_class),
     assign dv_execution_models_update
       (r_vec 16 ''execution model count out of bounds'' (r_map ExecutionModel_cast r_u8)),
     assign dv_program_formats_update
       (r_vec kMaxContainerCount ''program format count out of bounds'' r_str),
     assign dv_supports_dma_update r_bool, assign dv_rdma_adjacent_update r_bool,
     assign dv_host_comm_update r_str, assign dv_hardware_isolation_update r_bool,
     assign dv_isolation_domain_update rd_id, assign dv_tenant_update rd_id,
     assign dv_isolation_proven_update r_bool,
     assign dv_locality_update (r_map LocalityQuality_cast r_u8),
     assign dv_health_update (r_map DeviceHealth_cast r_u8),
     check (\<lambda>x. is_valid_health (DeviceHealth_value (dv_health x)))
       ''bad device health'',
     assign dv_lifecycle_update (r_map DeviceLifecycle_cast r_u8),
     check (\<lambda>x. is_valid_lifecycle (DeviceLifecycle_value (dv_lifecycle x)))
       ''bad device lifecycle'',
     assign dv_discovery_source_update (r_map ProvenanceSource_cast r_u8),
     assign dv_evidence_gen_update rd_id, assign dv_evidence_fresh_update r_bool,
     assign dv_discovery_detail_update r_str, assign dv_owning_worker_update rd_id,
     assign dv_owner_worker_boot_update rd_id]
    DeviceRecord_init"

definition write_service :: "ServiceDefinition \<Rightarrow> putter" where
  "write_service x = w_seq
    [p_id (sd_service_id x), p_id (sd_service_gen x), p_offload_class (sd_offload_class x),
     w_vec write_capreq (sd_required_caps x), w_vec write_capreq (sd_optional_caps x),
     write_isolation (sd_isolation x), write_resource_req (sd_resource x),
     p_u8 (ExecutionModel_value (sd_execution_model x)), p_id (sd_min_firmware_gen x),
     p_id (sd_min_runtime_gen x), p_id (sd_required_program x), w_str (sd_required_abi x),
     p_u8 (Statefulness_value (sd_statefulness x)), p_bool (sd_recoverable x),
     w_vec p_offload_class (sd_allowed_fallback_classes x), w_str (sd_failure_policy x),
     w_vec p_id (sd_dependencies x)]"

definition read_service :: "ServiceDefinition reader" where
  "read_service = r_seq
    [assign sd_service_id_update rd_id, assign sd_service_gen_update rd_id,
     assign sd_offload_class_update rd_offload_class,
     check (\<lambda>x. is_valid_offload_class (ucast (OffloadClass_value (sd_offload_class x))))
       ''bad offload class'',
     assign sd_required_caps_update
       (r_vec kMaxContainerCount ''required cap count out of bounds'' read_capreq),
     assign sd_optional_caps_update
       (r_vec kMaxContainerCount ''optional cap count out of bounds'' read_capreq),
     assign sd_isolation_update read_isolation, assign sd_resource_update read_resource_req,
     assign sd_execution_model_update (r_map ExecutionModel_cast r_u8),
     assign sd_min_firmware_gen_update rd_id, assign sd_min_runtime_gen_update rd_id,
     assign sd_required_program_update rd_id, assign sd_required_abi_update r_str,
     assign sd_statefulness_update (r_map Statefulness_cast r_u8),
     assign sd_recoverable_update r_bool,
     assign sd_allowed_fallback_classes_update
       (r_vec 32 ''fallback class count out of bounds'' rd_offload_class),
     assign sd_failure_policy_update r_str,
     assign sd_dependencies_update
       (r_vec kMaxContainerCount ''dependency count out of bounds'' rd_id)]
    ServiceDefinition_init"

definition write_program :: "ProgramArtifact \<Rightarrow> putter" where
  "write_program x = w_seq
    [p_id (pa_program_id x), p_id (pa_program_gen x), p_id (pa_artifact_id x),
     p_id (pa_artifact_gen x), p_u8 (ArtifactType_value (pa_artifact_type x)),
     w_str (pa_version x), write_sha (pa_content_hash x), w_str (pa_target_architecture x),
     w_str (pa_runtime_abi x), w_vec write_capreq (pa_required_caps x),
     p_id (pa_min_firmware_gen x), w_str (pa_provenance x), w_str (pa_size_hint x)]"

definition read_program :: "ProgramArtifact reader" where
  "read_program = r_seq
    [assign pa_program_id_update rd_id, assign pa_program_gen_update rd_id,
     assign pa_artifact_id_update rd_id, assign pa_artifact_gen_update rd_id,
     assign pa_artifact_type_update (r_map ArtifactType_cast r_u8),
     assign pa_version_update r_str, assign pa_content_hash_update read_sha,
     assign pa_target_architecture_update r_str, assign pa_runtime_abi_update r_str,
     assign pa_required_caps_update
       (r_vec kMaxContainerCount ''program cap count out of bounds'' read_capreq),
     assign pa_min_firmware_gen_update rd_id, assign pa_provenance_update r_str,
     assign pa_size_hint_update r_str]
    ProgramArtifact_init"

definition write_deployment :: "Deployment \<Rightarrow> putter" where
  "write_deployment x = w_seq
    [p_id (dp_deployment_id x), p_id (dp_generation x), p_id (dp_attempt_id x),
     p_id (dp_service x), p_id (dp_service_gen x), p_id (dp_program x),
     p_id (dp_program_gen x), p_id (dp_artifact x), p_id (dp_artifact_gen x),
     p_id (dp_device x), p_id (dp_device_gen x), p_id (dp_device_boot x), p_id (dp_tenant x),
     p_id (dp_isolation_domain x), write_resource_req (dp_resources x),
     p_u8 (DeploymentState_value (dp_state x)), write_activation (dp_activation x),
     p_id (dp_activation_gen x), p_id (dp_epoch x), p_id (dp_worker_boot x),
     p_id (dp_evidence_gen x), p_id (dp_policy_gen x), p_bool (dp_authoritative x),
     p_u64 (dp_created_ms x), p_u64 (dp_updated_ms x)]"

definition read_deployment :: "Deployment reader" where
  "read_deployment = r_seq
    [assign dp_deployment_id_update rd_id, assign dp_generation_update rd_id,
     assign dp_attempt_id_update rd_id, assign dp_service_update rd_id,
     assign dp_service_gen_update rd_id, assign dp_program_update rd_id,
     assign dp_program_gen_update rd_id, assign dp_artifact_update rd_id,
     assign dp_artifact_gen_update rd_id, assign dp_device_update rd_id,
     assign dp_device_gen_update rd_id, assign dp_device_boot_update rd_id,
     assign dp_tenant_update rd_id, assign dp_isolation_domain_update rd_id,
     assign dp_resources_update read_resource_req,
     assign dp_state_update (r_map DeploymentState_cast r_u8),
     check (\<lambda>x. is_valid_deploy_state (DeploymentState_value (dp_state x)))
       ''bad deployment state'',
     assign dp_activation_update read_activation, assign dp_activation_gen_update rd_id,
     assign dp_epoch_update rd_id, assign dp_worker_boot_update rd_id,
     assign dp_evidence_gen_update rd_id, assign dp_policy_gen_update rd_id,
     assign dp_authoritative_update r_bool, assign dp_created_ms_update r_u64,
     assign dp_updated_ms_update r_u64]
    Deployment_init"

section \<open>Records that survive\<close>

definition class_storable :: "OffloadClass \<Rightarrow> bool" where
  "class_storable c \<longleftrightarrow> OffloadClass_cast (ucast (ucast (OffloadClass_value c) :: u8)) = c"

definition cap_storable :: "Capability \<Rightarrow> bool" where
  "cap_storable c \<longleftrightarrow>
     key_is_valid (key_str (cp_key c)) \<and> str_ok (cp_detail c) \<and>
     cst_codes.canonical (cp_state c) \<and> is_valid_cap_state (CapabilityState_value (cp_state c)) \<and>
     prs_codes.canonical (cp_source c)"

definition capreq_storable :: "CapabilityRequirement \<Rightarrow> bool" where
  "capreq_storable c \<longleftrightarrow> key_is_valid (key_str (cr_key c))"

definition isolation_storable :: "IsolationSpec \<Rightarrow> bool" where
  "isolation_storable i \<longleftrightarrow>
     isr_codes.canonical (iso_level i) \<and> sec_codes.canonical (iso_security i) \<and>
     str_ok (iso_trust_domain i) \<and> str_ok (iso_security_domain i)"

definition vec_storable :: "nat \<Rightarrow> ('a \<Rightarrow> bool) \<Rightarrow> 'a list \<Rightarrow> bool" where
  "vec_storable bound ok xs \<longleftrightarrow> length xs \<le> bound \<and> list_all ok xs"

definition device_storable :: "DeviceRecord \<Rightarrow> bool" where
  "device_storable d \<longleftrightarrow>
     list_all str_ok [dv_vendor d, dv_model d, dv_pci_reference d, dv_parent_nic_reference d,
       dv_firmware_version d, dv_runtime_version d, dv_architecture d, dv_host_comm d,
       dv_discovery_detail d] \<and>
     dcl_codes.canonical (dv_device_class d) \<and>
     is_valid_device_class (DeviceClass_value (dv_device_class d)) \<and>
     loc_codes.canonical (dv_locality d) \<and> dhl_codes.canonical (dv_health d) \<and>
     is_valid_health (DeviceHealth_value (dv_health d)) \<and>
     dlc_codes.canonical (dv_lifecycle d) \<and>
     is_valid_lifecycle (DeviceLifecycle_value (dv_lifecycle d)) \<and>
     prs_codes.canonical (dv_discovery_source d) \<and>
     caps_wf (dv_capabilities d) \<and>
     vec_storable kMaxContainerCount cap_storable (map snd (map_entries (dv_capabilities d))) \<and>
     vec_storable kMaxContainerCount (\<lambda>_. True) (dv_ports d) \<and>
     vec_storable kMaxContainerCount (\<lambda>_. True) (dv_functions d) \<and>
     vec_storable 64 class_storable (dv_offload_classes d) \<and>
     vec_storable 16 exm_codes.canonical (dv_execution_models d) \<and>
     vec_storable kMaxContainerCount str_ok (dv_program_formats d)"

definition service_storable :: "ServiceDefinition \<Rightarrow> bool" where
  "service_storable s \<longleftrightarrow>
     class_storable (sd_offload_class s) \<and>
     is_valid_offload_class (ucast (OffloadClass_value (sd_offload_class s))) \<and>
     vec_storable kMaxContainerCount capreq_storable (sd_required_caps s) \<and>
     vec_storable kMaxContainerCount capreq_storable (sd_optional_caps s) \<and>
     isolation_storable (sd_isolation s) \<and> exm_codes.canonical (sd_execution_model s) \<and>
     stf_codes.canonical (sd_statefulness s) \<and>
     vec_storable 32 class_storable (sd_allowed_fallback_classes s) \<and>
     vec_storable kMaxContainerCount (\<lambda>_. True) (sd_dependencies s) \<and>
     str_ok (sd_required_abi s) \<and> str_ok (sd_failure_policy s)"

definition program_storable :: "ProgramArtifact \<Rightarrow> bool" where
  "program_storable p \<longleftrightarrow>
     art_codes.canonical (pa_artifact_type p) \<and> Sha256_wf (pa_content_hash p) \<and>
     list_all str_ok [pa_version p, pa_target_architecture p, pa_runtime_abi p,
       pa_provenance p, pa_size_hint p] \<and>
     vec_storable kMaxContainerCount capreq_storable (pa_required_caps p)"

definition deployment_storable :: "Deployment \<Rightarrow> bool" where
  "deployment_storable d \<longleftrightarrow>
     dst_codes.canonical (dp_state d) \<and> is_valid_deploy_state (DeploymentState_value (dp_state d))"

section \<open>What is written is read back\<close>

lemma codes_id [codes_intros]: "codes (p_id i) rd_id i"
  unfolding p_id_def rd_id_def by (rule codes_map_eq, rule codes_primitive) simp

lemma codes_enum:
  "cast (val e) = e \<Longrightarrow> codes (p_u8 (val e)) (r_map cast r_u8) e"
  by (rule codes_map_eq, rule codes_primitive)

lemma codes_class [codes_intros]: "class_storable c \<Longrightarrow> codes (p_offload_class c) rd_offload_class c"
  unfolding p_offload_class_def rd_offload_class_def class_storable_def
  by (rule codes_map_eq, rule codes_primitive)

lemma reads_lift: "m = Inr x \<Longrightarrow> reads (r_lift m) [] x"
  by (simp add: reads_def r_lift_def)

lemma valid_key_ok: "key_is_valid s \<Longrightarrow> str_ok s"
  by (auto simp: key_is_valid_def kMaxLen_def str_ok_def kMaxStringBytes_def split: if_splits)

lemma codes_key [codes_intros]: "key_is_valid (key_str k) \<Longrightarrow> codes (w_str (key_str k)) rd_key k"
proof -
  assume k: "key_is_valid (key_str k)"
  then have "make_key (key_str k) = Inr k" by (simp add: make_key_Inr)
  moreover have "codes (w_str (key_str k)) r_str (key_str k)"
    using valid_key_ok [OF k] by (rule codes_str)
  ultimately show ?thesis
    unfolding rd_key_def by (metis append_Nil2 codesE codesI reads_bind reads_lift)
qed

lemma codes_sha [codes_intros]: "Sha256_wf a \<Longrightarrow> codes (write_sha a) read_sha a"
  using codes_times [of a p_u8 r_u8 "\<lambda>b. b"] codes_primitive(1)
  by (simp add: Sha256_wf_def write_sha_def read_sha_def)

lemma codes_activation [codes_intros]: "codes (write_activation a) read_activation a"
proof (cases a)
  case None
  obtain bs where b: "writes (p_bool False) bs" "reads r_bool bs False"
    using codes_bool by (rule codesE)
  then have "writes (write_activation a) (bs @ [])" by (simp add: write_activation_def None)
  moreover have "reads read_activation (bs @ []) a"
    unfolding read_activation_def None by (rule reads_bind [OF b(2)]) (simp add: reads_return)
  ultimately show ?thesis by (rule codesI)
next
  case (Some i)
  obtain bs where b: "writes (p_bool True) bs" "reads r_bool bs True"
    using codes_bool by (rule codesE)
  obtain cs where c: "writes (p_id i) cs" "reads rd_id cs i"
    using codes_id by (rule codesE)
  have "writes (write_activation a) (bs @ cs)"
    using b(1) c(1) by (simp add: write_activation_def Some writes_def)
  moreover have "reads read_activation (bs @ cs) a"
    unfolding read_activation_def Some
    by (rule reads_bind [OF b(2)]) (simp add: reads_map [OF c(2)])
  ultimately show ?thesis by (rule codesI)
qed

lemma codes_resource_req [codes_intros]: "codes (write_resource_req x) read_resource_req x"
  unfolding write_resource_req_def read_resource_req_def
  by (rule codes_intros | simp add: ResourceRequest_init_def)+

lemma codes_resource_cap [codes_intros]: "codes (write_resource_cap x) read_resource_cap x"
  unfolding write_resource_cap_def read_resource_cap_def
  by (rule codes_intros | simp add: ResourceProfile_init_def)+

lemmas codes_enums =
  codes_enum [where val = CapabilityState_value and cast = CapabilityState_cast, OF cst_codes.cast_value]
  codes_enum [where val = ProvenanceSource_value and cast = ProvenanceSource_cast, OF prs_codes.cast_value]
  codes_enum [where val = IsolationRequirement_value and cast = IsolationRequirement_cast, OF isr_codes.cast_value]
  codes_enum [where val = SecurityMode_value and cast = SecurityMode_cast, OF sec_codes.cast_value]
  codes_enum [where val = DeviceClass_value and cast = DeviceClass_cast, OF dcl_codes.cast_value]
  codes_enum [where val = LocalityQuality_value and cast = LocalityQuality_cast, OF loc_codes.cast_value]
  codes_enum [where val = DeviceHealth_value and cast = DeviceHealth_cast, OF dhl_codes.cast_value]
  codes_enum [where val = DeviceLifecycle_value and cast = DeviceLifecycle_cast, OF dlc_codes.cast_value]
  codes_enum [where val = ExecutionModel_value and cast = ExecutionModel_cast, OF exm_codes.cast_value]
  codes_enum [where val = Statefulness_value and cast = Statefulness_cast, OF stf_codes.cast_value]
  codes_enum [where val = ArtifactType_value and cast = ArtifactType_cast, OF art_codes.cast_value]
  codes_enum [where val = DeploymentState_value and cast = DeploymentState_cast, OF dst_codes.cast_value]

lemma codes_cap [codes_intros]: "cap_storable x \<Longrightarrow> codes (write_cap x) read_cap x"
  unfolding write_cap_def read_cap_def cap_storable_def
  by (rule codes_enums codes_intros | simp add: Capability_init_def)+

lemma codes_capreq [codes_intros]: "capreq_storable x \<Longrightarrow> codes (write_capreq x) read_capreq x"
  unfolding write_capreq_def read_capreq_def capreq_storable_def
  by (rule codes_enums codes_intros | simp add: CapabilityRequirement_init_def)+

lemma codes_isolation [codes_intros]:
  "isolation_storable x \<Longrightarrow> codes (write_isolation x) read_isolation x"
  unfolding write_isolation_def read_isolation_def isolation_storable_def
  by (rule codes_enums codes_intros | simp add: IsolationSpec_init_def)+

lemma codes_deployment [codes_intros]:
  "deployment_storable x \<Longrightarrow> codes (write_deployment x) read_deployment x"
  unfolding write_deployment_def read_deployment_def deployment_storable_def
  by (rule codes_enums codes_intros | simp add: Deployment_init_def)+

lemma codes_program [codes_intros]:
  "program_storable x \<Longrightarrow> codes (write_program x) read_program x"
  unfolding write_program_def read_program_def program_storable_def vec_storable_def
  by (rule codes_enums codes_intros |
      simp add: ProgramArtifact_init_def list_all_iff kMaxContainerCount_def)+

lemma codes_service [codes_intros]:
  "service_storable x \<Longrightarrow> codes (write_service x) read_service x"
  unfolding write_service_def read_service_def service_storable_def vec_storable_def
  by (rule codes_enums codes_intros |
      simp add: ServiceDefinition_init_def list_all_iff kMaxContainerCount_def)+

lemma fold_caps_add:
  "(\<And>k c. (k, c) \<in> set es \<Longrightarrow> cp_key c = k) \<Longrightarrow> fold caps_add (map snd es) m = smap.assign_list es m"
proof (induction es arbitrary: m)
  case (Cons e es)
  obtain k c where e: "e = (k, c)" by (cases e)
  have "cp_key c = k" by (rule Cons.prems) (simp add: e)
  moreover have "fold caps_add (map snd es) m' = smap.assign_list es m'" for m'
    by (rule Cons.IH, rule Cons.prems) simp
  ultimately show ?case by (simp add: e caps_add_def [of c])
qed simp

lemma rebuild_caps:
  assumes "caps_wf m"
  shows "fold caps_add (map snd (map_entries m)) [] = m"
proof -
  have m: "map_ordered m" "\<And>k c. map_find m k = Some c \<Longrightarrow> cp_key c = k"
    using assms by (auto simp: caps_wf_def)
  have "fold caps_add (map snd (map_entries m)) [] = smap.assign_list (map_entries m) []"
    by (rule fold_caps_add) (use m in \<open>simp add: map_ordered_entry\<close>)
  also have "\<dots> = m" using m(1) by (rule smap.rebuild)
  finally show ?thesis .
qed

lemma codes_device [codes_intros]:
  "device_storable x \<Longrightarrow> codes (write_device x) read_device x"
  unfolding write_device_def read_device_def device_storable_def vec_storable_def
  by (rule codes_enums codes_intros |
      (auto simp: DeviceRecord_init_def list_all_iff kMaxContainerCount_def rebuild_caps; fail))+

section \<open>Every record meets the codec contract\<close>

interpretation cap_codec: codec write_cap read_cap cap_storable "enc_of write_cap"
  by (rule codec_of_codes) (rule codes_cap)

interpretation device_codec: codec write_device read_device device_storable "enc_of write_device"
  by (rule codec_of_codes) (rule codes_device)

interpretation service_codec: codec write_service read_service service_storable "enc_of write_service"
  by (rule codec_of_codes) (rule codes_service)

interpretation program_codec: codec write_program read_program program_storable "enc_of write_program"
  by (rule codec_of_codes) (rule codes_program)

interpretation deployment_codec:
  codec write_deployment read_deployment deployment_storable "enc_of write_deployment"
  by (rule codec_of_codes) (rule codes_deployment)

end
