(* ===== verification/Store.thy ===== *)
theory Store
  imports StateCodec
begin

text \<open>
  The state file of \<^verbatim>\<open>include/dpufabric/persistence.h\<close> and \<^verbatim>\<open>src/persistence.cpp\<close>: what \<^verbatim>\<open>save\<close>
  writes, the checks and the reconstruction of \<^verbatim>\<open>load\<close>, and the replacement of the file on
  disk.

  \<^verbatim>\<open>load\<close> fills the live state it is given while it parses, so a \<open>loader\<close> returns the state also
  when it throws. \<open>loads p l s s'\<close> is the contract of a writer and a loader, with the rules that
  close it under the statements.

  The file system is a map from paths to contents; what the operating system answers to each
  request is the parameter \<open>io\<close>.
\<close>

section \<open>Saving\<close>

definition kStateMagic :: u32 where
  "kStateMagic = 0x44504652"

definition kFormatVersion :: u16 where
  "kFormatVersion = 1"

definition kMaxFileBytes :: nat where
  "kMaxFileBytes = 1073741824"

definition kHeaderCrcLen :: nat where
  "kHeaderCrcLen = 16"

definition kFixedHead :: nat where
  "kFixedHead = 20"

definition kTrailerFixed :: nat where
  "kTrailerFixed = 4"

definition kReserved :: u16 where
  "kReserved = 0"

definition write_weight :: "RankFactorWeight \<Rightarrow> putter" where
  "write_weight x = w_seq [p_u8 (RankFactor_value (rw_factor x)), p_i32 (rw_weight x)]"

text \<open>The devices in registration order; an identity without a record is skipped.\<close>

definition write_listed :: "(DeviceId, DeviceRecord) stdmap \<Rightarrow> DeviceId \<Rightarrow> putter" where
  "write_listed devs i = (case map_find devs i of None \<Rightarrow> w_seq [] | Some d \<Rightarrow> write_device d)"

definition write_generation ::
  "(ProgramId, ProgramGeneration) stdmap \<Rightarrow> ProgramId \<Rightarrow> ProgramGeneration \<times> ProgramArtifact \<Rightarrow> putter" where
  "write_generation current p e = (case e of (g, art) \<Rightarrow>
     w_seq [p_id g, write_program art, p_bool (map_find current p = Some g)])"

definition write_history ::
  "(ProgramId, ProgramGeneration) stdmap \<Rightarrow> ProgramId \<times> ProgramHistory \<Rightarrow> putter" where
  "write_history current e = (case e of (p, gens) \<Rightarrow>
     w_seq [p_id p, w_vec (write_generation current p) (map_entries gens)])"

definition write_usage :: "DeviceId \<times> Usage \<Rightarrow> putter" where
  "write_usage e = (case e of (i, u) \<Rightarrow>
     w_seq [p_id i, p_u64 (us_memory_bytes u), p_u64 (us_queues u), p_u64 (us_functions u),
       p_u64 (us_slots u), p_u64 (us_contexts u)])"

definition write_state :: "Snapshot \<Rightarrow> putter" where
  "write_state s = w_seq
    [p_u64 (as_u64 (sn_epoch s)), p_id (po_generation (sn_policy s)),
     p_u64 (po_version (sn_policy s)),
     p_bool (po_allow_host_fallback (sn_policy s)),
     p_bool (po_require_authoritative_evidence (sn_policy s)),
     p_bool (po_prefer_warm_deployments (sn_policy s)),
     p_bool (po_prefer_dedicated_isolation (sn_policy s)),
     p_bool (po_require_offload_for_required (sn_policy s)),
     p_u64 (po_min_headroom (sn_policy s)), p_u64 (po_max_queue_pressure (sn_policy s)),
     p_u8 (DeviceHealth_value (po_min_device_health (sn_policy s))),
     w_vec write_weight (po_weights (sn_policy s)),
     w_seq [p_u32 (of_nat (length (map_entries (sn_devices s)))),
            w_all (write_listed (sn_devices s)) (sn_device_order s)],
     w_vec write_service (map snd (map_entries (sn_services s))),
     w_vec (write_history (sn_current_program_gen s)) (map_entries (sn_programs s)),
     w_vec write_deployment (map snd (map_entries (sn_deployments s))),
     w_vec write_usage (map_entries (sn_device_usage s))]"

definition container :: "bytes \<Rightarrow> bytes" where
  "container payload =
     (let file = bytes32 kStateMagic @ bytes16 kFormatVersion @ bytes16 kReserved
                 @ bytes64 (of_nat (length payload));
          file = file @ bytes32 (crc32 (take kHeaderCrcLen file))
      in file @ payload @ bytes32 (crc32 payload))"

text \<open>
  The replacement of the file. \<open>io_write\<close> is \<open>None\<close> when everything was written, otherwise the
  part that reached the temporary file. The result lists the file system after every call that
  changes it, the points at which a crash can leave it.
\<close>

type_synonym disk = "string \<Rightarrow> bytes option"

record io =
  io_open :: bool
  io_write :: "bytes option"
  io_remove :: bool
  io_rename :: bool

definition replace_file :: "io \<Rightarrow> string \<Rightarrow> bytes \<Rightarrow> disk \<Rightarrow> unit result \<times> disk list" where
  "replace_file io path file disk =
     (let tmp = path @ ''.tmp'' in
      if \<not> io_open io then (throw_error ErrorCode.IO_ERROR ''cannot open temp state file'', [disk])
      else
        (let opened = disk(tmp \<mapsto> []) in
         case io_write io of
           Some part \<Rightarrow>
             (throw_error ErrorCode.IO_ERROR ''cannot write temp state file'',
              [disk, opened, opened(tmp \<mapsto> part)])
         | None \<Rightarrow>
             let written = opened(tmp \<mapsto> file);
                 removed = (if io_remove io then written(path := None) else written)
             in if \<not> io_rename io
                then (throw_error ErrorCode.IO_ERROR ''cannot atomically replace state file'',
                      [disk, opened, written, removed, removed(tmp := None)])
                else (Inr (), [disk, opened, written, removed,
                               removed(path := removed tmp, tmp := None)])))"

definition save :: "io \<Rightarrow> string \<Rightarrow> Snapshot \<Rightarrow> disk \<Rightarrow> unit result \<times> disk list" where
  "save io path s disk =
     (case write_state s [] of
        Inl f \<Rightarrow> (Inl f, [disk])
      | Inr payload \<Rightarrow> replace_file io path (container payload) disk)"

section \<open>Loading\<close>

type_synonym loader = "LiveState \<Rightarrow> Reader \<Rightarrow> Reader result \<times> LiveState"

definition l_bind :: "'a reader \<Rightarrow> ('a \<Rightarrow> loader) \<Rightarrow> loader" where
  "l_bind g k s r = (case g r of Inl f \<Rightarrow> (Inl f, s) | Inr (v, r') \<Rightarrow> k v s r')"

definition l_get :: "'a reader \<Rightarrow> ('a \<Rightarrow> LiveState \<Rightarrow> LiveState) \<Rightarrow> loader" where
  "l_get g f = l_bind g (\<lambda>v s r. (Inr r, f v s))"

fun l_seq :: "loader list \<Rightarrow> loader" where
  "l_seq [] s r = (Inr r, s)"
| "l_seq (l # ls) s r = (case l s r of (Inl f, s') \<Rightarrow> (Inl f, s') | (Inr r', s') \<Rightarrow> l_seq ls s' r')"

definition l_vec :: "nat \<Rightarrow> string \<Rightarrow> loader \<Rightarrow> loader" where
  "l_vec bound msg step = l_bind r_u32 (\<lambda>n s r.
     if unat n > bound then (throw_error ErrorCode.CORRUPT_STATE msg, s)
     else l_seq (replicate (unat n) step) s r)"

definition read_weight :: "RankFactorWeight reader" where
  "read_weight = r_seq
     [assign rw_factor_update (r_map RankFactor_cast r_u8), assign rw_weight_update r_i32]
     \<lparr>rw_factor = RankFactor.TIEBREAK_ID, rw_weight = 1\<rparr>"

definition read_usage :: "(DeviceId \<times> Usage) reader" where
  "read_usage = r_bind rd_id (\<lambda>i. r_map (Pair i) (r_seq
     [assign us_memory_bytes_update r_u64, assign us_queues_update r_u64,
      assign us_functions_update r_u64, assign us_slots_update r_u64,
      assign us_contexts_update r_u64] Usage_init))"

definition read_generation :: "(ProgramGeneration \<times> ProgramArtifact \<times> bool) reader" where
  "read_generation = r_bind rd_id (\<lambda>g. r_bind read_program (\<lambda>art. r_map (\<lambda>cur. (g, art, cur)) r_bool))"

definition on_policy :: "(Policy \<Rightarrow> Policy) \<Rightarrow> LiveState \<Rightarrow> LiveState" where
  "on_policy f s = s\<lparr>ls_policy := f (ls_policy s)\<rparr>"

definition to_policy :: "(('v \<Rightarrow> 'v) \<Rightarrow> Policy \<Rightarrow> Policy) \<Rightarrow> 'v reader \<Rightarrow> loader" where
  "to_policy update g = l_get g (\<lambda>v. on_policy (update (\<lambda>_. v)))"

definition add_device :: "DeviceRecord \<Rightarrow> LiveState \<Rightarrow> LiveState" where
  "add_device d s = s
     \<lparr>ls_devices := map_set (dv_device_id d) d (ls_devices s),
      ls_device_order := ls_device_order s @ [dv_device_id d],
      ls_ledgers := map_emplace (dv_device_id d) (ledger_new (dv_resource_capacity d)) (ls_ledgers s)\<rparr>"

definition add_service :: "ServiceDefinition \<Rightarrow> LiveState \<Rightarrow> LiveState" where
  "add_service d s = s\<lparr>ls_services := map_set (sd_service_id d) d (ls_services s)\<rparr>"

definition add_generation ::
  "ProgramId \<Rightarrow> ProgramGeneration \<times> ProgramArtifact \<times> bool \<Rightarrow> LiveState \<Rightarrow> LiveState" where
  "add_generation p e s = (case e of (g, art, cur) \<Rightarrow>
     let gens = (case map_find (ls_programs s) p of None \<Rightarrow> [] | Some gens \<Rightarrow> gens);
         s = s\<lparr>ls_programs := map_set p (map_set g art gens) (ls_programs s)\<rparr>
     in if cur then s\<lparr>ls_current_program_gen := map_set p g (ls_current_program_gen s)\<rparr> else s)"

definition load_history :: loader where
  "load_history = l_bind rd_id (\<lambda>p.
     l_vec 256 ''program generation count out of bounds''
       (l_get read_generation (add_generation p)))"

definition add_deployment :: "Deployment \<Rightarrow> LiveState \<Rightarrow> LiveState" where
  "add_deployment d s = s\<lparr>ls_deployments := map_set (dp_deployment_id d) d (ls_deployments s)\<rparr>"

definition add_usage :: "DeviceId \<times> Usage \<Rightarrow> LiveState \<Rightarrow> LiveState" where
  "add_usage e s = s\<lparr>ls_usage := map_set (fst e) (snd e) (ls_usage s)\<rparr>"

definition load_sections :: "loader list" where
  "load_sections =
    [l_get r_u64 (\<lambda>v s. s\<lparr>ls_epoch := Id (max v 1)\<rparr>),
     to_policy po_generation_update rd_id, to_policy po_version_update r_u64,
     to_policy po_allow_host_fallback_update r_bool,
     to_policy po_require_authoritative_evidence_update r_bool,
     to_policy po_prefer_warm_deployments_update r_bool,
     to_policy po_prefer_dedicated_isolation_update r_bool,
     to_policy po_require_offload_for_required_update r_bool,
     to_policy po_min_headroom_update r_u64, to_policy po_max_queue_pressure_update r_u64,
     to_policy po_min_device_health_update (r_map DeviceHealth_cast r_u8),
     l_vec 64 ''policy weight count out of bounds''
       (l_get read_weight (\<lambda>wt. on_policy (po_weights_update (\<lambda>ws. ws @ [wt])))),
     l_vec kMaxContainerCount ''device count out of bounds'' (l_get read_device add_device),
     l_vec kMaxContainerCount ''service count out of bounds'' (l_get read_service add_service),
     l_vec kMaxContainerCount ''program count out of bounds'' load_history,
     l_vec kMaxContainerCount ''deployment count out of bounds''
       (l_get read_deployment add_deployment),
     l_vec kMaxContainerCount ''usage count out of bounds'' (l_get read_usage add_usage)]"

definition load_fields :: loader where
  "load_fields = l_seq (load_sections @ [l_get expect_end (\<lambda>_ s. s)])"

text \<open>No live authority survives: evidence is stale, running deployments are fenced.\<close>

definition fence_loaded_device :: "DeviceRecord \<Rightarrow> DeviceRecord" where
  "fence_loaded_device d =
     (let d = d\<lparr>dv_evidence_fresh := False\<rparr> in
      if dv_lifecycle d \<noteq> DeviceLifecycle.RETIRED \<and> dv_lifecycle d \<noteq> DeviceLifecycle.FAILED \<and>
         dv_lifecycle d \<noteq> DeviceLifecycle.OFFLINE
      then d\<lparr>dv_lifecycle := DeviceLifecycle.REVALIDATION_REQUIRED\<rparr> else d)"

definition fence_loaded_deployment :: "Deployment \<Rightarrow> Deployment" where
  "fence_loaded_deployment d =
     (let d = (if dp_state d = DeploymentState.ACTIVE \<or> dp_state d = DeploymentState.DEGRADED \<or>
                  dp_state d = DeploymentState.DRAINING
               then d\<lparr>dp_state := DeploymentState.REVALIDATION_REQUIRED\<rparr> else d)
      in d\<lparr>dp_authoritative := False, dp_activation := None\<rparr>)"

definition fence_loaded :: "LiveState \<Rightarrow> LiveState" where
  "fence_loaded s = s
     \<lparr>ls_devices := map_update_all (\<lambda>_. fence_loaded_device) (ls_devices s),
      ls_deployments := map_update_all (\<lambda>_. fence_loaded_deployment) (ls_deployments s),
      ls_activations := []\<rparr>"

definition load_payload :: "bytes \<Rightarrow> LiveState \<Rightarrow> unit result \<times> LiveState" where
  "load_payload payload s =
     (case load_fields s (reader_new payload) of
        (Inl f, s') \<Rightarrow> (Inl f, s')
      | (Inr r, s') \<Rightarrow> (Inr (), fence_loaded s'))"

text \<open>The checks on the container, before the state is touched: its payload.\<close>

definition state_header :: "(u64 \<times> u32) reader" where
  "state_header = r_bind r_u32 (\<lambda>magic.
     if magic \<noteq> kStateMagic then r_throw ErrorCode.CORRUPT_STATE ''bad state magic''
     else r_bind r_u16 (\<lambda>ver.
       if ver \<noteq> kFormatVersion then r_throw ErrorCode.CORRUPT_STATE ''unsupported state version''
       else r_bind r_u16 (\<lambda>res.
         if res \<noteq> kReserved then r_throw ErrorCode.CORRUPT_STATE ''bad reserved field''
         else r_bind r_u64 (\<lambda>len.
           if unat len > kMaxFileBytes
           then r_throw ErrorCode.CORRUPT_STATE ''payload length exceeds bound''
           else r_bind r_u32 (\<lambda>crc. r_return (len, crc))))))"

definition open_container :: "bytes \<Rightarrow> bytes result" where
  "open_container buf =
     (if length buf = 0 then throw_error ErrorCode.CORRUPT_STATE ''empty state file''
      else if length buf > kMaxFileBytes
      then throw_error ErrorCode.CORRUPT_STATE ''state file exceeds bound''
      else if length buf < kFixedHead + kTrailerFixed
      then throw_error ErrorCode.CORRUPT_STATE ''state file too small''
      else
        (case state_header (reader_new buf) of
           Inl f \<Rightarrow> Inl f
         | Inr ((len, header_crc), _) \<Rightarrow>
             if crc32 (take kHeaderCrcLen buf) \<noteq> header_crc
             then throw_error ErrorCode.CHECKSUM_FAILURE ''state header checksum mismatch''
             else if length buf \<noteq> kFixedHead + unat len + kTrailerFixed
             then throw_error ErrorCode.CORRUPT_STATE ''state file has trailing or missing bytes''
             else
               (let payload = take (unat len) (drop kFixedHead buf);
                    tail = take kTrailerFixed (drop (kFixedHead + unat len) buf)
                in case r_u32 (reader_new tail) of
                     Inl f \<Rightarrow> Inl f
                   | Inr (payload_crc, _) \<Rightarrow>
                       if crc32 payload \<noteq> payload_crc
                       then throw_error ErrorCode.CHECKSUM_FAILURE ''state payload checksum mismatch''
                       else Inr payload)))"

text \<open>What reading the file returns: nothing there, an input error, or its contents.\<close>

datatype (plugins only: code size) file_read = Absent | Unreadable string | Contents bytes

definition load :: "file_read \<Rightarrow> LiveState \<Rightarrow> bool result \<times> LiveState" where
  "load file s =
     (case file of
        Absent \<Rightarrow> (Inr False, s)
      | Unreadable msg \<Rightarrow> (throw_error ErrorCode.IO_ERROR msg, s)
      | Contents buf \<Rightarrow>
          (case open_container buf of
             Inl f \<Rightarrow> (Inl f, s)
           | Inr payload \<Rightarrow>
               (case load_payload payload s of
                  (Inl f, s') \<Rightarrow> (Inl f, s')
                | (Inr _, s') \<Rightarrow> (Inr True, s'))))"

end
