(* ===== verification/StoreLaws.thy ===== *)
theory StoreLaws
  imports Store
begin

text \<open>
  The laws of the state file: the container accepts exactly what \<open>container\<close> builds, the loader
  reads what the writer wrote, every failure is one of five error codes, and what the file
  system holds at each point of a save.
\<close>

section \<open>The container\<close>

lemma state_header_at:
  "state_header (reader_at [] (bytes32 kStateMagic @ bytes16 kFormatVersion @ bytes16 kReserved @
     bytes64 n @ bytes32 c @ rest)) =
   (if unat n > kMaxFileBytes
    then throw_error ErrorCode.CORRUPT_STATE ''payload length exceeds bound''
    else Inr ((n, c), reader_at (bytes32 kStateMagic @ bytes16 kFormatVersion @ bytes16 kReserved @
      bytes64 n @ bytes32 c) rest))"
  by (simp add: state_header_def r_throw_def r_return_def r_bind_eq)

lemma state_header_only:
  assumes "state_header (reader_at [] buf) = Inr ((n, c), r)"
  shows "\<exists>rest. buf = bytes32 kStateMagic @ bytes16 kFormatVersion @ bytes16 kReserved @
    bytes64 n @ bytes32 c @ rest \<and> unat n \<le> kMaxFileBytes"
proof -
  from assms obtain r1 r2 r3 r4 where
    rd: "r_u32 (reader_at [] buf) = Inr (kStateMagic, r1)" "r_u16 r1 = Inr (kFormatVersion, r2)"
      "r_u16 r2 = Inr (kReserved, r3)" "r_u64 r3 = Inr (n, r4)" "r_u32 r4 = Inr (c, r)"
    and n: "unat n \<le> kMaxFileBytes"
    by (auto simp: state_header_def r_bind_Inr r_throw_def r_return_def not_less split: if_splits)
  from u32_codec.get_only [OF rd(1)] obtain b1 where
    1: "buf = bytes32 kStateMagic @ b1" "r1 = reader_at (bytes32 kStateMagic) b1" by auto
  from u16_codec.get_only [OF rd(2) [unfolded 1(2)]] obtain b2 p2 where
    2: "b1 = bytes16 kFormatVersion @ b2" "r2 = reader_at p2 b2" by auto
  from u16_codec.get_only [OF rd(3) [unfolded 2(2)]] obtain b3 p3 where
    3: "b2 = bytes16 kReserved @ b3" "r3 = reader_at p3 b3" by auto
  from u64_codec.get_only [OF rd(4) [unfolded 3(2)]] obtain b4 p4 where
    4: "b3 = bytes64 n @ b4" "r4 = reader_at p4 b4" by auto
  from u32_codec.get_only [OF rd(5) [unfolded 4(2)]] obtain b5 where
    5: "b4 = bytes32 c @ b5" by auto
  show ?thesis using 1(1) 2(1) 3(1) 4(1) 5 n by auto
qed

definition state_head :: "u64 \<Rightarrow> bytes" where
  "state_head n = bytes32 kStateMagic @ bytes16 kFormatVersion @ bytes16 kReserved @ bytes64 n"

lemma length_state_head [simp]: "length (state_head n) = 16"
  by (simp add: state_head_def)

lemma container_bytes:
  "container p = state_head (of_nat (length p)) @ bytes32 (crc32 (state_head (of_nat (length p)))) @
     p @ bytes32 (crc32 p)"
  by (simp add: container_def state_head_def kHeaderCrcLen_def Let_def)

lemma length_container [simp]: "length (container p) = length p + 24"
  by (simp add: container_bytes)

lemma read_tail: "r_u32 (reader_new (bytes32 c)) = Inr (c, reader_at (bytes32 c) [])"
  using u32_codec.get_enc [where pre = "[]" and a = c and post = "[]"] by (simp add: reader_new_at)

lemma open_layout:
  assumes "buf = state_head n @ bytes32 hc @ rest" "length buf \<le> kMaxFileBytes" "24 \<le> length buf"
    "unat n \<le> kMaxFileBytes"
  shows "open_container buf =
    (if crc32 (state_head n) \<noteq> hc
     then throw_error ErrorCode.CHECKSUM_FAILURE ''state header checksum mismatch''
     else if length rest \<noteq> unat n + 4
     then throw_error ErrorCode.CORRUPT_STATE ''state file has trailing or missing bytes''
     else
       (case r_u32 (reader_new (drop (unat n) rest)) of
          Inl f \<Rightarrow> Inl f
        | Inr (c, _) \<Rightarrow>
            if crc32 (take (unat n) rest) \<noteq> c
            then throw_error ErrorCode.CHECKSUM_FAILURE ''state payload checksum mismatch''
            else Inr (take (unat n) rest)))"
proof -
  have "state_header (reader_new buf) = Inr ((n, hc), reader_at (state_head n @ bytes32 hc) rest)"
    using state_header_at [of n hc rest] assms(4) by (simp add: assms(1) state_head_def reader_new_at)
  moreover have "take kHeaderCrcLen buf = state_head n" "drop kFixedHead buf = rest"
    "length buf = 20 + length rest"
    by (simp_all add: assms(1) kHeaderCrcLen_def kFixedHead_def)
  moreover have "drop (kFixedHead + unat n) buf = drop (unat n) rest"
    using \<open>drop kFixedHead buf = rest\<close> by (metis add.commute drop_drop)
  ultimately show ?thesis
    using assms(2,3) by (auto simp: open_container_def kFixedHead_def kTrailerFixed_def Let_def)
qed

lemma open_container_iff:
  "open_container buf = Inr p \<longleftrightarrow> buf = container p \<and> length buf \<le> kMaxFileBytes"
proof
  assume op: "open_container buf = Inr p"
  then obtain n hc r where hd: "state_header (reader_at [] buf) = Inr ((n, hc), r)"
    and len: "length buf \<le> kMaxFileBytes" "24 \<le> length buf"
    by (auto simp: open_container_def throw_error_def reader_new_at kFixedHead_def kTrailerFixed_def
        split: if_splits sum.splits)
  from state_header_only [OF hd] obtain rest where
    buf: "buf = state_head n @ bytes32 hc @ rest" and n: "unat n \<le> kMaxFileBytes"
    by (auto simp: state_head_def)
  from op [unfolded open_layout [OF buf len n]] obtain c r' where
    t: "r_u32 (reader_at [] (drop (unat n) rest)) = Inr (c, r')" "crc32 (take (unat n) rest) = c"
      "p = take (unat n) rest" "length rest = unat n + 4" "crc32 (state_head n) = hc"
    by (auto simp: throw_error_def reader_new_at split: if_splits sum.splits)
  from u32_codec.get_only [OF t(1)] obtain post where "drop (unat n) rest = bytes32 c @ post" by auto
  moreover have "length (drop (unat n) rest) = 4" using t(4) by simp
  ultimately have "drop (unat n) rest = bytes32 c" by simp
  then have "rest = p @ bytes32 (crc32 p)" using t(2,3) by (metis append_take_drop_id)
  moreover have "n = of_nat (length p)" using t(3,4) by simp
  ultimately show "buf = container p \<and> length buf \<le> kMaxFileBytes"
    using buf t(5) len(1) by (simp add: container_bytes)
next
  assume a: "buf = container p \<and> length buf \<le> kMaxFileBytes"
  let ?n = "of_nat (length p) :: u64"
  have small: "length p + 24 \<le> kMaxFileBytes" using a length_container [of p] by metis
  then have n: "unat ?n = length p" by (simp add: unat_of_nat kMaxFileBytes_def)
  have "buf = state_head ?n @ bytes32 (crc32 (state_head ?n)) @ p @ bytes32 (crc32 p)"
    using a by (simp add: container_bytes)
  from open_layout [OF this] show "open_container buf = Inr p"
    using a n small by (auto simp: read_tail)
qed

section \<open>Writers and loaders\<close>

definition runs :: "loader \<Rightarrow> LiveState \<Rightarrow> bytes \<Rightarrow> LiveState \<Rightarrow> bool" where
  "runs l s bs s' \<longleftrightarrow>
     (\<forall>pre post. l s (reader_at pre (bs @ post)) = (Inr (reader_at (pre @ bs) post), s'))"

definition loads :: "putter \<Rightarrow> loader \<Rightarrow> LiveState \<Rightarrow> LiveState \<Rightarrow> bool" where
  "loads p l s s' \<longleftrightarrow> (\<exists>bs. writes p bs \<and> runs l s bs s')"

lemma loadsI: "writes p bs \<Longrightarrow> runs l s bs s' \<Longrightarrow> loads p l s s'"
  by (auto simp: loads_def)

lemma loadsE:
  assumes "loads p l s s'"
  obtains bs where "writes p bs" "runs l s bs s'"
  using assms by (auto simp: loads_def)

lemma runs_Nil: "runs (l_seq []) s [] s"
  by (simp add: runs_def)

lemma runs_Cons: "runs l s bs s1 \<Longrightarrow> runs (l_seq ls) s1 cs s2 \<Longrightarrow> runs (l_seq (l # ls)) s (bs @ cs) s2"
  by (simp add: runs_def)

lemma runs_bind: "reads g bs v \<Longrightarrow> runs (k v) s cs s' \<Longrightarrow> runs (l_bind g k) s (bs @ cs) s'"
  by (simp add: runs_def reads_def l_bind_def)

lemma w_seq_all: "w_seq [put x, w_all put xs] = w_all put (x # xs)"
proof
  show "w_seq [put x, w_all put xs] w = w_all put (x # xs) w" for w
    using w_seq_single [of "w_all put xs"] by (cases "put x w") simp_all
qed

lemma loads_Nil: "s = s' \<Longrightarrow> loads (w_seq []) (l_seq []) s s'"
  using loadsI [OF writes_seq_Nil runs_Nil] by simp

lemma loads_Cons:
  "loads p l s s1 \<Longrightarrow> loads (w_seq ps) (l_seq ls) s1 s2 \<Longrightarrow> loads (w_seq (p # ps)) (l_seq (l # ls)) s s2"
  by (elim loadsE, rule loadsI, erule writes_seq_Cons, assumption, erule runs_Cons, assumption)

lemma loads_bind:
  "codes p g v \<Longrightarrow> loads (w_seq ps) (k v) s s' \<Longrightarrow> loads (w_seq (p # ps)) (l_bind g k) s s'"
  by (elim loadsE codesE, rule loadsI, erule writes_seq_Cons, assumption, erule runs_bind, assumption)

lemma loads_get: "codes p g v \<Longrightarrow> loads p (l_get g f) s (f v s)"
proof -
  assume "codes p g v"
  moreover have "loads (w_seq []) (\<lambda>s r. (Inr r, f v s)) s (f v s)"
    by (rule loadsI [OF writes_seq_Nil]) (simp add: runs_def)
  ultimately show ?thesis
    using loads_bind [of p g v "[]" "\<lambda>v s r. (Inr r, f v s)"] unfolding l_get_def by simp
qed

lemma loads_policy:
  "codes p g v \<Longrightarrow> loads p (to_policy update g) s (on_policy (update (\<lambda>_. v)) s)"
  unfolding to_policy_def by (rule loads_get)

lemma loads_all:
  assumes "\<And>x s. x \<in> set xs \<Longrightarrow> loads (put x) step s (f x s)"
  shows "loads (w_all put xs) (l_seq (replicate (length xs) step)) s (fold f xs s)"
  using assms
proof (induction xs arbitrary: s)
  case Nil
  show ?case by (rule loadsI [of _ "[]"]) (simp_all add: writes_def runs_def)
next
  case (Cons x xs)
  have "loads (put x) step s (f x s)" by (simp add: Cons.prems)
  moreover have "loads (w_seq [w_all put xs]) (l_seq (replicate (length xs) step)) (f x s)
      (fold f xs (f x s))"
    unfolding w_seq_single by (rule Cons.IH) (simp add: Cons.prems)
  ultimately have "loads (w_seq [put x, w_all put xs]) (l_seq (step # replicate (length xs) step)) s
      (fold f xs (f x s))"
    by (rule loads_Cons)
  then show ?case unfolding w_seq_all by (simp del: w_all.simps l_seq.simps)
qed

lemma loads_vec:
  assumes "length xs \<le> bound" "bound < 2 ^ 32"
    and "\<And>x s. x \<in> set xs \<Longrightarrow> loads (put x) step s (f x s)"
  shows "loads (w_vec put xs) (l_vec bound msg step) s (fold f xs s)"
proof -
  let ?n = "of_nat (length xs) :: u32"
  have n: "unat ?n = length xs" using assms(1,2) by (simp add: unat_of_nat)
  have "loads (w_seq [w_all put xs]) (l_seq (replicate (length xs) step)) s (fold f xs s)"
    unfolding w_seq_single by (rule loads_all) (rule assms(3))
  then show ?thesis
    unfolding w_vec_def l_vec_def
    by (intro loads_bind [OF codes_primitive(3)]) (use n assms(1) in \<open>simp add: loads_def runs_def\<close>)
qed

section \<open>What a snapshot restores\<close>

definition weight_storable :: "RankFactorWeight \<Rightarrow> bool" where
  "weight_storable w \<longleftrightarrow> rkf_codes.canonical (rw_factor w) \<and>
     scast (ucast (rw_weight w) :: u32) = rw_weight w"

definition snapshot_storable :: "Snapshot \<Rightarrow> bool" where
  "snapshot_storable sn \<longleftrightarrow>
     dhl_codes.canonical (po_min_device_health (sn_policy sn)) \<and>
     vec_storable 64 weight_storable (po_weights (sn_policy sn)) \<and>
     vec_storable kMaxContainerCount device_storable (map snd (map_entries (sn_devices sn))) \<and>
     vec_storable kMaxContainerCount service_storable (map snd (map_entries (sn_services sn))) \<and>
     vec_storable kMaxContainerCount
       (\<lambda>e. vec_storable 256 (\<lambda>g. program_storable (snd g)) (map_entries (snd e)))
       (map_entries (sn_programs sn)) \<and>
     vec_storable kMaxContainerCount deployment_storable (map snd (map_entries (sn_deployments sn))) \<and>
     vec_storable kMaxContainerCount (\<lambda>_. True) (map_entries (sn_device_usage sn))"

text \<open>The devices of a snapshot in registration order.\<close>

definition listed_devices :: "Snapshot \<Rightarrow> DeviceRecord list" where
  "listed_devices sn = map (\<lambda>i. the (map_find (sn_devices sn) i)) (sn_device_order sn)"

definition registered :: "Snapshot \<Rightarrow> bool" where
  "registered sn \<longleftrightarrow> map_ordered (sn_devices sn) \<and> distinct (sn_device_order sn) \<and>
     (\<forall>i. i \<in> set (sn_device_order sn) \<longleftrightarrow> map_find (sn_devices sn) i \<noteq> None)"

definition load_policy :: "Policy \<Rightarrow> LiveState \<Rightarrow> LiveState" where
  "load_policy p s = s\<lparr>ls_policy := (ls_policy s)
     \<lparr>po_generation := po_generation p, po_version := po_version p,
      po_allow_host_fallback := po_allow_host_fallback p,
      po_require_authoritative_evidence := po_require_authoritative_evidence p,
      po_prefer_warm_deployments := po_prefer_warm_deployments p,
      po_prefer_dedicated_isolation := po_prefer_dedicated_isolation p,
      po_require_offload_for_required := po_require_offload_for_required p,
      po_min_headroom := po_min_headroom p, po_max_queue_pressure := po_max_queue_pressure p,
      po_min_device_health := po_min_device_health p,
      po_weights := po_weights (ls_policy s) @ po_weights p\<rparr>\<rparr>"

definition history_of ::
  "(ProgramId, ProgramGeneration) stdmap \<Rightarrow> ProgramId \<times> ProgramHistory \<Rightarrow>
   (ProgramGeneration \<times> ProgramArtifact \<times> bool) list" where
  "history_of current e =
     map (\<lambda>(g, art). (g, art, map_find current (fst e) = Some g)) (map_entries (snd e))"

definition load_histories :: "Snapshot \<Rightarrow> LiveState \<Rightarrow> LiveState" where
  "load_histories sn = fold (\<lambda>e. fold (add_generation (fst e)) (history_of (sn_current_program_gen sn) e))
     (map_entries (sn_programs sn))"

definition loaded :: "Snapshot \<Rightarrow> LiveState \<Rightarrow> LiveState" where
  "loaded sn s =
     fold add_usage (map_entries (sn_device_usage sn))
       (fold add_deployment (map snd (map_entries (sn_deployments sn)))
         (load_histories sn
           (fold add_service (map snd (map_entries (sn_services sn)))
             (fold add_device (listed_devices sn)
               (load_policy (sn_policy sn) (s\<lparr>ls_epoch := Id (max (as_u64 (sn_epoch sn)) 1)\<rparr>))))))"

lemma registered_listed:
  assumes "registered sn"
  shows "set (listed_devices sn) = snd ` set (map_entries (sn_devices sn))"
    "length (listed_devices sn) = length (map_entries (sn_devices sn))"
    "w_all (write_listed (sn_devices sn)) (sn_device_order sn) = w_all write_device (listed_devices sn)"
proof -
  have ord: "map_ordered (sn_devices sn)" and dist: "distinct (sn_device_order sn)"
    and reg: "\<And>i. i \<in> set (sn_device_order sn) \<longleftrightarrow> map_find (sn_devices sn) i \<noteq> None"
    using assms by (auto simp: registered_def)
  have keys: "set (sn_device_order sn) = fst ` set (sn_devices sn)"
    using reg map_find_None_keys [of "sn_devices sn"] by blast
  show "length (listed_devices sn) = length (map_entries (sn_devices sn))"
    using distinct_card [OF dist] distinct_card [OF map_ordered_distinct [OF ord]] keys
    by (simp add: listed_devices_def map_entries_def)
  show "set (listed_devices sn) = snd ` set (map_entries (sn_devices sn))"
    unfolding listed_devices_def set_map keys image_image map_entries_def
  proof (rule image_cong [OF refl])
    fix e
    assume "e \<in> set (sn_devices sn)"
    then show "the (map_find (sn_devices sn) (fst e)) = snd e"
      using map_ordered_entry [OF ord, of "fst e" "snd e"] by (simp add: map_entries_def)
  qed
  have "w_all (write_listed (sn_devices sn)) is =
      w_all write_device (map (\<lambda>i. the (map_find (sn_devices sn) i)) is)"
    if "set is \<subseteq> set (sn_device_order sn)" for "is"
    using that
  proof (induction "is")
    case (Cons i "is")
    then obtain d where "map_find (sn_devices sn) i = Some d" using reg [of i] by auto
    then have "write_listed (sn_devices sn) i = write_device d" by (simp add: write_listed_def)
    moreover have "w_all (write_listed (sn_devices sn)) is =
        w_all write_device (map (\<lambda>i. the (map_find (sn_devices sn) i)) is)"
      using Cons by simp
    ultimately show ?case using \<open>map_find (sn_devices sn) i = Some d\<close> by (intro ext) simp
  qed (simp add: fun_eq_iff)
  then show "w_all (write_listed (sn_devices sn)) (sn_device_order sn) = w_all write_device (listed_devices sn)"
    by (simp add: listed_devices_def)
qed

lemma codes_weight: "weight_storable x \<Longrightarrow> codes (write_weight x) read_weight x"
  unfolding write_weight_def read_weight_def weight_storable_def
  by (rule codes_enum [where val = RankFactor_value and cast = RankFactor_cast, OF rkf_codes.cast_value]
      codes_intros | simp)+

lemma codes_usage: "codes (write_usage e) read_usage e"
proof (cases e)
  case (Pair i u)
  show ?thesis
    unfolding Pair write_usage_def read_usage_def prod.case
    by (rule codes_bind codes_intros | simp add: Usage_init_def)+
qed

lemma codes_generation:
  "program_storable art \<Longrightarrow>
   codes (write_generation current p (g, art)) read_generation (g, art, map_find current p = Some g)"
  unfolding write_generation_def read_generation_def prod.case
  by (rule codes_bind codes_id codes_program | assumption)+
    (unfold w_seq_single, rule codes_map_eq, rule codes_bool, rule refl)

lemma loads_history:
  assumes "vec_storable 256 (\<lambda>g. program_storable (snd g)) (map_entries (snd e))"
  shows "loads (write_history current e) load_history s
    (fold (add_generation (fst e)) (history_of current e) s)"
proof -
  obtain p gens where e: "e = (p, gens)" by (cases e)
  let ?read = "l_vec 256 ''program generation count out of bounds'' (l_get read_generation (add_generation p))"
  have "loads (w_vec (write_generation current p) (map_entries gens)) ?read s
      (fold (\<lambda>(g, art). add_generation p (g, art, map_find current p = Some g)) (map_entries gens) s)"
  proof (rule loads_vec)
    fix x s
    assume "x \<in> set (map_entries gens)"
    then show "loads (write_generation current p x) (l_get read_generation (add_generation p)) s
        ((case x of (g, art) \<Rightarrow> add_generation p (g, art, map_find current p = Some g)) s)"
      using assms loads_get [OF codes_generation, of "snd x" current p "fst x" "add_generation p" s]
      by (auto simp: e vec_storable_def list_all_iff split: prod.split)
  qed (use assms in \<open>simp_all add: vec_storable_def e\<close>)
  moreover have "fold (\<lambda>(g, art). add_generation p (g, art, map_find current p = Some g)) (map_entries gens) s =
      fold (add_generation (fst e)) (history_of current e) s"
    by (simp add: history_of_def e fold_map comp_def split_def)
  ultimately show ?thesis
    unfolding e write_history_def load_history_def prod.case
    by (intro loads_bind [OF codes_id]) (simp only: w_seq_single e fst_conv)
qed

lemma loads_devices:
  assumes "registered sn" "vec_storable kMaxContainerCount device_storable (map snd (map_entries (sn_devices sn)))"
  shows "loads (w_seq [p_u32 (of_nat (length (map_entries (sn_devices sn)))),
            w_all (write_listed (sn_devices sn)) (sn_device_order sn)])
    (l_vec kMaxContainerCount msg (l_get read_device add_device)) s (fold add_device (listed_devices sn) s)"
proof -
  have "loads (w_vec write_device (listed_devices sn))
      (l_vec kMaxContainerCount msg (l_get read_device add_device)) s (fold add_device (listed_devices sn) s)"
    using assms(2) registered_listed [OF assms(1)]
    by (intro loads_vec loads_get codes_device)
      (auto simp: vec_storable_def kMaxContainerCount_def list_all_iff)
  then show ?thesis using registered_listed [OF assms(1)] by (simp only: w_vec_def)
qed

lemma loads_state:
  assumes "snapshot_storable sn" "registered sn"
  shows "loads (write_state sn) (l_seq load_sections) s (loaded sn s)"
proof -
  have st: "dhl_codes.canonical (po_min_device_health (sn_policy sn))"
    "vec_storable 64 weight_storable (po_weights (sn_policy sn))"
    "vec_storable kMaxContainerCount device_storable (map snd (map_entries (sn_devices sn)))"
    "vec_storable kMaxContainerCount service_storable (map snd (map_entries (sn_services sn)))"
    "vec_storable kMaxContainerCount
       (\<lambda>e. vec_storable 256 (\<lambda>g. program_storable (snd g)) (map_entries (snd e)))
       (map_entries (sn_programs sn))"
    "vec_storable kMaxContainerCount deployment_storable (map snd (map_entries (sn_deployments sn)))"
    "vec_storable kMaxContainerCount (\<lambda>_. True) (map_entries (sn_device_usage sn))"
    using assms(1) by (simp_all add: snapshot_storable_def)
  note vec = vec_storable_def list_all_iff kMaxContainerCount_def
  have weights: "loads (w_vec write_weight (po_weights (sn_policy sn)))
      (l_vec 64 msg (l_get read_weight (\<lambda>wt. on_policy (po_weights_update (\<lambda>ws. ws @ [wt]))))) s
      (fold (\<lambda>wt. on_policy (po_weights_update (\<lambda>ws. ws @ [wt]))) (po_weights (sn_policy sn)) s)" for msg s
    using st(2) by (intro loads_vec loads_get codes_weight) (simp_all add: vec)
  have weights_fold: "fold (\<lambda>wt. on_policy (po_weights_update (\<lambda>ws. ws @ [wt]))) wts s =
      on_policy (po_weights_update (\<lambda>ws. ws @ wts)) s" for wts s
    by (induction wts arbitrary: s) (simp_all add: on_policy_def comp_def)
  have services: "loads (w_vec write_service (map snd (map_entries (sn_services sn))))
      (l_vec kMaxContainerCount msg (l_get read_service add_service)) s
      (fold add_service (map snd (map_entries (sn_services sn))) s)" for msg s
    using st(4) by (intro loads_vec loads_get codes_service) (auto simp: vec)
  have deployments: "loads (w_vec write_deployment (map snd (map_entries (sn_deployments sn))))
      (l_vec kMaxContainerCount msg (l_get read_deployment add_deployment)) s
      (fold add_deployment (map snd (map_entries (sn_deployments sn))) s)" for msg s
    using st(6) by (intro loads_vec loads_get codes_deployment) (auto simp: vec)
  have usage: "loads (w_vec write_usage (map_entries (sn_device_usage sn)))
      (l_vec kMaxContainerCount msg (l_get read_usage add_usage)) s
      (fold add_usage (map_entries (sn_device_usage sn)) s)" for msg s
    using st(7) by (intro loads_vec loads_get codes_usage) (auto simp: vec)
  have programs: "loads (w_vec (write_history (sn_current_program_gen sn)) (map_entries (sn_programs sn)))
      (l_vec kMaxContainerCount msg load_history) s (load_histories sn s)" for msg s
    unfolding load_histories_def
  proof (rule loads_vec)
    show "length (map_entries (sn_programs sn)) \<le> kMaxContainerCount"
      using st(5) unfolding vec_storable_def [of kMaxContainerCount] by blast
    show "loads (write_history (sn_current_program_gen sn) e) load_history s
        (fold (add_generation (fst e)) (history_of (sn_current_program_gen sn) e) s)"
      if "e \<in> set (map_entries (sn_programs sn))" for e s
      using st(5) that unfolding vec_storable_def [of kMaxContainerCount] list_all_iff
      by (intro loads_history) blast
  qed (simp add: kMaxContainerCount_def)
  show ?thesis
    unfolding write_state_def load_sections_def
    by (rule loads_Cons loads_policy loads_get codes_bool codes_id codes_primitive
        codes_enum [where val = DeviceHealth_value and cast = DeviceHealth_cast,
          OF dhl_codes.cast_value [OF st(1)]]
        weights loads_devices [OF assms(2) st(3)] services deployments usage programs loads_Nil)+
      (cases "ls_policy s", simp add: weights_fold loaded_def load_policy_def on_policy_def)
qed

end
