(* ===== verification/StoreErrors.thy ===== *)
theory StoreErrors
  imports StoreLaws
begin

text \<open>
  The failures of the loader: every reader of the state file throws one of a few codes, for
  every input, and so does the loader that fills the live state.
\<close>

definition parse_errors :: "ErrorCode set" where
  "parse_errors = {ErrorCode.PROTOCOL_ERROR, ErrorCode.CORRUPT_STATE, ErrorCode.INVALID_ARGUMENT}"

lemma parse_errors_member [simp]:
  "ErrorCode.PROTOCOL_ERROR \<in> parse_errors" "ErrorCode.CORRUPT_STATE \<in> parse_errors"
  "ErrorCode.INVALID_ARGUMENT \<in> parse_errors"
  by (simp_all add: parse_errors_def)

section \<open>Readers\<close>

lemma throws_seq_step [throws_intros]:
  "throws_only cs (r_seq [] d)"
  "throws_only cs (g d) \<Longrightarrow> (\<And>d. throws_only cs (r_seq gs d)) \<Longrightarrow> throws_only cs (r_seq (g # gs) d)"
  by (simp_all add: throws_return throws_bind)

lemma throws_lift [throws_intros]:
  "(\<And>x. m = Inl x \<Longrightarrow> \<exists>e. x = Thrown e \<and> err_code e \<in> cs) \<Longrightarrow> throws_only cs (r_lift m)"
  by (cases m) (simp_all add: throws_only_def r_lift_def)

lemma throws_id: "throws_only parse_errors rd_id"
  unfolding rd_id_def by (intro throws_r_map throws_primitives) simp

lemma throws_key: "throws_only parse_errors rd_key"
  unfolding rd_key_def
  by (intro throws_bind throws_str throws_lift)
    (auto simp: make_key_def throw_error_def make_error_def split: if_splits)

lemma throws_class: "throws_only parse_errors rd_offload_class"
  unfolding rd_offload_class_def by (intro throws_r_map throws_primitives) simp

lemma throws_sha: "throws_only parse_errors read_sha"
  unfolding read_sha_def by (intro throws_times throws_primitives) simp

lemma throws_activation: "throws_only parse_errors read_activation"
  unfolding read_activation_def by (intro throws_bind throws_bool throws_if throws_return throws_r_map throws_id) simp

lemmas throws_fields =
  throws_seq_step throws_assign throws_field throws_check throws_r_map throws_primitives throws_str
  throws_bool throws_i32 throws_id throws_key throws_class throws_sha throws_activation throws_vec
  parse_errors_member

lemma throws_records:
  "throws_only parse_errors read_cap" "throws_only parse_errors read_capreq"
  "throws_only parse_errors read_resource_req" "throws_only parse_errors read_resource_cap"
  "throws_only parse_errors read_isolation"
  unfolding read_cap_def read_capreq_def read_resource_req_def read_resource_cap_def read_isolation_def
  by (intro throws_fields)+

lemma throws_device: "throws_only parse_errors read_device"
  unfolding read_device_def by (intro throws_fields throws_records)

lemma throws_service: "throws_only parse_errors read_service"
  unfolding read_service_def by (intro throws_fields throws_records)

lemma throws_program: "throws_only parse_errors read_program"
  unfolding read_program_def by (intro throws_fields throws_records)

lemma throws_deployment: "throws_only parse_errors read_deployment"
  unfolding read_deployment_def by (intro throws_fields throws_records)

lemma throws_entries:
  "throws_only parse_errors read_weight" "throws_only parse_errors read_usage"
  "throws_only parse_errors read_generation"
  unfolding read_weight_def read_usage_def read_generation_def
  by (intro throws_fields throws_bind throws_program)+

section \<open>Loaders\<close>

definition l_throws :: "ErrorCode set \<Rightarrow> loader \<Rightarrow> bool" where
  "l_throws cs l \<longleftrightarrow> (\<forall>s. throws_only cs (\<lambda>r. map_sum (\<lambda>f. f) (\<lambda>r'. ((), r')) (fst (l s r))))"

lemma l_throws_iff:
  "l_throws cs l \<longleftrightarrow> (\<forall>s r x s'. l s r = (Inl x, s') \<longrightarrow> (\<exists>e. x = Thrown e \<and> err_code e \<in> cs))"
  by (auto simp: l_throws_def throws_only_def map_sum_def split: sum.splits)
    (metis fst_conv prod.exhaust_sel sum.case(1))+

lemma l_throws_bind: "throws_only cs g \<Longrightarrow> (\<And>v. l_throws cs (k v)) \<Longrightarrow> l_throws cs (l_bind g k)"
  by (fastforce simp: l_throws_iff l_bind_def throws_only_def split: sum.splits)

lemma l_throws_get: "throws_only cs g \<Longrightarrow> l_throws cs (l_get g f)"
  unfolding l_get_def by (rule l_throws_bind) (simp_all add: l_throws_iff)

lemma l_throws_seq: "(\<And>l. l \<in> set ls \<Longrightarrow> l_throws cs l) \<Longrightarrow> l_throws cs (l_seq ls)"
  by (induction ls) (fastforce simp: l_throws_iff split: sum.splits prod.splits)+

lemma l_throws_vec:
  "ErrorCode.CORRUPT_STATE \<in> cs \<Longrightarrow> ErrorCode.PROTOCOL_ERROR \<in> cs \<Longrightarrow> l_throws cs step \<Longrightarrow>
   l_throws cs (l_vec bound msg step)"
  unfolding l_vec_def
proof (rule l_throws_bind)
  fix n :: u32
  assume a: "ErrorCode.CORRUPT_STATE \<in> cs" "l_throws cs step"
  have "l_throws cs (l_seq (replicate (unat n) step))" by (rule l_throws_seq) (simp add: a)
  then show "l_throws cs (\<lambda>s r. if bound < unat n then (throw_error ErrorCode.CORRUPT_STATE msg, s)
      else l_seq (replicate (unat n) step) s r)"
    using a(1) by (simp add: l_throws_iff throw_error_def make_error_def)
qed (rule throws_primitives)

lemma load_fields_throws: "l_throws parse_errors load_fields"
proof -
  have history: "l_throws parse_errors load_history"
    unfolding load_history_def
    by (intro l_throws_bind l_throws_vec l_throws_get throws_id throws_entries) simp_all
  have "\<forall>l\<in>set load_sections. l_throws parse_errors l"
    by (simp add: load_sections_def to_policy_def l_throws_get l_throws_vec throws_fields throws_entries
        throws_device throws_service throws_deployment history)
  then show ?thesis
    unfolding load_fields_def by (intro l_throws_seq) (auto intro!: l_throws_get throws_expect_end)
qed

end
