(* ===== verification/StoreSize.thy ===== *)
theory StoreSize
  imports Store
begin

text \<open>
  Writers only append. The length of a state file, computed from the snapshot without writing it. The format bounds
  a file by \<open>kMaxFileBytes\<close>, which \<^verbatim>\<open>save\<close> does not check.
\<close>

definition sized :: "putter \<Rightarrow> nat \<Rightarrow> bool" where
  "sized p n \<longleftrightarrow> (\<forall>w w'. p w = Inr w' \<longrightarrow> (\<exists>bs. w' = w @ bs \<and> length bs = n))"

lemma sizedD: "sized p n \<Longrightarrow> p w = Inr w' \<Longrightarrow> length w' = length w + n"
  unfolding sized_def by (metis length_append)

lemma sized_appends: "sized p n \<Longrightarrow> p w = Inr w' \<Longrightarrow> \<exists>bs. w' = w @ bs"
  unfolding sized_def by blast

lemma sized_eq: "sized p m \<Longrightarrow> m = n \<Longrightarrow> sized p n"
  by simp

lemma sized_Nil: "sized (w_seq []) 0"
  by (simp add: sized_def)

lemma sized_Cons: "sized p m \<Longrightarrow> sized (w_seq ps) n \<Longrightarrow> sized (w_seq (p # ps)) (m + n)"
  by (fastforce simp: sized_def res_bind_eq_Inr)

lemma sized_primitive:
  "sized (p_u8 a) 1" "sized (p_u32 c) 4" "sized (p_u64 d) 8" "sized (p_i32 e) 4" "sized (p_bool b) 1"
  by (auto simp: sized_def p_u8_def p_u32_def p_u64_def p_i32_def p_bool_def)

lemma sized_id: "sized (p_id i) 8"
  unfolding p_id_def by (rule sized_primitive)

lemma sized_class: "sized (p_offload_class c) 1"
  unfolding p_offload_class_def by (rule sized_primitive)

lemma sized_str: "sized (w_str s) (4 + length s)"
  by (auto simp: sized_def w_str_def throw_error_def split: if_splits)

lemma sized_all: "(\<And>x. sized (put x) (sz x)) \<Longrightarrow> sized (w_all put xs) (sum_list (map sz xs))"
proof (induction xs)
  case (Cons x xs)
  show ?case unfolding sized_def
  proof (intro allI impI)
    fix w w' assume "w_all put (x # xs) w = Inr w'"
    then obtain w1 where "put x w = Inr w1" "w_all put xs w1 = Inr w'" by (auto simp: res_bind_eq_Inr)
    then show "\<exists>bs. w' = w @ bs \<and> length bs = sum_list (map sz (x # xs))"
      using Cons.IH [OF Cons.prems] Cons.prems [of x] by (fastforce simp: sized_def)
  qed
qed (simp add: sized_def)

lemma sized_vec: "(\<And>x. sized (put x) (sz x)) \<Longrightarrow> sized (w_vec put xs) (4 + (sum_list (map sz xs) + 0))"
  unfolding w_vec_def by (intro sized_Cons sized_Nil sized_primitive sized_all)

lemmas sized_rules =
  sized_Nil sized_Cons sized_primitive sized_id sized_class sized_str

section \<open>Records\<close>

definition size_cap :: "Capability \<Rightarrow> nat" where
  "size_cap c = 51 + length (key_str (cp_key c)) + length (cp_detail c)"

definition size_capreq :: "CapabilityRequirement \<Rightarrow> nat" where
  "size_capreq c = 13 + length (key_str (cr_key c))"

definition size_device :: "DeviceRecord \<Rightarrow> nat" where
  "size_device d = 222 +
     sum_list (map length [dv_vendor d, dv_model d, dv_pci_reference d, dv_parent_nic_reference d,
       dv_firmware_version d, dv_runtime_version d, dv_architecture d, dv_host_comm d,
       dv_discovery_detail d]) +
     8 * length (dv_ports d) + 8 * length (dv_functions d) +
     sum_list (map size_cap (map snd (map_entries (dv_capabilities d)))) +
     length (dv_offload_classes d) + length (dv_execution_models d) +
     sum_list (map (\<lambda>s. 4 + length s) (dv_program_formats d))"

definition size_service :: "ServiceDefinition \<Rightarrow> nat" where
  "size_service s = 134 +
     sum_list (map size_capreq (sd_required_caps s)) + sum_list (map size_capreq (sd_optional_caps s)) +
     length (iso_trust_domain (sd_isolation s)) + length (iso_security_domain (sd_isolation s)) +
     length (sd_required_abi s) + length (sd_allowed_fallback_classes s) + length (sd_failure_policy s) +
     8 * length (sd_dependencies s)"

definition size_program :: "ProgramArtifact \<Rightarrow> nat" where
  "size_program p = 65 + length (pa_content_hash p) +
     sum_list (map length [pa_version p, pa_target_architecture p, pa_runtime_abi p,
       pa_provenance p, pa_size_hint p]) +
     sum_list (map size_capreq (pa_required_caps p))"

definition size_deployment :: "Deployment \<Rightarrow> nat" where
  "size_deployment d = 211 + (case dp_activation d of None \<Rightarrow> 0 | Some _ \<Rightarrow> 8)"

lemma sized_cap: "sized (write_cap c) (size_cap c)"
  unfolding write_cap_def by (rule sized_eq, (rule sized_rules)+, simp add: size_cap_def)

lemma sized_capreq: "sized (write_capreq c) (size_capreq c)"
  unfolding write_capreq_def by (rule sized_eq, (rule sized_rules)+, simp add: size_capreq_def)

lemma sized_resource_req: "sized (write_resource_req r) 40"
  unfolding write_resource_req_def by (rule sized_eq, (rule sized_rules)+, simp)

lemma sized_resource_cap: "sized (write_resource_cap r) 40"
  unfolding write_resource_cap_def by (rule sized_eq, (rule sized_rules)+, simp)

lemma sized_isolation:
  "sized (write_isolation i) (26 + length (iso_trust_domain i) + length (iso_security_domain i))"
  unfolding write_isolation_def by (rule sized_eq, (rule sized_rules)+, simp)

lemma sized_sha: "sized (write_sha h) (length h)"
  unfolding write_sha_def by (rule sized_eq, (rule sized_all sized_primitive)+, simp add: sum_list_triv)

lemma sized_activation: "sized (write_activation a) (case a of None \<Rightarrow> 1 | Some _ \<Rightarrow> 9)"
  unfolding write_activation_def
proof (cases a)
  case (Some i)
  have "sized (w_seq [p_bool True, p_id i]) 9" by (rule sized_eq, (rule sized_rules)+, simp)
  with Some show "sized (case a of None \<Rightarrow> p_bool False | Some i \<Rightarrow> w_seq [p_bool True, p_id i])
    (case a of None \<Rightarrow> 1 | Some _ \<Rightarrow> 9)" by (simp del: w_seq.simps)
qed (simp add: sized_primitive [simplified])

lemmas sized_fields =
  sized_rules sized_vec sized_cap sized_capreq sized_resource_req sized_resource_cap sized_isolation
  sized_sha sized_activation

lemma sized_device: "sized (write_device d) (size_device d)"
  unfolding write_device_def
  by (rule sized_eq, (rule sized_fields)+, simp add: size_device_def sum_list_triv comp_def)

lemma sized_service: "sized (write_service s) (size_service s)"
  unfolding write_service_def
  by (rule sized_eq, (rule sized_fields)+, simp add: size_service_def sum_list_triv comp_def)

lemma sized_program: "sized (write_program p) (size_program p)"
  unfolding write_program_def
  by (rule sized_eq, (rule sized_fields)+, simp add: size_program_def sum_list_triv comp_def)

lemma sized_deployment: "sized (write_deployment d) (size_deployment d)"
  unfolding write_deployment_def
  by (rule sized_eq, (rule sized_fields)+, simp add: size_deployment_def split: option.split)

section \<open>The whole file\<close>

definition size_history :: "ProgramId \<times> ProgramHistory \<Rightarrow> nat" where
  "size_history e = 12 + sum_list (map (\<lambda>g. 9 + size_program (snd g)) (map_entries (snd e)))"

definition size_listed :: "(DeviceId, DeviceRecord) stdmap \<Rightarrow> DeviceId \<Rightarrow> nat" where
  "size_listed devs i = (case map_find devs i of None \<Rightarrow> 0 | Some d \<Rightarrow> size_device d)"

definition size_snapshot :: "Snapshot \<Rightarrow> nat" where
  "size_snapshot s = 70 + 5 * length (po_weights (sn_policy s)) +
     sum_list (map (size_listed (sn_devices s)) (sn_device_order s)) +
     sum_list (map size_service (map snd (map_entries (sn_services s)))) +
     sum_list (map size_history (map_entries (sn_programs s))) +
     sum_list (map size_deployment (map snd (map_entries (sn_deployments s)))) +
     48 * length (map_entries (sn_device_usage s))"

lemma sized_weight: "sized (write_weight x) 5"
  unfolding write_weight_def by (rule sized_eq, (rule sized_rules)+, simp)

lemma sized_usage: "sized (write_usage e) 48"
  unfolding write_usage_def by (cases e, simp only: prod.case) (rule sized_eq, (rule sized_rules)+, simp)

lemma sized_generation: "sized (write_generation cur p g) (9 + size_program (snd g))"
  unfolding write_generation_def
  by (cases g, simp only: prod.case) (rule sized_eq, (rule sized_rules sized_program)+, simp)

lemma sized_history: "sized (write_history cur e) (size_history e)"
  unfolding write_history_def
  by (cases e, simp only: prod.case)
    (rule sized_eq, (rule sized_rules sized_vec sized_generation)+, simp add: size_history_def)

lemma sized_listed: "sized (write_listed devs i) (size_listed devs i)"
  by (simp add: write_listed_def size_listed_def sized_device sized_Nil [simplified] split: option.split)

theorem sized_state: "sized (write_state s) (size_snapshot s)"
  unfolding write_state_def
  by (rule sized_eq, (rule sized_rules sized_vec sized_weight sized_usage sized_history
        sized_all sized_listed sized_service sized_deployment)+,
      simp add: size_snapshot_def sum_list_triv comp_def)

end
