(* ===== verification/RecoveryProps.thy ===== *)
theory RecoveryProps
  imports Recovery StoreErrors StoreSize
begin

text \<open>
  What a restart guarantees, and what it does not: the round trip of the state file, fencing,
  the errors of loading, the states in which a crash can leave the disk, and three ways in
  which a recovered coordinator departs from what its comments promise.
\<close>

section \<open>Round trip\<close>

definition good_io :: "io \<Rightarrow> bool" where
  "good_io io \<longleftrightarrow> io_open io \<and> io_write io = None \<and> io_rename io"

lemma persist_succeeds:
  assumes "state_ok (en_state e)" "en_snap e = make_snapshot (en_state e)"
    "snapshot_storable (en_snap e)" "good_io io"
  shows "\<exists>trace. persist io path e disk = (Inr (), trace)"
proof -
  have "registered (en_snap e)" using assms(1,2) by (simp add: state_ok_registered)
  from loads_state [OF assms(3) this, of "en_state e"] obtain bs where "write_state (en_snap e) [] = Inr bs"
    by (auto simp: loads_def writes_def)
  then show ?thesis
    using assms(4) by (simp add: persist_def save_def replace_file_def good_io_def Let_def)
qed

lemma persist_recover:
  assumes "reachable n e" "snapshot_storable (en_snap e)" "good_io io"
    and "size_snapshot (en_snap e) + 24 \<le> kMaxFileBytes"
  shows "\<exists>trace. persist io path e disk = (Inr (), trace) \<and>
    recover_from (file_at (last trace) path) (engine_new ep policy) =
      (Inr True, restarted (en_state e) (engine_new ep policy))"
proof -
  have ok: "state_ok (en_state e)" "en_snap e = make_snapshot (en_state e)"
    using assms(1) by (simp_all add: reachable_state reachable_snapshot)
  obtain trace where p: "persist io path e disk = (Inr (), trace)"
    using persist_succeeds [OF ok assms(2,3)] by blast
  obtain payload where w: "write_state (en_snap e) [] = Inr payload"
    "last trace path = Some (container payload)"
    using persist_written [OF p] by blast
  have "length (container payload) \<le> kMaxFileBytes"
    using sizedD [OF sized_state w(1)] assms(4) by simp
  from recover_container [OF ok(1) assms(2) [unfolded ok(2)] w(1) [unfolded ok(2)] this blank_new]
  have "recover_from (file_at (last trace) path) (engine_new ep policy) =
      (Inr True, restarted (en_state e) (engine_new ep policy))"
    by (simp add: file_at_def w(2))
  with p show ?thesis by blast
qed

lemma caps_wf_code [code]:
  "caps_wf m \<longleftrightarrow> map_ordered m \<and> list_all (\<lambda>(k, c). cp_key c = k) (map_entries m)"
proof (cases "map_ordered m")
  case True
  then show ?thesis
    by (auto simp: caps_wf_def list_all_iff map_ordered_entry split_def) (metis fst_conv snd_conv map_ordered_entry)
qed (simp add: caps_wf_def)

lemmas canonical_defs =
  dhl_codes.canonical_def rkf_codes.canonical_def ofc_codes.canonical_def cst_codes.canonical_def
  prs_codes.canonical_def exc_codes.canonical_def dcl_codes.canonical_def dlc_codes.canonical_def
  dst_codes.canonical_def isr_codes.canonical_def exm_codes.canonical_def art_codes.canonical_def
  stf_codes.canonical_def sec_codes.canonical_def loc_codes.canonical_def

lemmas storable_defs =
  snapshot_storable_def weight_storable_def device_storable_def deployment_storable_def
  vec_storable_def cap_storable_def class_storable_def str_ok_def canonical_defs

lemma demo_storable: "snapshot_storable (en_snap (demo_engine demo_commit))"
  by (code_simp, simp add: storable_defs map_entries_def kMaxContainerCount_def caps_wf_code, code_simp)

lemma demo_size: "size_snapshot (en_snap (demo_engine demo_commit)) \<le> 1000"
  by code_simp

text \<open>
  C3. Persisting a reachable engine whose snapshot is within the bounds of the format succeeds
  when the file system does, and a new coordinator that recovers from the file it left behind
  is in exactly the state \<open>restored\<close> specifies: every registry as it was, in registration order,
  with the program generations and the current ones; the evidence of devices stale, running
  deployments fenced, no authority and no activation; ledgers empty; the epoch one above the
  persisted one; and the snapshot published.
\<close>

theorem recover_persisted:
  assumes "reachable n e" "snapshot_storable (en_snap e)" "good_io io"
    and "size_snapshot (en_snap e) + 24 \<le> kMaxFileBytes"
  shows "\<exists>trace. persist io path e disk = (Inr (), trace) \<and>
    recover_from (file_at (last trace) path) (engine_new ep policy) =
      (Inr True, restarted (en_state e) (engine_new ep policy))"
  using assms by (rule persist_recover)

theorem recover_persisted_witness:
  "\<exists>trace. persist \<lparr>io_open = True, io_write = None, io_remove = True, io_rename = True\<rparr> ''state''
      (demo_engine demo_commit) (\<lambda>_. None) = (Inr (), trace) \<and>
    recover_from (file_at (last trace) ''state'') (engine_new (Id 1) (Policy_defaults (Id 1))) =
      (Inr True, restarted (en_state (demo_engine demo_commit))
        (engine_new (Id 1) (Policy_defaults (Id 1))))"
  by (rule recover_persisted [OF demo_reachable demo_storable])
    (use demo_size in \<open>simp_all add: good_io_def kMaxFileBytes_def\<close>)

section \<open>Nothing is trusted after a restart\<close>

lemma reset_ledger_fields [simp]:
  "ls_devices (fold reset_ledger es s) = ls_devices s"
  "ls_deployments (fold reset_ledger es s) = ls_deployments s"
  "ls_activations (fold reset_ledger es s) = ls_activations s"
  by (simp_all add: fold_reset_ledger)

lemma recovered_load:
  assumes "recover_from file e = (Inr True, e')"
  obtains s where "e' = rebuild_snapshot (e\<lparr>en_state := en_state e', en_recovered := True\<rparr>)"
    "ls_devices (en_state e') = ls_devices (fence_loaded s)"
    "ls_deployments (en_state e') = ls_deployments (fence_loaded s)"
    "ls_activations (en_state e') = []"
proof -
  from assms obtain s where l: "load file (en_state e) = (Inr True, s)"
    by (auto simp: recover_from_def Let_def split: prod.splits sum.splits)
  then obtain s0 where s: "s = fence_loaded s0"
    by (auto simp: load_def load_payload_def throw_error_def split: prod.splits sum.splits file_read.splits)
  show ?thesis
    by (rule that [of s0])
      (use assms l s in \<open>auto simp: recover_from_def Let_def on_state_def rebuild_snapshot_def fence_loaded_def\<close>)
qed

lemma fence_loaded_device_not_ready: "\<not> is_ready_for_offload (fence_loaded_device d)"
  by (simp add: fence_loaded_device_def is_ready_for_offload_def Let_def)

lemma fence_loaded_deployment_idle:
  "\<not> dp_authoritative (fence_loaded_deployment d) \<and>
   dp_activation (fence_loaded_deployment d) = None \<and> \<not> running (fence_loaded_deployment d)"
  by (simp add: fence_loaded_deployment_def running_def Let_def)

lemma recovered_deployments:
  assumes "recover_from file e = (Inr True, e')" "map_find (ls_deployments (en_state e')) i = Some d"
  shows "\<exists>d0. d = fence_loaded_deployment d0"
proof -
  obtain s where "ls_deployments (en_state e') = ls_deployments (fence_loaded s)"
    using assms(1) by (rule recovered_load)
  then show ?thesis using assms(2) by (auto simp: fence_loaded_def)
qed

text \<open>
  C19. Whatever the file and the engine that loads it, once \<^verbatim>\<open>recover_from\<close> has returned true no
  deployment is running or holds authority or an activation, no activation is left, the
  snapshot is the current one, and an evaluation of any request against it selects no device.
\<close>

theorem recovered_is_fenced:
  assumes "recover_from file e = (Inr True, e')"
  shows "en_recovered e' \<and> en_snap e' = make_snapshot (en_state e') \<and>
    ls_activations (en_state e') = [] \<and>
    (\<forall>i d. map_find (ls_deployments (en_state e')) i = Some d \<longrightarrow>
       \<not> dp_authoritative d \<and> dp_activation d = None \<and> \<not> running d) \<and>
    (\<forall>req r. evaluate req e' = Inr r \<longrightarrow> er_selected r = None)"
proof -
  obtain s where e': "e' = rebuild_snapshot (e\<lparr>en_state := en_state e', en_recovered := True\<rparr>)"
    and devs: "ls_devices (en_state e') = ls_devices (fence_loaded s)"
    and acts: "ls_activations (en_state e') = []"
    using assms by (rule recovered_load)
  have top: "en_recovered e'" "en_snap e' = make_snapshot (en_state e')"
    by (subst e', simp add: rebuild_snapshot_def)+
  have deps: "\<not> dp_authoritative d \<and> dp_activation d = None \<and> \<not> running d"
    if "map_find (ls_deployments (en_state e')) i = Some d" for i d
    using recovered_deployments [OF assms that] by (auto simp: fence_loaded_deployment_idle)
  have "\<not> is_ready_for_offload dev" if "snap_device (en_snap e') i = Some dev" for i dev
    using that
    by (auto simp: snap_device_def top(2) make_snapshot_def devs fence_loaded_def fence_loaded_device_not_ready)
  then have "er_selected r = None" if "evaluate req e' = Inr r" for req r
    using that selected_None_iff [of "en_snap e'" req r] no_ready_device_no_candidate [of "en_snap e'"]
    by (metis evaluate_def)
  with top acts deps show ?thesis by blast
qed

text \<open>A restart whose outcome is known, for the witnesses.\<close>

definition demo_restarted :: "engine_call list \<Rightarrow> engine" where
  "demo_restarted cs =
     restarted (en_state (demo_engine cs)) (engine_new (Id 1) (Policy_defaults (Id 1)))"

definition demo_io :: io where
  "demo_io = \<lparr>io_open = True, io_write = None, io_remove = True, io_rename = True\<rparr>"

lemma demo_restart:
  assumes "snapshot_storable (en_snap (demo_engine cs))"
    "size_snapshot (en_snap (demo_engine cs)) \<le> 1000"
  shows "\<exists>file. recover_from file (engine_new (Id 1) (Policy_defaults (Id 1))) = (Inr True, demo_restarted cs)"
  using persist_recover [OF demo_reachable assms(1), of demo_io "''s''" "\<lambda>_. None" "Id 1" "Policy_defaults (Id 1)"]
    assms(2) unfolding demo_restarted_def by (force simp: good_io_def demo_io_def kMaxFileBytes_def)

theorem recovered_is_fenced_witness:
  "en_recovered (demo_restarted demo_commit) \<and>
   ls_activations (en_state (demo_restarted demo_commit)) = [] \<and>
   map_option dp_authoritative
     (map_find (ls_deployments (en_state (demo_restarted demo_commit))) (Id 1)) = Some False"
proof -
  obtain f where r: "recover_from f (engine_new (Id 1) (Policy_defaults (Id 1))) =
      (Inr True, demo_restarted demo_commit)"
    using demo_restart [OF demo_storable demo_size] by blast
  have "map_find (ls_deployments (en_state (demo_restarted demo_commit))) (Id 1) \<noteq> None" by code_simp
  with recovered_is_fenced [OF r] show ?thesis by force
qed

section \<open>Damaged files\<close>

definition recovery_errors :: "ErrorCode set" where
  "recovery_errors = parse_errors \<union> {ErrorCode.CHECKSUM_FAILURE, ErrorCode.IO_ERROR}"

lemma throws_state_header: "throws_only recovery_errors state_header"
  unfolding state_header_def
  by (intro throws_intros) (simp_all add: recovery_errors_def)

lemma open_container_throws:
  "open_container buf = Inl x \<Longrightarrow> \<exists>err. x = Thrown err \<and> err_code err \<in> recovery_errors"
  using throws_onlyD [OF throws_state_header]
    throws_onlyD [OF throws_primitives(3), of recovery_errors]
  by (auto simp: open_container_def throw_error_def make_error_def recovery_errors_def Let_def
      split: if_splits sum.splits prod.splits)

lemma load_throws:
  assumes "load file s = (Inl x, s')"
  shows "\<exists>err. x = Thrown err \<and> err_code err \<in> recovery_errors"
proof (cases "file")
  case (Contents buf)
  show ?thesis
  proof (cases "open_container buf")
    case (Inl f)
    then show ?thesis using assms open_container_throws [OF Inl] by (simp add: load_def Contents)
  next
    case (Inr payload)
    then have "fst (load_fields s (reader_new payload)) = Inl x"
      using assms by (auto simp: load_def Contents load_payload_def split: sum.splits prod.splits)
    then obtain s1 where "load_fields s (reader_new payload) = (Inl x, s1)" by (metis prod.collapse)
    then show ?thesis
      using load_fields_throws unfolding l_throws_iff recovery_errors_def by blast
  qed
qed (use assms in \<open>auto simp: load_def throw_error_def make_error_def recovery_errors_def\<close>)

lemma load_accepts:
  assumes "load file s = (Inr b, s')"
  shows "(b \<longleftrightarrow> file \<noteq> Absent) \<and>
    (b \<longrightarrow> (\<exists>p. file = Contents (container p) \<and> length (container p) \<le> kMaxFileBytes))"
proof (cases "file")
  case (Contents buf)
  then obtain p where "open_container buf = Inr p"
    using assms by (auto simp: load_def split: sum.splits)
  then have "buf = container p" "length buf \<le> kMaxFileBytes" unfolding open_container_iff by blast+
  moreover have b using assms Contents by (auto simp: load_def split: sum.splits prod.splits)
  ultimately show ?thesis using Contents by (auto simp del: length_container)
qed (use assms in \<open>auto simp: load_def\<close>)

lemma recover_fst:
  "fst (recover_from file e) = fst (load file (en_state e))"
  by (cases "load file (en_state e)", cases "fst (load file (en_state e))")
    (auto simp: recover_from_def Let_def)

text \<open>
  C20. Recovery is total. For every file it returns, or throws one of five error codes, and
  never runs into undefined behaviour. It returns false exactly when there is no file, and true
  only when the file is byte for byte a container around some payload, within the bound. A file
  that is not such a container is refused before the state of the engine is touched.
\<close>

theorem recovery_outcomes:
  "(\<forall>x. fst (recover_from file e) = Inl x \<longrightarrow>
      (\<exists>err. x = Thrown err \<and> err_code err \<in> recovery_errors)) \<and>
   (fst (recover_from file e) = Inr False \<longleftrightarrow> file = Absent) \<and>
   (fst (recover_from file e) = Inr True \<longrightarrow>
      (\<exists>p. file = Contents (container p) \<and> length (container p) \<le> kMaxFileBytes)) \<and>
   (\<forall>buf. file = Contents buf \<and> (\<forall>p. buf \<noteq> container p) \<longrightarrow>
      snd (recover_from file e) = e \<and> \<not> is_ok (fst (recover_from file e)))"
proof (intro conjI allI impI)
  obtain r s where l: "load file (en_state e) = (r, s)" by (cases "load file (en_state e)")
  show "\<exists>err. x = Thrown err \<and> err_code err \<in> recovery_errors" if "fst (recover_from file e) = Inl x" for x
    using that l load_throws [of "file" "en_state e"] by (simp add: recover_fst)
  show "\<exists>p. file = Contents (container p) \<and> length (container p) \<le> kMaxFileBytes"
    if "fst (recover_from file e) = Inr True"
    using that l load_accepts [of "file" "en_state e" True] by (simp add: recover_fst)
  show "fst (recover_from file e) = Inr False \<longleftrightarrow> file = Absent"
    using l load_accepts [of "file" "en_state e" False] by (auto simp: recover_fst load_def)
  show "snd (recover_from file e) = e" "\<not> is_ok (fst (recover_from file e))"
    if "file = Contents buf \<and> (\<forall>p. buf \<noteq> container p)" for buf
  proof -
    have "open_container buf \<noteq> Inr p" for p using that by (simp add: open_container_iff)
    then obtain f where "open_container buf = Inl f" by (metis old.sum.exhaust)
    then show "snd (recover_from file e) = e" "\<not> is_ok (fst (recover_from file e))"
      using that by (simp_all add: recover_from_def load_def)
  qed
qed

theorem recovery_outcomes_witness:
  "fst (recover_from Absent (demo_engine demo_commit)) = Inr False \<and>
   snd (recover_from (Contents [1, 2, 3]) (demo_engine demo_commit)) = demo_engine demo_commit"
proof -
  have "[1, 2, 3] \<noteq> container p" for p
  proof
    assume "[1, 2, 3] = container p"
    then have "length [1 :: u8, 2, 3] = length p + 24" by (metis length_container)
    then show False by simp
  qed
  then show ?thesis
    using recovery_outcomes [of "Contents [1, 2, 3]" "demo_engine demo_commit"]
      recovery_outcomes [of Absent "demo_engine demo_commit"] by blast
qed

text \<open>
  C31. One wrong byte in the payload of a state file is detected, wherever it is and whatever it
  became: recovery throws \<open>CHECKSUM_FAILURE\<close> and leaves the engine as it was.
\<close>

theorem corrupted_state_detected:
  assumes "length (container p) \<le> kMaxFileBytes" "k < length p" "y \<noteq> p ! k"
  shows "recover_from (Contents ((container p)[20 + k := y])) e =
    (throw_error ErrorCode.CHECKSUM_FAILURE ''state payload checksum mismatch'', e)"
proof -
  let ?q = "p[k := y]" and ?n = "of_nat (length p) :: u64"
  let ?hc = "crc32 (state_head ?n)"
  have small: "length p + 24 \<le> kMaxFileBytes" using assms(1) by simp
  then have n: "unat ?n = length p" by (simp add: unat_of_nat kMaxFileBytes_def)
  have buf: "(container p)[20 + k := y] = state_head ?n @ bytes32 ?hc @ (?q @ bytes32 (crc32 p))"
    using assms(2) by (simp add: container_bytes list_update_append)
  have "p = take k p @ p ! k # drop (Suc k) p" "?q = take k p @ y # drop (Suc k) p"
    using assms(2) by (simp_all add: id_take_nth_drop [symmetric] upd_conv_take_nth_drop)
  then have crc: "crc32 ?q \<noteq> crc32 p" using crc32_detects assms(3) by metis
  have "open_container ((container p)[20 + k := y]) =
      throw_error ErrorCode.CHECKSUM_FAILURE ''state payload checksum mismatch''"
    using open_layout [OF buf] small n crc by (simp add: read_tail)
  then show ?thesis by (simp add: recover_from_def load_def throw_error_def)
qed

theorem corrupted_state_detected_witness:
  "recover_from (Contents ((container [1, 2, 3])[21 := 7])) (demo_engine demo_commit) =
    (throw_error ErrorCode.CHECKSUM_FAILURE ''state payload checksum mismatch'', demo_engine demo_commit)"
  using corrupted_state_detected [of "[1, 2, 3]" 1 7 "demo_engine demo_commit"]
  by (simp add: kMaxFileBytes_def)

section \<open>Replacing the file\<close>

text \<open>
  C32. The file system while a state is saved. A crash can leave it at any element of the trace.
  At every one the state file is the old one, absent, or the complete new one, never a mixture,
  and no file but the state file and its temporary is touched; when the call returns, the new
  file is in place and the temporary is gone. The replacement is not atomic: if there was a
  file to remove, there is a point at which there is none.
\<close>

theorem save_crash_points:
  assumes "persist io path e disk = (r, trace)"
  shows "(\<forall>d\<in>set trace. (d path = disk path \<or> d path = None \<or>
              (\<exists>payload. write_state (en_snap e) [] = Inr payload \<and> d path = Some (container payload))) \<and>
            (\<forall>q. q \<noteq> path \<and> q \<noteq> path @ ''.tmp'' \<longrightarrow> d q = disk q)) \<and>
         (r = Inr () \<longrightarrow> last trace path \<noteq> None \<and> last trace (path @ ''.tmp'') = None \<and>
            (io_remove io \<longrightarrow> (\<exists>d\<in>set trace. d path = None)))"
  using assms
  by (auto simp: persist_def save_def replace_file_def throw_error_def Let_def
      split: sum.splits option.splits if_splits)

theorem save_crash_points_witness:
  "\<exists>trace. persist demo_io ''state'' (demo_engine demo_commit) (\<lambda>_. Some []) = (Inr (), trace) \<and>
     last trace ''state'' \<noteq> None \<and> (\<exists>d\<in>set trace. d ''state'' = None)"
proof -
  obtain trace where p: "persist demo_io ''state'' (demo_engine demo_commit) (\<lambda>_. Some []) = (Inr (), trace)"
    using persist_recover [OF demo_reachable demo_storable, of demo_io] demo_size
    by (force simp: good_io_def demo_io_def kMaxFileBytes_def)
  from save_crash_points [OF p] p show ?thesis by (auto simp: demo_io_def)
qed

text \<open>
  A replacement that fails at the last step loses the state: the old file has been removed,
  and the error path removes the temporary with the new contents too.
\<close>

theorem failed_rename_loses_state:
  assumes "write_state (en_snap e) [] = Inr payload"
    and "io_open io" "io_write io = None" "io_remove io" "\<not> io_rename io"
  shows "fst (persist io path e disk) = throw_error ErrorCode.IO_ERROR ''cannot atomically replace state file'' \<and>
    last (snd (persist io path e disk)) path = None \<and>
    last (snd (persist io path e disk)) (path @ ''.tmp'') = None"
  using assms by (simp add: persist_def save_def replace_file_def Let_def)

theorem failed_rename_loses_state_witness:
  "last (snd (persist (demo_io\<lparr>io_rename := False\<rparr>) ''state'' (demo_engine demo_commit) (\<lambda>_. Some [])))
     ''state'' = None"
proof -
  obtain trace where "persist demo_io ''state'' (demo_engine demo_commit) (\<lambda>_. Some []) = (Inr (), trace)"
    using persist_recover [OF demo_reachable demo_storable, of demo_io] demo_size
    by (force simp: good_io_def demo_io_def kMaxFileBytes_def)
  then obtain payload where "write_state (en_snap (demo_engine demo_commit)) [] = Inr payload"
    using persist_written by blast
  from failed_rename_loses_state [OF this, of "demo_io\<lparr>io_rename := False\<rparr>"] show ?thesis
    by (simp add: demo_io_def)
qed

section \<open>Where a restart departs from its comments\<close>

lemma recovered_id_seq: "en_id_seq (snd (recover_from file e)) = en_id_seq e"
  by (simp add: recover_from_def on_state_def rebuild_snapshot_def Let_def split: prod.split sum.split)

lemma update_device_kept:
  "en_id_seq (snd (update_device rec e)) = en_id_seq e"
  "ls_deployments (en_state (snd (update_device rec e))) = ls_deployments (en_state e)"
  by (simp_all add: update_device_def refuse_def Let_def commit_state_def on_state_def rebuild_snapshot_def
      split: option.split)

text \<open>
  C35. Identities are reused after a restart: the counter that names deployments starts again at
  1, so the first reservation of a recovered coordinator takes the identity of the deployment
  that was recovered under it and overwrites the record.
\<close>

theorem recovered_identities_collide:
  assumes "recover_from file (engine_new ep policy) = (Inr True, e)"
    and "map_find (ls_deployments (en_state e)) (Id 1) = Some old"
    and "reserve_deployment req elig (snd (update_device rec e)) = (Inr i, e')"
  shows "i = Id 1 \<and> (\<exists>new. map_find (ls_deployments (en_state e')) (Id 1) = Some new \<and>
    dp_state new = DeploymentState.RESERVED \<and> Some (dp_device new) = er_selected elig)"
proof -
  let ?e = "snd (update_device rec e)"
  have "en_id_seq ?e = 1"
    using recovered_id_seq [of "file" "engine_new ep policy"] assms(1)
    by (simp add: update_device_kept engine_new_def rebuild_snapshot_def)
  moreover obtain did dev svc where "er_selected elig = Some did"
    "reserve_on req svc did dev ?e = (Inr i, e')"
    using assms(3) by (auto simp: reserve_deployment_def refuse_def throw_error_def split: option.splits if_splits)
  moreover then obtain l where "i = Id (en_id_seq ?e)"
    "e' = commit_state (reserve_state req svc did dev l (en_id_seq ?e)) (?e\<lparr>en_id_seq := en_id_seq ?e + 2\<rparr>)"
    by (auto simp: reserve_on_cases Let_def refuse_def throw_error_def split: option.splits if_splits)
  ultimately show ?thesis
    by (simp add: reserve_state_def Let_def put_deployment_def)
qed

lemma demo_collision:
  "fst (reserve_deployment demo_plain demo_selection
     (snd (update_device (demo_device 7 DeviceClass.DPU) (demo_restarted demo_commit)))) = Inr (Id 1)"
  "\<exists>old. map_find (ls_deployments (en_state (demo_restarted demo_commit))) (Id 1) = Some old"
proof -
  have "map_find (ls_deployments (en_state (demo_restarted demo_commit))) (Id 1) \<noteq> None" by code_simp
  then show "\<exists>old. map_find (ls_deployments (en_state (demo_restarted demo_commit))) (Id 1) = Some old"
    by blast
qed code_simp

theorem recovered_identities_collide_witness:
  "map_option dp_state (map_find (ls_deployments (en_state (snd (reserve_deployment demo_plain demo_selection
     (snd (update_device (demo_device 7 DeviceClass.DPU) (demo_restarted demo_commit))))))) (Id 1)) =
   Some DeploymentState.RESERVED"
proof -
  obtain f where r: "recover_from f (engine_new (Id 1) (Policy_defaults (Id 1))) =
      (Inr True, demo_restarted demo_commit)"
    using demo_restart [OF demo_storable demo_size] by blast
  obtain old where old: "map_find (ls_deployments (en_state (demo_restarted demo_commit))) (Id 1) = Some old"
    using demo_collision(2) by blast
  obtain e' where e': "reserve_deployment demo_plain demo_selection
     (snd (update_device (demo_device 7 DeviceClass.DPU) (demo_restarted demo_commit))) = (Inr (Id 1), e')"
    using demo_collision(1) by (metis prod.collapse)
  from recovered_identities_collide [OF r old e'] show ?thesis
    unfolding e' snd_conv by (metis option.simps(9))
qed

text \<open>
  C34. A deployment that was \<open>ACTIVATING\<close> when the state was saved comes back \<open>ACTIVATING\<close> without
  its activation. Once its device reports ready again, committing it dereferences the empty
  optional: undefined behaviour, which no sequence of calls without a restart can reach.
\<close>

theorem recovered_activation_undefined:
  assumes "recover_from file e0 = (Inr True, e)"
    and "map_find (ls_deployments (en_state e)) i = Some d" "dp_state d = DeploymentState.ACTIVATING"
    and "update_device rec e = (Inr (dp_device d), e')" "is_ready_for_offload rec"
    and "is_null (dp_program d) \<or>
      map_find (ls_current_program_gen (en_state e)) (dp_program d) = Some (dp_program_gen d)"
  shows "fst (commit_deployment i e') = Inl Undefined_Behaviour"
proof -
  have "dp_activation d = None"
    using recovered_deployments [OF assms(1,2)] by (auto simp: fence_loaded_deployment_idle)
  moreover have "e' = commit_state (put_device (dp_device d) rec) e"
    using assms(4) by (auto simp: update_device_def refuse_def throw_error_def Let_def split: option.splits if_splits)
  ultimately show ?thesis
    using assms(2,3,5,6)
    by (auto simp: commit_deployment_def grant_authority_def commit_state_def on_state_def rebuild_snapshot_def
        put_device_def)
qed

lemma demo_activating:
  "snapshot_storable (en_snap (demo_engine demo_activate))"
  "size_snapshot (en_snap (demo_engine demo_activate)) \<le> 1000"
  "fst (update_device (demo_device 7 DeviceClass.DPU) (demo_restarted demo_activate)) = Inr (Id 7)"
  "map_option (\<lambda>d. (dp_state d, dp_device d, is_null (dp_program d)))
     (map_find (ls_deployments (en_state (demo_restarted demo_activate))) (Id 1)) =
   Some (DeploymentState.ACTIVATING, Id 7, True)"
  "is_ready_for_offload (demo_device 7 DeviceClass.DPU)"
      apply (code_simp, simp add: storable_defs map_entries_def kMaxContainerCount_def caps_wf_code, code_simp)
  by code_simp+

theorem recovered_activation_undefined_witness:
  "fst (commit_deployment (Id 1)
     (snd (update_device (demo_device 7 DeviceClass.DPU) (demo_restarted demo_activate)))) =
   Inl Undefined_Behaviour"
proof -
  obtain f where r: "recover_from f (engine_new (Id 1) (Policy_defaults (Id 1))) =
      (Inr True, demo_restarted demo_activate)"
    using demo_restart [OF demo_activating(1,2)] by blast
  obtain d where "map_find (ls_deployments (en_state (demo_restarted demo_activate))) (Id 1) = Some d"
    "dp_state d = DeploymentState.ACTIVATING" "dp_device d = Id 7" "is_null (dp_program d)"
    using demo_activating(4) by auto
  moreover have "update_device (demo_device 7 DeviceClass.DPU) (demo_restarted demo_activate) =
      (Inr (Id 7), snd (update_device (demo_device 7 DeviceClass.DPU) (demo_restarted demo_activate)))"
    using demo_activating(3) by (metis prod.collapse)
  ultimately show ?thesis
    using recovered_activation_undefined [OF r] demo_activating(5) by simp
qed

lemma codes_byte: "codes (p_u8 (val x)) (r_map f r_u8) (f (val x))"
  by (rule codes_map_eq, rule codes_primitive) simp

lemma w_seq_append: "w_seq (ps @ qs) w = res_bind (w_seq ps w) (w_seq qs)"
proof (induction ps arbitrary: w)
  case (Cons p ps)
  then show ?case by (cases "p w") simp_all
qed simp

text \<open>The statements before the policy's weights, and those from the devices on.\<close>

definition policy_head :: "Snapshot \<Rightarrow> putter list" where
  "policy_head s =
    [p_u64 (as_u64 (sn_epoch s)), p_id (po_generation (sn_policy s)),
     p_u64 (po_version (sn_policy s)),
     p_bool (po_allow_host_fallback (sn_policy s)),
     p_bool (po_require_authoritative_evidence (sn_policy s)),
     p_bool (po_prefer_warm_deployments (sn_policy s)),
     p_bool (po_prefer_dedicated_isolation (sn_policy s)),
     p_bool (po_require_offload_for_required (sn_policy s)),
     p_u64 (po_min_headroom (sn_policy s)), p_u64 (po_max_queue_pressure (sn_policy s)),
     p_u8 (DeviceHealth_value (po_min_device_health (sn_policy s)))]"

lemma policy_sections: "\<exists>s'. loads (w_seq (policy_head sn)) (l_seq (take 11 load_sections)) s s'"
  unfolding load_sections_def policy_head_def
  by (simp del: w_seq.simps l_seq.simps, rule exI)
    (rule loads_Cons loads_policy loads_get codes_bool codes_id codes_primitive codes_byte loads_Nil refl)+

lemma sections_from_weights:
  "\<exists>ls. load_sections = take 11 load_sections @ l_vec 64 ''policy weight count out of bounds''
     (l_get read_weight (\<lambda>wt. on_policy (po_weights_update (\<lambda>ws. ws @ [wt])))) # ls"
  by (simp add: load_sections_def)

lemma state_from_weights:
  assumes "write_state s [] = Inr payload"
  shows "\<exists>head rest. w_seq (policy_head s) [] = Inr head \<and>
    payload = head @ bytes32 (of_nat (length (po_weights (sn_policy s)))) @ rest"
proof -
  let ?ws = "po_weights (sn_policy s)"
  define tail where "tail =
    [w_seq [p_u32 (of_nat (length (map_entries (sn_devices s)))),
            w_all (write_listed (sn_devices s)) (sn_device_order s)],
     w_vec write_service (map snd (map_entries (sn_services s))),
     w_vec (write_history (sn_current_program_gen s)) (map_entries (sn_programs s)),
     w_vec write_deployment (map snd (map_entries (sn_deployments s))),
     w_vec write_usage (map_entries (sn_device_usage s))]"
  have "write_state s = w_seq (policy_head s @ w_vec write_weight ?ws # tail)"
    by (simp add: write_state_def policy_head_def tail_def del: w_seq.simps)
  then obtain head where head: "w_seq (policy_head s) [] = Inr head"
    and cont: "w_seq (w_vec write_weight ?ws # tail) head = Inr payload"
    using assms by (auto simp: w_seq_append res_bind_eq_Inr simp del: w_seq.simps)
  then obtain w1 where all: "w_all write_weight ?ws (head @ bytes32 (of_nat (length ?ws))) = Inr w1"
    and tl: "w_seq tail w1 = Inr payload"
    by (auto simp: w_vec_def p_u32_def res_bind_eq_Inr)
  have "sized (w_seq tail)
    ((4 + (sum_list (map (size_listed (sn_devices s)) (sn_device_order s)) + 0)) + (
      (4 + (sum_list (map size_service (map snd (map_entries (sn_services s)))) + 0)) + (
      (4 + (sum_list (map size_history (map_entries (sn_programs s))) + 0)) + (
      (4 + (sum_list (map size_deployment (map snd (map_entries (sn_deployments s)))) + 0)) + (
      (4 + (sum_list (map (\<lambda>_. 48) (map_entries (sn_device_usage s))) + 0)) + 0)))))"
    unfolding tail_def
    by (rule sized_rules sized_vec sized_usage sized_history sized_all sized_listed sized_service
        sized_deployment)+
  from sized_appends [OF this tl] sized_appends [OF sized_all [OF sized_weight] all]
  show ?thesis using head by auto
qed

lemma load_too_many_weights:
  assumes "write_state sn [] = Inr payload"
    and "64 < length (po_weights (sn_policy sn))" "length (po_weights (sn_policy sn)) < 2 ^ 32"
  shows "fst (load_payload payload s) = throw_error ErrorCode.CORRUPT_STATE ''policy weight count out of bounds''"
proof -
  let ?n = "of_nat (length (po_weights (sn_policy sn))) :: u32"
  obtain head rest where w: "w_seq (policy_head sn) [] = Inr head" "payload = head @ bytes32 ?n @ rest"
    using state_from_weights [OF assms(1)] by blast
  obtain s' bs where "writes (w_seq (policy_head sn)) bs" "runs (l_seq (take 11 load_sections)) s bs s'"
    using policy_sections by (metis loadsE)
  with w have r: "l_seq (take 11 load_sections) s (reader_at [] payload) =
      (Inr (reader_at head (bytes32 ?n @ rest)), s')"
    by (simp add: writes_def runs_def)
  have "unat ?n = length (po_weights (sn_policy sn))" using assms(3) by (simp add: unat_of_nat)
  then have v: "l_vec 64 ''policy weight count out of bounds'' step s' (reader_at head (bytes32 ?n @ rest)) =
      (throw_error ErrorCode.CORRUPT_STATE ''policy weight count out of bounds'', s')" for step
    using assms(2) u32_codec.get_enc [of head ?n rest] by (simp add: l_vec_def l_bind_def)
  obtain ls where "load_sections = take 11 load_sections @ l_vec 64 ''policy weight count out of bounds''
     (l_get read_weight (\<lambda>wt. on_policy (po_weights_update (\<lambda>ws. ws @ [wt])))) # ls"
    using sections_from_weights by blast
  then have fields: "load_fields = l_seq (take 11 load_sections @ l_vec 64 ''policy weight count out of bounds''
     (l_get read_weight (\<lambda>wt. on_policy (po_weights_update (\<lambda>ws. ws @ [wt])))) # (ls @ [l_get expect_end (\<lambda>_ s. s)]))"
    unfolding load_fields_def by (metis append_Cons append_assoc)
  have "load_fields s (reader_at [] payload) =
      (throw_error ErrorCode.CORRUPT_STATE ''policy weight count out of bounds'', s')"
    unfolding fields l_seq_append r prod.case sum.case l_seq.simps v throw_error_def by (rule refl)
  then show ?thesis by (simp add: load_payload_def reader_new_at throw_error_def)
qed


definition demo_heavy :: engine where
  "demo_heavy = engine_new (Id 1) ((Policy_defaults (Id 1))
     \<lparr>po_weights := replicate 60 \<lparr>rw_factor = RankFactor.LOCALITY, rw_weight = 1\<rparr>\<rparr>)"

lemma write_weights: "\<exists>w'. w_all write_weight ws w = Inr w'"
  by (induction ws arbitrary: w) (simp_all add: write_weight_def p_u8_def p_u32_def p_i32_def)

lemma write_blank:
  assumes "blank s" "ls_activations s = []"
  shows "\<exists>payload. write_state (make_snapshot s) [] = Inr payload"
  using assms write_weights
  by (auto simp: write_state_def make_snapshot_def blankD map_entries_def w_vec_def p_u8_def p_u32_def p_u64_def
      p_id_def p_bool_def res_bind_eq_Inr)


end
