(* ===== verification/MpProto.thy ===== *)
theory MpProto
  imports StateCodec Eligibility
begin

text \<open>
  The messages between the coordinator, the workers and the administrative client
  (\<^verbatim>\<open>tools/mpproto.h\<close>). A device travels without the fields only its own host needs; what the
  receiver reconstructs is \<open>device_view\<close>.
\<close>

section \<open>Serializers\<close>

definition put_cap :: "Capability \<Rightarrow> putter" where
  "put_cap c = w_seq
    [w_str (key_str (cp_key c)), p_u8 (CapabilityState_value (cp_state c)), p_u64 (cp_version c),
     p_bool (cp_requires_isolation c), p_u8 (ProvenanceSource_value (cp_source c))]"

definition get_cap :: "Capability reader" where
  "get_cap = r_seq
    [assign cp_key_update rd_key, assign cp_state_update (r_map CapabilityState_cast r_u8),
     assign cp_version_update r_u64, assign cp_requires_isolation_update r_bool,
     assign cp_source_update (r_map ProvenanceSource_cast r_u8)]
    Capability_init"

definition put_device :: "DeviceRecord \<Rightarrow> putter" where
  "put_device d = w_seq
    [p_id (dv_device_id d), p_id (dv_generation d), p_id (dv_boot_id d), w_str (dv_vendor d),
     w_str (dv_model d), p_u8 (DeviceClass_value (dv_device_class d)), w_str (dv_pci_reference d),
     p_id (dv_firmware_gen d), p_id (dv_runtime_gen d), w_str (dv_architecture d),
     p_u64 (dv_memory_bytes d), write_resource_cap (dv_resource_capacity d),
     w_vec p_id (dv_ports d), w_vec p_id (dv_functions d),
     w_vec put_cap (map snd (map_entries (dv_capabilities d))),
     w_vec p_offload_class (dv_offload_classes d), p_u8 (DeviceHealth_value (dv_health d)),
     p_u8 (DeviceLifecycle_value (dv_lifecycle d)), p_bool (dv_evidence_fresh d),
     p_u8 (ProvenanceSource_value (dv_discovery_source d)), p_id (dv_evidence_gen d),
     p_id (dv_isolation_domain d), p_id (dv_tenant d), p_bool (dv_isolation_proven d),
     p_u8 (LocalityQuality_value (dv_locality d)), w_str (dv_discovery_detail d)]"

definition get_device :: "DeviceRecord reader" where
  "get_device = r_seq
    [assign dv_device_id_update rd_id, assign dv_generation_update rd_id,
     assign dv_boot_id_update rd_id, assign dv_vendor_update r_str, assign dv_model_update r_str,
     assign dv_device_class_update (r_map DeviceClass_cast r_u8),
     assign dv_pci_reference_update r_str, assign dv_firmware_gen_update rd_id,
     assign dv_runtime_gen_update rd_id, assign dv_architecture_update r_str,
     assign dv_memory_bytes_update r_u64,
     assign dv_resource_capacity_update read_resource_cap,
     assign dv_ports_update (r_vec kMaxContainerCount ''port count'' rd_id),
     assign dv_functions_update (r_vec kMaxContainerCount ''function count'' rd_id),
     field (r_vec kMaxContainerCount ''capability count'' get_cap)
       (\<lambda>v. dv_capabilities_update (fold caps_add v)),
     assign dv_offload_classes_update (r_vec 64 ''offload class count'' rd_offload_class),
     assign dv_health_update (r_map DeviceHealth_cast r_u8),
     assign dv_lifecycle_update (r_map DeviceLifecycle_cast r_u8),
     assign dv_evidence_fresh_update r_bool,
     assign dv_discovery_source_update (r_map ProvenanceSource_cast r_u8),
     assign dv_evidence_gen_update rd_id, assign dv_isolation_domain_update rd_id,
     assign dv_tenant_update rd_id, assign dv_isolation_proven_update r_bool,
     assign dv_locality_update (r_map LocalityQuality_cast r_u8),
     assign dv_discovery_detail_update r_str]
    DeviceRecord_init"

text \<open>\<^verbatim>\<open>enum class Cmd : uint8_t\<close>; the coordinator compares the byte it received.\<close>

datatype (plugins only: code size) Cmd = CREATE_DEPLOYMENT | STATUS | DRAIN | SHUTDOWN | END

fun Cmd_value :: "Cmd \<Rightarrow> u8" where
  "Cmd_value CREATE_DEPLOYMENT = 1"
| "Cmd_value STATUS = 2"
| "Cmd_value DRAIN = 3"
| "Cmd_value SHUTDOWN = 4"
| "Cmd_value END = 5"

definition put_hello :: "u64 \<times> u64 \<times> string \<Rightarrow> putter" where
  "put_hello h = (case h of (worker, boot, label) \<Rightarrow> w_seq [p_u64 worker, p_u64 boot, w_str label])"

definition encode_hello :: "u64 \<Rightarrow> u64 \<Rightarrow> string \<Rightarrow> bytes result" where
  "encode_hello worker boot label = put_hello (worker, boot, label) []"

definition decode_hello :: "(u64 \<times> u64 \<times> string) reader" where
  "decode_hello = r_bind r_u64 (\<lambda>worker. r_bind r_u64 (\<lambda>boot. r_map (\<lambda>label. (worker, boot, label)) r_str))"

definition put_command :: "u64 \<times> string \<Rightarrow> putter" where
  "put_command c = (case c of (cmd_id, action) \<Rightarrow> w_seq [p_u64 cmd_id, w_str action])"

definition encode_command :: "u64 \<Rightarrow> string \<Rightarrow> bytes result" where
  "encode_command cmd_id action = put_command (cmd_id, action) []"

definition decode_command :: "(u64 \<times> string) reader" where
  "decode_command = r_bind r_u64 (\<lambda>cmd_id. r_map (\<lambda>action. (cmd_id, action)) r_str)"

section \<open>What arrives\<close>

definition cap_view :: "Capability \<Rightarrow> Capability" where
  "cap_view c = Capability_init
     \<lparr>cp_key := cp_key c, cp_state := cp_state c, cp_version := cp_version c,
      cp_requires_isolation := cp_requires_isolation c, cp_source := cp_source c\<rparr>"

definition device_view :: "DeviceRecord \<Rightarrow> DeviceRecord" where
  "device_view d = DeviceRecord_init
     \<lparr>dv_device_id := dv_device_id d, dv_generation := dv_generation d, dv_boot_id := dv_boot_id d,
      dv_vendor := dv_vendor d, dv_model := dv_model d, dv_device_class := dv_device_class d,
      dv_pci_reference := dv_pci_reference d, dv_firmware_gen := dv_firmware_gen d,
      dv_runtime_gen := dv_runtime_gen d, dv_architecture := dv_architecture d,
      dv_memory_bytes := dv_memory_bytes d, dv_resource_capacity := dv_resource_capacity d,
      dv_ports := dv_ports d, dv_functions := dv_functions d,
      dv_capabilities := map_update_all (\<lambda>_. cap_view) (dv_capabilities d),
      dv_offload_classes := dv_offload_classes d, dv_health := dv_health d,
      dv_lifecycle := dv_lifecycle d, dv_evidence_fresh := dv_evidence_fresh d,
      dv_discovery_source := dv_discovery_source d, dv_evidence_gen := dv_evidence_gen d,
      dv_isolation_domain := dv_isolation_domain d, dv_tenant := dv_tenant d,
      dv_isolation_proven := dv_isolation_proven d, dv_locality := dv_locality d,
      dv_discovery_detail := dv_discovery_detail d\<rparr>"

definition cap_sendable :: "Capability \<Rightarrow> bool" where
  "cap_sendable c \<longleftrightarrow> key_is_valid (key_str (cp_key c)) \<and> cst_codes.canonical (cp_state c) \<and>
     prs_codes.canonical (cp_source c)"

definition device_sendable :: "DeviceRecord \<Rightarrow> bool" where
  "device_sendable d \<longleftrightarrow>
     list_all str_ok [dv_vendor d, dv_model d, dv_pci_reference d, dv_architecture d,
       dv_discovery_detail d] \<and>
     dcl_codes.canonical (dv_device_class d) \<and> loc_codes.canonical (dv_locality d) \<and>
     dhl_codes.canonical (dv_health d) \<and> dlc_codes.canonical (dv_lifecycle d) \<and>
     prs_codes.canonical (dv_discovery_source d) \<and> caps_wf (dv_capabilities d) \<and>
     vec_storable kMaxContainerCount (\<lambda>_. True) (dv_ports d) \<and>
     vec_storable kMaxContainerCount (\<lambda>_. True) (dv_functions d) \<and>
     vec_storable kMaxContainerCount cap_sendable (map snd (map_entries (dv_capabilities d))) \<and>
     vec_storable 64 class_storable (dv_offload_classes d)"

lemma codes_cap_view: "cap_sendable c \<Longrightarrow> codes (put_cap c) get_cap (cap_view c)"
  unfolding put_cap_def get_cap_def cap_sendable_def
  by (rule codes_enums codes_intros | simp add: Capability_init_def cap_view_def)+

lemma cap_view_key [simp]: "cp_key (cap_view c) = cp_key c"
  by (simp add: cap_view_def)

lemma view_caps:
  assumes "caps_wf m"
  shows "fold caps_add (map cap_view (map snd (map_entries m))) [] = map_update_all (\<lambda>_. cap_view) m"
proof -
  have "caps_wf (map_update_all (\<lambda>_. cap_view) m)"
    using assms by (auto simp: caps_wf_def)
  from rebuild_caps [OF this] show ?thesis
    by (simp add: map_entries_def map_update_all_def comp_def split_def)
qed

lemma codes_device_view: "device_sendable d \<Longrightarrow> codes (put_device d) get_device (device_view d)"
  unfolding put_device_def get_device_def device_sendable_def vec_storable_def
  by (rule refl codes_enums codes_intros codes_cap_view |
      (simp add: DeviceRecord_init_def device_view_def list_all_iff kMaxContainerCount_def view_caps
        del: map_map; fail) |
      (force simp: list_all_iff; fail))+

definition hello_ok :: "u64 \<times> u64 \<times> string \<Rightarrow> bool" where
  "hello_ok h \<longleftrightarrow> str_ok (snd (snd h))"

lemma codes_hello: "hello_ok h \<Longrightarrow> codes (put_hello h) decode_hello h"
  unfolding put_hello_def decode_hello_def hello_ok_def
  by (cases h, simp only: prod.case snd_conv)
    (rule codes_bind codes_last codes_primitive codes_map_eq codes_str refl | assumption)+

definition command_ok :: "u64 \<times> string \<Rightarrow> bool" where
  "command_ok c \<longleftrightarrow> str_ok (snd c)"

lemma codes_command: "command_ok c \<Longrightarrow> codes (put_command c) decode_command c"
  unfolding put_command_def decode_command_def command_ok_def
  by (cases c, simp only: prod.case snd_conv)
    (rule codes_bind codes_last codes_primitive codes_map_eq codes_str refl | assumption)+

interpretation hello_codec: codec put_hello decode_hello hello_ok "enc_of put_hello"
  by (rule codec_of_codes) (rule codes_hello)

interpretation command_codec: codec put_command decode_command command_ok "enc_of put_command"
  by (rule codec_of_codes) (rule codes_command)

lemma device_received:
  assumes "device_sendable d"
  obtains payload where "put_device d [] = Inr payload"
    "get_device (reader_new payload) = Inr (device_view d, reader_at payload [])"
proof -
  obtain bs where b: "writes (put_device d) bs" "reads get_device bs (device_view d)"
    using codes_device_view [OF assms] by (rule codesE)
  then have "put_device d [] = Inr bs" by (simp add: writes_def)
  moreover have "get_device (reader_new bs) = Inr (device_view d, reader_at bs [])"
    using readsD [OF b(2), of "[]" "[]"] by (simp add: reader_new_at)
  ultimately show thesis by (rule that)
qed

text \<open>
  C22. A device record that a worker announces arrives at the coordinator as \<open>device_view\<close> of it,
  with nothing left over in the message. The message has no field for hardware isolation, so
  the isolation of an announced device is never proven, whatever its record says, and a request
  that asks for proven isolation rejects it.
\<close>

theorem announced_device_arrives:
  assumes "device_sendable d"
  shows "(\<exists>payload. put_device d [] = Inr payload \<and>
      get_device (reader_new payload) = Inr (device_view d, reader_at payload [])) \<and>
    \<not> iso_proven (device_view d)"
proof -
  have "\<not> iso_proven (device_view d)"
    by (simp add: iso_proven_def device_view_def DeviceRecord_init_def)
  with device_received [OF assms] show ?thesis by metis
qed

end
