(* ===== verification/Backends.thy ===== *)
theory Backends
  imports Engine "HOL-Library.Sublist"
begin

text \<open>
  The discovery backends: the synthetic one (\<^verbatim>\<open>include/dpufabric/synthetic.h\<close>,
  \<^verbatim>\<open>backends/synthetic/synthetic_backend.cpp\<close>), the system one
  (\<^verbatim>\<open>backends/system/system_backend.cpp\<close>) and the unsupported one
  (\<^verbatim>\<open>backends/unsupported/unsupported_backend.cpp\<close>). What the operating system reports of the PCI
  bus is a parameter: a list of descriptions, classes and hardware identities.
\<close>

section \<open>Synthetic devices\<close>

definition cap_network :: CapabilityKey where "cap_network = CapabilityKey ''NETWORK''"
definition cap_encryption :: CapabilityKey where "cap_encryption = CapabilityKey ''ENCRYPTION''"
definition cap_steering :: CapabilityKey where "cap_steering = CapabilityKey ''PACKET_STEERING''"
definition cap_storage :: CapabilityKey where "cap_storage = CapabilityKey ''STORAGE''"
definition cap_compression :: CapabilityKey where "cap_compression = CapabilityKey ''COMPRESSION''"
definition cap_checksum :: CapabilityKey where "cap_checksum = CapabilityKey ''CHECKSUM''"

text \<open>\<^verbatim>\<open>add_capability\<close> with its default version 1 and source \<^verbatim>\<open>SYNTHETIC\<close>.\<close>

definition add_capability :: "u64 \<Rightarrow> ProvenanceSource \<Rightarrow> CapabilityKey \<Rightarrow> DeviceRecord \<Rightarrow> DeviceRecord" where
  "add_capability version src key d =
     d\<lparr>dv_capabilities := caps_add (Capability_init
         \<lparr>cp_key := key, cp_state := CapabilityState.SUPPORTED, cp_version := version,
          cp_evidence_gen := Id 1, cp_source := src\<rparr>) (dv_capabilities d)\<rparr>"

definition make_dpu ::
  "DeviceId \<Rightarrow> string \<Rightarrow> CapabilityKey list \<Rightarrow> ResourceProfile \<Rightarrow> DeviceBootId \<Rightarrow> OffloadClass list \<Rightarrow>
   DeviceRecord" where
  "make_dpu i model caps cap boot classes =
     fold (add_capability 1 ProvenanceSource.SYNTHETIC) caps (DeviceRecord_init
       \<lparr>dv_device_id := i, dv_generation := Id 1, dv_boot_id := boot, dv_vendor := ''synthetic'',
        dv_model := model, dv_device_class := DeviceClass.DPU,
        dv_pci_reference := ''0000:'' @ replicate (length model) CHR ''0'' @ '':00.0'',
        dv_firmware_version := ''1.0'', dv_firmware_gen := Id 2, dv_runtime_version := ''1.2'',
        dv_runtime_gen := Id 3, dv_architecture := ''arm64'', dv_processing_units := 8,
        dv_memory_bytes := rp_memory_bytes cap,
        dv_available_programmable_memory := rp_memory_bytes cap, dv_resource_capacity := cap,
        dv_locality := LocalityQuality.SAME_FUNCTION, dv_health := DeviceHealth.HEALTHY,
        dv_lifecycle := DeviceLifecycle.READY, dv_discovery_source := ProvenanceSource.SYNTHETIC,
        dv_evidence_gen := Id 42, dv_evidence_fresh := True, dv_offload_classes := classes,
        dv_execution_models := [ExecutionModel.NATIVE_DATA_PLANE],
        dv_program_formats := [''synthetic-rte''], dv_hardware_isolation := True,
        dv_isolation_proven := True\<rparr>)"

definition scenario_a :: DeviceRecord where
  "scenario_a = (make_dpu (Id 1) ''DPU-A'' [cap_network, cap_encryption, cap_steering]
       \<lparr>rp_memory_bytes = push_bit 20 256, rp_queues = 8, rp_functions = 2, rp_slots = 16,
        rp_contexts = 16\<rparr> (Id 0xA1)
       [OffloadClass.NETWORK_SERVICE, OffloadClass.SECURITY_SERVICE, OffloadClass.PACKET_STEERING])
     \<lparr>dv_ports := [Id 1, Id 2], dv_functions := [Id 11], dv_hardware_isolation := True,
      dv_isolation_proven := True, dv_isolation_domain := Id 7, dv_tenant := Id 100\<rparr>"

definition scenario_b :: DeviceRecord where
  "scenario_b = (make_dpu (Id 2) ''DPU-B'' [cap_storage, cap_compression, cap_checksum]
       \<lparr>rp_memory_bytes = push_bit 30 2, rp_queues = 16, rp_functions = 4, rp_slots = 32,
        rp_contexts = 32\<rparr> (Id 0xB2)
       [OffloadClass.STORAGE_SERVICE, OffloadClass.COMPRESSION, OffloadClass.CHECKSUM])
     \<lparr>dv_ports := [Id 10, Id 11], dv_functions := [Id 21], dv_hardware_isolation := True,
      dv_isolation_proven := True, dv_isolation_domain := Id 8, dv_tenant := Id 200\<rparr>"

definition scenario_ab :: "DiscoveredDevice list" where
  "scenario_ab =
     [\<lparr>dd_record = scenario_a, dd_physical_device_present = False, dd_backend_label = ''synthetic''\<rparr>,
      \<lparr>dd_record = scenario_b, dd_physical_device_present = False, dd_backend_label = ''synthetic''\<rparr>]"

definition make_synthetic_backend :: DiscoveryBackend where
  "make_synthetic_backend =
     \<lparr>bk_name = ''synthetic'', bk_is_vendor_backend = False,
      bk_discover = Inr \<lparr>dr_backend_available = True, dr_physical_dpu_present = False,
        dr_devices = scenario_ab,
        dr_summary = ''synthetic backend: 2 modeled DPU devices (SYNTHETIC evidence)''\<rparr>,
      bk_execution_capability = ExecutionClass.DPU_OFFLOAD\<rparr>"

definition make_unsupported_backend :: DiscoveryBackend where
  "make_unsupported_backend =
     \<lparr>bk_name = ''unsupported'', bk_is_vendor_backend = False,
      bk_discover = Inr \<lparr>dr_backend_available = True, dr_physical_dpu_present = False,
        dr_devices = [],
        dr_summary = ''unsupported backend: no compatible programmable infrastructure hardware/runtime available''\<rparr>,
      bk_execution_capability = ExecutionClass.UNSUPPORTED\<rparr>"

section \<open>The system backend\<close>

record PciFact =
  pf_description :: string
  pf_hwid :: string
  pf_cls :: string
  pf_ven_dev :: string

text \<open>The entries of the device set, as (description, class, hardware identity).\<close>

definition enumerate_pci :: "(string \<times> string \<times> string) list \<Rightarrow> PciFact list" where
  "enumerate_pci present = map (\<lambda>(description, cls, hwid).
     \<lparr>pf_description = description, pf_hwid = hwid, pf_cls = cls, pf_ven_dev = hwid\<rparr>) present"

definition is_nic :: "PciFact \<Rightarrow> bool" where
  "is_nic f \<longleftrightarrow> pf_cls f = ''Net'' \<or> sublist ''VEN_10EC'' (pf_hwid f) \<or> sublist ''VEN_17CB'' (pf_hwid f)"

definition is_gpu :: "PciFact \<Rightarrow> bool" where
  "is_gpu f \<longleftrightarrow> pf_cls f = ''Display'' \<or> sublist ''VEN_10DE'' (pf_hwid f)"

definition is_programmable_dpu :: "PciFact \<Rightarrow> bool" where
  "is_programmable_dpu f \<longleftrightarrow> sublist ''VEN_15B3'' (pf_hwid f) \<or>
     sublist ''BlueField'' (pf_description f) \<or> sublist ''DPU'' (pf_description f)"

definition gpu_record :: "u64 \<Rightarrow> PciFact \<Rightarrow> DeviceRecord" where
  "gpu_record gpu_seq f = DeviceRecord_init
     \<lparr>dv_device_id := Id (9000 + gpu_seq), dv_generation := Id 1, dv_boot_id := Id (0x9000 + gpu_seq),
      dv_vendor := ''NVIDIA'',
      dv_model := (if pf_description f = [] then ''GPU'' else pf_description f),
      dv_device_class := DeviceClass.HOST_PROCESSOR, dv_pci_reference := pf_ven_dev f,
      dv_firmware_version := ''n/a'', dv_firmware_gen := Id 0,
      dv_runtime_version := ''CUDA (not exercised)'', dv_runtime_gen := Id 0,
      dv_architecture := '''', dv_health := DeviceHealth.HEALTHY,
      dv_lifecycle := DeviceLifecycle.READY,
      dv_discovery_source := ProvenanceSource.REAL_OS_DISCOVERY, dv_evidence_gen := Id 1,
      dv_evidence_fresh := True,
      dv_discovery_detail := ''host-visible PCI GPU endpoint (adjacent reference only)''\<rparr>"

definition nic_record :: "u64 \<Rightarrow> PciFact \<Rightarrow> DeviceRecord" where
  "nic_record nic_seq f = DeviceRecord_init
     \<lparr>dv_device_id := Id (6000 + nic_seq), dv_generation := Id 1, dv_boot_id := Id (0x6000 + nic_seq),
      dv_vendor := ''host'',
      dv_model := (if pf_description f = [] then ''NIC'' else pf_description f),
      dv_device_class := DeviceClass.NIC_ADJACENT, dv_pci_reference := pf_ven_dev f,
      dv_firmware_version := ''n/a'', dv_firmware_gen := Id 0, dv_runtime_version := ''n/a'',
      dv_runtime_gen := Id 0, dv_architecture := '''', dv_health := DeviceHealth.HEALTHY,
      dv_lifecycle := DeviceLifecycle.READY,
      dv_discovery_source := ProvenanceSource.REAL_OS_DISCOVERY, dv_evidence_gen := Id 1,
      dv_evidence_fresh := True,
      dv_discovery_detail := ''host-visible network adapter (no programmable offload)''\<rparr>"

definition found :: "DeviceRecord \<Rightarrow> DiscoveredDevice" where
  "found d = \<lparr>dd_record = d, dd_physical_device_present = True, dd_backend_label = ''system''\<rparr>"

fun system_loop :: "PciFact list \<Rightarrow> u64 \<Rightarrow> u64 \<Rightarrow> DiscoveredDevice list" where
  "system_loop [] nic_seq gpu_seq = []"
| "system_loop (f # fs) nic_seq gpu_seq =
     (if is_gpu f then found (gpu_record gpu_seq f) # system_loop fs nic_seq (gpu_seq + 1)
      else if is_nic f then found (nic_record nic_seq f) # system_loop fs (nic_seq + 1) gpu_seq
      else system_loop fs nic_seq gpu_seq)"

definition system_discover :: "(string \<times> string \<times> string) list \<Rightarrow> DiscoveryResult" where
  "system_discover present =
     (let facts = enumerate_pci present;
          found_programmable = list_ex is_programmable_dpu facts
      in \<lparr>dr_backend_available = True, dr_physical_dpu_present = found_programmable,
          dr_devices = system_loop facts 1000 1,
          dr_summary = ''system backend: real OS discovery'' @
            (if found_programmable then ''''
             else '' | no programmable DPU-class device present; DPU execution = UNSUPPORTED'')\<rparr>)"

definition make_system_backend :: "(string \<times> string \<times> string) list \<Rightarrow> DiscoveryBackend" where
  "make_system_backend present =
     \<lparr>bk_name = ''system'', bk_is_vendor_backend = False, bk_discover = Inr (system_discover present),
      bk_execution_capability = ExecutionClass.UNSUPPORTED\<rparr>"

end
