(* ===== verification/Protocol.thy ===== *)
theory Protocol
  imports Wire
begin

unbundle bit_operations_syntax

text \<open>
  The framed transport of \<^verbatim>\<open>include/dpufabric/protocol.h\<close>: a header of magic, version, message
  type, payload length and checksum, then the payload. The checks of \<open>decode_frame\<close> are in the
  order of the code. \<^verbatim>\<open>r.remaining() - 4u\<close> does not wrap, since at least four bytes follow the
  length field in a buffer of at least the header's size.
\<close>

section \<open>Message types\<close>

datatype (plugins only: code size) MsgType =
    HELLO | PING | PONG | REGISTER_DEVICE | PUBLISH_EVIDENCE | COMMAND | RESULT | ERROR_MSG
    | ACK | NOTIFY | BYE | UNKNOWN_TYPE | END_MARKER | Unnamed u16

primrec MsgType_value :: "MsgType \<Rightarrow> u16" where
  "MsgType_value MsgType.HELLO = 1"
| "MsgType_value MsgType.PING = 2"
| "MsgType_value MsgType.PONG = 3"
| "MsgType_value MsgType.REGISTER_DEVICE = 4"
| "MsgType_value MsgType.PUBLISH_EVIDENCE = 5"
| "MsgType_value MsgType.COMMAND = 6"
| "MsgType_value MsgType.RESULT = 7"
| "MsgType_value MsgType.ERROR_MSG = 8"
| "MsgType_value MsgType.ACK = 9"
| "MsgType_value MsgType.NOTIFY = 10"
| "MsgType_value MsgType.BYE = 11"
| "MsgType_value MsgType.UNKNOWN_TYPE = 999"
| "MsgType_value MsgType.END_MARKER = 1000"
| "MsgType_value (MsgType.Unnamed v) = v"

definition MsgType_cast :: "u16 \<Rightarrow> MsgType" where
  "MsgType_cast v =
    (if v = 1 then MsgType.HELLO
     else if v = 2 then MsgType.PING
     else if v = 3 then MsgType.PONG
     else if v = 4 then MsgType.REGISTER_DEVICE
     else if v = 5 then MsgType.PUBLISH_EVIDENCE
     else if v = 6 then MsgType.COMMAND
     else if v = 7 then MsgType.RESULT
     else if v = 8 then MsgType.ERROR_MSG
     else if v = 9 then MsgType.ACK
     else if v = 10 then MsgType.NOTIFY
     else if v = 11 then MsgType.BYE
     else if v = 999 then MsgType.UNKNOWN_TYPE
     else if v = 1000 then MsgType.END_MARKER
     else MsgType.Unnamed v)"

primrec msg_type_name :: "MsgType \<Rightarrow> string" where
  "msg_type_name MsgType.HELLO = ''HELLO''"
| "msg_type_name MsgType.PING = ''PING''"
| "msg_type_name MsgType.PONG = ''PONG''"
| "msg_type_name MsgType.REGISTER_DEVICE = ''REGISTER_DEVICE''"
| "msg_type_name MsgType.PUBLISH_EVIDENCE = ''PUBLISH_EVIDENCE''"
| "msg_type_name MsgType.COMMAND = ''COMMAND''"
| "msg_type_name MsgType.RESULT = ''RESULT''"
| "msg_type_name MsgType.ERROR_MSG = ''ERROR''"
| "msg_type_name MsgType.ACK = ''ACK''"
| "msg_type_name MsgType.NOTIFY = ''NOTIFY''"
| "msg_type_name MsgType.BYE = ''BYE''"
| "msg_type_name MsgType.UNKNOWN_TYPE = ''UNKNOWN_TYPE''"
| "msg_type_name MsgType.END_MARKER = ''END_MARKER''"
| "msg_type_name (MsgType.Unnamed v) = ''UNKNOWN''"

interpretation msg_codes: cpp_enum MsgType_value MsgType_cast
  by unfold_locales (simp add: MsgType_cast_def)

section \<open>Frames\<close>

definition kMagic :: u32 where
  "kMagic = 0x44504657"

definition kVersion :: u16 where
  "kVersion = 1"

definition kHeaderSize :: nat where
  "kHeaderSize = 16"

definition kMaxPayload :: nat where
  "kMaxPayload = 4194304"

definition kMaxFrameSize :: nat where
  "kMaxFrameSize = kHeaderSize + kMaxPayload"

record Frame =
  fr_type :: MsgType
  fr_payload :: bytes
  fr_checksum :: u32

definition encode_frame :: "MsgType \<Rightarrow> bytes \<Rightarrow> bytes result" where
  "encode_frame t payload =
     (if length payload > kMaxPayload
      then throw_error ErrorCode.FRAME_TOO_LARGE ''payload exceeds frame bound''
      else
        (let w = [];
             w = w_u32 kMagic w;
             w = w_u16 kVersion w;
             w = w_u16 (MsgType_value t) w;
             w = w_u32 (of_nat (length payload)) w;
             w = w_u32 (crc32 payload) w
         in Inr (w_raw payload w)))"

definition frame_body :: "u16 \<Rightarrow> u32 \<Rightarrow> Frame reader" where
  "frame_body raw_type plen = r_bind r_u32 (\<lambda>declared_crc. r_bind (r_raw (unat plen)) (\<lambda>payload.
     if length payload \<noteq> unat plen
     then r_throw ErrorCode.PROTOCOL_ERROR ''payload length mismatch''
     else if crc32 payload \<noteq> declared_crc
     then r_throw ErrorCode.CHECKSUM_FAILURE ''frame checksum mismatch''
     else r_bind expect_end (\<lambda>_. r_return
       \<lparr>fr_type = MsgType_cast raw_type, fr_payload = payload, fr_checksum = declared_crc\<rparr>)))"

definition frame_reader :: "Frame reader" where
  "frame_reader = r_bind r_u32 (\<lambda>magic.
     if magic \<noteq> kMagic then r_throw ErrorCode.PROTOCOL_ERROR ''bad frame magic''
     else r_bind r_u16 (\<lambda>ver.
       if ver \<noteq> kVersion then r_throw ErrorCode.PROTOCOL_ERROR ''unsupported frame version''
       else r_bind r_u16 (\<lambda>raw_type. r_bind r_u32 (\<lambda>plen.
         if unat plen > kMaxPayload
         then r_throw ErrorCode.FRAME_TOO_LARGE ''payload length exceeds bound''
         else (\<lambda>r. if unat plen > remaining r - 4
                   then r_throw ErrorCode.PROTOCOL_ERROR ''truncated payload'' r
                   else frame_body raw_type plen r)))))"

definition decode_frame :: "bytes \<Rightarrow> Frame result" where
  "decode_frame buf =
     (if length buf < kHeaderSize
      then throw_error ErrorCode.PROTOCOL_ERROR ''frame shorter than header''
      else if length buf > kMaxFrameSize
      then throw_error ErrorCode.FRAME_TOO_LARGE ''frame exceeds bound''
      else map_sum (\<lambda>f. f) fst (frame_reader (reader_new buf)))"

definition valid_type :: "u16 \<Rightarrow> bool" where
  "valid_type t \<longleftrightarrow> t = 1 \<or> t = 2 \<or> t = 3 \<or> t = 4 \<or> t = 5 \<or> t = 6 \<or> t = 7 \<or>
     t = 8 \<or> t = 9 \<or> t = 10 \<or> t = 11"

section \<open>Encoding and decoding\<close>

definition frame_header :: "u16 \<Rightarrow> bytes \<Rightarrow> bytes" where
  "frame_header t payload =
     bytes32 kMagic @ bytes16 kVersion @ bytes16 t @ bytes32 (of_nat (length payload)) @
     bytes32 (crc32 payload)"

lemma length_frame_header [simp]: "length (frame_header t payload) = 16"
  by (simp add: frame_header_def)

lemma encode_frame_bytes:
  "encode_frame t payload =
     (if length payload > kMaxPayload
      then throw_error ErrorCode.FRAME_TOO_LARGE ''payload exceeds frame bound''
      else Inr (frame_header (MsgType_value t) payload @ payload))"
  by (simp add: encode_frame_def frame_header_def Let_def)

lemma payload_length: "n \<le> kMaxPayload \<Longrightarrow> unat (of_nat n :: u32) = n"
  by (rule unat_of_length) (simp add: kMaxPayload_def kMaxBlobBytes_def)

lemma frame_reader_only:
  assumes "frame_reader (reader_at [] buf) = Inr (f, r)"
  obtains t where "buf = frame_header t (fr_payload f) @ fr_payload f"
    "length (fr_payload f) \<le> kMaxPayload" "fr_type f = MsgType_cast t"
    "fr_checksum f = crc32 (fr_payload f)"
proof -
  from assms obtain r1 r2 r3 r4 r5 r6 t plen crc p where
    rd: "r_u32 (reader_at [] buf) = Inr (kMagic, r1)" "r_u16 r1 = Inr (kVersion, r2)"
      "r_u16 r2 = Inr (t, r3)" "r_u32 r3 = Inr (plen, r4)" "r_u32 r4 = Inr (crc, r5)"
      "r_raw (unat plen) r5 = Inr (p, r6)"
    and chk: "unat plen \<le> kMaxPayload" "length p = unat plen" "crc32 p = crc" "at_end r6"
    and f: "f = \<lparr>fr_type = MsgType_cast t, fr_payload = p, fr_checksum = crc\<rparr>"
    by (auto simp: frame_reader_def frame_body_def r_bind_Inr r_throw_def r_return_def
        expect_end_def not_less split: if_splits)
  from u32_codec.get_only [OF rd(1)] obtain b1 where
    1: "buf = bytes32 kMagic @ b1" "r1 = reader_at (bytes32 kMagic) b1" by auto
  from u16_codec.get_only [OF rd(2) [unfolded 1(2)]] obtain b2 where
    2: "b1 = bytes16 kVersion @ b2" "r2 = reader_at (bytes32 kMagic @ bytes16 kVersion) b2" by auto
  from u16_codec.get_only [OF rd(3) [unfolded 2(2)]] obtain b3 where
    3: "b2 = bytes16 t @ b3" "r3 = reader_at ((bytes32 kMagic @ bytes16 kVersion) @ bytes16 t) b3"
    by auto
  from u32_codec.get_only [OF rd(4) [unfolded 3(2)]] obtain b4 pre4 where
    4: "b3 = bytes32 plen @ b4" "r4 = reader_at pre4 b4" by auto
  from u32_codec.get_only [OF rd(5) [unfolded 4(2)]] obtain b5 pre5 where
    5: "b4 = bytes32 crc @ b5" "r5 = reader_at pre5 b5" by auto
  from rd(6) have "unat plen \<le> length b5" "p = take (unat plen) b5"
    "r6 = reader_at (pre5 @ take (unat plen) b5) (drop (unat plen) b5)"
    by (auto simp: 5(2) r_raw_at throw_error_def split: if_splits)
  with chk(2,4) have "b5 = p" by simp
  moreover have "of_nat (length p) = plen" using chk(2) by simp
  ultimately show thesis
    using 1(1) 2(1) 3(1) 4(1) 5(1) chk f by (intro that [of t]) (simp_all add: frame_header_def)
qed

lemma frame_reader_fields:
  assumes "length q \<le> kMaxPayload"
  shows "frame_reader (reader_at [] ((bytes32 kMagic @ bytes16 kVersion @ bytes16 t @
      bytes32 (of_nat (length q)) @ bytes32 c) @ q)) =
    (if crc32 q \<noteq> c then throw_error ErrorCode.CHECKSUM_FAILURE ''frame checksum mismatch''
     else Inr (\<lparr>fr_type = MsgType_cast t, fr_payload = q, fr_checksum = c\<rparr>,
       reader_at ((bytes32 kMagic @ bytes16 kVersion @ bytes16 t @
         bytes32 (of_nat (length q)) @ bytes32 c) @ q) []))"
proof -
  have n: "unat (of_nat (length q) :: u32) = length q" using assms by (rule payload_length)
  have "expect_end (reader_at pre []) = Inr ((), reader_at pre [])" for pre
    by (simp add: expect_end_def)
  then show ?thesis
    using n assms
    by (simp add: frame_reader_def frame_body_def r_bind_eq r_return_def r_throw_def)
qed

lemma frame_reader_header:
  assumes "length q \<le> kMaxPayload"
  shows "frame_reader (reader_at [] (frame_header t q @ q)) =
    Inr (\<lparr>fr_type = MsgType_cast t, fr_payload = q, fr_checksum = crc32 q\<rparr>,
         reader_at (frame_header t q @ q) [])"
  unfolding frame_header_def frame_reader_fields [OF assms] by simp

lemma kMaxFrame: "length (frame_header t p @ p) \<le> kMaxFrameSize \<longleftrightarrow> length p \<le> kMaxPayload"
  by (simp add: kMaxFrameSize_def kHeaderSize_def)

lemma decode_frame_iff:
  "decode_frame buf = Inr f \<longleftrightarrow>
     (\<exists>t. buf = frame_header t (fr_payload f) @ fr_payload f \<and>
          length (fr_payload f) \<le> kMaxPayload \<and> fr_type f = MsgType_cast t \<and>
          fr_checksum f = crc32 (fr_payload f))"
proof
  assume "decode_frame buf = Inr f"
  then obtain r where "frame_reader (reader_at [] buf) = Inr (f, r)"
    by (auto simp: decode_frame_def reader_new_at map_sum_def throw_error_def
        split: if_splits sum.splits)
  from frame_reader_only [OF this] show "\<exists>t. buf = frame_header t (fr_payload f) @ fr_payload f \<and>
      length (fr_payload f) \<le> kMaxPayload \<and> fr_type f = MsgType_cast t \<and>
      fr_checksum f = crc32 (fr_payload f)" by blast
next
  assume "\<exists>t. buf = frame_header t (fr_payload f) @ fr_payload f \<and>
      length (fr_payload f) \<le> kMaxPayload \<and> fr_type f = MsgType_cast t \<and>
      fr_checksum f = crc32 (fr_payload f)"
  then obtain t where buf: "buf = frame_header t (fr_payload f) @ fr_payload f"
    and f: "length (fr_payload f) \<le> kMaxPayload" "fr_type f = MsgType_cast t"
      "fr_checksum f = crc32 (fr_payload f)" by blast
  have "kHeaderSize \<le> length buf" "length buf \<le> kMaxFrameSize"
    using f(1) by (simp_all add: buf kHeaderSize_def kMaxFrameSize_def)
  then show "decode_frame buf = Inr f"
    using f frame_reader_header [OF f(1), of t]
    by (simp add: decode_frame_def reader_new_at buf not_less [symmetric])
qed

text \<open>
  C15. Frames round trip, exactly. Decoding accepts a buffer exactly when it is what encoding
  the frame's type and payload produces, with the checksum of that payload; so every encoded
  frame decodes to itself and nothing else is accepted: no other magic, version, length or
  checksum, no truncated frame and no frame with trailing bytes.
\<close>

theorem frame_decode_iff_encode:
  "decode_frame buf = Inr f \<longleftrightarrow>
     encode_frame (fr_type f) (fr_payload f) = Inr buf \<and>
     MsgType_cast (MsgType_value (fr_type f)) = fr_type f \<and>
     fr_checksum f = crc32 (fr_payload f)"
proof -
  have "MsgType_value (MsgType_cast t) = t" for t by (rule msg_codes.value_cast)
  then show ?thesis
    unfolding decode_frame_iff encode_frame_bytes
    by (auto simp: throw_error_def split: if_splits)
qed

text \<open>
  A frame with one corrupted payload byte is refused with \<open>CHECKSUM_FAILURE\<close>, wherever the
  byte is and whatever it becomes.
\<close>

theorem corrupted_byte_detected:
  assumes "encode_frame t (pre @ x # post) = Inr (hdr @ (pre @ x # post))" "x \<noteq> y"
  shows "decode_frame (hdr @ (pre @ y # post)) =
    throw_error ErrorCode.CHECKSUM_FAILURE ''frame checksum mismatch''"
proof -
  let ?p = "pre @ x # post" and ?q = "pre @ y # post"
  have len: "length ?p \<le> kMaxPayload" "length ?q = length ?p"
    and hdr: "hdr = frame_header (MsgType_value t) ?p"
    using assms(1) by (auto simp: encode_frame_bytes throw_error_def split: if_splits)
  have "crc32 ?q \<noteq> crc32 ?p" using crc32_detects [of x y pre post] assms(2) by metis
  then have "frame_reader (reader_at [] (hdr @ ?q)) =
      throw_error ErrorCode.CHECKSUM_FAILURE ''frame checksum mismatch''"
    using frame_reader_fields [of ?q "MsgType_value t" "crc32 ?p"] len
    unfolding hdr frame_header_def by metis
  moreover have "kHeaderSize \<le> length (hdr @ ?q)" "length (hdr @ ?q) \<le> kMaxFrameSize"
    using len by (simp_all add: hdr kHeaderSize_def kMaxFrameSize_def)
  ultimately show ?thesis
    by (simp add: decode_frame_def reader_new_at throw_error_def not_less [symmetric])
qed

theorem corrupted_byte_detected_witness:
  "decode_frame (frame_header 2 [1, 2, 3] @ [1, 7, 3]) =
     throw_error ErrorCode.CHECKSUM_FAILURE ''frame checksum mismatch''"
proof -
  have "encode_frame MsgType.PING ([1] @ 2 # [3]) = Inr (frame_header 2 [1, 2, 3] @ ([1] @ 2 # [3]))"
    by (simp add: encode_frame_bytes kMaxPayload_def)
  from corrupted_byte_detected [OF this, of 7] show ?thesis by simp
qed

section \<open>The errors of decoding\<close>

lemma frame_reader_throws:
  "throws_only {ErrorCode.PROTOCOL_ERROR, ErrorCode.FRAME_TOO_LARGE, ErrorCode.CHECKSUM_FAILURE}
     frame_reader"
  (is "throws_only ?cs _")
proof -
  have body: "throws_only ?cs (frame_body t n)" for t n
    unfolding frame_body_def by (intro throws_intros) simp_all
  have "throws_only ?cs (\<lambda>r. if unat n > remaining r - 4
      then r_throw ErrorCode.PROTOCOL_ERROR ''truncated payload'' r else frame_body t n r)" for t n
    using body [of t n] by (auto simp: throws_only_def r_throw_def throw_error_def make_error_def)
  then show ?thesis
    unfolding frame_reader_def by (intro throws_intros) simp_all
qed

lemma decode_frame_throws:
  assumes "decode_frame buf = Inl x"
  shows "\<exists>e. x = Thrown e \<and> err_code e \<in> {ErrorCode.PROTOCOL_ERROR,
    ErrorCode.FRAME_TOO_LARGE, ErrorCode.CHECKSUM_FAILURE}"
  using assms throws_onlyD [OF frame_reader_throws, of "reader_new buf"]
  by (auto simp: decode_frame_def throw_error_def make_error_def map_sum_def
      split: if_splits sum.splits)


end
