(* ===== verification/Transport.thy ===== *)
theory Transport
  imports Protocol
begin

text \<open>
  The framed transport over a socket (\<^verbatim>\<open>include/dpufabric/mp_transport.h\<close>,
  \<^verbatim>\<open>src/mp_transport.cpp\<close>). What a socket receives is the list of what the operating system
  delivers: segments of bytes, pauses longer than the time a caller waits, the end of the
  connection or its failure. A \<open>recv\<close> takes from the front of it; with nothing left to take it
  never returns, which is the value \<open>None\<close>. What \<open>send\<close> takes of each call is a list of numbers.
\<close>

section \<open>The socket\<close>

datatype (plugins only: code size) arrival = Data bytes | Quiet | Eof | Failed

type_synonym incoming = "arrival list"

text \<open>
  \<^verbatim>\<open>select\<close> with the time to wait; a negative one is an invalid \<^verbatim>\<open>timeval\<close>, which it refuses. A
  connection at its end is readable.
\<close>

fun wait_readable :: "int \<Rightarrow> incoming \<Rightarrow> bool \<times> incoming" where
  "wait_readable timeout_ms [] = (False, [])"
| "wait_readable timeout_ms (a # ins) =
     (if timeout_ms < 0 then (False, a # ins)
      else case a of
          Data bs \<Rightarrow> if bs = [] then wait_readable timeout_ms ins else (True, a # ins)
        | Quiet \<Rightarrow> (False, ins)
        | Eof \<Rightarrow> (True, a # ins)
        | Failed \<Rightarrow> (True, a # ins))"

text \<open>
  \<^verbatim>\<open>recv\<close> of at most \<open>n\<close> bytes: it waits for bytes, returns none at the end of the connection and
  a negative number (\<open>Some None\<close>) when it failed.
\<close>

fun recv :: "nat \<Rightarrow> incoming \<Rightarrow> (bytes option \<times> incoming) option" where
  "recv n [] = None"
| "recv n (a # ins) =
     (case a of
        Data bs \<Rightarrow>
          if bs = [] then recv n ins
          else Some (Some (take n bs), if n < length bs then Data (drop n bs) # ins else ins)
      | Quiet \<Rightarrow> recv n ins
      | Eof \<Rightarrow> Some (Some [], a # ins)
      | Failed \<Rightarrow> Some (None, a # ins))"

section \<open>Whole buffers\<close>

definition received :: "bytes \<Rightarrow> (bytes option \<times> incoming) option \<Rightarrow> (bytes option \<times> incoming) option" where
  "received bs = map_option (\<lambda>(buf, ins). (map_option ((@) bs) buf, ins))"

text \<open>The loop of \<^verbatim>\<open>recv_n\<close>, with \<open>n\<close> the bytes still missing; \<open>Some None\<close> is \<^verbatim>\<open>false\<close>.\<close>

function recv_n :: "int \<Rightarrow> nat \<Rightarrow> incoming \<Rightarrow> (bytes option \<times> incoming) option" where
  "recv_n timeout_ms n ins =
     (if n = 0 then Some (Some [], ins)
      else
        (let (ready, ins) = (if 0 \<le> timeout_ms then wait_readable timeout_ms ins else (True, ins))
         in if \<not> ready then Some (None, ins)
            else
              (case recv n ins of
                 None \<Rightarrow> None
               | Some (None, ins) \<Rightarrow> Some (None, ins)
               | Some (Some bs, ins) \<Rightarrow>
                   if bs = [] then Some (None, ins)
                   else received bs (recv_n timeout_ms (n - length bs) ins))))"
  by pat_completeness auto
termination by (relation "measure (\<lambda>(t, n, ins). n)") auto

declare recv_n.simps [simp del]

text \<open>\<^verbatim>\<open>send_n\<close>: each call of \<^verbatim>\<open>send\<close> takes some bytes, or fails with a number that is not positive.\<close>

fun send_n :: "int list \<Rightarrow> bytes \<Rightarrow> bool option \<times> bytes" where
  "send_n rs [] = (Some True, [])"
| "send_n [] (b # bs) = (None, [])"
| "send_n (r # rs) (b # bs) =
     (if r \<le> 0 then (Some False, [])
      else apsnd ((@) (take (nat r) (b # bs))) (send_n rs (drop (nat r) (b # bs))))"

section \<open>Frames\<close>

text \<open>\<^verbatim>\<open>enum class RecvResult\<close>; with \<^verbatim>\<open>OK\<close> comes the frame of the output parameter.\<close>

datatype (plugins only: code size) RecvResult = OK Frame | TIMEOUT | CLOSED | ERR

definition header_plen :: "u32 reader" where
  "header_plen = r_bind r_u32 (\<lambda>magic. r_bind r_u16 (\<lambda>version. r_bind r_u16 (\<lambda>typ.
     r_bind r_u32 (\<lambda>plen. r_bind r_u32 (\<lambda>crc. r_return plen)))))"

definition recv_payload :: "bytes \<Rightarrow> incoming \<Rightarrow> (RecvResult result \<times> incoming) option" where
  "recv_payload hdr ins =
     (case header_plen (reader_new hdr) of
        Inl f \<Rightarrow> Some (Inl f, ins)
      | Inr (plen, _) \<Rightarrow>
          if unat plen > kMaxPayload
          then Some (throw_error ErrorCode.FRAME_TOO_LARGE ''frame payload over bound'', ins)
          else
            (case (if plen > 0 then recv_n (-1) (unat plen) ins else Some (Some [], ins)) of
               None \<Rightarrow> None
             | Some (None, ins) \<Rightarrow> Some (Inr CLOSED, ins)
             | Some (Some payload, ins) \<Rightarrow>
                 Some (map_sum (\<lambda>f. f) OK (decode_frame (hdr @ payload)), ins)))"

definition recv_header :: "incoming \<Rightarrow> (RecvResult result \<times> incoming) option" where
  "recv_header ins =
     (case recv kHeaderSize ins of
        None \<Rightarrow> None
      | Some (None, ins) \<Rightarrow> Some (Inr ERR, ins)
      | Some (Some bs, ins) \<Rightarrow>
          if bs = [] then Some (Inr CLOSED, ins)
          else
            (case (if length bs \<noteq> kHeaderSize
                   then received bs (recv_n (-1) (kHeaderSize - length bs) ins)
                   else Some (Some bs, ins)) of
               None \<Rightarrow> None
             | Some (None, ins) \<Rightarrow> Some (Inr CLOSED, ins)
             | Some (Some hdr, ins) \<Rightarrow> recv_payload hdr ins))"

definition recv_frame :: "int \<Rightarrow> incoming \<Rightarrow> (RecvResult result \<times> incoming) option" where
  "recv_frame timeout_ms ins =
     (case wait_readable timeout_ms ins of
        (False, ins) \<Rightarrow> Some (Inr TIMEOUT, ins)
      | (True, ins) \<Rightarrow> recv_header ins)"

definition send_frame :: "int list \<Rightarrow> MsgType \<Rightarrow> bytes \<Rightarrow> bool option result \<times> bytes" where
  "send_frame rs t payload =
     (case encode_frame t payload of
        Inl f \<Rightarrow> (Inl f, [])
      | Inr bs \<Rightarrow> apfst Inr (send_n rs bs))"

text \<open>\<^verbatim>\<open>TcpClient::recv\<close>, over \<^verbatim>\<open>read_frame\<close>: a frame, or nothing for any other outcome.\<close>

definition read_frame :: "RecvResult \<Rightarrow> Frame option" where
  "read_frame rr = (case rr of OK f \<Rightarrow> Some f | _ \<Rightarrow> None)"

definition client_recv :: "int \<Rightarrow> incoming \<Rightarrow> (Frame option result \<times> incoming) option" where
  "client_recv timeout_ms ins =
     map_option (apfst (map_sum (\<lambda>f. f) read_frame)) (recv_frame timeout_ms ins)"

definition client_send :: "int list \<Rightarrow> MsgType \<Rightarrow> bytes \<Rightarrow> unit result option \<times> bytes" where
  "client_send rs t payload =
     (case send_frame rs t payload of
        (Inl f, sent) \<Rightarrow> (Some (Inl f), sent)
      | (Inr None, sent) \<Rightarrow> (None, sent)
      | (Inr (Some ok), sent) \<Rightarrow>
          (Some (if ok then Inr () else throw_error ErrorCode.IO_ERROR ''send failed''), sent))"

section \<open>Connections\<close>

text \<open>
  The calls of the operating system are parameters: the handle that \<^verbatim>\<open>socket\<close> and \<^verbatim>\<open>accept\<close> return
  and the numbers the others return. A handle is unsigned here, so the tests for a negative one,
  which the code makes after \<^verbatim>\<open>socket\<close> and \<^verbatim>\<open>accept\<close>, are never true; \<open>negative_handle\<close> is that test.
  The last component of an operation is the handles it has closed.
\<close>

type_synonym handle = "64 word"

definition no_socket :: handle where "no_socket = - 1"

definition negative_handle :: "handle \<Rightarrow> bool" where
  "negative_handle s \<longleftrightarrow> s < 0"

record TcpClient =
  cl_sock :: handle

definition client_connect :: "handle \<Rightarrow> int \<Rightarrow> int \<Rightarrow> TcpClient \<Rightarrow> bool \<times> TcpClient \<times> handle list" where
  "client_connect s pton connected c =
     (if negative_handle s then (False, c, [])
      else if pton \<noteq> 1 then (False, c, [s])
      else if connected \<noteq> 0 then (False, c, [s])
      else (True, c\<lparr>cl_sock := s\<rparr>, []))"

definition client_close :: "TcpClient \<Rightarrow> TcpClient \<times> handle list" where
  "client_close c =
     (if cl_sock c \<noteq> no_socket then (c\<lparr>cl_sock := no_socket\<rparr>, [cl_sock c]) else (c, []))"

definition client_connected :: "TcpClient \<Rightarrow> bool" where
  "client_connected c \<longleftrightarrow> cl_sock c \<noteq> no_socket"

record TcpServer =
  sv_listen_sock :: handle
  sv_port :: "16 word"

definition TcpServer_init :: "16 word \<Rightarrow> TcpServer" where
  "TcpServer_init port = \<lparr>sv_listen_sock = no_socket, sv_port = port\<rparr>"

definition server_start :: "handle \<Rightarrow> int \<Rightarrow> int \<Rightarrow> TcpServer \<Rightarrow> bool \<times> TcpServer \<times> handle list" where
  "server_start s bound listening v =
     (let v = v\<lparr>sv_listen_sock := s\<rparr> in
      if negative_handle s then (False, v, [])
      else if bound \<noteq> 0 then (False, v\<lparr>sv_listen_sock := no_socket\<rparr>, [s])
      else if listening \<noteq> 0 then (False, v, [])
      else (True, v, []))"

text \<open>The connections waiting to be accepted are those \<^verbatim>\<open>select\<close> reports on the listening socket.\<close>

definition server_accept :: "int \<Rightarrow> bool \<Rightarrow> handle \<Rightarrow> handle option" where
  "server_accept timeout_ms readable s =
     (if 0 \<le> timeout_ms \<and> \<not> readable then None
      else if negative_handle s then None
      else Some s)"

definition server_stop :: "TcpServer \<Rightarrow> TcpServer \<times> handle list" where
  "server_stop v =
     (if sv_listen_sock v \<noteq> no_socket
      then (v\<lparr>sv_listen_sock := no_socket\<rparr>, [sv_listen_sock v]) else (v, []))"

text \<open>A call of \<^verbatim>\<open>accept\<close> that fails, with -1, is returned as a connection.\<close>

lemma failed_accept_returned: "server_accept 0 True no_socket = Some no_socket"
  by (simp add: server_accept_def negative_handle_def no_socket_def)

section \<open>The byte stream\<close>

text \<open>
  What the segments carry, up to the end of the connection, and whether there is an end. Neither
  depends on how the bytes are cut into segments.
\<close>

fun stream :: "incoming \<Rightarrow> bytes" where
  "stream [] = []"
| "stream (a # ins) = (case a of Data bs \<Rightarrow> bs @ stream ins | Quiet \<Rightarrow> stream ins | Eof \<Rightarrow> [] | Failed \<Rightarrow> [])"

fun ends :: "incoming \<Rightarrow> bool" where
  "ends [] \<longleftrightarrow> False"
| "ends (a # ins) \<longleftrightarrow> a = Eof \<or> a = Failed \<or> ends ins"

fun pauses :: "incoming \<Rightarrow> nat" where
  "pauses [] = 0"
| "pauses (a # ins) = (if a = Quiet then 1 else 0) + pauses ins"

definition follows :: "nat \<Rightarrow> incoming \<Rightarrow> incoming \<Rightarrow> bool" where
  "follows n ins ins' \<longleftrightarrow>
     stream ins' = drop n (stream ins) \<and> ends ins' = ends ins \<and> pauses ins' \<le> pauses ins"

lemma followsD:
  "follows n ins ins' \<Longrightarrow> stream ins' = drop n (stream ins)"
  "follows n ins ins' \<Longrightarrow> ends ins' \<longleftrightarrow> ends ins"
  "follows n ins ins' \<Longrightarrow> pauses ins' \<le> pauses ins"
  by (simp_all add: follows_def)

lemma follows_refl [simp]: "follows 0 ins ins"
  by (simp add: follows_def)

lemma follows_trans: "follows m a b \<Longrightarrow> follows n b c \<Longrightarrow> follows (m + n) a c"
  by (auto simp: follows_def add.commute)

lemma recv_bytes:
  assumes "stream ins \<noteq> []" "0 < n"
  obtains k ins' where "recv n ins = Some (Some (take k (stream ins)), ins')" "0 < k" "k \<le> n"
    "k \<le> length (stream ins)" "follows k ins ins'"
proof -
  have "\<exists>k ins'. recv n ins = Some (Some (take k (stream ins)), ins') \<and> 0 < k \<and> k \<le> n \<and>
      k \<le> length (stream ins) \<and> follows k ins ins'"
    using assms
  proof (induction ins)
    case (Cons a ins)
    show ?case
    proof (cases a)
      case (Data bs)
      then show ?thesis
        using Cons
        by (cases "bs = []")
          (auto simp: follows_def intro!: exI [of _ "min n (length bs)"] simp: min_def)
    next
      case Quiet
      then show ?thesis using Cons by (fastforce simp: follows_def)
    qed (use Cons in auto)
  qed simp
  with that show thesis by blast
qed

lemma recv_end:
  assumes "stream ins = []"
  shows "if ends ins then \<exists>ins'. recv n ins = Some (Some [], ins') \<or> recv n ins = Some (None, ins')
         else recv n ins = None"
  using assms by (induction ins) (auto split: arrival.splits)

lemma recv_n_spec:
  "if n \<le> length (stream ins)
   then \<exists>ins'. recv_n (-1) n ins = Some (Some (take n (stream ins)), ins') \<and> follows n ins ins'
   else if ends ins then \<exists>ins'. recv_n (-1) n ins = Some (None, ins')
   else recv_n (-1) n ins = None"
proof (induction n arbitrary: ins rule: less_induct)
  case (less n)
  note step = recv_n.simps [of "-1" n ins]
  show ?case
  proof (cases "n = 0")
    case True
    then show ?thesis using step by simp
  next
    case n: False
    show ?thesis
    proof (cases "stream ins = []")
      case True
      then show ?thesis using recv_end [OF True, of n] n step by auto
    next
      case False
      obtain k ins' where k: "recv n ins = Some (Some (take k (stream ins)), ins')" "0 < k" "k \<le> n"
        "k \<le> length (stream ins)" "follows k ins ins'"
        using recv_bytes [OF False, of n] n by blast
      from k n False have rest: "recv_n (-1) n ins =
          received (take k (stream ins)) (recv_n (-1) (n - k) ins')"
        using step by simp
      note ih = less.IH [of "n - k" ins']
      note f = followsD [OF k(5)]
      have joined: "take k (stream ins) @ take (n - k) (drop k (stream ins)) = take n (stream ins)"
        using k(3) by (metis le_add_diff_inverse take_add)
      have "follows (n - k) ins' i \<Longrightarrow> follows n ins i" for i
        using follows_trans [OF k(5), of "n - k" i] k(3) by simp
      then show ?thesis
        using ih n k(2-4) joined
        by (auto simp: rest received_def f split: if_splits)
    qed
  qed
qed

section \<open>Receiving is decoding the stream\<close>

text \<open>
  The reference: what comes of a byte stream, whose end is known or not, and how many bytes of it
  are taken. Nothing comes of a stream that stops inside a frame without an end.
\<close>

definition declared_length :: "bytes \<Rightarrow> nat" where
  "declared_length hdr = (case header_plen (reader_new hdr) of Inl f \<Rightarrow> 0 | Inr (plen, _) \<Rightarrow> unat plen)"

definition next_frame :: "bytes \<Rightarrow> bool \<Rightarrow> (RecvResult result \<times> nat) option" where
  "next_frame bs closed =
     (let n = declared_length (take kHeaderSize bs) in
      if length bs < kHeaderSize then (if closed then Some (Inr CLOSED, length bs) else None)
      else if n > kMaxPayload
      then Some (throw_error ErrorCode.FRAME_TOO_LARGE ''frame payload over bound'', kHeaderSize)
      else if length bs < kHeaderSize + n then (if closed then Some (Inr CLOSED, length bs) else None)
      else Some (map_sum (\<lambda>f. f) OK (decode_frame (take (kHeaderSize + n) bs)), kHeaderSize + n))"

lemma recv_n_0 [simp]: "recv_n t 0 ins = Some (Some [], ins)"
  by (simp add: recv_n.simps)

lemma header_plen_total:
  assumes "length hdr = kHeaderSize"
  obtains plen r where "header_plen (reader_new hdr) = Inr (plen, r)" "unat plen = declared_length hdr"
proof -
  obtain a b c d e f g h i j k l m n p q where "hdr = [a, b, c, d, e, f, g, h, i, j, k, l, m, n, p, q]"
    using assms by (auto simp: kHeaderSize_def length_Suc_conv eval_nat_numeral)
  then have "header_plen (reader_new hdr) = Inr (word32 i j k l, reader_at hdr [])"
    by (simp add: header_plen_def reader_new_at r_bind_def r_u32_at r_u16_at r_return_def)
  with that show thesis by (simp add: declared_length_def)
qed

lemma recv_header_whole:
  assumes "stream ins \<noteq> []"
  shows "recv_header ins =
    (case recv_n (-1) kHeaderSize ins of
       None \<Rightarrow> None
     | Some (None, ins) \<Rightarrow> Some (Inr CLOSED, ins)
     | Some (Some hdr, ins) \<Rightarrow> recv_payload hdr ins)"
proof -
  have "0 < kHeaderSize" by (simp add: kHeaderSize_def)
  with assms obtain k ins' where k: "recv kHeaderSize ins = Some (Some (take k (stream ins)), ins')"
    "0 < k" "k \<le> length (stream ins)"
    using recv_bytes [of ins kHeaderSize] by blast
  then have "recv_n (-1) kHeaderSize ins =
      received (take k (stream ins)) (recv_n (-1) (kHeaderSize - k) ins')"
    using recv_n.simps [of "-1" kHeaderSize ins] assms by (simp add: kHeaderSize_def)
  then show ?thesis
    using k assms by (auto simp: recv_header_def received_def)
qed

lemma recv_payload_spec:
  assumes "length hdr = kHeaderSize"
  defines "n \<equiv> declared_length hdr"
  shows "if n > kMaxPayload
    then recv_payload hdr ins = Some (throw_error ErrorCode.FRAME_TOO_LARGE ''frame payload over bound'', ins)
    else if n \<le> length (stream ins)
    then \<exists>ins'. recv_payload hdr ins =
        Some (map_sum (\<lambda>f. f) OK (decode_frame (hdr @ take n (stream ins))), ins') \<and> follows n ins ins'
    else if ends ins then \<exists>ins'. recv_payload hdr ins = Some (Inr CLOSED, ins')
    else recv_payload hdr ins = None"
proof -
  obtain plen r where p: "header_plen (reader_new hdr) = Inr (plen, r)" "unat plen = n"
    using header_plen_total [OF assms(1)] by (auto simp: n_def)
  have "(if plen > 0 then recv_n (-1) (unat plen) ins else Some (Some [], ins)) = recv_n (-1) n ins"
    using p(2) by (auto simp: word_gt_0)
  with p have "recv_payload hdr ins =
      (if n > kMaxPayload
       then Some (throw_error ErrorCode.FRAME_TOO_LARGE ''frame payload over bound'', ins)
       else (case recv_n (-1) n ins of
               None \<Rightarrow> None
             | Some (None, ins) \<Rightarrow> Some (Inr CLOSED, ins)
             | Some (Some payload, ins) \<Rightarrow>
                 Some (map_sum (\<lambda>f. f) OK (decode_frame (hdr @ payload)), ins)))"
    by (simp add: recv_payload_def)
  then show ?thesis using recv_n_spec [of n ins] by (auto split: if_splits)
qed

lemma recv_header_spec:
  assumes "stream ins \<noteq> []"
  shows "case next_frame (stream ins) (ends ins) of
      None \<Rightarrow> recv_header ins = None
    | Some (r, n) \<Rightarrow> \<exists>ins'. recv_header ins = Some (r, ins') \<and> (r \<noteq> Inr CLOSED \<longrightarrow> follows n ins ins')"
proof (cases "kHeaderSize \<le> length (stream ins)")
  case False
  then show ?thesis
    using recv_n_spec [of kHeaderSize ins] recv_header_whole [OF assms]
    by (auto simp: next_frame_def)
next
  case True
  let ?hdr = "take kHeaderSize (stream ins)" and ?n = "declared_length (take kHeaderSize (stream ins))"
  from True obtain ins' where h: "recv_n (-1) kHeaderSize ins = Some (Some ?hdr, ins')"
    "follows kHeaderSize ins ins'"
    using recv_n_spec [of kHeaderSize ins] by auto
  then have "recv_header ins = recv_payload ?hdr ins'"
    using recv_header_whole [OF assms] by simp
  moreover have "length ?hdr = kHeaderSize" using True by simp
  note recv_payload_spec [OF this, of ins']
  moreover note f = followsD [OF h(2)]
  moreover have "?hdr @ take ?n (drop kHeaderSize (stream ins)) = take (kHeaderSize + ?n) (stream ins)"
    by (simp add: take_add)
  moreover have "follows ?n ins' i \<Longrightarrow> follows (kHeaderSize + ?n) ins i" for i
    using follows_trans [OF h(2)] .
  ultimately show ?thesis
    using True h(2) by (auto simp: next_frame_def Let_def f split: if_splits)
qed

lemma wait_readable_True:
  "wait_readable t ins = (True, ins') \<Longrightarrow>
   stream ins' = stream ins \<and> ends ins' = ends ins \<and> pauses ins' = pauses ins \<and>
   (stream ins = [] \<longrightarrow> ends ins)"
  by (induction ins) (auto split: if_splits arrival.splits)

lemma wait_readable_False:
  "wait_readable t ins = (False, ins') \<Longrightarrow>
   stream ins' = stream ins \<and> ends ins' = ends ins \<and>
   (0 \<le> t \<longrightarrow> (pauses ins' < pauses ins \<or> ins' = [] \<and> stream ins = []))"
  by (induction ins) (auto split: if_splits arrival.splits)

text \<open>
  C8. Receiving a frame is decoding the byte stream. When nothing arrives in time the outcome is
  \<open>TIMEOUT\<close> and the stream is as it was; at the end of the connection it is \<open>CLOSED\<close> or \<open>ERR\<close>;
  otherwise the outcome and the bytes taken are those of the reference \<open>next_frame\<close> on the stream,
  however it is cut into segments and with whatever pauses. Where the reference has no outcome, on
  a frame that stops half way without an end, the call never returns, whatever the time it was
  given.
\<close>

theorem recv_frame_decodes_stream:
  "case wait_readable t ins of
     (False, _) \<Rightarrow> \<exists>ins'. recv_frame t ins = Some (Inr TIMEOUT, ins') \<and> stream ins' = stream ins
   | (True, _) \<Rightarrow>
       if stream ins = []
       then \<exists>r ins'. recv_frame t ins = Some (Inr r, ins') \<and> (r = CLOSED \<or> r = ERR)
       else (case next_frame (stream ins) (ends ins) of
               None \<Rightarrow> recv_frame t ins = None
             | Some (r, n) \<Rightarrow> \<exists>ins'. recv_frame t ins = Some (r, ins') \<and>
                 (r = Inr CLOSED \<or> stream ins' = drop n (stream ins)))"
proof (cases "wait_readable t ins")
  case (Pair ready ins1)
  show ?thesis
  proof (cases ready)
    case True
    with Pair have w: "stream ins1 = stream ins" "ends ins1 = ends ins" "stream ins = [] \<longrightarrow> ends ins"
      using wait_readable_True [of t ins ins1] by auto
    have r: "recv_frame t ins = recv_header ins1" using Pair True by (simp add: recv_frame_def)
    show ?thesis
    proof (cases "stream ins = []")
      case True
      with w recv_end [of ins1 kHeaderSize] show ?thesis
        using Pair \<open>ready\<close> by (auto simp: r recv_header_def)
    next
      case False
      with w recv_header_spec [of ins1] show ?thesis
        using Pair \<open>ready\<close> by (auto simp: r follows_def split: option.splits)
    qed
  next
    case False
    with Pair wait_readable_False [of t ins ins1] show ?thesis by (simp add: recv_frame_def)
  qed
qed

section \<open>Every frame arrives\<close>

text \<open>Receiving again and again, as the coordinator's loop does with each connection.\<close>

fun polls :: "int \<Rightarrow> nat \<Rightarrow> incoming \<Rightarrow> Frame list option" where
  "polls t 0 ins = Some []"
| "polls t (Suc k) ins =
     (case recv_frame t ins of
        Some (Inr TIMEOUT, ins) \<Rightarrow> polls t k ins
      | Some (Inr (OK f), ins) \<Rightarrow> map_option ((#) f) (polls t k ins)
      | _ \<Rightarrow> None)"

lemma send_n_all: "send_n rs bs = (Some True, sent) \<Longrightarrow> sent = bs"
  by (induction rs bs arbitrary: sent rule: send_n.induct)
    (auto simp: apsnd_def map_prod_def split: if_splits prod.splits)

lemma send_n_prefix: "\<exists>rest. bs = snd (send_n rs bs) @ rest"
  by (induction rs bs rule: send_n.induct) (auto simp: apsnd_def map_prod_def split: prod.splits, metis append_take_drop_id)

lemma declared_length_header:
  assumes "length p \<le> kMaxPayload"
  shows "declared_length (frame_header t p) = length p"
  using payload_length [OF assms]
  by (simp add: declared_length_def header_plen_def frame_header_def reader_new_at
      u32_codec.bind_enc [where post = "[]", simplified] r_return_def)

definition sent_frame :: "MsgType \<Rightarrow> bytes \<Rightarrow> Frame" where
  "sent_frame t p = \<lparr>fr_type = MsgType_cast (MsgType_value t), fr_payload = p, fr_checksum = crc32 p\<rparr>"

lemma send_frame_bytes:
  assumes "send_frame rs t p = (Inr (Some True), bs)"
  shows "length p \<le> kMaxPayload" "bs = frame_header (MsgType_value t) p @ p"
  using assms send_n_all
  by (auto simp: send_frame_def encode_frame_bytes throw_error_def apfst_def map_prod_def
      split: if_splits prod.splits)

lemma next_frame_sent:
  assumes "length p \<le> kMaxPayload"
  shows "next_frame (frame_header (MsgType_value t) p @ p @ rest) closed =
    Some (Inr (OK (sent_frame t p)), kHeaderSize + length p)"
proof -
  let ?h = "frame_header (MsgType_value t) p"
  have "decode_frame (?h @ p) = Inr (sent_frame t p)"
    using assms by (auto simp: decode_frame_iff sent_frame_def)
  with assms show ?thesis
    by (simp add: next_frame_def kHeaderSize_def declared_length_header)
qed

lemma recv_sent:
  assumes "length p \<le> kMaxPayload" "stream ins = (frame_header (MsgType_value t) p @ p) @ rest"
    "wait_readable w ins = (True, ins1)"
  obtains ins' where "recv_frame w ins = Some (Inr (OK (sent_frame t p)), ins')" "stream ins' = rest"
    "ends ins' = ends ins" "pauses ins' \<le> pauses ins"
proof -
  have "frame_header (MsgType_value t) p \<noteq> []" by (simp flip: length_0_conv)
  then have "stream ins1 \<noteq> []" using assms(2,3) wait_readable_True by auto
  then show thesis
    using recv_header_spec [of ins1] that wait_readable_True [OF assms(3)] assms(2,3)
      next_frame_sent [OF assms(1), of t rest "ends ins"]
    by (auto simp: recv_frame_def follows_def kHeaderSize_def)
qed

lemma polls_all:
  assumes "0 \<le> w" "\<not> ends ins" "pauses ins + length msgs \<le> k"
    and "\<forall>(t, p) \<in> set msgs. length p \<le> kMaxPayload"
    and "stream ins = concat (map (\<lambda>(t, p). frame_header (MsgType_value t) p @ p) msgs)"
  shows "polls w k ins = Some (map (\<lambda>(t, p). sent_frame t p) msgs)"
  using assms(2-)
proof (induction k arbitrary: ins msgs)
  case (Suc k)
  obtain ready ins1 where w: "wait_readable w ins = (ready, ins1)" by fastforce
  show ?case
  proof (cases ready)
    case False
    with w have i: "stream ins1 = stream ins" "ends ins1 = ends ins"
      "pauses ins1 < pauses ins \<or> ins1 = [] \<and> stream ins = []"
      using assms(1) wait_readable_False [of w ins ins1] by auto
    have "pauses ins1 + length msgs \<le> k"
    proof (cases "ins1 = [] \<and> stream ins = []")
      case True
      then have "msgs = []"
        using Suc.prems(4) by (cases msgs) (auto simp flip: length_0_conv)
      with True show ?thesis by simp
    qed (use i Suc.prems(2) in auto)
    from Suc.IH [OF _ this Suc.prems(3)] i Suc.prems(1,4) w False show ?thesis
      by (simp add: recv_frame_def)
  next
    case True
    then have "stream ins \<noteq> []" using wait_readable_True [of w ins ins1] w Suc.prems(1) by auto
    then obtain t p ms where m: "msgs = (t, p) # ms" using Suc.prems(4) by (cases msgs) auto
    have "length p \<le> kMaxPayload" using Suc.prems(3) m by auto
    moreover have "wait_readable w ins = (True, ins1)" using w True by simp
    ultimately obtain ins' where
      r: "recv_frame w ins = Some (Inr (OK (sent_frame t p)), ins')"
      "stream ins' = concat (map (\<lambda>(t, p). frame_header (MsgType_value t) p @ p) ms)"
      "ends ins' = ends ins" "pauses ins' \<le> pauses ins"
      using Suc.prems(4) m recv_sent [of p ins t _ w ins1] by auto
    with Suc.IH [of ins' ms] Suc.prems m show ?thesis by simp
  qed
qed simp

text \<open>
  C11. Every frame arrives, once and in order. Frames that the sender's calls wrote completely, over
  however many partial \<^verbatim>\<open>send\<close>s, are received as they were sent by a receiver that keeps asking,
  from whatever segments the bytes arrive in and with whatever pauses between them; as many
  attempts as there are frames and pauses are enough, and no further attempt changes that.
\<close>

theorem all_frames_received:
  assumes "list_all2 (\<lambda>(t, p) (rs, bs). send_frame rs t p = (Inr (Some True), bs)) msgs sends"
    and "stream ins = concat (map snd sends)" "\<not> ends ins" "0 \<le> timeout_ms"
    and "length msgs + pauses ins \<le> k"
  shows "polls timeout_ms k ins = Some (map (\<lambda>(t, p). sent_frame t p) msgs)"
proof (rule polls_all)
  have "(\<forall>(t, p) \<in> set msgs. length p \<le> kMaxPayload) \<and>
      map snd sends = map (\<lambda>(t, p). frame_header (MsgType_value t) p @ p) msgs"
    using assms(1) by (induction rule: list_all2_induct) (auto dest: send_frame_bytes)
  with assms(2) show "\<forall>(t, p) \<in> set msgs. length p \<le> kMaxPayload"
    "stream ins = concat (map (\<lambda>(t, p). frame_header (MsgType_value t) p @ p) msgs)" by auto
qed (use assms in auto)

theorem all_frames_received_witness:
  "polls 0 3 [Quiet, Data (take 5 (frame_header 2 [7] @ [7])), Data (drop 5 (frame_header 2 [7] @ [7]))] =
     Some [sent_frame MsgType.PING [7]]"
proof -
  have send: "send_frame [5, 20] MsgType.PING [7] = (Inr (Some True), frame_header 2 [7] @ [7])"
    by (simp add: send_frame_def encode_frame_bytes kMaxPayload_def frame_header_def bytes32_def
        bytes16_def apfst_def map_prod_def)
  show ?thesis
    using all_frames_received [of "[(MsgType.PING, [7])]" "[([5, 20], frame_header 2 [7] @ [7])]"
      "[Quiet, Data (take 5 (frame_header 2 [7] @ [7])), Data (drop 5 (frame_header 2 [7] @ [7]))]" 0 3]
    by (simp add: send del: append_take_drop_id)
      (metis append.assoc append_take_drop_id)
qed

text \<open>A negative time is refused by \<^verbatim>\<open>select\<close>: the call does not wait at all.\<close>

lemma negative_timeout_never_waits: "t < 0 \<Longrightarrow> recv_frame t ins = Some (Inr TIMEOUT, ins)"
  by (cases ins) (simp_all add: recv_frame_def)

end
