(* ===== verification/Coordinator.thy ===== *)
theory Coordinator
  imports MpProto Backends Recovery Transport
begin

text \<open>
  The coordinator process (\<^verbatim>\<open>tools/dpu_fabric_coordinator.cpp\<close>): the engine, the table of
  connections, what each socket is still to receive and the messages that were sent. The body of
  \<^verbatim>\<open>main\<close> is \<open>coord_start\<close>, then \<open>coord_loop\<close>, whose passes are \<open>coord_pass\<close>.

  A frame handed to \<^verbatim>\<open>write_frame\<close> is appended to \<open>co_sent\<close>: the code ignores whether the socket
  took it. A \<^verbatim>\<open>DpuError\<close> that no handler catches leaves \<^verbatim>\<open>main\<close>, which ends the process: it is the
  \<open>Inl\<close> of a step. A step that waits for ever in \<^verbatim>\<open>recv\<close> is \<open>None\<close>.
\<close>

section \<open>State\<close>

type_synonym socket = u64

datatype (plugins only: code size) Role = UNKNOWN | WORKER | ADMIN

record coordinator =
  co_engine :: engine
  co_conns :: "(socket, Role) stdmap"
  co_net :: "(socket, incoming) stdmap"
  co_conn_worker :: "(socket, u64) stdmap"
  co_sock_by_worker :: "(u64, socket) stdmap"
  co_running :: bool
  co_cmd_seq :: u64
  co_pending :: "(u64, string) stdmap"
  co_state_path :: string
  co_disk :: disk
  co_sent :: "(socket \<times> MsgType \<times> bytes) list"

definition on_engine :: "'a result \<times> engine \<Rightarrow> coordinator \<Rightarrow> 'a result \<times> coordinator" where
  "on_engine p c = (fst p, c\<lparr>co_engine := snd p\<rparr>)"

text \<open>\<^verbatim>\<open>what()\<close> of a caught error; only a \<^verbatim>\<open>DpuError\<close> can be caught.\<close>

fun what :: "failure \<Rightarrow> string" where
  "what (Thrown e) = err_detail e"
| "what Undefined_Behaviour = []"

definition persist_if :: "io \<Rightarrow> coordinator \<Rightarrow> coordinator" where
  "persist_if io c =
     (if co_state_path c = [] then c
      else c\<lparr>co_disk := last (snd (persist io (co_state_path c) (co_engine c) (co_disk c)))\<rparr>)"

definition write_frame :: "socket \<Rightarrow> MsgType \<Rightarrow> bytes \<Rightarrow> coordinator \<Rightarrow> unit result \<times> coordinator" where
  "write_frame s t payload c =
     (case encode_frame t payload of
        Inl f \<Rightarrow> (Inl f, c)
      | Inr _ \<Rightarrow> (Inr (), c\<lparr>co_sent := co_sent c @ [(s, t, payload)]\<rparr>))"

section \<open>Messages of workers\<close>

text \<open>A \<^verbatim>\<open>DpuError\<close> of the engine is caught; one of the parser is not.\<close>

definition announce_device :: "u64 \<Rightarrow> DeviceRecord \<Rightarrow> coordinator \<Rightarrow> coordinator" where
  "announce_device wid dev c =
     (let dev = dev\<lparr>dv_owning_worker := Id wid,
                     dv_owner_worker_boot :=
                       Id (if map_count (co_sock_by_worker c) wid then wid + 1 else 0)\<rparr>;
          e = co_engine c
      in c\<lparr>co_engine := (case snap_device (en_snap e) (dv_device_id dev) of
             Some _ \<Rightarrow> snd (update_device dev e)
           | None \<Rightarrow> snd (register_device dev e))\<rparr>)"

definition read_evidence :: "(DeviceId \<times> u64 \<times> bool) reader" where
  "read_evidence = r_bind rd_id (\<lambda>did. r_bind r_u64 (\<lambda>eg. r_map (\<lambda>fresh. (did, eg, fresh)) r_bool))"

definition publish_evidence :: "DeviceId \<Rightarrow> u64 \<Rightarrow> bool \<Rightarrow> coordinator \<Rightarrow> coordinator" where
  "publish_evidence did eg fresh c =
     (case snap_device (en_snap (co_engine c)) did of
        None \<Rightarrow> c
      | Some rec \<Rightarrow>
          let upd = rec\<lparr>dv_evidence_gen := Id eg, dv_evidence_fresh := fresh\<rparr>;
              upd = (if fresh then upd\<lparr>dv_lifecycle := DeviceLifecycle.READY\<rparr> else upd)
          in c\<lparr>co_engine := snd (update_device upd (co_engine c))\<rparr>)"

definition read_result :: "(u64 \<times> u8 \<times> string) reader" where
  "read_result = r_bind r_u64 (\<lambda>cid. r_bind r_u8 (\<lambda>ok. r_map (\<lambda>detail. (cid, ok, detail)) r_str))"

definition handle_worker_msg :: "MsgType \<Rightarrow> bytes \<Rightarrow> u64 \<Rightarrow> coordinator \<Rightarrow> unit result \<times> coordinator" where
  "handle_worker_msg t payload wid c =
     (if t = MsgType.REGISTER_DEVICE then
        (case get_device (reader_new payload) of
           Inl f \<Rightarrow> (Inl f, c) | Inr (dev, _) \<Rightarrow> (Inr (), announce_device wid dev c))
      else if t = MsgType.PUBLISH_EVIDENCE then
        (case read_evidence (reader_new payload) of
           Inl f \<Rightarrow> (Inl f, c)
         | Inr ((did, eg, fresh), _) \<Rightarrow> (Inr (), publish_evidence did eg fresh c))
      else if t = MsgType.RESULT then
        (case read_result (reader_new payload) of
           Inl f \<Rightarrow> (Inl f, c)
         | Inr ((cid, ok, detail), _) \<Rightarrow> (Inr (), c\<lparr>co_pending := map_erase cid (co_pending c)\<rparr>))
      else (Inr (), c))"

section \<open>Messages of the administrative client\<close>

definition put_result :: "u64 \<Rightarrow> bool \<Rightarrow> string \<Rightarrow> putter" where
  "put_result cmd_id ok text = w_seq [p_u64 cmd_id, p_bool ok, w_str text]"

text \<open>The writer can throw; what \<^verbatim>\<open>write_frame\<close> throws is swallowed.\<close>

definition reply :: "socket \<Rightarrow> u64 \<Rightarrow> bool \<Rightarrow> string \<Rightarrow> coordinator \<Rightarrow> unit result \<times> coordinator" where
  "reply s cmd_id ok text c =
     (case put_result cmd_id ok text [] of
        Inl f \<Rightarrow> (Inl f, c)
      | Inr payload \<Rightarrow> (Inr (), snd (write_frame s MsgType.RESULT payload c)))"

definition then_call :: "('a \<Rightarrow> 'b op) \<Rightarrow> 'a result \<times> engine \<Rightarrow> 'b result \<times> engine" where
  "then_call k p = (case fst p of Inl f \<Rightarrow> (Inl f, snd p) | Inr x \<Rightarrow> k x (snd p))"

text \<open>Reserve, stage, load, validate, activate and commit; it stops at the first throw.\<close>

definition deploy :: "OffloadRequest \<Rightarrow> EligibilityResult \<Rightarrow> DeploymentId op" where
  "deploy req elig e =
     then_call (\<lambda>dep e.
       then_call (\<lambda>_ e. (Inr dep, e))
         (then_call (\<lambda>_. commit_deployment dep)
           (then_call (\<lambda>_. activate_deployment dep)
             (then_call (\<lambda>_. validate_deployment dep)
               (then_call (\<lambda>_. load_deployment dep) (stage_deployment dep e))))))
       (reserve_deployment req elig e)"

definition deploy_request :: "ServiceId \<Rightarrow> u8 \<Rightarrow> OffloadRequest" where
  "deploy_request sid oc = OffloadRequest_init
     \<lparr>rq_offload_class := OffloadClass_cast (ucast oc), rq_service := Some sid,
      rq_mode := OffloadMode.OFFLOAD_REQUIRED\<rparr>"

definition put_activate :: "u64 \<Rightarrow> putter" where
  "put_activate n = put_command (n, ''ACTIVATE'')"

text \<open>The worker that owns the device, if it is connected, is told to activate.\<close>

definition command_worker :: "DeviceId \<Rightarrow> coordinator \<Rightarrow> unit result \<times> coordinator" where
  "command_worker dev c =
     (case snap_device (en_snap (co_engine c)) dev of
        None \<Rightarrow> (Inr (), c)
      | Some d \<Rightarrow>
          (case map_find (co_sock_by_worker c) (as_u64 (dv_owning_worker d)) of
             None \<Rightarrow> (Inr (), c)
           | Some ws \<Rightarrow>
               (case put_activate (co_cmd_seq c) [] of
                  Inl f \<Rightarrow> (Inl f, c)
                | Inr payload \<Rightarrow>
                    (case write_frame ws MsgType.COMMAND payload c of
                       (Inl _, c) \<Rightarrow> (Inr (), c)
                     | (Inr _, c) \<Rightarrow>
                         (Inr (), c\<lparr>co_pending := map_set (co_cmd_seq c) ''ACTIVATE'' (co_pending c),
                                   co_cmd_seq := co_cmd_seq c + 1\<rparr>)))))"

definition bind_co ::
  "'a result \<times> coordinator \<Rightarrow> ('a \<Rightarrow> coordinator \<Rightarrow> 'b result \<times> coordinator) \<Rightarrow> 'b result \<times> coordinator" where
  "bind_co p k = (case fst p of Inl f \<Rightarrow> (Inl f, snd p) | Inr x \<Rightarrow> k x (snd p))"

definition create_deployment ::
  "io \<Rightarrow> socket \<Rightarrow> u64 \<Rightarrow> ServiceId \<Rightarrow> u8 \<Rightarrow> coordinator \<Rightarrow> unit result \<times> coordinator" where
  "create_deployment io s cmd_id sid oc c =
     (let req = deploy_request sid oc in
      case evaluate req (co_engine c) of
        Inl f \<Rightarrow> (Inl f, c)
      | Inr elig \<Rightarrow>
          (case er_selected elig of
             None \<Rightarrow> reply s cmd_id False ''REJECTED_NO_DEVICE'' c
           | Some dev \<Rightarrow>
               bind_co (on_engine (deploy req elig (co_engine c)) c) (\<lambda>dep c.
               bind_co (reply s cmd_id True (''dep='' @ id_encode dep @ '' device='' @ id_encode dev) c) (\<lambda>_ c.
               bind_co (command_worker dev c) (\<lambda>_ c. (Inr (), persist_if io c))))))"

definition read_create :: "(ServiceId \<times> u8) reader" where
  "read_create = r_bind rd_id (\<lambda>sid. r_map (Pair sid) r_u8)"

definition admin_command ::
  "io \<Rightarrow> socket \<Rightarrow> u64 \<Rightarrow> u8 \<Rightarrow> Reader \<Rightarrow> coordinator \<Rightarrow> unit result \<times> coordinator" where
  "admin_command io s cmd_id ctype r c =
     (if ctype = Cmd_value Cmd.STATUS then reply s cmd_id True (describe (co_engine c)) c
      else if ctype = Cmd_value Cmd.CREATE_DEPLOYMENT then
        (case read_create r of
           Inl f \<Rightarrow> (Inl f, c)
         | Inr ((sid, oc), _) \<Rightarrow> create_deployment io s cmd_id sid oc c)
      else if ctype = Cmd_value Cmd.SHUTDOWN then
        bind_co (reply s cmd_id True ''SHUTDOWN_OK'' (persist_if io c))
          (\<lambda>_ c. (Inr (), c\<lparr>co_running := False\<rparr>))
      else reply s cmd_id False ''UNKNOWN_CMD'' c)"

definition read_admin :: "(u64 \<times> u8) reader" where
  "read_admin = r_bind r_u64 (\<lambda>cmd_id. r_map (Pair cmd_id) r_u8)"

text \<open>The identity and the kind of the command are read outside the \<^verbatim>\<open>try\<close>.\<close>

definition handle_admin_msg :: "io \<Rightarrow> socket \<Rightarrow> bytes \<Rightarrow> coordinator \<Rightarrow> unit result \<times> coordinator" where
  "handle_admin_msg io s payload c =
     (case read_admin (reader_new payload) of
        Inl f \<Rightarrow> (Inl f, c)
      | Inr ((cmd_id, ctype), r) \<Rightarrow>
          (case admin_command io s cmd_id ctype r c of
             (Inr _, c) \<Rightarrow> (Inr (), c)
           | (Inl Undefined_Behaviour, c) \<Rightarrow> (Inl Undefined_Behaviour, c)
           | (Inl (Thrown e), c) \<Rightarrow> reply s cmd_id False (what (Thrown e)) c))"

section \<open>Connections\<close>

definition close_conn :: "socket \<Rightarrow> coordinator \<Rightarrow> coordinator" where
  "close_conn s c =
     (let c = (case map_find (co_conn_worker c) s of
                 None \<Rightarrow> c
               | Some w \<Rightarrow>
                   c\<lparr>co_engine := snd (mark_worker_lost (Id w) (co_engine c)),
                     co_sock_by_worker := map_erase w (co_sock_by_worker c)\<rparr>)
      in c\<lparr>co_conn_worker := map_erase s (co_conn_worker c)\<rparr>)"

text \<open>Closing a socket discards what it would still receive.\<close>

definition drop_conn :: "socket \<Rightarrow> coordinator \<Rightarrow> coordinator" where
  "drop_conn s c = c\<lparr>co_conns := map_erase s (co_conns c), co_net := map_erase s (co_net c)\<rparr>"

text \<open>The first frame of a connection: a worker introduces itself, or the client is an administrator.\<close>

definition greet :: "socket \<Rightarrow> bytes \<Rightarrow> coordinator \<Rightarrow> unit result \<times> coordinator" where
  "greet s payload c =
     (case decode_hello (reader_new payload) of
        Inl f \<Rightarrow> (Inl f, c)
      | Inr ((wk, boot, label), _) \<Rightarrow>
          (case register_worker (Id wk) (Id boot) (co_engine c) of
             (Inl (Thrown _), e) \<Rightarrow> (Inr (), drop_conn s (c\<lparr>co_engine := e\<rparr>))
           | (Inl f, e) \<Rightarrow> (Inl f, c\<lparr>co_engine := e\<rparr>)
           | (Inr _, e) \<Rightarrow>
               (let c = c\<lparr>co_engine := e, co_conns := map_set s Role.WORKER (co_conns c),
                          co_conn_worker := map_set s wk (co_conn_worker c)\<rparr>
                in bind_co (write_frame s MsgType.ACK
                     (bytes64 (as_u64 (epoch (co_engine c))) @ [1]) c)
                   (\<lambda>_ c. (Inr (), c\<lparr>co_sock_by_worker := map_set wk s (co_sock_by_worker c)\<rparr>)))))"

definition on_frame :: "io \<Rightarrow> socket \<Rightarrow> Frame \<Rightarrow> coordinator \<Rightarrow> unit result \<times> coordinator" where
  "on_frame io s f c =
     (case map_find (co_conns c) s of
        None \<Rightarrow> (Inr (), c)
      | Some Role.UNKNOWN \<Rightarrow>
          if fr_type f = MsgType.HELLO then greet s (fr_payload f) c
          else handle_admin_msg io s (fr_payload f) (c\<lparr>co_conns := map_set s Role.ADMIN (co_conns c)\<rparr>)
      | Some Role.WORKER \<Rightarrow>
          handle_worker_msg (fr_type f) (fr_payload f)
            (case map_find (co_conn_worker c) s of Some w \<Rightarrow> w | None \<Rightarrow> 0) c
      | Some Role.ADMIN \<Rightarrow> handle_admin_msg io s (fr_payload f) c)"

text \<open>What \<^verbatim>\<open>recv_frame\<close> reported for a connection; an exception it threw is not caught.\<close>

fun on_received :: "io \<Rightarrow> socket \<Rightarrow> RecvResult result \<Rightarrow> coordinator \<Rightarrow> unit result \<times> coordinator" where
  "on_received io s (Inl f) c = (Inl f, c)"
| "on_received io s (Inr TIMEOUT) c = (Inr (), c)"
| "on_received io s (Inr CLOSED) c = (Inr (), drop_conn s (close_conn s c))"
| "on_received io s (Inr ERR) c = (Inr (), drop_conn s (close_conn s c))"
| "on_received io s (Inr (OK f)) c = on_frame io s f c"

text \<open>
  The connections are served in the order of their handles, one frame each; only the one that is
  served can leave the table. A client brings with its connection all it will ever send.
\<close>

fun serve :: "io \<Rightarrow> socket list \<Rightarrow> coordinator \<Rightarrow> (unit result \<times> coordinator) option" where
  "serve io [] c = Some (Inr (), c)"
| "serve io (s # ss) c =
     (case recv_frame 0 (case map_find (co_net c) s of Some ins \<Rightarrow> ins | None \<Rightarrow> []) of
        None \<Rightarrow> None
      | Some (r, ins) \<Rightarrow>
          (case on_received io s r (c\<lparr>co_net := map_set s ins (co_net c)\<rparr>) of
             (Inl f, c) \<Rightarrow> Some (Inl f, c)
           | (Inr _, c) \<Rightarrow> serve io ss c))"

definition accept_conn :: "(socket \<times> incoming) option \<Rightarrow> coordinator \<Rightarrow> coordinator" where
  "accept_conn lc c =
     (case lc of
        None \<Rightarrow> c
      | Some (s, ins) \<Rightarrow>
          c\<lparr>co_conns := map_set s Role.UNKNOWN (co_conns c), co_net := map_set s ins (co_net c)\<rparr>)"

definition coord_pass ::
  "io \<Rightarrow> (socket \<times> incoming) option \<Rightarrow> coordinator \<Rightarrow> (unit result \<times> coordinator) option" where
  "coord_pass io lc c =
     (let c = accept_conn lc c in serve io (map fst (map_entries (co_conns c))) c)"

text \<open>
  \<^verbatim>\<open>running\<close> is tested between passes; at the end the state is saved once more. The list is what
  \<^verbatim>\<open>accept\<close> returns in each pass; an execution that has used it up is still running.
\<close>

fun coord_loop ::
  "io \<Rightarrow> (socket \<times> incoming) option list \<Rightarrow> coordinator \<Rightarrow> (unit result \<times> coordinator) option" where
  "coord_loop io [] c = Some (Inr (), if co_running c then c else persist_if io c)"
| "coord_loop io (lc # lcs) c =
     (if \<not> co_running c then Some (Inr (), persist_if io c)
      else (case coord_pass io lc c of
              None \<Rightarrow> None
            | Some (Inl f, c) \<Rightarrow> Some (Inl f, c)
            | Some (Inr _, c) \<Rightarrow> coord_loop io lcs c))"

section \<open>Startup\<close>

definition builtin_service :: ServiceDefinition where
  "builtin_service = ServiceDefinition_init
     \<lparr>sd_service_id := Id 90, sd_service_gen := Id 1, sd_offload_class := OffloadClass.SECURITY_SERVICE,
      sd_required_caps := [CapabilityRequirement_init\<lparr>cr_key := cap_encryption\<rparr>,
                           CapabilityRequirement_init\<lparr>cr_key := cap_network\<rparr>],
      sd_resource := \<lparr>rr_memory_bytes = push_bit 20 64, rr_queues = 1, rr_functions = 0, rr_slots = 1,
        rr_contexts = 1\<rparr>\<rparr>"

text \<open>The state file is read only when it can be opened; a damaged one ends the process here.\<close>

definition coord_start :: "CoordinatorEpoch \<Rightarrow> string \<Rightarrow> disk \<Rightarrow> unit result \<times> coordinator" where
  "coord_start ep path disk =
     (let e = engine_new ep (Policy_defaults (Id 1));
          (r, e) = (if path \<noteq> [] \<and> disk path \<noteq> None then recover_from (file_at disk path) e
                    else (Inr False, e));
          c = \<lparr>co_engine = e, co_conns = [], co_net = [], co_conn_worker = [], co_sock_by_worker = [],
               co_running = True, co_cmd_seq = 1, co_pending = [], co_state_path = path,
               co_disk = disk, co_sent = []\<rparr>
      in case r of
           Inl f \<Rightarrow> (Inl f, c)
         | Inr _ \<Rightarrow> (Inr (), c\<lparr>co_engine := snd (register_service builtin_service e)\<rparr>))"

end
