(* ===== verification/CoordinatorProps.thy ===== *)
theory CoordinatorProps
  imports Coordinator CoreProps RecoveryProps
begin

text \<open>
  What the coordinator does whatever its clients send: its engine moves by engine calls only, no
  message has undefined behaviour, and the errors that end the process are those of the parsers.
\<close>

section \<open>The engine inside\<close>

definition runs_to :: "engine \<Rightarrow> engine \<Rightarrow> bool" where
  "runs_to e e' \<longleftrightarrow> (\<exists>cs. e' = engine_machine.run cs e)"

lemma runs_to_refl [simp]: "runs_to e e"
  by (rule exI [of _ "[]", folded runs_to_def, THEN runs_to_def [THEN iffD2]])
    (simp add: engine_machine.run_def)

lemma runs_to_trans: "runs_to a b \<Longrightarrow> runs_to b c \<Longrightarrow> runs_to a c"
  by (auto simp: runs_to_def engine_machine.run_def) (metis fold_append comp_apply)

lemma runs_to_call: "runs_to e (snd (call c e))"
  by (auto simp: runs_to_def engine_machine.run_def after_call_def intro!: exI [of _ "[c]"])

lemma runs_to_ok: "runs_to e e' \<Longrightarrow> engine_ok e \<Longrightarrow> engine_ok e'"
  by (auto simp: runs_to_def engine_machine.run_inv)

lemma runs_to_reachable:
  assumes "runs_to e e'" "reachable n e"
  obtains n' where "reachable n' e'"
proof -
  obtain cs where "e' = engine_machine.run cs e" using assms(1) by (auto simp: runs_to_def)
  moreover obtain ep p cs' where "e = engine_machine.run cs' (engine_new ep p)"
    using assms(2) by (auto simp: reachable_run)
  ultimately have "e' = engine_machine.run (cs' @ cs) (engine_new ep p)"
    by (simp add: engine_machine.run_def)
  then show thesis using that reachable_run by blast
qed

text \<open>The operations the coordinator calls, as calls of the machine.\<close>

lemma runs_to_ops [simp]:
  "runs_to e (snd (register_device d e))" "runs_to e (snd (update_device d e))"
  "runs_to e (snd (register_service sd e))" "runs_to e (snd (register_worker w b e))"
  "runs_to e (snd (mark_worker_lost w e))" "runs_to e (snd (reserve_deployment req r e))"
  "runs_to e (snd (stage_deployment i e))" "runs_to e (snd (load_deployment i e))"
  "runs_to e (snd (validate_deployment i e))" "runs_to e (snd (activate_deployment i e))"
  "runs_to e (snd (commit_deployment i e))"
  using runs_to_call [of e "Register_Device d"] runs_to_call [of e "Update_Device d"]
    runs_to_call [of e "Register_Service sd"] runs_to_call [of e "Register_Worker w b"]
    runs_to_call [of e "Mark_Worker_Lost w"] runs_to_call [of e "Reserve req r"]
    runs_to_call [of e "Stage i"] runs_to_call [of e "Load i"] runs_to_call [of e "Validate i"]
    runs_to_call [of e "Activate i"] runs_to_call [of e "Commit i"]
  by simp_all

section \<open>Handled steps\<close>

text \<open>
  A step is handled when it takes the engine by calls to a later state and, from a state that
  meets the invariant, ends without undefined behaviour, any error having one of the codes \<open>cs\<close>.
\<close>

definition ends_with :: "ErrorCode set \<Rightarrow> 'a result \<Rightarrow> bool" where
  "ends_with cs r \<longleftrightarrow> (case r of Inr _ \<Rightarrow> True | Inl (Thrown e) \<Rightarrow> err_code e \<in> cs | Inl Undefined_Behaviour \<Rightarrow> False)"

lemma ends_with_simps [simp]:
  "ends_with cs (Inr x)" "ends_with cs (Inl (Thrown e)) \<longleftrightarrow> err_code e \<in> cs"
  "\<not> ends_with cs (Inl Undefined_Behaviour)"
  by (simp_all add: ends_with_def)

definition handled :: "ErrorCode set \<Rightarrow> coordinator \<Rightarrow> 'a result \<times> coordinator \<Rightarrow> bool" where
  "handled cs c p \<longleftrightarrow> runs_to (co_engine c) (co_engine (snd p)) \<and>
     (engine_ok (co_engine c) \<longrightarrow> ends_with cs (fst p))"

lemma handled_simps [simp]:
  "handled cs c (Inr x, c') \<longleftrightarrow> runs_to (co_engine c) (co_engine c')"
  "handled cs c (Inl (Thrown e), c) \<longleftrightarrow> (engine_ok (co_engine c) \<longrightarrow> err_code e \<in> cs)"
  by (simp_all add: handled_def)

lemma handled_mono: "handled cs c p \<Longrightarrow> cs \<subseteq> cs' \<Longrightarrow> handled cs' c p"
  by (auto simp: handled_def ends_with_def split: sum.splits failure.splits)

lemma handled_trans:
  "runs_to (co_engine c) (co_engine c') \<Longrightarrow> handled cs c' p \<Longrightarrow> handled cs c p"
  by (auto simp: handled_def intro: runs_to_trans runs_to_ok)

lemma handled_bind:
  assumes "handled cs c p" "\<And>x. fst p = Inr x \<Longrightarrow> handled cs (snd p) (k x (snd p))"
  shows "handled cs c (bind_co p k)"
proof (cases "fst p")
  case (Inl f)
  with assms(1) show ?thesis by (cases f) (auto simp: bind_co_def handled_def)
next
  case (Inr x)
  with assms show ?thesis
    by (auto simp: bind_co_def handled_def intro: runs_to_trans runs_to_ok)
qed

lemma handled_inner: "co_engine c' = co_engine c \<Longrightarrow> handled cs c' p \<longleftrightarrow> handled cs c p"
  by (simp add: handled_def)

lemma handled_reader:
  assumes "throws_only cs m" "\<And>x r. m rd = Inr (x, r) \<Longrightarrow> handled cs c (k x r)"
  shows "handled cs c (case m rd of Inl f \<Rightarrow> (Inl f, c) | Inr (x, r) \<Rightarrow> k x r)"
proof (cases "m rd")
  case (Inl f)
  then obtain e where "f = Thrown e" "err_code e \<in> cs" using throws_onlyD [OF assms(1)] by blast
  with Inl show ?thesis by simp
qed (auto simp: assms(2))

section \<open>Messages of workers\<close>

lemma throws_messages:
  "throws_only parse_errors get_device" "throws_only parse_errors read_evidence"
  "throws_only parse_errors read_result" "throws_only parse_errors read_admin"
  "throws_only parse_errors read_create" "throws_only parse_errors decode_hello"
  unfolding get_device_def get_cap_def read_evidence_def read_result_def read_admin_def
    read_create_def decode_hello_def
  by (intro throws_fields throws_records throws_bind)+

lemma announce_device_runs: "runs_to (co_engine c) (co_engine (announce_device wid dev c))"
  by (simp add: announce_device_def Let_def split: option.split)

lemma publish_evidence_runs: "runs_to (co_engine c) (co_engine (publish_evidence did eg fresh c))"
  by (simp add: publish_evidence_def Let_def split: option.split)

lemma handle_worker_handled: "handled parse_errors c (handle_worker_msg t payload wid c)"
  unfolding handle_worker_msg_def
  by (auto intro!: handled_reader throws_messages
      simp: announce_device_runs publish_evidence_runs split: prod.split)

section \<open>Messages of the administrative client\<close>

lemma write_frame_engine [simp]: "co_engine (snd (write_frame s t payload c)) = co_engine c"
  by (simp add: write_frame_def split: sum.split)

lemma persist_if_engine [simp]: "co_engine (persist_if io c) = co_engine c"
  by (simp add: persist_if_def)

lemma put_result_throws: "put_result n ok text [] = Inl f \<Longrightarrow> \<exists>e. f = Thrown e \<and> err_code e \<in> parse_errors"
  by (auto simp: put_result_def p_u64_def p_bool_def p_u8_def w_str_def throw_error_def make_error_def
      split: if_splits)

lemma reply_handled: "handled parse_errors c (reply s n ok text c)"
  by (auto simp: reply_def dest: put_result_throws split: sum.split)

text \<open>An engine operation the coordinator calls: it is a run of calls and has no undefined behaviour.\<close>

definition sound_op :: "engine \<Rightarrow> 'a result \<times> engine \<Rightarrow> bool" where
  "sound_op e p \<longleftrightarrow> runs_to e (snd p) \<and> (engine_ok e \<longrightarrow> fst p \<noteq> Inl Undefined_Behaviour)"

lemma sound_op_then:
  assumes "sound_op e p" "\<And>x. fst p = Inr x \<Longrightarrow> sound_op (snd p) (k x (snd p))"
  shows "sound_op e (then_call k p)"
  using assms
  by (cases "fst p") (auto simp: then_call_def sound_op_def intro: runs_to_trans runs_to_ok)

lemma sound_op_call: "c \<noteq> Run_All_Backends \<Longrightarrow> sound_op e (call c e)"
  using call_defined [of e c] by (auto simp: sound_op_def runs_to_call)

lemma sound_op_outcome: "sound_op e (outcome p) \<Longrightarrow> sound_op e p"
  by (auto simp: sound_op_def outcome_def)

lemma sound_ops:
  "sound_op e (reserve_deployment req r e)" "sound_op e (stage_deployment i e)"
  "sound_op e (load_deployment i e)" "sound_op e (validate_deployment i e)"
  "sound_op e (activate_deployment i e)" "sound_op e (commit_deployment i e)"
  "sound_op e (register_worker w b e)"
  using sound_op_call [of "Reserve req r" e] sound_op_call [of "Stage i" e] sound_op_call [of "Load i" e]
    sound_op_call [of "Validate i" e] sound_op_call [of "Activate i" e] sound_op_call [of "Commit i" e]
    sound_op_call [of "Register_Worker w b" e]
  by (simp_all add: sound_op_outcome)

lemma deploy_sound: "sound_op e (deploy req r e)"
  unfolding deploy_def
  by (intro sound_op_then sound_ops) (simp add: sound_op_def)

lemma command_worker_handled: "handled UNIV c (command_worker dev c)"
  by (auto simp: command_worker_def write_frame_def put_activate_def put_command_def p_u64_def w_str_def
      throw_error_def split: option.split sum.split)

lemma evaluate_defined: "evaluate req e \<noteq> Inl Undefined_Behaviour"
  by (auto simp: evaluate_def evaluate_offload_def Let_def throw_error_def split: list.splits)

lemma on_engine_handled: "sound_op (co_engine c) p \<Longrightarrow> handled UNIV c (on_engine p c)"
  by (auto simp: sound_op_def handled_def on_engine_def ends_with_def split: sum.split failure.split)

lemma reply_handled_any: "handled UNIV c (reply s n ok msg c)"
  using handled_mono [OF reply_handled] by simp

lemma create_deployment_handled: "handled UNIV c (create_deployment io s n sid oc c)"
proof (cases "evaluate (deploy_request sid oc) (co_engine c)")
  case (Inl f)
  then show ?thesis
    using evaluate_defined [of "deploy_request sid oc" "co_engine c"]
    by (cases f) (simp_all add: create_deployment_def)
next
  case (Inr elig)
  show ?thesis
  proof (cases "er_selected elig")
    case None
    with Inr show ?thesis by (simp add: create_deployment_def reply_handled_any)
  next
    case (Some dev)
    with Inr show ?thesis
      by (simp add: create_deployment_def)
        (intro handled_bind on_engine_handled deploy_sound reply_handled_any command_worker_handled, simp)
  qed
qed

lemma throws_only_mono: "throws_only cs m \<Longrightarrow> cs \<subseteq> cs' \<Longrightarrow> throws_only cs' m"
  by (fastforce simp: throws_only_def)

lemma admin_command_handled: "handled UNIV c (admin_command io s n t r c)"
proof -
  have shutdown: "handled UNIV c (reply s n ok msg (persist_if io c))" for ok msg
    using reply_handled_any [of "persist_if io c" s n ok msg] by (simp add: handled_def)
  show ?thesis
    unfolding admin_command_def
    by (auto intro!: reply_handled_any create_deployment_handled handled_bind shutdown
        handled_reader [OF throws_only_mono [OF throws_messages(5)]] split: prod.split)
qed

lemma handle_admin_handled: "handled parse_errors c (handle_admin_msg io s payload c)"
proof -
  have caught: "handled parse_errors c (case admin_command io s n t r c of
             (Inr _, c) \<Rightarrow> (Inr (), c)
           | (Inl Undefined_Behaviour, c) \<Rightarrow> (Inl Undefined_Behaviour, c)
           | (Inl (Thrown e), c) \<Rightarrow> reply s n False (what (Thrown e)) c)" for n t r
    using admin_command_handled [of c io s n t r]
      handled_trans [OF _ reply_handled, of c _ s n False]
    by (auto simp: handled_def split: sum.splits failure.splits prod.splits)
  show ?thesis
    unfolding handle_admin_msg_def
    by (auto intro!: handled_reader throws_messages caught split: prod.split)
qed

section \<open>Connections\<close>

lemma close_conn_runs: "runs_to (co_engine c) (co_engine (close_conn s c))"
  by (simp add: close_conn_def Let_def split: option.split)

lemma drop_conn_engine [simp]: "co_engine (drop_conn s c) = co_engine c"
  by (simp add: drop_conn_def)

lemma write_ack: "write_frame s MsgType.ACK (bytes64 n @ [1]) c =
    (Inr (), c\<lparr>co_sent := co_sent c @ [(s, MsgType.ACK, bytes64 n @ [1])]\<rparr>)"
  by (simp add: write_frame_def encode_frame_bytes kMaxPayload_def)

lemma greet_handled: "handled parse_errors c (greet s payload c)"
proof -
  have reg: "handled parse_errors c (case register_worker (Id wk) (Id boot) (co_engine c) of
             (Inl (Thrown _), e) \<Rightarrow> (Inr (), drop_conn s (c\<lparr>co_engine := e\<rparr>))
           | (Inl f, e) \<Rightarrow> (Inl f, c\<lparr>co_engine := e\<rparr>)
           | (Inr _, e) \<Rightarrow>
               (let c = c\<lparr>co_engine := e, co_conns := map_set s Role.WORKER (co_conns c),
                          co_conn_worker := map_set s wk (co_conn_worker c)\<rparr>
                in bind_co (write_frame s MsgType.ACK
                     (bytes64 (as_u64 (epoch (co_engine c))) @ [1]) c)
                   (\<lambda>_ c. (Inr (), c\<lparr>co_sock_by_worker := map_set wk s (co_sock_by_worker c)\<rparr>))))"
    for wk boot
  proof (cases "register_worker (Id wk) (Id boot) (co_engine c)")
    case (Pair r e)
    then have "runs_to (co_engine c) e"
      "engine_ok (co_engine c) \<Longrightarrow> r \<noteq> Inl Undefined_Behaviour"
      using sound_ops(7) [of "co_engine c" "Id wk" "Id boot"] unfolding sound_op_def Pair by simp_all
    with Pair show ?thesis
      by (auto simp: handled_def write_ack bind_co_def Let_def split: sum.split failure.split)
  qed
  show ?thesis
    unfolding greet_def by (auto intro!: handled_reader throws_messages reg split: prod.split)
qed

lemma on_frame_handled: "handled parse_errors c (on_frame io s f c)"
proof -
  have admin: "handled parse_errors c (handle_admin_msg io s payload (c\<lparr>co_conns := m\<rparr>))" for payload m
    using handle_admin_handled [of "c\<lparr>co_conns := m\<rparr>" io s payload] by (simp add: handled_def)
  show ?thesis
    by (simp add: on_frame_def greet_handled admin handle_admin_handled handle_worker_handled
        split: option.split Role.split)
qed

section \<open>Passes\<close>

definition frame_errors :: "ErrorCode set" where
  "frame_errors = {ErrorCode.PROTOCOL_ERROR, ErrorCode.FRAME_TOO_LARGE, ErrorCode.CHECKSUM_FAILURE}"

definition fatal_errors :: "ErrorCode set" where
  "fatal_errors = frame_errors \<union> parse_errors"

lemma next_frame_ends: "next_frame bs eof = Some (r, n) \<Longrightarrow> ends_with frame_errors r"
  using decode_frame_throws
  by (auto simp: next_frame_def Let_def ends_with_def frame_errors_def throw_error_def make_error_def
      map_sum_def split: if_splits sum.splits failure.splits)

lemma recv_frame_ends:
  assumes "recv_frame t ins = Some (r, ins')"
  shows "ends_with frame_errors r"
proof (cases "wait_readable t ins")
  case (Pair ready ins1)
  show ?thesis
  proof (cases "ready \<and> stream ins1 \<noteq> []")
    case True
    then show ?thesis
      using assms Pair recv_header_spec [of ins1] next_frame_ends
      by (auto simp: recv_frame_def split: option.splits)
  next
    case False
    with assms Pair show ?thesis
      using recv_end [of ins1 kHeaderSize]
      by (cases ready) (auto simp: recv_frame_def recv_header_def split: if_splits)
  qed
qed

lemma on_received_handled:
  assumes "ends_with frame_errors r"
  shows "handled fatal_errors c (on_received io s r c)"
proof (cases r)
  case (Inl f)
  with assms show ?thesis by (cases f) (auto simp: fatal_errors_def)
next
  case (Inr rr)
  then show ?thesis
    using handled_mono [OF on_frame_handled, of fatal_errors]
    by (cases rr) (simp_all add: close_conn_runs fatal_errors_def)
qed

lemma serve_handled: "serve io ss c = Some p \<Longrightarrow> handled fatal_errors c p"
proof (induction ss arbitrary: c)
  case (Cons s ss)
  then obtain r ins where r: "recv_frame 0 (case map_find (co_net c) s of Some ins \<Rightarrow> ins | None \<Rightarrow> []) = Some (r, ins)"
    by (auto split: option.splits)
  let ?q = "on_received io s r (c\<lparr>co_net := map_set s ins (co_net c)\<rparr>)"
  have q: "handled fatal_errors c ?q"
    using on_received_handled [OF recv_frame_ends [OF r], of "c\<lparr>co_net := map_set s ins (co_net c)\<rparr>" io s]
    by (simp add: handled_def)
  show ?case
  proof (cases ?q)
    case (Pair r' c')
    show ?thesis
    proof (cases r')
      case (Inl f)
      then have "p = ?q" using Pair Cons.prems r by simp
      with q show ?thesis by simp
    next
      case (Inr u)
      with Pair q Cons r show ?thesis
        by (auto simp: handled_def[of _ c "(Inr _, c')"] intro: handled_trans)
    qed
  qed
qed auto

lemma coord_pass_handled: "coord_pass io lc c = Some p \<Longrightarrow> handled fatal_errors c p"
  using serve_handled [of io _ "accept_conn lc c" p]
  by (auto simp: coord_pass_def Let_def accept_conn_def handled_def split: option.splits)

lemma coord_loop_handled: "coord_loop io lcs c = Some p \<Longrightarrow> handled fatal_errors c p"
proof (induction lcs arbitrary: c)
  case (Cons lc lcs)
  show ?case
  proof (cases "co_running c")
    case True
    with Cons.prems obtain q where q: "coord_pass io lc c = Some q" by (auto split: option.splits)
    then have "handled fatal_errors c q" by (rule coord_pass_handled)
    then show ?thesis
      using Cons True q
      by (cases q) (auto simp: handled_def split: sum.splits intro: runs_to_trans runs_to_ok)
  qed (use Cons.prems in auto)
qed auto

lemma coord_start_fresh:
  assumes "path = [] \<or> disk path = None"
  shows "fst (coord_start ep path disk) = Inr ()"
    "runs_to (engine_new ep (Policy_defaults (Id 1))) (co_engine (snd (coord_start ep path disk)))"
proof -
  have "path \<noteq> [] \<and> disk path \<noteq> None \<longleftrightarrow> False" using assms by auto
  then show "fst (coord_start ep path disk) = Inr ()"
    "runs_to (engine_new ep (Policy_defaults (Id 1))) (co_engine (snd (coord_start ep path disk)))"
    unfolding coord_start_def Let_def by (auto simp del: not_None_eq)
qed


section \<open>Creating a deployment\<close>

lemma then_call_simps [simp]:
  "then_call k (Inr x, e) = k x e" "then_call k (Inl f, e) = (Inl f, e)"
  by (simp_all add: then_call_def)

lemma transition_runs:
  assumes "map_find (ls_deployments (en_state e)) i = Some d" "valid_deployment_transition (dp_state d) to"
  shows "do_deploy_transition i to e = (Inr (), commit_state
    (put_deployment i (d\<lparr>dp_state := to, dp_authoritative := (to = DeploymentState.ACTIVE)\<rparr>)) e)"
  using assms by (simp add: do_deploy_transition_def)

text \<open>From a reservation to authority, on a ready device and with a current program.\<close>

lemma stage_to_commit:
  assumes "map_find (ls_deployments (en_state e)) i = Some d" "dp_state d = DeploymentState.RESERVED"
    and "map_find (ls_devices (en_state e)) (dp_device d) = Some dev" "is_ready_for_offload dev"
    and "dp_program d = null_id \<or>
      map_find (ls_current_program_gen (en_state e)) (dp_program d) = Some (dp_program_gen d)"
  obtains e' d' where
    "then_call (\<lambda>_. commit_deployment i)
       (then_call (\<lambda>_. activate_deployment i)
         (then_call (\<lambda>_. validate_deployment i)
           (then_call (\<lambda>_. load_deployment i) (stage_deployment i e)))) = (Inr (), e')"
    "map_find (ls_deployments (en_state e')) i = Some d'" "dp_state d' = DeploymentState.ACTIVE"
    "dp_authoritative d'" "dp_device d' = dp_device d" "dp_service d' = dp_service d"
proof -
  have succ: "valid_deployment_transition DeploymentState.RESERVED DeploymentState.STAGING"
    "valid_deployment_transition DeploymentState.STAGING DeploymentState.LOADED"
    "valid_deployment_transition DeploymentState.LOADED DeploymentState.VALIDATING"
    "valid_deployment_transition DeploymentState.VALIDATING DeploymentState.ACTIVATING"
    by (simp_all add: valid_deployment_transition_def)
  define e1 where "e1 = snd (stage_deployment i e)"
  define e2 where "e2 = snd (load_deployment i e1)"
  define e3 where "e3 = snd (validate_deployment i e2)"
  define e4 where "e4 = snd (activate_deployment i e3)"
  let ?d1 = "d\<lparr>dp_state := DeploymentState.STAGING, dp_authoritative := False\<rparr>"
  let ?d2 = "?d1\<lparr>dp_state := DeploymentState.LOADED, dp_authoritative := False\<rparr>"
  let ?d3 = "?d2\<lparr>dp_state := DeploymentState.VALIDATING, dp_authoritative := False\<rparr>"
  have s1: "stage_deployment i e = (Inr (), e1)" "en_state e1 = put_deployment i ?d1 (en_state e)"
    using transition_runs [OF assms(1), of DeploymentState.STAGING] succ assms(2)
    by (simp_all add: e1_def stage_deployment_def)
  then have s2: "load_deployment i e1 = (Inr (), e2)" "en_state e2 = put_deployment i ?d2 (en_state e)"
    using transition_runs [of e1 i ?d1 DeploymentState.LOADED] succ
    by (simp_all add: e2_def load_deployment_def)
  then have s3: "validate_deployment i e2 = (Inr (), e3)" "en_state e3 = put_deployment i ?d3 (en_state e)"
    using transition_runs [of e2 i ?d2 DeploymentState.VALIDATING] succ
    by (simp_all add: e3_def validate_deployment_def)
  then have s4: "activate_deployment i e3 = (Inr (Id (en_id_seq e3)), e4)"
    "en_state e4 = activate_state i ?d3 (en_id_seq e3) (put_deployment i ?d3 (en_state e))"
    using succ by (simp_all add: e4_def activate_deployment_cases)
  from s4(2) obtain d4 where d4: "map_find (ls_deployments (en_state e4)) i = Some d4"
    "dp_state d4 = DeploymentState.ACTIVATING" "dp_activation d4 = Some (Id (en_id_seq e3))"
    "dp_device d4 = dp_device d" "dp_service d4 = dp_service d" "dp_program d4 = dp_program d"
    "dp_program_gen d4 = dp_program_gen d"
    by (simp add: activate_state_def Let_def)
  have "map_find (ls_activations (en_state e4)) (Id (en_id_seq e3)) \<noteq> None"
    "ls_devices (en_state e4) = ls_devices (en_state e)"
    "ls_current_program_gen (en_state e4) = ls_current_program_gen (en_state e)"
    by (simp_all add: s4(2) activate_state_def put_activation_def put_deployment_def Let_def)
  then obtain r where "commit_deployment i e4 =
      (Inr (), commit_state (grant_state i d4 dev (Id (en_id_seq e3)) r) e4)"
    using d4 assms(3-5)
    by (auto simp: commit_deployment_def grant_authority_def grant_state_def [abs_def])
  then show thesis
    using s1(1) s2(1) s3(1) s4(1) d4(4,5)
    by (intro that [where e' = "commit_state (grant_state i d4 dev (Id (en_id_seq e3)) r) e4" and
          d' = "d4\<lparr>dp_state := DeploymentState.ACTIVE, dp_authoritative := True,
            dp_epoch := ls_epoch (en_state e4)\<rparr>"])
      (simp_all add: grant_state_def)
qed

lemma deploy_selected:
  assumes "reachable n e" "evaluate req e = Inr r" "er_selected r = Some did"
    and "rq_service req = Some sid" "map_find (ls_services (en_state e)) sid = Some svc"
    and "rq_required_program req = None"
    and "sd_required_program svc = null_id \<or>
      map_find (ls_current_program_gen (en_state e)) (sd_required_program svc) \<noteq> None"
    and "map_option lg_cap (map_find (ls_ledgers (en_state e)) did) =
      map_option dv_resource_capacity (map_find (ls_devices (en_state e)) did)"
  obtains e' d where "deploy req r e = (Inr (Id (en_id_seq e)), e')"
    "map_find (ls_deployments (en_state e')) (Id (en_id_seq e)) = Some d"
    "dp_state d = DeploymentState.ACTIVE" "dp_authoritative d" "dp_device d = did" "dp_service d = sid"
proof -
  let ?i = "Id (en_id_seq e)"
  have svc: "requested_service (en_snap e) req = Some svc"
    using assms(4,5) by (simp add: requested_service_def snap_service_def reachable_snapshot_simps [OF assms(1)])
  obtain dev l where valid: "offload_valid (en_snap e) req did dev"
    and dev: "map_find (ls_devices (en_state e)) did = Some dev"
    and res: "reserve_deployment req r e = (Inr ?i, commit_state
      (reserve_state req (Some svc) did dev l (en_id_seq e)) (e\<lparr>en_id_seq := en_id_seq e + 2\<rparr>))"
    using selected_reserves [OF assms(1-3) _ assms(8)] assms(4,5) svc by (metis option.distinct(1) option.inject)
  define e1 where "e1 = commit_state
      (reserve_state req (Some svc) did dev l (en_id_seq e)) (e\<lparr>en_id_seq := en_id_seq e + 2\<rparr>)"
  define d where "d = reserved_deployment (en_state e) req (Some svc) did dev (en_id_seq e) (en_id_seq e + 1)"
  have state: "map_find (ls_deployments (en_state e1)) ?i = Some d"
    "ls_devices (en_state e1) = ls_devices (en_state e)"
    "ls_current_program_gen (en_state e1) = ls_current_program_gen (en_state e)"
    by (simp_all add: e1_def d_def reserve_state_def put_deployment_def Let_def)
  have d: "dp_state d = DeploymentState.RESERVED" "dp_device d = did" "dp_service d = sid"
    "dp_program d = null_id \<or>
      map_find (ls_current_program_gen (en_state e)) (dp_program d) = Some (dp_program_gen d)"
    using assms(4,6,7)
    by (auto simp: d_def reserved_deployment_def Deployment_init_def is_null_def null_id_def Let_def)
  have "is_ready_for_offload dev" using valid by (simp add: offload_valid_def Let_def)
  from stage_to_commit [OF state(1) d(1) _ this] obtain e' d' where
    c: "then_call (\<lambda>_. commit_deployment ?i)
       (then_call (\<lambda>_. activate_deployment ?i)
         (then_call (\<lambda>_. validate_deployment ?i)
           (then_call (\<lambda>_. load_deployment ?i) (stage_deployment ?i e1)))) = (Inr (), e')"
    "map_find (ls_deployments (en_state e')) ?i = Some d'" "dp_state d' = DeploymentState.ACTIVE"
    "dp_authoritative d'" "dp_device d' = dp_device d" "dp_service d' = dp_service d"
    using state dev d by metis
  have "deploy req r e = (Inr ?i, e')" using res c(1) by (simp add: deploy_def flip: e1_def)
  then show thesis using c d by (intro that) simp_all
qed

lemma reply_sent:
  assumes "length msg \<le> 1000"
  shows "reply s n ok msg c =
    (Inr (), c\<lparr>co_sent := co_sent c @ [(s, MsgType.RESULT, enc_of (\<lambda>_. put_result n ok msg) ())]\<rparr>)"
proof -
  have "put_result n ok msg [] = Inr (bytes64 n @ [if ok then 1 else 0] @ bytes32 (of_nat (length msg)) @ map byte_of_char msg)"
    using assms by (simp add: put_result_def p_u64_def p_bool_def p_u8_def w_str_def kMaxStringBytes_def)
  then show ?thesis
    using assms by (simp add: reply_def enc_of_def write_frame_def encode_frame_bytes kMaxPayload_def)
qed

lemma command_worker_total:
  obtains c' where "command_worker dev c = (Inr (), c')" "co_engine c' = co_engine c"
    "set (co_sent c) \<subseteq> set (co_sent c')"
proof -
  have "\<exists>c'. command_worker dev c = (Inr (), c') \<and> co_engine c' = co_engine c \<and>
      set (co_sent c) \<subseteq> set (co_sent c')"
    by (auto simp: command_worker_def put_activate_def put_command_def p_u64_def w_str_def
        kMaxStringBytes_def write_frame_def encode_frame_bytes kMaxPayload_def split: option.split)
  with that show thesis by blast
qed


definition demo_coordinator :: "engine_call list \<Rightarrow> coordinator" where
  "demo_coordinator cs = (snd (coord_start (Id 1) [] (\<lambda>_. None)))\<lparr>co_engine := demo_engine cs\<rparr>"

definition demo_admission :: "engine_call list" where
  "demo_admission = [Register_Device scenario_a, Register_Service builtin_service]"

definition demo_evaluation :: EligibilityResult where
  "demo_evaluation = projr (evaluate (deploy_request (Id 90) 4) (demo_engine demo_admission))"

lemma demo_evaluation:
  "evaluate (deploy_request (Id 90) 4) (demo_engine demo_admission) = Inr demo_evaluation"
  "er_selected demo_evaluation = Some (Id 1)"
proof -
  show ev: "evaluate (deploy_request (Id 90) 4) (demo_engine demo_admission) = Inr demo_evaluation"
    using evaluate_total [of "en_snap (demo_engine demo_admission)" "deploy_request (Id 90) 4"]
    by (auto simp: demo_evaluation_def evaluate_def deploy_request_def OffloadRequest_init_def)
  have "filter (valid_candidate (en_snap (demo_engine demo_admission)) (deploy_request (Id 90) 4))
      (sn_device_order (en_snap (demo_engine demo_admission))) = [Id 1]"
    by code_simp
  then show "er_selected demo_evaluation = Some (Id 1)"
    using ev by (intro sole_candidate) (simp_all add: evaluate_def)
qed


section \<open>One bad connection\<close>

lemma partial_frame_blocks:
  assumes "fst (wait_readable t ins)" "length (stream ins) < kHeaderSize" "\<not> ends ins"
  shows "recv_frame t ins = None"
proof -
  obtain ins1 where w: "wait_readable t ins = (True, ins1)" using assms(1) by (metis prod.collapse)
  then have "stream ins1 = stream ins" "\<not> ends ins1" "stream ins1 \<noteq> []"
    using wait_readable_True [OF w] assms(3) by auto
  then show ?thesis
    using w recv_header_spec [of ins1] assms(2) by (simp add: recv_frame_def next_frame_def)
qed

text \<open>
  C28. A client that sends part of a header and then nothing stops the coordinator. The call that
  asks with a time of zero waits for the rest of the header without any limit, in the only thread:
  the connections behind it are not served, and if it is the first client, nothing that any other
  client does later is ever seen.
\<close>

theorem partial_frame_stops_coordinator:
  assumes "fst (wait_readable 0 ins)" "length (stream ins) < kHeaderSize" "\<not> ends ins"
  shows "(map_find (co_net c) s = Some ins \<longrightarrow> serve io (s # ss) c = None) \<and>
    coord_loop io (Some (s, ins) # lcs) (snd (coord_start ep [] disk)) = None"
proof -
  note blocked = partial_frame_blocks [OF assms]
  have "co_conns (snd (coord_start ep [] disk)) = []" "co_net (snd (coord_start ep [] disk)) = []"
    "co_running (snd (coord_start ep [] disk))"
    by (simp_all add: coord_start_def Let_def)
  with blocked show ?thesis
    by (simp add: coord_pass_def accept_conn_def map_entries_def Let_def)
qed

theorem partial_frame_stops_coordinator_witness:
  "coord_loop demo_io [Some (3, [Data [0x57]]), Some (4, [Eof])] (snd (coord_start (Id 1) [] (\<lambda>_. None))) = None"
  using partial_frame_stops_coordinator [of "[Data [0x57]]" "demo_coordinator []" 3 demo_io "[]"]
  by (simp add: kHeaderSize_def)

lemma short_reader_throws:
  "length rest < 8 \<Longrightarrow> \<exists>e. r_u64 (reader_at pre rest) = Inl (Thrown e) \<and> err_code e = ErrorCode.PROTOCOL_ERROR"
  by (auto simp: r_u64_def r_bind_def r_u32_at throw_error_def make_error_def split: list.splits)

lemma short_message_fails:
  assumes "map_find (co_conns c) s = Some role" "role \<noteq> Role.WORKER" "length (fr_payload f) < 8"
  shows "\<exists>e c'. on_received io s (Inr (OK f)) c = (Inl (Thrown e), c') \<and>
    err_code e = ErrorCode.PROTOCOL_ERROR \<and> co_disk c' = co_disk c"
proof -
  obtain e where e: "r_u64 (reader_new (fr_payload f)) = Inl (Thrown e)" "err_code e = ErrorCode.PROTOCOL_ERROR"
    using short_reader_throws [OF assms(3), of "[]"] by (auto simp: reader_new_at)
  then have "greet s (fr_payload f) c' = (Inl (Thrown e), c')"
    "handle_admin_msg io s (fr_payload f) c' = (Inl (Thrown e), c')" for c'
    by (simp_all add: greet_def decode_hello_def handle_admin_msg_def read_admin_def r_bind_def)
  with assms(1,2) e(2) show ?thesis by (cases role) (simp_all add: on_frame_def)
qed

text \<open>
  A message too short for its fields ends the coordinator. The worker's greeting and an
  administrator's command are parsed outside every handler: a frame that is well formed, with a
  payload of fewer than eight bytes, as the first of a connection or from an administrator,
  ends the process with \<open>PROTOCOL_ERROR\<close>, before the state is saved.
\<close>

theorem short_message_ends_coordinator:
  assumes "map_find (co_conns c) s = Some role" "role \<noteq> Role.WORKER" "length (fr_payload f) < 8"
  shows "\<exists>e c'. on_received io s (Inr (OK f)) c = (Inl (Thrown e), c') \<and>
    err_code e = ErrorCode.PROTOCOL_ERROR \<and> co_disk c' = co_disk c"
  by (rule short_message_fails [OF assms])

theorem short_message_ends_coordinator_witness:
  "is_ok (fst (on_received demo_io 3 (Inr (OK (sent_frame MsgType.HELLO [1, 2, 3])))
     ((demo_coordinator [])\<lparr>co_conns := [(3, Role.UNKNOWN)]\<rparr>))) = False"
  using short_message_ends_coordinator [of "(demo_coordinator [])\<lparr>co_conns := [(3, Role.UNKNOWN)]\<rparr>" 3
      Role.UNKNOWN "sent_frame MsgType.HELLO [1, 2, 3]" demo_io]
  by (auto simp: sent_frame_def)


section \<open>Workers\<close>

lemma lost_connection_engine:
  assumes "map_find (co_conn_worker c) s = Some w" "r = CLOSED \<or> r = ERR"
    and "on_received io s (Inr r) c = (res, c')"
  shows "co_engine c' = snd (mark_worker_lost (Id w) (co_engine c))"
    "ls_devices (en_state (co_engine c')) =
      map_update_all (\<lambda>_. orphan_device (Id w)) (ls_devices (en_state (co_engine c)))"
    "map_find (ls_workers (en_state (co_engine c'))) (Id w) = None"
proof -
  show c': "co_engine c' = snd (mark_worker_lost (Id w) (co_engine c))"
    using assms by (auto simp: close_conn_def Let_def)
  show "ls_devices (en_state (co_engine c')) =
      map_update_all (\<lambda>_. orphan_device (Id w)) (ls_devices (en_state (co_engine c)))"
    "map_find (ls_workers (en_state (co_engine c'))) (Id w) = None"
    by (simp_all add: c' mark_worker_lost_def Let_def split: option.split)
qed

text \<open>
  C14. When a worker's connection ends, every device of that worker that is not retired is withdrawn
  at once: none is ready, so no evaluation selects one. The worker's registration is gone with it,
  so the next greeting is accepted with whatever boot identity it carries, the old one included.
\<close>

theorem lost_connection_withdraws_devices:
  assumes "reachable n (co_engine c)" "map_find (co_conn_worker c) s = Some w" "r = CLOSED \<or> r = ERR"
    and "on_received io s (Inr r) c = (res, c')"
  shows "(\<forall>did dev. map_find (ls_devices (en_state (co_engine c'))) did = Some dev \<and>
        dv_owning_worker dev = Id w \<longrightarrow> \<not> is_ready_for_offload dev) \<and>
    (\<forall>req el did dev. evaluate req (co_engine c') = Inr el \<and> er_selected el = Some did \<and>
        map_find (ls_devices (en_state (co_engine c'))) did = Some dev \<longrightarrow> dv_owning_worker dev \<noteq> Id w) \<and>
    (w \<noteq> 0 \<longrightarrow> boot \<noteq> 0 \<longrightarrow> fst (register_worker (Id w) (Id boot) (co_engine c')) = Inr ())"
proof -
  let ?s = "en_state (co_engine c')"
  note c' = lost_connection_engine(1) [OF assms(2-4)]
    and devs = lost_connection_engine(2) [OF assms(2-4)]
    and gone = lost_connection_engine(3) [OF assms(2-4)]
  have ready: "\<not> is_ready_for_offload dev"
    if "map_find (ls_devices ?s) did = Some dev" "dv_owning_worker dev = Id w" for did dev
  proof -
    from that(1) have "map_option (orphan_device (Id w)) (map_find (ls_devices (en_state (co_engine c))) did) = Some dev"
      by (simp only: devs map_find_update_all)
    then obtain d where "dev = orphan_device (Id w) d" unfolding map_option_eq_Some by blast
    with that(2) show ?thesis by (auto simp: orphan_device_def is_ready_for_offload_def split: if_splits)
  qed
  have "runs_to (co_engine c) (co_engine c')" by (simp add: c')
  then obtain n' where "reachable n' (co_engine c')" using runs_to_reachable assms(1) by blast
  then have snap: "sn_devices (en_snap (co_engine c')) = ls_devices ?s"
    by (rule reachable_snapshot_simps(1))
  have "dv_owning_worker dev \<noteq> Id w"
    if "evaluate req (co_engine c') = Inr el" "er_selected el = Some did"
      "map_find (ls_devices ?s) did = Some dev" for req el did dev
  proof -
    have "valid_candidate (en_snap (co_engine c')) req did"
      using selected_iff [of "en_snap (co_engine c')" req el did] that(1,2) by (simp add: evaluate_def)
    then have "is_ready_for_offload dev"
      using that(3) by (auto simp: valid_candidate_def offload_valid_def snap_device_def snap Let_def)
    with ready that(3) show ?thesis by blast
  qed
  with ready gone show ?thesis
    by (auto simp: register_worker_def is_null_def null_id_def)
qed

text \<open>
  C29. Evidence is taken from anyone. A frame of PUBLISH_EVIDENCE from any worker makes any
  registered device ready with fresh evidence: the code does not compare the device's owner with
  the worker of the connection, and does not look at the device's state, so a device that was
  retired, failed or fenced is ready again.
\<close>

theorem evidence_from_anyone:
  assumes "reachable n (co_engine c)"
    and "map_find (ls_devices (en_state (co_engine c))) did = Some dev"
    and "read_evidence (reader_new payload) = Inr ((did, eg, True), rest)"
  shows "\<exists>dev'. map_find (ls_devices (en_state (co_engine
        (snd (handle_worker_msg MsgType.PUBLISH_EVIDENCE payload wid c))))) did = Some dev' \<and>
      is_ready_for_offload dev' \<and> dv_evidence_gen dev' = Id eg"
proof -
  have "dv_device_id dev = did" "did \<noteq> null_id"
    using reachable_state [OF assms(1)] assms(2) by (auto simp: state_ok_def registry_ok_def)
  then show ?thesis
    using assms(2,3) reachable_snapshot_simps(1) [OF assms(1)]
    by (simp add: handle_worker_msg_def publish_evidence_def snap_device_def update_device_def
        is_ready_for_offload_def is_null_def null_id_def put_device_def Let_def)
qed

definition demo_owned :: "engine_call list" where
  "demo_owned = [Register_Worker (Id 5) (Id 50), Register_Device (scenario_a\<lparr>dv_owning_worker := Id 5\<rparr>)]"

theorem lost_connection_withdraws_devices_witness:
  "map_option is_ready_for_offload (map_find (ls_devices (en_state (co_engine (snd (on_received demo_io 3
     (Inr CLOSED) ((demo_coordinator demo_owned)\<lparr>co_conn_worker := [(3, 5)]\<rparr>)))))) (Id 1)) = Some False"
proof -
  let ?c = "(demo_coordinator demo_owned)\<lparr>co_conn_worker := [(3, 5)]\<rparr>"
  have e: "co_engine ?c = demo_engine demo_owned" by (simp add: demo_coordinator_def)
  obtain res c' where r: "on_received demo_io 3 (Inr CLOSED) ?c = (res, c')" by fastforce
  have "map_option dv_owning_worker (map_find (ls_devices (en_state (demo_engine demo_owned))) (Id 1)) =
      Some (Id 5)"
    by code_simp
  then obtain dev where d: "map_find (ls_devices (en_state (co_engine c'))) (Id 1) = Some dev"
    "dv_owning_worker dev = Id 5"
    using lost_connection_engine(2) [of ?c 3 5 CLOSED demo_io res c'] r
    by (auto simp: demo_coordinator_def orphan_device_def)
  show ?thesis
    using lost_connection_withdraws_devices [of _ ?c 3 5 CLOSED demo_io res c', unfolded e, OF demo_reachable _ _ r] d r
    by auto
qed

theorem evidence_from_anyone_witness:
  "map_option is_ready_for_offload (map_find (ls_devices (en_state (co_engine (snd (handle_worker_msg
     MsgType.PUBLISH_EVIDENCE (bytes64 1 @ bytes64 9 @ [1]) 77
     (demo_coordinator [Register_Device scenario_a, Retire_Device (Id 1)])))))) (Id 1)) = Some True"
proof -
  let ?cs = "[Register_Device scenario_a, Retire_Device (Id 1)]"
  have e: "co_engine (demo_coordinator ?cs) = demo_engine ?cs" by (simp add: demo_coordinator_def)
  have "map_find (ls_devices (en_state (demo_engine ?cs))) (Id 1) \<noteq> None" by code_simp
  then obtain dev where d: "map_find (ls_devices (en_state (co_engine (demo_coordinator ?cs)))) (Id 1) = Some dev"
    unfolding e by blast
  obtain rest where "read_evidence (reader_new (bytes64 1 @ bytes64 9 @ [1])) = Inr ((Id 1, 9, True), rest)"
    by (simp add: read_evidence_def rd_id_def r_map_def r_bool_def reader_new_at r_return_def r_bind_def
        u64_codec.get_enc r_u8_at)
  then show ?thesis
    using evidence_from_anyone [of _ "demo_coordinator ?cs", unfolded e, OF demo_reachable d [unfolded e]] by force
qed

end
