(* ===== verification/Worker.thy ===== *)
theory Worker
  imports MpProto Backends Transport
begin

text \<open>
  The worker process (\<^verbatim>\<open>tools/dpu_fabric_worker.cpp\<close>): it introduces itself, announces one device
  with its evidence and then answers commands until it is told to leave or hears nothing. What its
  socket will receive, what each frame it sends meets in the socket and the bytes that went out are
  its state; \<open>None\<close> is a call that never returns, an \<open>Inl\<close> an exception that leaves \<^verbatim>\<open>main\<close>.
\<close>

record worker =
  wk_in :: incoming
  wk_sends :: "int list list"
  wk_wire :: bytes

type_synonym 'a wk = "worker \<Rightarrow> ('a result \<times> worker) option"

definition wk_return :: "'a \<Rightarrow> 'a wk" where
  "wk_return x w = Some (Inr x, w)"

definition wk_lift :: "'a result \<Rightarrow> 'a wk" where
  "wk_lift r w = Some (r, w)"

definition wk_bind :: "'a wk \<Rightarrow> ('a \<Rightarrow> 'b wk) \<Rightarrow> 'b wk" where
  "wk_bind m k w =
     (case m w of
        None \<Rightarrow> None
      | Some (Inl f, w) \<Rightarrow> Some (Inl f, w)
      | Some (Inr x, w) \<Rightarrow> k x w)"

definition send_msg :: "MsgType \<Rightarrow> bytes \<Rightarrow> unit wk" where
  "send_msg t payload w =
     (case wk_sends w of
        [] \<Rightarrow> None
      | rs # rest \<Rightarrow>
          (case client_send rs t payload of
             (None, sent) \<Rightarrow> None
           | (Some r, sent) \<Rightarrow> Some (r, w\<lparr>wk_sends := rest, wk_wire := wk_wire w @ sent\<rparr>)))"

definition recv_msg :: "Frame option wk" where
  "recv_msg w = map_option (apsnd (\<lambda>ins. w\<lparr>wk_in := ins\<rparr>)) (client_recv 5000 (wk_in w))"

section \<open>The device\<close>

definition worker_device :: "u64 \<Rightarrow> u64 \<Rightarrow> DeviceRecord" where
  "worker_device worker boot =
     (make_dpu (Id 1) ''DPU-A'' [cap_network, cap_encryption, cap_steering]
       \<lparr>rp_memory_bytes = push_bit 20 256, rp_queues = 8, rp_functions = 2, rp_slots = 16,
        rp_contexts = 16\<rparr> (Id 0xA1)
       [OffloadClass.NETWORK_SERVICE, OffloadClass.SECURITY_SERVICE, OffloadClass.PACKET_STEERING])
     \<lparr>dv_owning_worker := Id worker, dv_owner_worker_boot := Id boot\<rparr>"

definition put_evidence :: "DeviceRecord \<Rightarrow> putter" where
  "put_evidence d = w_seq [p_id (dv_device_id d), p_id (dv_evidence_gen d), p_u8 1]"

definition announce :: "u64 \<Rightarrow> u64 \<Rightarrow> unit wk" where
  "announce worker boot =
     (let d = worker_device worker boot in
      wk_bind (wk_lift (MpProto.put_device d [])) (\<lambda>payload.
      wk_bind (send_msg MsgType.REGISTER_DEVICE payload) (\<lambda>_.
      wk_bind (wk_lift (put_evidence d [])) (\<lambda>payload.
        send_msg MsgType.PUBLISH_EVIDENCE payload))))"

section \<open>Commands\<close>

definition put_answer :: "u64 \<Rightarrow> string \<Rightarrow> putter" where
  "put_answer cmd_id action = w_seq [p_u64 cmd_id, p_u8 1, w_str (''worker-handled:'' @ action)]"

text \<open>One frame; the result says whether the worker goes on.\<close>

definition worker_handle :: "Frame \<Rightarrow> bool wk" where
  "worker_handle f =
     (case fr_type f of
        MsgType.COMMAND \<Rightarrow>
          wk_bind (wk_lift (map_sum (\<lambda>f. f) fst (decode_command (reader_new (fr_payload f)))))
            (\<lambda>(cmd_id, action).
              wk_bind (wk_lift (put_answer cmd_id action [])) (\<lambda>resp.
              wk_bind (send_msg MsgType.RESULT resp) (\<lambda>_. wk_return True)))
      | MsgType.BYE \<Rightarrow> wk_return False
      | MsgType.PING \<Rightarrow>
          wk_bind (wk_lift (p_u64 0 [])) (\<lambda>p.
          wk_bind (send_msg MsgType.PONG p) (\<lambda>_. wk_return True))
      | _ \<Rightarrow> wk_return True)"

text \<open>Nothing received in five seconds, or the end of the connection, ends the loop.\<close>

partial_function (option) worker_loop :: "worker \<Rightarrow> (unit result \<times> worker) option" where
  "worker_loop w =
     Option.bind (recv_msg w) (\<lambda>(r, w).
       case r of
         Inl f \<Rightarrow> Some (Inl f, w)
       | Inr None \<Rightarrow> Some (Inr (), w)
       | Inr (Some f) \<Rightarrow>
           Option.bind (worker_handle f w) (\<lambda>(r, w).
             case r of
               Inl f \<Rightarrow> Some (Inl f, w)
             | Inr go_on \<Rightarrow> if go_on then worker_loop w else Some (Inr (), w)))"

text \<open>\<^verbatim>\<open>main\<close> after the connection is made, with its exit code.\<close>

definition worker_main :: "u64 \<Rightarrow> u64 \<Rightarrow> string \<Rightarrow> nat wk" where
  "worker_main worker boot label =
     wk_bind (wk_lift (encode_hello worker boot label)) (\<lambda>hello.
     wk_bind (send_msg MsgType.HELLO hello) (\<lambda>_.
     wk_bind recv_msg (\<lambda>ack.
       case ack of
         None \<Rightarrow> wk_return 2
       | Some f \<Rightarrow>
           if fr_type f \<noteq> MsgType.ACK then wk_return 2
           else wk_bind (announce worker boot) (\<lambda>_. wk_bind worker_loop (\<lambda>_. wk_return 0)))))"

section \<open>Facts of the loop\<close>

lemma wk_bind_simps [simp]:
  "wk_bind (wk_return x) k w = k x w" "wk_bind (wk_lift (Inr x)) k w = k x w"
  "wk_bind (wk_lift (Inl f)) k w = Some (Inl f, w)"
  by (simp_all add: wk_bind_def wk_return_def wk_lift_def)

lemma send_msg_sent:
  assumes "wk_sends w = rs # rest" "send_frame rs t payload = (Inr (Some True), sent)"
  shows "send_msg t payload w = Some (Inr (), w\<lparr>wk_sends := rest, wk_wire := wk_wire w @ sent\<rparr>)"
  using assms by (simp add: send_msg_def client_send_def)

lemma worker_loop_silence:
  assumes "recv_frame 5000 (wk_in w) = Some (Inr TIMEOUT, ins)"
  shows "worker_loop w = Some (Inr (), w\<lparr>wk_in := ins\<rparr>)"
  by (subst worker_loop.simps) (simp add: assms recv_msg_def client_recv_def read_frame_def)

lemma worker_loop_frame:
  assumes "recv_frame 5000 (wk_in w) = Some (Inr (OK f), ins)"
    and "worker_handle f (w\<lparr>wk_in := ins\<rparr>) = Some (Inr True, w')"
  shows "worker_loop w = worker_loop w'"
  by (subst worker_loop.simps) (simp add: assms recv_msg_def client_recv_def read_frame_def)

end
