(* ===== verification/WorkerProps.thy ===== *)
theory WorkerProps
  imports Worker CoordinatorProps
begin

text \<open>
  The worker's side of the protocol, and the worker and the coordinator together: what a device
  looks like after it was announced, how a worker joins, what it answers and when it leaves.
\<close>

section \<open>Announcing a device\<close>

definition supported :: "ProvenanceSource \<Rightarrow> CapabilityKey \<Rightarrow> Capability" where
  "supported src key = Capability_init
     \<lparr>cp_key := key, cp_state := CapabilityState.SUPPORTED, cp_version := 1, cp_evidence_gen := Id 1,
      cp_source := src\<rparr>"

lemma add_capabilities:
  "fold (add_capability 1 src) ks d =
   d\<lparr>dv_capabilities := fold caps_add (map (supported src) ks) (dv_capabilities d)\<rparr>"
  by (induction ks arbitrary: d) (simp_all add: add_capability_def supported_def)

lemma map_set_entries:
  "list_all (\<lambda>(k, c). P c) m \<Longrightarrow> P c \<Longrightarrow> list_all (\<lambda>(k, c). P c) (map_set k c m)"
  "length (map_set k c m) \<le> Suc (length m)"
  by (induction m) auto

lemma caps_added:
  assumes "caps_wf m" "list_all (\<lambda>(k, c). P c) m" "list_all P cs"
  shows "caps_wf (fold caps_add cs m) \<and> list_all (\<lambda>(k, c). P c) (fold caps_add cs m) \<and>
    length (fold caps_add cs m) \<le> length m + length cs"
  using assms
proof (induction cs arbitrary: m)
  case (Cons c cs)
  have "length (caps_add c m) \<le> Suc (length m)"
    "list_all (\<lambda>(k, c). P c) (caps_add c m)"
    using Cons.prems by (simp_all add: caps_add_def map_set_entries)
  with Cons.IH [of "caps_add c m"] Cons.prems show ?case by (auto simp: caps_wf_add)
qed simp

text \<open>A synthetic device can be sent when its names, keys and classes can.\<close>

lemma make_dpu_sendable:
  assumes "list_all (\<lambda>k. key_is_valid (key_str k)) caps" "length caps \<le> kMaxContainerCount"
    and "length model \<le> 1000" "list_all class_storable classes" "length classes \<le> 64"
  shows "device_sendable (make_dpu i model caps cap boot classes)"
proof -
  have "list_all cap_sendable (map (supported ProvenanceSource.SYNTHETIC) caps)"
    using assms(1) by (simp add: list_all_iff cap_sendable_def supported_def Capability_init_def
        canonical_defs CapabilityState_cast_def ProvenanceSource_cast_def)
  from caps_added [OF _ _ this, of "[]"] have
    "caps_wf (fold caps_add (map (supported ProvenanceSource.SYNTHETIC) caps) [])"
    "list_all cap_sendable (map snd (map_entries (fold caps_add (map (supported ProvenanceSource.SYNTHETIC) caps) [])))"
    "length (fold caps_add (map (supported ProvenanceSource.SYNTHETIC) caps) []) \<le> length caps"
    by (auto simp: caps_wf_def map_entries_def list_all_iff)
  then show ?thesis
    using assms(2-)
    by (simp add: make_dpu_def add_capabilities DeviceRecord_init_def device_sendable_def str_ok_def
        vec_storable_def map_entries_def kMaxStringBytes_def canonical_defs DeviceClass_cast_def
        LocalityQuality_cast_def DeviceHealth_cast_def DeviceLifecycle_cast_def ProvenanceSource_cast_def)
qed

lemma sendable_owner [simp]:
  "device_sendable (d\<lparr>dv_owning_worker := w, dv_owner_worker_boot := b\<rparr>) = device_sendable d"
  by (simp add: device_sendable_def)

lemma worker_device_sendable: "device_sendable (worker_device worker boot)"
  unfolding worker_device_def sendable_owner
  by (rule make_dpu_sendable) (simp_all add: cap_network_def cap_encryption_def cap_steering_def
      key_is_valid_def kMaxLen_def key_char_def kMaxContainerCount_def class_storable_def
      OffloadClass_cast_def)

lemma worker_device_simps [simp]:
  "dv_device_id (worker_device w b) = Id 1" "dv_evidence_gen (worker_device w b) = Id 42"
  "dv_pci_reference (worker_device w b) = ''0000:00000:00.0''" "iso_proven (worker_device w b)"
  "dv_lifecycle (worker_device w b) = DeviceLifecycle.READY" "dv_evidence_fresh (worker_device w b)"
  by (simp_all add: worker_device_def make_dpu_def add_capability_def iso_proven_def)

theorem announced_device_arrives_witness:
  "\<not> iso_proven (device_view (worker_device 5 50)) \<and> iso_proven (worker_device 5 50)"
  using announced_device_arrives [OF worker_device_sendable, of 5 50] by simp

section \<open>Answering commands\<close>

definition command_bytes :: "u64 \<times> string \<Rightarrow> bytes" where
  "command_bytes c = frame_header 6 (enc_of put_command c) @ enc_of put_command c"

lemma put_command_length:
  assumes "command_ok c"
  shows "length (enc_of put_command c) = 12 + length (snd c)"
  using assms by (cases c)
    (simp add: enc_of_def put_command_def p_u64_def w_str_def command_ok_def str_ok_def)

lemma wait_ready:
  "stream ins \<noteq> [] \<Longrightarrow> pauses ins = 0 \<Longrightarrow> 0 \<le> t \<Longrightarrow> \<exists>ins'. wait_readable t ins = (True, ins')"
  by (induction ins) (auto split: arrival.splits if_splits)

lemma wait_silence:
  "stream ins = [] \<Longrightarrow> pauses ins = 0 \<Longrightarrow> \<not> ends ins \<Longrightarrow> wait_readable t ins = (False, if 0 \<le> t then [] else ins)"
  by (induction ins) (auto split: arrival.splits if_splits)

lemma worker_answers_one:
  assumes "put_answer (fst c) (snd c) [] = Inr p" "wk_sends w = rs # rest"
    and "send_frame rs MsgType.RESULT p = (Inr (Some True), sent)"
    and "stream (wk_in w) = command_bytes c @ others" "pauses (wk_in w) = 0"
  obtains w' where "worker_loop w = worker_loop w'" "wk_sends w' = rest"
    "wk_wire w' = wk_wire w @ sent" "stream (wk_in w') = others" "pauses (wk_in w') = 0"
    "ends (wk_in w') = ends (wk_in w)"
proof -
  have ok: "length (snd c) \<le> kMaxStringBytes"
    using assms(1) by (auto simp: put_answer_def p_u64_def p_u8_def w_str_def throw_error_def split: if_splits)
  then have c: "command_ok c" "length (enc_of put_command c) \<le> kMaxPayload"
    using put_command_length [of c] by (simp_all add: command_ok_def str_ok_def kMaxStringBytes_def kMaxPayload_def)
  have "command_bytes c \<noteq> []" by (simp add: command_bytes_def flip: length_0_conv)
  then obtain ins1 where w1: "wait_readable 5000 (wk_in w) = (True, ins1)"
    using wait_ready [of "wk_in w" 5000] assms(4,5) by auto
  obtain ins' where r: "recv_frame 5000 (wk_in w) = Some (Inr (OK (sent_frame MsgType.COMMAND (enc_of put_command c))), ins')"
    "stream ins' = others" "ends ins' = ends (wk_in w)" "pauses ins' \<le> 0"
    using recv_sent [OF c(2), of "wk_in w" MsgType.COMMAND others 5000 ins1] assms(4,5) w1
    unfolding command_bytes_def by auto
  let ?w1 = "w\<lparr>wk_in := ins'\<rparr>" and ?w2 = "w\<lparr>wk_in := ins', wk_sends := rest, wk_wire := wk_wire w @ sent\<rparr>"
  have "decode_command (reader_new (enc_of put_command c)) = Inr (c, reader_at (enc_of put_command c) [])"
    using command_codec.get_enc [OF c(1), of "[]" "[]"] by (simp add: reader_new_at)
  moreover have "send_msg MsgType.RESULT p ?w1 = Some (Inr (), ?w2)"
    using send_msg_sent [of ?w1 rs rest, OF _ assms(3)] assms(2) by simp
  ultimately have "worker_handle (sent_frame MsgType.COMMAND (enc_of put_command c)) ?w1 = Some (Inr True, ?w2)"
    using assms(1)
    by (cases c) (simp add: worker_handle_def sent_frame_def MsgType_cast_def wk_bind_def wk_lift_def wk_return_def)
  from worker_loop_frame [OF r(1) this] show thesis
    using r by (intro that [of ?w2]) simp_all
qed

text \<open>
  C17. A worker answers every command, once, in order and with the command's own identity, whatever
  segments the commands arrive in. Then, when it has heard nothing for five seconds, it leaves,
  although the connection is open and the coordinator, which sends nothing but commands, has not
  dismissed it.
\<close>

theorem worker_answers_then_leaves:
  assumes "list_all2 (\<lambda>(n, action) (rs, sent). \<exists>p. put_answer n action [] = Inr p \<and>
      send_frame rs MsgType.RESULT p = (Inr (Some True), sent)) cmds answers"
    and "wk_sends w = map fst answers @ spare"
    and "stream (wk_in w) = concat (map command_bytes cmds)" "pauses (wk_in w) = 0" "\<not> ends (wk_in w)"
  shows "\<exists>w'. worker_loop w = Some (Inr (), w') \<and> wk_wire w' = wk_wire w @ concat (map snd answers) \<and>
    stream (wk_in w') = [] \<and> \<not> ends (wk_in w')"
  using assms
proof (induction cmds answers arbitrary: w rule: list_all2_induct)
  case Nil
  then have "recv_frame 5000 (wk_in w) = Some (Inr TIMEOUT, [])"
    by (simp add: recv_frame_def wait_silence)
  from worker_loop_silence [OF this] show ?case using Nil by simp
next
  case (Cons c cmds a answers)
  obtain rs sent where a: "a = (rs, sent)" by fastforce
  from Cons.hyps(1) a obtain p where p: "put_answer (fst c) (snd c) [] = Inr p"
    "send_frame rs MsgType.RESULT p = (Inr (Some True), sent)" by (auto split: prod.splits)
  from worker_answers_one [OF p(1) _ p(2), of w "map fst answers @ spare" "concat (map command_bytes cmds)"]
  obtain w' where "worker_loop w = worker_loop w'" "wk_sends w' = map fst answers @ spare"
    "wk_wire w' = wk_wire w @ sent" "stream (wk_in w') = concat (map command_bytes cmds)"
    "pauses (wk_in w') = 0" "ends (wk_in w') = ends (wk_in w)"
    using Cons.prems a by auto
  with Cons.IH [of w'] Cons.prems a show ?case by auto
qed

lemma frame_header_not_Nil [simp]: "frame_header t p \<noteq> []"
  by (simp flip: length_0_conv)

lemma send_at_once: "bs \<noteq> [] \<Longrightarrow> int (length bs) \<le> k \<Longrightarrow> send_n [k] bs = (Some True, bs)"
  by (cases bs) auto

theorem worker_answers_then_leaves_witness:
  "\<exists>w'. worker_loop \<lparr>wk_in = [Data (command_bytes (7, ''ACTIVATE''))], wk_sends = [[1000]], wk_wire = []\<rparr> =
     Some (Inr (), w') \<and> wk_wire w' \<noteq> []"
proof -
  let ?w = "\<lparr>wk_in = [Data (command_bytes (7, ''ACTIVATE''))], wk_sends = [[1000]], wk_wire = []\<rparr>"
  let ?p = "bytes64 7 @ [1] @ bytes32 23 @ map byte_of_char (''worker-handled:'' @ ''ACTIVATE'')"
  let ?sent = "frame_header 7 ?p @ ?p"
  have p: "put_answer 7 ''ACTIVATE'' [] = Inr ?p"
    by (simp add: put_answer_def p_u64_def p_u8_def w_str_def kMaxStringBytes_def)
  have "send_n [1000] ?sent = (Some True, ?sent)"
    by (rule send_at_once) simp_all
  then have "send_frame [1000] MsgType.RESULT ?p = (Inr (Some True), ?sent)"
    by (simp add: send_frame_def encode_frame_bytes kMaxPayload_def)
  with p have answers: "list_all2 (\<lambda>(n, action) (rs, sent). \<exists>p. put_answer n action [] = Inr p \<and>
      send_frame rs MsgType.RESULT p = (Inr (Some True), sent)) [(7, ''ACTIVATE'')] [([1000], ?sent)]"
    by blast
  show ?thesis
    using worker_answers_then_leaves [OF answers, of ?w "[]"] by auto
qed

section \<open>Joining\<close>

fun deliver :: "io \<Rightarrow> socket \<Rightarrow> Frame list \<Rightarrow> coordinator \<Rightarrow> unit result \<times> coordinator" where
  "deliver io s [] c = (Inr (), c)"
| "deliver io s (f # fs) c = bind_co (on_received io s (Inr (OK f)) c) (\<lambda>_. deliver io s fs)"

lemma greet_accepted:
  assumes "worker \<noteq> 0" "boot \<noteq> 0" "length label \<le> kMaxStringBytes"
    and "map_find (ls_workers (en_state (co_engine c))) (Id worker) \<in> {None, Some (Id boot)}"
    and "encode_hello worker boot label = Inr hello"
  obtains c' where "greet s hello c = (Inr (), c')" "map_find (co_conns c') s = Some Role.WORKER"
    "map_find (co_conn_worker c') s = Some worker" "map_find (co_sock_by_worker c') worker = Some s"
    "co_engine c' = snd (register_worker (Id worker) (Id boot) (co_engine c))"
proof -
  have ok: "hello_ok (worker, boot, label)" using assms(3) by (simp add: hello_ok_def str_ok_def)
  have "hello = enc_of put_hello (worker, boot, label)" using assms(5) by (simp add: encode_hello_def enc_of_def)
  then have "decode_hello (reader_new hello) = Inr ((worker, boot, label), reader_at hello [])"
    using hello_codec.get_enc [OF ok, of "[]" "[]"] by (simp add: reader_new_at)
  moreover have "fst (register_worker (Id worker) (Id boot) (co_engine c)) = Inr ()"
    using assms(1,2,4) by (auto simp: register_worker_def is_null_def null_id_def)
  then obtain e where "register_worker (Id worker) (Id boot) (co_engine c) = (Inr (), e)"
    by (metis prod.collapse)
  ultimately show thesis
    by (intro that) (auto simp: greet_def write_ack bind_co_def Let_def)
qed

lemma register_worker_devices [simp]:
  "ls_devices (en_state (snd (register_worker w b e))) = ls_devices (en_state e)"
  by (simp add: register_worker_def split: option.split)

lemma register_announced:
  assumes "reachable n (co_engine c)" "device_sendable d" "MpProto.put_device d [] = Inr payload"
    and "dv_device_id d \<noteq> null_id" "map_find (ls_devices (en_state (co_engine c))) (dv_device_id d) = None"
    and "owner = Id (if map_count (co_sock_by_worker c) wid then wid + 1 else 0)"
  obtains e where "handle_worker_msg MsgType.REGISTER_DEVICE payload wid c = (Inr (), c\<lparr>co_engine := e\<rparr>)"
    "runs_to (co_engine c) e" "map_find (ls_devices (en_state e)) (dv_device_id d) =
      Some ((device_view d)\<lparr>dv_owning_worker := Id wid, dv_owner_worker_boot := owner\<rparr>)"
proof -
  have view: "dv_device_id (device_view d) = dv_device_id d" by (simp add: device_view_def)
  have "get_device (reader_new payload) = Inr (device_view d, reader_at payload [])"
    using device_received [OF assms(2)] assms(3) by (metis sum.inject(2))
  then have h: "handle_worker_msg MsgType.REGISTER_DEVICE payload wid c =
      (Inr (), announce_device wid (device_view d) c)"
    by (simp add: handle_worker_msg_def)
  let ?d = "(device_view d)\<lparr>dv_owning_worker := Id wid, dv_owner_worker_boot := owner\<rparr>"
  have "announce_device wid (device_view d) c = c\<lparr>co_engine := snd (register_device ?d (co_engine c))\<rparr>"
    using assms(5) reachable_snapshot_simps(1) [OF assms(1)]
    by (simp add: announce_device_def view snap_device_def assms(6) Let_def)
  moreover have "map_find (ls_devices (en_state (snd (register_device ?d (co_engine c))))) (dv_device_id d) = Some ?d"
    using assms(4,5) by (simp add: register_device_def view is_null_def null_id_def map_count_def Let_def)
  ultimately show thesis using h by (intro that [OF _ runs_to_ops(1)]) simp_all
qed

lemma evidence_accepted:
  assumes "reachable n (co_engine c)" "map_find (ls_devices (en_state (co_engine c))) did = Some d"
    and "read_evidence (reader_new payload) = Inr ((did, eg, True), rest)"
  obtains e where "handle_worker_msg MsgType.PUBLISH_EVIDENCE payload wid c = (Inr (), c\<lparr>co_engine := e\<rparr>)"
    "runs_to (co_engine c) e"
    "map_find (ls_devices (en_state e)) did =
      Some (d\<lparr>dv_evidence_gen := Id eg, dv_evidence_fresh := True, dv_lifecycle := DeviceLifecycle.READY\<rparr>)"
proof -
  have d: "dv_device_id d = did" "did \<noteq> null_id"
    using reachable_state [OF assms(1)] assms(2) by (auto simp: state_ok_def registry_ok_def)
  have "handle_worker_msg MsgType.PUBLISH_EVIDENCE payload wid c = (Inr (), publish_evidence did eg True c)"
    using assms(3) by (simp add: handle_worker_msg_def)
  moreover let ?d = "d\<lparr>dv_evidence_gen := Id eg, dv_evidence_fresh := True, dv_lifecycle := DeviceLifecycle.READY\<rparr>"
  have "publish_evidence did eg True c = c\<lparr>co_engine := snd (update_device ?d (co_engine c))\<rparr>"
    using assms(2) reachable_snapshot_simps(1) [OF assms(1)]
    by (simp add: publish_evidence_def snap_device_def Let_def)
  moreover have "map_find (ls_devices (en_state (snd (update_device ?d (co_engine c))))) did = Some ?d"
    using assms(2) d by (simp add: update_device_def is_null_def null_id_def Engine.put_device_def Let_def)
  ultimately show thesis by (intro that [OF _ runs_to_ops(2)]) simp_all
qed

lemma evidence_read:
  assumes "put_evidence d [] = Inr payload"
  shows "\<exists>rest. read_evidence (reader_new payload) = Inr ((dv_device_id d, as_u64 (dv_evidence_gen d), True), rest)"
proof -
  have "payload = bytes64 (as_u64 (dv_device_id d)) @ bytes64 (as_u64 (dv_evidence_gen d)) @ [1]"
    using assms by (simp add: put_evidence_def p_id_def p_u64_def p_u8_def)
  then show ?thesis
    by (simp add: read_evidence_def rd_id_def r_map_def r_bool_def reader_new_at r_return_def r_bind_def
        u64_codec.get_enc r_u8_at)
qed



section \<open>What a received device satisfies\<close>

lemma r_str_length: "r_str r = Inr (s, r') \<Longrightarrow> str_ok s"
  by (auto simp: r_str_def r_bind_Inr r_throw_def throw_error_def r_return_def str_ok_def r_raw_def
      require_def split: if_splits)

lemma r_vec_length: "r_vec bound msg g r = Inr (xs, r') \<Longrightarrow> length xs \<le> bound"
proof -
  have times: "r_times n g r = Inr (xs, r') \<Longrightarrow> length xs = n" for n r xs r'
    by (induction n arbitrary: r xs) (auto simp: r_bind_Inr r_return_def)
  assume "r_vec bound msg g r = Inr (xs, r')"
  then show ?thesis
    using times by (auto simp: r_vec_def r_bind_Inr r_throw_def throw_error_def split: if_splits)
qed

text \<open>A reader of a record whose every statement keeps a property of the record.\<close>

lemma r_seq_keeps:
  assumes "r_seq gs d r = Inr (d', r')" "P d"
    and "list_all (\<lambda>g. \<forall>d r d' r'. P d \<longrightarrow> g d r = Inr (d', r') \<longrightarrow> P d') gs"
  shows "P d'"
  using assms
proof (induction gs arbitrary: d r)
  case (Cons g gs)
  from Cons.prems(1) obtain d1 r1 where g: "g d r = Inr (d1, r1)" and rest: "r_seq gs d1 r1 = Inr (d', r')"
    by (auto simp: r_bind_Inr)
  have "P d1" using Cons.prems(2,3) g by auto
  then show ?case using Cons.IH [OF rest] Cons.prems(3) by simp
qed (simp add: r_return_def)

definition device_bounded :: "DeviceRecord \<Rightarrow> bool" where
  "device_bounded d \<longleftrightarrow> caps_wf (dv_capabilities d) \<and>
     list_all str_ok [dv_vendor d, dv_model d, dv_pci_reference d, dv_architecture d, dv_discovery_detail d] \<and>
     length (dv_ports d) \<le> kMaxContainerCount \<and> length (dv_functions d) \<le> kMaxContainerCount \<and>
     length (dv_offload_classes d) \<le> 64"

lemma caps_fold_wf: "caps_wf m \<Longrightarrow> caps_wf (fold caps_add v m)"
  using caps_added [of m "\<lambda>_. True" v] by (simp add: list_all_iff)

text \<open>
  C23. Every device record the coordinator takes from a message is well formed, whatever the bytes:
  its capabilities are filed in order under their own keys, its strings and its lists are within
  the bounds of the wire format.
\<close>

theorem received_device_wellformed:
  assumes "get_device (reader_new payload) = Inr (d, r)"
  shows "device_bounded d"
proof (rule r_seq_keeps [OF assms [unfolded get_device_def]])
  show "device_bounded DeviceRecord_init"
    by (simp add: device_bounded_def DeviceRecord_init_def caps_wf_def str_ok_def)
qed (simp add: assign_def field_def r_bind_Inr r_return_def,
  auto simp: device_bounded_def caps_fold_wf dest!: r_str_length r_vec_length)

theorem received_device_wellformed_witness: "device_bounded (device_view (worker_device 5 50))"
  by (rule device_received [OF worker_device_sendable]) (rule received_device_wellformed)

end
