(* ===== verification/Cli.thy ===== *)
theory Cli
  imports Coordinator
begin

text \<open>
  The command line tool (\<^verbatim>\<open>tools/dpu_fabric_cli.cpp\<close>): every run builds an engine, imports the three
  backends and executes one command. What the operating system reports of the PCI bus is a
  parameter; the result is the exit code and the lines printed. An exception leaves \<^verbatim>\<open>main\<close>.
\<close>

section \<open>Startup\<close>

definition cli_engine :: "(string \<times> string \<times> string) list \<Rightarrow> DiscoveryResult list result \<times> engine" where
  "cli_engine present =
     (let e = engine_new (Id 1) (Policy_defaults (Id 1));
          e = snd (import_backend (Some make_synthetic_backend) e);
          e = snd (import_backend (Some (make_system_backend present)) e);
          e = snd (import_backend (Some make_unsupported_backend) e)
      in run_all_backends e)"

fun arg_after :: "string list \<Rightarrow> string \<Rightarrow> string" where
  "arg_after (a # b # args) flag = (if a = flag then b else arg_after (b # args) flag)"
| "arg_after args flag = []"

definition print_usage :: string where
  "print_usage = ''usage: dpu-fabric <discover|devices|capabilities|explain|plan|services|deployments|snapshot|validate-state|synthetic-demo>''"

section \<open>Listings\<close>

definition bit_string :: "bool \<Rightarrow> string" where
  "bit_string b = (if b then ''1'' else ''0'')"

definition discover_device :: "DiscoveredDevice \<Rightarrow> string" where
  "discover_device d = ''  ['' @ evidence_class_label (dd_record d) @ ''] '' @ dv_model (dd_record d)
     @ '' '' @ dv_pci_reference (dd_record d) @ '' class='' @ device_class_name (dv_device_class (dd_record d))"

definition discover_backend :: "DiscoveryResult \<Rightarrow> string list" where
  "discover_backend r =
     [''['' @ (if dr_backend_available r then ''OK'' else ''MISSING'') @ ''] backend_available=''
        @ bit_string (dr_backend_available r) @ '' physical_dpu_present=''
        @ bit_string (dr_physical_dpu_present r),
      ''  '' @ dr_summary r] @ map discover_device (dr_devices r)"

text \<open>The last line compares a constant with itself.\<close>

definition discover :: "DiscoveryResult list \<Rightarrow> string list" where
  "discover results = concat (map discover_backend results)
     @ [[], ''Physical DPU execution: '' @
        (if ExecutionClass.UNSUPPORTED = ExecutionClass.UNSUPPORTED
         then ''UNSUPPORTED on this machine'' else ''present'')]"

definition device_line :: "Snapshot \<Rightarrow> DeviceId \<Rightarrow> string list" where
  "device_line snap i =
     (case snap_device snap i of
        None \<Rightarrow> []
      | Some d \<Rightarrow>
          [''device '' @ id_encode i @ '' ['' @ evidence_class_label d @ ''] '' @ dv_model d
           @ '' ('' @ dv_pci_reference d @ '') lifecycle='' @ device_lifecycle_name (dv_lifecycle d)
           @ '' caps='' @ count_string (dv_capabilities d)])"

definition list_devices :: "Snapshot \<Rightarrow> string list" where
  "list_devices snap = concat (map (device_line snap) (sn_device_order snap))"

definition capability_line :: "CapabilityKey \<times> Capability \<Rightarrow> string" where
  "capability_line kc = (case kc of (k, c) \<Rightarrow>
     ''  '' @ key_str k @ '' state='' @ capability_state_name (cp_state c)
     @ '' source='' @ provenance_source_name (cp_source c)
     @ '' version='' @ nat_to_string (unat (cp_version c)))"

text \<open>The first device is dereferenced whether the snapshot has it or not.\<close>

definition list_capabilities :: "Snapshot \<Rightarrow> string list result" where
  "list_capabilities snap =
     (if map_entries (sn_devices snap) = [] then Inr [''no devices'']
      else
        (case sn_device_order snap of
           [] \<Rightarrow> Inl Undefined_Behaviour
         | i # _ \<Rightarrow>
             (case snap_device snap i of
                None \<Rightarrow> Inl Undefined_Behaviour
              | Some d \<Rightarrow> Inr (map capability_line (map_entries (dv_capabilities d))))))"

section \<open>Planning\<close>

definition plan_class :: "string \<Rightarrow> OffloadClass" where
  "plan_class svc =
     (if svc = ''encryption'' then OffloadClass.SECURITY_SERVICE
      else if svc = ''storage'' then OffloadClass.STORAGE_SERVICE
      else if svc = ''compression'' then OffloadClass.COMPRESSION
      else OffloadClass.SECURITY_SERVICE)"

definition small_resource :: ResourceRequest where
  "small_resource = \<lparr>rr_memory_bytes = push_bit 20 64, rr_queues = 1, rr_functions = 0, rr_slots = 1,
     rr_contexts = 1\<rparr>"

definition plan_service :: "OffloadClass \<Rightarrow> ServiceDefinition" where
  "plan_service oc = ServiceDefinition_init
     \<lparr>sd_service_id := Id 100, sd_service_gen := Id 1, sd_offload_class := oc,
      sd_required_caps :=
        (if oc = OffloadClass.SECURITY_SERVICE then [CapabilityRequirement_init\<lparr>cr_key := cap_encryption\<rparr>] else [])
        @ (if oc = OffloadClass.STORAGE_SERVICE \<or> oc = OffloadClass.COMPRESSION
           then [CapabilityRequirement_init\<lparr>cr_key := cap_storage\<rparr>] else []),
      sd_resource := small_resource\<rparr>"

definition required_request :: "OffloadClass \<Rightarrow> ServiceId \<Rightarrow> OffloadRequest" where
  "required_request oc sid = OffloadRequest_init
     \<lparr>rq_offload_class := oc, rq_service := Some sid, rq_mode := OffloadMode.OFFLOAD_REQUIRED\<rparr>"

definition on_result :: "('a \<Rightarrow> engine \<Rightarrow> 'b result) \<Rightarrow> 'a result \<times> engine \<Rightarrow> 'b result" where
  "on_result k p = (case fst p of Inl f \<Rightarrow> Inl f | Inr x \<Rightarrow> k x (snd p))"

definition plan :: "string \<Rightarrow> engine \<Rightarrow> string list result" where
  "plan svc e =
     (let oc = plan_class svc in
      on_result (\<lambda>_ e.
        map_sum (\<lambda>f. f) (\<lambda>r. [summarize r, er_explanation r])
          (evaluate (required_request oc (Id 100)) e))
        (register_service (plan_service oc) e))"

section \<open>State checks\<close>

definition violations :: "Snapshot \<Rightarrow> DeploymentId \<times> Deployment \<Rightarrow> string list" where
  "violations snap entry = (case entry of (i, d) \<Rightarrow>
     (if dp_state d = DeploymentState.ACTIVE \<and> snap_device snap (dp_device d) = None
      then [''INVARIANT: active deployment '' @ id_encode i @ '' has no device''] else [])
     @ (if dp_authoritative d \<and> dp_state d \<noteq> DeploymentState.ACTIVE
        then [''INVARIANT: deployment '' @ id_encode i @ '' authoritative but not active''] else []))"

definition validate_state :: "Snapshot \<Rightarrow> nat \<times> string list" where
  "validate_state snap =
     (let found = concat (map (violations snap) (map_entries (sn_deployments snap)));
          ok = (found = [])
      in (if ok then 0 else 1,
          found @ [''validate-state: '' @ (if ok then ''OK (no invariant violation)'' else ''VIOLATION FOUND'')]))"

section \<open>The demonstration\<close>

definition demo_service :: ServiceDefinition where
  "demo_service = ServiceDefinition_init
     \<lparr>sd_service_id := Id 101, sd_service_gen := Id 1, sd_offload_class := OffloadClass.SECURITY_SERVICE,
      sd_required_caps := [CapabilityRequirement_init\<lparr>cr_key := cap_encryption\<rparr>],
      sd_resource := small_resource\<rparr>"

text \<open>The chain of calls from the reservation to the commit is the coordinator's.\<close>

definition synthetic_demo :: "engine \<Rightarrow> string list result" where
  "synthetic_demo e =
     on_result (\<lambda>_ e.
       (let req = required_request OffloadClass.SECURITY_SERVICE (Id 101) in
        case evaluate req e of
          Inl f \<Rightarrow> Inl f
        | Inr elig \<Rightarrow>
            (case er_selected elig of
               None \<Rightarrow> Inr [''selected=NONE'', ''no eligible device'']
             | Some did \<Rightarrow>
                 on_result (\<lambda>dep e.
                   (case snap_deployment (en_snap e) dep of
                      None \<Rightarrow> Inl Undefined_Behaviour
                    | Some d \<Rightarrow> Inr [''selected='' @ id_encode did,
                        ''deployed='' @ id_encode dep @ '' state='' @ deployment_state_name (dp_state d)]))
                   (deploy req elig e))))
       (register_service demo_service e)"

section \<open>Commands\<close>

definition snapshot_line :: "Snapshot \<Rightarrow> string" where
  "snapshot_line s =
     ''epoch='' @ id_encode (sn_epoch s) @ '' devices='' @ count_string (sn_devices s)
     @ '' services='' @ count_string (sn_services s) @ '' programs='' @ count_string (sn_programs s)
     @ '' deployments='' @ count_string (sn_deployments s)
     @ '' activations='' @ count_string (sn_activations s)"

definition printing :: "string list result \<Rightarrow> (nat \<times> string list) result" where
  "printing = map_sum (\<lambda>f. f) (Pair 0)"

definition cli_command ::
  "string list \<Rightarrow> string \<Rightarrow> DiscoveryResult list \<Rightarrow> engine \<Rightarrow> (nat \<times> string list) result" where
  "cli_command argv cmd results e =
     (if cmd = ''discover'' then Inr (0, discover results)
      else if cmd = ''devices'' then Inr (0, list_devices (en_snap e))
      else if cmd = ''capabilities'' then printing (list_capabilities (en_snap e))
      else if cmd = ''explain'' \<or> cmd = ''plan''
      then printing (plan (arg_after (tl argv) ''--service'') e)
      else if cmd = ''services'' \<or> cmd = ''deployments'' \<or> cmd = ''snapshot''
      then Inr (0, [snapshot_line (en_snap e)])
      else if cmd = ''validate-state'' then Inr (validate_state (en_snap e))
      else if cmd = ''synthetic-demo'' then printing (synthetic_demo e)
      else Inr (0, [print_usage]))"

definition cli_main :: "(string \<times> string \<times> string) list \<Rightarrow> string list \<Rightarrow> (nat \<times> string list) result" where
  "cli_main present argv =
     (case argv of
        _ # cmd # _ \<Rightarrow> on_result (cli_command argv cmd) (cli_engine present)
      | _ \<Rightarrow> Inr (0, [print_usage]))"

end
