(* ===== verification/CliProps.thy ===== *)
theory CliProps
  imports Cli CoordinatorProps
begin

text \<open>
  Properties of the discovery backends and of the command line tool that builds an engine from them.
\<close>

section \<open>The system backend\<close>

definition adjacent :: "DiscoveredDevice \<Rightarrow> bool" where
  "adjacent dd \<longleftrightarrow>
     dv_device_class (dd_record dd) \<in> {DeviceClass.HOST_PROCESSOR, DeviceClass.NIC_ADJACENT} \<and>
     dv_discovery_source (dd_record dd) = ProvenanceSource.REAL_OS_DISCOVERY \<and>
     dv_capabilities (dd_record dd) = [] \<and> dv_offload_classes (dd_record dd) = [] \<and>
     \<not> iso_proven (dd_record dd)"

lemma records_adjacent: "adjacent (found (gpu_record n f))" "adjacent (found (nic_record n f))"
  by (simp_all add: adjacent_def found_def gpu_record_def nic_record_def DeviceRecord_init_def iso_proven_def)

lemma system_loop_adjacent: "list_all adjacent (system_loop fs nic gpu) \<and> length (system_loop fs nic gpu) \<le> length fs"
  by (induction fs nic gpu rule: system_loop.induct) (auto simp: records_adjacent)

lemma adjacent_not_valid:
  "adjacent dd \<Longrightarrow> rq_offload_class req \<noteq> OffloadClass.CUSTOM_INFRASTRUCTURE_SERVICE \<Longrightarrow>
   \<not> offload_valid snap req did (dd_record dd)"
  by (simp add: adjacent_def offload_valid_def placement_valid_def Let_def)

text \<open>
  C18. The system backend makes no device up. Whatever the operating system reports, each device it
  discovers is a host processor or a plain network adapter, marked as found by the operating
  system, with no capability, no offload class and no proven isolation, and there are no more of
  them than entries; a physical device is claimed exactly when some entry looks like one. None of
  them is ever a valid target for a request of any class but the custom one.
\<close>

theorem system_backend_truthful:
  assumes "rq_offload_class req \<noteq> OffloadClass.CUSTOM_INFRASTRUCTURE_SERVICE"
  shows "list_all (\<lambda>dd. adjacent dd \<and> \<not> offload_valid snap req (dv_device_id (dd_record dd)) (dd_record dd))
      (dr_devices (system_discover present)) \<and>
    length (dr_devices (system_discover present)) \<le> length present \<and>
    (dr_physical_dpu_present (system_discover present) \<longleftrightarrow>
      list_ex is_programmable_dpu (enumerate_pci present))"
  using system_loop_adjacent [of "enumerate_pci present" 1000 1] adjacent_not_valid [OF _ assms]
  by (auto simp: system_discover_def Let_def list_all_iff enumerate_pci_def)

text \<open>
  A BlueField card that calls itself a network adapter: the flag says that a programmable device is
  there, the registry gets an adapter without capabilities.
\<close>

definition demo_bluefield :: "(string \<times> string \<times> string) list" where
  "demo_bluefield = [(''BlueField-2 DPU'', ''Net'', ''PCI/VEN_15B3'')]"

theorem system_backend_truthful_witness:
  "map (dv_device_class \<circ> dd_record) (dr_devices (system_discover demo_bluefield)) = [DeviceClass.NIC_ADJACENT] \<and>
   dr_physical_dpu_present (system_discover demo_bluefield) \<and>
   list_all adjacent (dr_devices (system_discover demo_bluefield))"
proof -
  have "map (dv_device_class \<circ> dd_record) (dr_devices (system_discover demo_bluefield)) = [DeviceClass.NIC_ADJACENT]"
    "list_ex is_programmable_dpu (enumerate_pci demo_bluefield)"
    "rq_offload_class demo_plain \<noteq> OffloadClass.CUSTOM_INFRASTRUCTURE_SERVICE"
    by code_simp+
  then show ?thesis
    using system_backend_truthful [of demo_plain demo_snapshot demo_bluefield] by (simp add: list_all_iff)
qed

section \<open>Checking the state\<close>

lemma violations_none:
  assumes "reachable n e" "(i, d) \<in> set (map_entries (sn_deployments (en_snap e)))"
  shows "violations (en_snap e) (i, d) = []"
proof -
  have snap: "sn_deployments (en_snap e) = ls_deployments (en_state e)" "sn_devices (en_snap e) = ls_devices (en_state e)"
    by (simp_all add: reachable_snapshot [OF assms(1)] make_snapshot_def)
  have "map_ordered (ls_deployments (en_state e))"
    using reachable_state [OF assms(1)] by (simp add: state_ok_ordered(1))
  with assms(2) have "map_find (ls_deployments (en_state e)) i = Some d"
    using map_ordered_entry [of "ls_deployments (en_state e)"] by (simp add: snap)
  from reachable_deployment [OF assms(1) this] show ?thesis
    by (simp add: violations_def deployment_ok_def snap snap_device_def)
qed



section \<open>The demonstration\<close>

text \<open>What the demonstration relies on: device 1 as it was discovered, and no other of its class.\<close>

definition demo_base :: "engine \<Rightarrow> bool" where
  "demo_base e \<longleftrightarrow>
     map_find (ls_devices (en_state e)) (Id 1) = Some scenario_a \<and>
     map_find (ls_ledgers (en_state e)) (Id 1) = Some (ledger_new (dv_resource_capacity scenario_a)) \<and>
     map_find (ls_usage (en_state e)) (Id 1) = Some Usage_init \<and>
     (\<forall>i d. map_find (ls_devices (en_state e)) i = Some d \<and> i \<noteq> Id 1 \<longrightarrow>
        OffloadClass.SECURITY_SERVICE \<notin> set (dv_offload_classes d)) \<and>
     ls_services (en_state e) = [] \<and> ls_policy (en_state e) = Policy_defaults (Id 1) \<and>
     en_id_seq e = 1"

lemma import_adjacent:
  assumes "demo_base e" "adjacent dd" "dv_device_id (dd_record dd) \<noteq> Id 1"
  shows "demo_base (import_discovered dd e)"
  using assms
  by (auto simp: import_discovered_def update_device_def register_device_def demo_base_def adjacent_def
      refuse_def commit_state_def on_state_def rebuild_snapshot_def Engine.put_device_def Let_def split: option.split)

definition synthetic_engine :: "DiscoveryBackend list \<Rightarrow> engine" where
  "synthetic_engine bs =
     fold import_discovered scenario_ab ((engine_new (Id 1) (Policy_defaults (Id 1)))\<lparr>en_backends := bs\<rparr>)"

lemma demo_base_synthetic: "demo_base (synthetic_engine bs)"
proof -
  have ids: "dv_device_id scenario_a = Id 1" "dv_device_id scenario_b = Id 2"
    "OffloadClass.SECURITY_SERVICE \<notin> set (dv_offload_classes scenario_b)"
    by (simp_all add: scenario_a_def scenario_b_def make_dpu_def add_capability_def)
  show ?thesis
    by (simp add: synthetic_engine_def scenario_ab_def import_discovered_def register_device_def ids
        engine_new_def LiveState_init_def rebuild_snapshot_def commit_state_def on_state_def demo_base_def
        is_null_def null_id_def map_count_def map_emplace_def Let_def)
qed

text \<open>With fewer than \<open>2 ^ 32\<close> entries the identities of the system devices do not wrap around.\<close>

lemma system_loop_ids:
  assumes "1000 \<le> unat nic" "unat nic + length fs < 2 ^ 33" "1 \<le> unat gpu" "unat gpu + length fs < 2 ^ 33"
    and "dd \<in> set (system_loop fs nic gpu)"
  shows "dv_device_id (dd_record dd) \<noteq> Id 1"
  using assms
proof (induction fs nic gpu rule: system_loop.induct)
  case (2 f fs nic gpu)
  have step: "unat (nic + 1) = unat nic + 1" "unat (gpu + 1) = unat gpu + 1"
    using 2(5,7) by (simp_all add: unat_word_ariths)
  have "unat (9000 + gpu) = 9000 + unat gpu" "unat (6000 + nic) = 6000 + unat nic"
    using 2(5,7) by (simp_all add: unat_word_ariths)
  then have "unat (9000 + gpu) \<noteq> 1" "unat (6000 + nic) \<noteq> 1" by simp_all
  then have "9000 + gpu \<noteq> 1" "6000 + nic \<noteq> 1" using unat_1 by metis+
  then show ?case
    using 2 step by (auto simp: found_def gpu_record_def nic_record_def split: if_splits)
qed simp

lemma import_all_adjacent:
  assumes "demo_base e" "list_all adjacent dds" "\<And>dd. dd \<in> set dds \<Longrightarrow> dv_device_id (dd_record dd) \<noteq> Id 1"
  shows "demo_base (fold import_discovered dds e)"
  using assms by (induction dds arbitrary: e) (auto simp: import_adjacent)

lemma cli_engine_base:
  assumes "length present < 2 ^ 32"
  obtains results e n where "cli_engine present = (Inr results, e)" "demo_base e" "reachable n e"
proof -
  let ?bs = "[make_synthetic_backend, make_system_backend present, make_unsupported_backend]"
  let ?dds = "dr_devices (system_discover present)"
  let ?e = "fold import_discovered ?dds (synthetic_engine ?bs)"
  have new: "en_backends (engine_new (Id 1) (Policy_defaults (Id 1))) = []"
    by (simp add: engine_new_def rebuild_snapshot_def)
  then obtain results where run: "cli_engine present = (Inr results, ?e)"
    by (simp add: cli_engine_def import_backend_def run_all_backends_def synthetic_engine_def Let_def)
      (simp add: make_synthetic_backend_def make_system_backend_def make_unsupported_backend_def)
  have "list_all adjacent ?dds"
    using system_loop_adjacent by (simp add: system_discover_def Let_def)
  moreover have "dv_device_id (dd_record dd) \<noteq> Id 1" if "dd \<in> set ?dds" for dd
    using that assms system_loop_ids [of 1000 "enumerate_pci present" 1 dd]
    by (simp add: system_discover_def enumerate_pci_def Let_def)
  ultimately have "demo_base ?e" by (rule import_all_adjacent [OF demo_base_synthetic])
  moreover let ?cs = "[Import_Backend (Some make_synthetic_backend),
      Import_Backend (Some (make_system_backend present)), Import_Backend (Some make_unsupported_backend),
      Run_All_Backends]"
  have "?e = engine_machine.run ?cs (engine_new (Id 1) (Policy_defaults (Id 1)))"
    using run by (simp add: engine_machine.run_def after_call_def cli_engine_def Let_def)
  then have "reachable (length ?cs) ?e" unfolding reachable_run by blast
  ultimately show thesis using run that by blast
qed

definition demo_snapshot_view :: Snapshot where
  "demo_snapshot_view = make_snapshot
     (LiveState_init\<lparr>ls_policy := Policy_defaults (Id 1), ls_services := [(Id 101, demo_service)],
        ls_devices := [(Id 1, scenario_a)], ls_device_order := [Id 1]\<rparr>)"

lemma demo_view_valid:
  "offload_valid demo_snapshot_view (required_request OffloadClass.SECURITY_SERVICE (Id 101)) (Id 1) scenario_a"
proof -
  have "valid_candidate demo_snapshot_view (required_request OffloadClass.SECURITY_SERVICE (Id 101)) (Id 1)"
    by code_simp
  then show ?thesis
    by (simp add: valid_candidate_def snap_device_def demo_snapshot_view_def make_snapshot_def LiveState_init_def)
qed

lemma demo_service_simps [simp]:
  "sd_service_id demo_service = Id 101" "sd_required_program demo_service = null_id"
  "sd_dependencies demo_service = []"
  by (simp_all add: demo_service_def ServiceDefinition_init_def null_id_def)

text \<open>Once the service of the demonstration is registered, device 1 is the only candidate.\<close>

lemma demo_candidate:
  assumes "demo_base e" "reachable n e"
  defines "e1 \<equiv> snd (register_service demo_service e)"
  shows "fst (register_service demo_service e) = Inr (Id 101)" "demo_base (e1\<lparr>en_state := (en_state e1)\<lparr>ls_services := []\<rparr>\<rparr>)"
    "map_find (ls_services (en_state e1)) (Id 101) = Some demo_service"
    "valid_candidate (en_snap e1) (required_request OffloadClass.SECURITY_SERVICE (Id 101)) d \<longleftrightarrow> d = Id 1"
proof -
  let ?req = "required_request OffloadClass.SECURITY_SERVICE (Id 101)"
  have svc: "ls_services (en_state e) = []" using assms(1) by (simp add: demo_base_def)
  show reg: "fst (register_service demo_service e) = Inr (Id 101)"
    "map_find (ls_services (en_state e1)) (Id 101) = Some demo_service"
    by (simp_all add: e1_def register_service_def svc is_null_def null_id_def map_count_def Let_def)
  have st: "en_state e1 = (en_state e)\<lparr>ls_services := [(Id 101, demo_service)]\<rparr>" "en_id_seq e1 = en_id_seq e"
    by (simp_all add: e1_def register_service_def svc is_null_def null_id_def map_count_def Let_def
        commit_state_def on_state_def rebuild_snapshot_def)
  show "demo_base (e1\<lparr>en_state := (en_state e1)\<lparr>ls_services := []\<rparr>\<rparr>)"
    using assms(1) by (simp add: demo_base_def st)
  have "runs_to e e1" by (simp add: e1_def)
  then obtain n1 where n1: "reachable n1 e1" using runs_to_reachable assms(2) by blast
  note snap = reachable_snapshot [OF n1]
  have parts: "sn_policy (en_snap e1) = sn_policy demo_snapshot_view"
    "requested_service (en_snap e1) ?req = Some demo_service"
    "requested_service demo_snapshot_view ?req = Some demo_service"
    "device_usage (en_snap e1) (Id 1) = device_usage demo_snapshot_view (Id 1)"
    "wanted_program ?req (Some demo_service) = None"
    using assms(1)
    by (simp_all add: snap make_snapshot_def st demo_base_def demo_snapshot_view_def LiveState_init_def
        requested_service_def snap_service_def required_request_def OffloadRequest_init_def device_usage_def
        snap_usage_def wanted_program_def is_null_def null_id_def)
  have valid: "offload_valid (en_snap e1) ?req (Id 1) scenario_a"
    using demo_view_valid by (simp add: offload_valid_def parts service_valid_def program_valid_def Let_def)
  have dev: "map_find (ls_devices (en_state e1)) (Id 1) = Some scenario_a"
    using assms(1) by (simp add: st demo_base_def)
  have order: "Id 1 \<in> set (ls_device_order (en_state e1))"
    using reachable_state [OF n1] dev by (simp add: state_ok_def registry_ok_def)
  have "d = Id 1" if "valid_candidate (en_snap e1) ?req d"
  proof -
    from that obtain dv where "map_find (ls_devices (en_state e)) d = Some dv"
      "OffloadClass.SECURITY_SERVICE \<in> set (dv_offload_classes dv)"
      by (auto simp: valid_candidate_def snap_device_def snap make_snapshot_def st offload_valid_def
          placement_valid_def required_request_def OffloadRequest_init_def Let_def)
    with assms(1) show ?thesis by (auto simp: demo_base_def)
  qed
  moreover have "valid_candidate (en_snap e1) ?req (Id 1)"
    using valid dev order by (simp add: valid_candidate_def snap_device_def snap make_snapshot_def)
  ultimately show "valid_candidate (en_snap e1) ?req d \<longleftrightarrow> d = Id 1" by blast
qed

text \<open>
  C24. The demonstration always succeeds. Whatever the operating system reports of the machine, up
  to \<open>2 ^ 32\<close> entries, the tool selects the first synthetic device, deploys on it and prints the
  deployment as \<open>ACTIVE\<close>, with exit code zero: no discovered host device competes with it.
\<close>

theorem synthetic_demo_deploys:
  assumes "length present < 2 ^ 32"
  shows "cli_main present (prog # ''synthetic-demo'' # args) =
    Inr (0, [''selected='' @ id_encode (Id 1 :: DeviceId),
             ''deployed='' @ id_encode (Id 1 :: DeploymentId) @ '' state=ACTIVE''])"
proof -
  let ?req = "required_request OffloadClass.SECURITY_SERVICE (Id 101)"
  obtain results e n where e: "cli_engine present = (Inr results, e)" "demo_base e" "reachable n e"
    by (rule cli_engine_base [OF assms])
  define e1 where "e1 = snd (register_service demo_service e)"
  note base = demo_candidate [OF e(2,3), folded e1_def]
  have "runs_to e e1" by (simp add: e1_def)
  then obtain n1 where n1: "reachable n1 e1" using runs_to_reachable e(3) by blast
  have "rq_min_headroom ?req \<le> 100 \<and> rq_max_queue_pressure ?req \<le> 100"
    by (simp add: required_request_def OffloadRequest_init_def)
  then obtain r where r: "evaluate ?req e1 = Inr r"
    using evaluate_total [of "en_snap e1" ?req] by (auto simp: evaluate_def)
  then have sel: "er_selected r = Some (Id 1)"
    using selected_iff [of "en_snap e1" ?req r "Id 1"] base(4) by (auto simp: evaluate_def)
  have ledger: "map_option lg_cap (map_find (ls_ledgers (en_state e1)) (Id 1)) =
      map_option dv_resource_capacity (map_find (ls_devices (en_state e1)) (Id 1))" "en_id_seq e1 = 1"
    using base(2) by (simp_all add: demo_base_def ledger_new_def)
  have req: "rq_service ?req = Some (Id 101)" "rq_required_program ?req = None"
    by (simp_all add: required_request_def OffloadRequest_init_def)
  obtain e' d where d: "deploy ?req r e1 = (Inr (Id 1), e')"
    "map_find (ls_deployments (en_state e')) (Id 1) = Some d" "dp_state d = DeploymentState.ACTIVE"
    by (rule deploy_selected [OF n1 r sel req(1) base(3) req(2) disjI1 [OF demo_service_simps(2)] ledger(1),
          unfolded ledger(2)])
  have "runs_to e1 e'" using deploy_sound [of e1 ?req r] d(1) by (simp add: sound_op_def)
  then obtain n' where "reachable n' e'" using runs_to_reachable n1 by blast
  then have "snap_deployment (en_snap e') (Id 1) = Some d"
    using d(2) by (simp add: snap_deployment_def reachable_snapshot make_snapshot_def)
  moreover have "register_service demo_service e = (Inr (Id 101), e1)"
    using base(1) by (simp add: e1_def prod_eq_iff)
  ultimately have "synthetic_demo e = Inr [''selected='' @ id_encode (Id 1 :: DeviceId),
      ''deployed='' @ id_encode (Id 1 :: DeploymentId) @ '' state=ACTIVE'']"
    using r sel d by (simp add: synthetic_demo_def on_result_def)
  then show ?thesis
    using e(1) by (simp add: cli_main_def cli_command_def on_result_def printing_def)
qed

theorem synthetic_demo_deploys_witness:
  "map_sum (\<lambda>f. f) fst (cli_main demo_bluefield [''dpu-fabric'', ''synthetic-demo'']) = Inr 0"
  using synthetic_demo_deploys [of demo_bluefield "''dpu-fabric''" "[]"] by (simp add: demo_bluefield_def)

end
