(* ===== verification/Spec2Isabelle.thy ===== *)
theory Spec2Isabelle
  imports AccountingProps CoreProps RecoveryProps CoordinatorProps WorkerProps CliProps
begin

text \<open>
  DPU Fabric, the control plane of programmable data-processing units: a shallow embedding of
  its C++ core with the theorems that make it correct.

  \<^bold>\<open>The program.\<close> A coordinator keeps a registry of devices, services, programs, workers and
  deployments (\<^verbatim>\<open>src/engine.cpp\<close>, \<^verbatim>\<open>include/dpufabric/registry.h\<close>). An offload request is
  evaluated against a published snapshot by hard constraints and a weighted score
  (\<^verbatim>\<open>src/eligibility.cpp\<close>); a deployment is reserved on the selected device, which books its
  resources in the device's ledger (\<^verbatim>\<open>include/dpufabric/resource.h\<close>), and then staged, loaded,
  validated, activated and committed, which grants it authority; losing evidence, a device or a
  worker fences it. The registry is written to a checksummed file and read back after a restart
  (\<^verbatim>\<open>src/persistence.cpp\<close>). Workers announce devices to the coordinator and an administrative
  client gives it commands; they exchange checksummed frames (\<^verbatim>\<open>include/dpufabric/protocol.h\<close> over
  \<^verbatim>\<open>include/dpufabric/wire.h\<close>, carried by \<^verbatim>\<open>src/mp_transport.cpp\<close>, with the messages of
  \<^verbatim>\<open>tools/mpproto.h\<close>). The command line tool builds an engine from the discovery backends of its
  own host.

  \<^bold>\<open>Vocabulary and data.\<close>
  \<^item> \<open>Prelude\<close>: fixed-width integers, \<^verbatim>\<open>error.h\<close>, the result type (a thrown \<open>DpuError\<close>, or
    undefined behaviour), the locales of enumerations with names and with casts.
  \<^item> \<open>Types\<close>: \<^verbatim>\<open>types.h\<close>. A scoped enumeration can hold any value of its underlying type; the
    constructor \<open>Unnamed\<close> of each stands for the values without a name.
  \<^item> \<open>StdMap\<close>: \<^verbatim>\<open>std::map\<close> as an association list sorted by key, since the code iterates in key
    order; the locale \<open>std_map\<close> has its laws.
  \<^item> \<open>Ids\<close>, \<open>Capability\<close>, \<open>Resource\<close>, \<open>Device\<close>, \<open>Deployment\<close>, \<open>Registry\<close>: \<^verbatim>\<open>id.h\<close>;
    \<^verbatim>\<open>capability.h\<close>; \<^verbatim>\<open>resource.h\<close>; \<^verbatim>\<open>device.h\<close>, \<^verbatim>\<open>isolation.h\<close>, \<^verbatim>\<open>program.h\<close>;
    \<^verbatim>\<open>deployment.h\<close>, \<^verbatim>\<open>context.h\<close>, \<^verbatim>\<open>request.h\<close>, \<^verbatim>\<open>policy.h\<close>; \<^verbatim>\<open>registry.h\<close>. A struct is a
    record with the fields in the order of the code.

  \<^bold>\<open>Evaluation.\<close>
  \<^item> \<open>Double\<close>: IEEE double arithmetic as rationals with rounding to nearest even; no value the
    scores reach overflows or is subnormal.
  \<^item> \<open>Eligibility\<close>, \<open>Selection\<close>, \<open>Evaluation\<close>: \<^verbatim>\<open>eligibility.cpp\<close> and \<^verbatim>\<open>summarize.cpp\<close>; the
    abstract specification \<open>offload_valid\<close> of a valid target and the order of candidates, which
    the locale \<open>strict_weak\<close> shows fit for a stable sort; the theorems that the evaluation
    implements it.

  \<^bold>\<open>Engine.\<close>
  \<^item> \<open>Engine\<close>, \<open>EngineDeploy\<close>: \<^verbatim>\<open>engine.cpp\<close>, one definition per operation, and the machine
    whose steps are the public calls (\<open>call\<close>, \<open>after_call\<close>, \<open>after_calls\<close>).
  \<^item> \<open>EngineInv\<close>, \<open>EngineEvolve\<close>, \<open>EngineAccounting\<close>: the invariant every call keeps, the
    relation between a state and a later one, and the books of the ledger.
  \<^item> \<open>EngineProps\<close>, \<open>AccountingProps\<close>, \<open>CoreProps\<close>: the properties of the engine and of the data
    model, with their witnesses.

  \<^bold>\<open>Bytes.\<close>
  \<^item> \<open>Wire\<close>, \<open>Protocol\<close>: \<^verbatim>\<open>wire.h\<close> and \<^verbatim>\<open>protocol.h\<close>: writer, bounds-checked reader, CRC-32, the
    frame. The locale \<open>codec\<close> is the contract of a writer and its reader.
  \<^item> \<open>Codec\<close>, \<open>StateCodec\<close>: the record serializers of \<^verbatim>\<open>persistence.cpp\<close>, as sequences of
    statements, and the \<open>codec\<close> contract for each record.
  \<^item> \<open>MpProto\<close>: \<^verbatim>\<open>tools/mpproto.h\<close>, the messages, and what of a device survives one.

  \<^bold>\<open>The state file.\<close>
  \<^item> \<open>Store\<close>: \<^verbatim>\<open>persistence.h\<close> and \<^verbatim>\<open>persistence.cpp\<close>: the container with its two checksums, the
    replacement of the file through a temporary one, the loader with the state it leaves behind
    when it throws.
  \<^item> \<open>StoreLaws\<close>, \<open>StoreErrors\<close>, \<open>StoreSize\<close>: what the container accepts, which errors the loader
    can throw, how long a file is.
  \<^item> \<open>Recovery\<close>, \<open>RecoveryProps\<close>: \<^verbatim>\<open>persist\<close> and \<^verbatim>\<open>recover_from\<close> of the engine; the round trip,
    the fencing of what was recovered, the crash points of a save, and three ways in which a
    recovered engine departs from the comments of the code.

  \<^bold>\<open>Processes.\<close>
  \<^item> \<open>Transport\<close>: \<^verbatim>\<open>mp_transport.h\<close> and \<^verbatim>\<open>mp_transport.cpp\<close>. A socket is the list of what the
    operating system delivers on it; receiving a frame is shown equal to decoding a prefix of the
    bytes delivered, however they were cut into segments.
  \<^item> \<open>Backends\<close>: \<^verbatim>\<open>backends/\<close>, the devices that discovery reports.
  \<^item> \<open>Coordinator\<close>, \<open>CoordinatorProps\<close>: \<^verbatim>\<open>tools/dpu_fabric_coordinator.cpp\<close>, one definition per
    message handler, the accept and close of connections, the passes of the loop. The properties
    hold whatever the clients send: the coordinator reaches its engine by engine calls only, so
    the theorems of the engine hold of it.
  \<^item> \<open>Worker\<close>, \<open>WorkerProps\<close>: \<^verbatim>\<open>tools/dpu_fabric_worker.cpp\<close>, and what the coordinator makes of
    what a worker sends.
  \<^item> \<open>Cli\<close>, \<open>CliProps\<close>: \<^verbatim>\<open>tools/dpu_fabric_cli.cpp\<close>, the start-up with three backends, every
    command, its output and exit code; what the backends report and what the tool concludes.

  \<^bold>\<open>Bounds and termination.\<close> Identifiers are drawn from a 64-bit counter, two per reservation;
  theorems that need distinct identifiers bound the number of calls by \<open>2 ^ 62\<close>, those of the
  command line tool the number of PCI entries by \<open>2 ^ 32\<close>. No fuel is used. The loops of the
  library are structural, except \<open>recv_n\<close>, a \<open>function\<close> whose measure is the number of bytes
  still wanted. A call that waits for ever on a socket is \<open>None\<close>; the loop of the worker, which
  may serve without end, is a \<open>partial_function\<close>, and the theorems about it state that it returns.
  A loop of the coordinator is run over the list of what each pass finds.

  \<^bold>\<open>Parameters.\<close> What the operating system does is an argument of the definitions:
  what a socket delivers and takes, the answers of file calls, the entries of the PCI bus.

  \<^bold>\<open>Not modelled.\<close> The mutex of the engine: an operation is atomic because it holds the lock, so a
  step of the machine is one whole operation. The calls of the sockets library and the start-up of
  Winsock, the registry calls that enumerate the PCI bus on Windows, the parsing of command line
  options, log lines, and \<^verbatim>\<open>std::hash\<close> of the identities, which no modelled code uses. The
  validators of \<^verbatim>\<open>persistence.cpp\<close> that no code calls. The tests, examples and benchmarks, which are
  clients of the library.
\<close>

end
